(* ===== verification/Prelude.thy ===== *)
theory Prelude
  imports
    Main
    "HOL-Library.Word"
    "HOL-Library.List_Lexorder"
    "HOL-Library.Char_ord"
    "HOL-Library.Multiset"
begin

text \<open>
  Shared vocabulary of the development: Rust's \<^verbatim>\<open>Result\<close> with the \<^verbatim>\<open>?\<close> operator
  (\<open>and_then\<close>), \<^verbatim>\<open>Ordering\<close> and \<^verbatim>\<open>slice::binary_search_by\<close>, \<^verbatim>\<open>BTreeMap\<close> and
  \<^verbatim>\<open>BTreeSet\<close> as strictly ascending lists behind the interfaces \<open>ordered_map\<close> and
  \<open>ordered_set\<close>, and the simplification sets the component theories use. Strings are byte
  lists (\<open>string\<close>); the order on them is Rust's bytewise lexicographic order, machine
  integers are words or, where no arithmetic is done on them, \<open>int\<close>.
\<close>

named_theorems result_simps \<open>inversion of results built with and_then\<close>
named_theorems btree_simps \<open>look-up after an update of an ordered map\<close>

type_synonym u8 = "8 word"
type_synonym u16 = "16 word"
type_synonym u32 = "32 word"
type_synonym u64 = "64 word"

subsection \<open>Results\<close>

datatype ('e, 'a) result = Err 'e | Ok 'a

fun and_then :: "('e, 'a) result \<Rightarrow> ('a \<Rightarrow> ('e, 'b) result) \<Rightarrow> ('e, 'b) result" where
  "and_then (Err e) f = Err e"
| "and_then (Ok a) f = f a"

fun map_err :: "('e \<Rightarrow> 'f) \<Rightarrow> ('e, 'a) result \<Rightarrow> ('f, 'a) result" where
  "map_err g (Err e) = Err (g e)"
| "map_err g (Ok a) = Ok a"

fun map_ok :: "('a \<Rightarrow> 'b) \<Rightarrow> ('e, 'a) result \<Rightarrow> ('e, 'b) result" where
  "map_ok g (Err e) = Err e"
| "map_ok g (Ok a) = Ok (g a)"

fun is_ok :: "('e, 'a) result \<Rightarrow> bool" where
  "is_ok (Ok _) = True"
| "is_ok (Err _) = False"

fun ok_value :: "('e, 'a) result \<Rightarrow> 'a option" where
  "ok_value (Ok a) = Some a"
| "ok_value (Err _) = None"

fun ok_or :: "'a option \<Rightarrow> 'e \<Rightarrow> ('e, 'a) result" where
  "ok_or None e = Err e"
| "ok_or (Some a) e = Ok a"

lemma and_then_Ok [simp, result_simps]:
  "and_then r f = Ok b \<longleftrightarrow> (\<exists>a. r = Ok a \<and> f a = Ok b)"
  by (cases r) auto

lemma and_then_Err [result_simps]:
  "and_then r f = Err e \<longleftrightarrow> r = Err e \<or> (\<exists>a. r = Ok a \<and> f a = Err e)"
  by (cases r) auto

lemma map_err_Ok [simp, result_simps]: "map_err g r = Ok a \<longleftrightarrow> r = Ok a"
  by (cases r) auto

lemma map_err_Err [result_simps]: "map_err g r = Err e \<longleftrightarrow> (\<exists>e'. r = Err e' \<and> e = g e')"
  by (cases r) auto

lemma map_ok_Err [result_simps]: "map_ok g r = Err e \<longleftrightarrow> r = Err e"
  by (cases r) auto

lemma map_ok_Ok [simp, result_simps]: "map_ok g r = Ok b \<longleftrightarrow> (\<exists>a. r = Ok a \<and> b = g a)"
  by (cases r) auto

lemma ok_or_Ok [simp, result_simps]: "ok_or m e = Ok a \<longleftrightarrow> m = Some a"
  by (cases m) auto

lemma ok_or_Err [result_simps]: "ok_or m e = Err e' \<longleftrightarrow> m = None \<and> e' = e"
  by (cases m) auto

lemma ok_value_Some [simp]: "ok_value r = Some a \<longleftrightarrow> r = Ok a"
  by (cases r) auto

lemma ok_value_None: "ok_value r = None \<longleftrightarrow> (\<exists>e. r = Err e)"
  by (cases r) auto

lemma is_ok_iff: "is_ok r \<longleftrightarrow> (\<exists>a. r = Ok a)"
  by (cases r) auto

lemma not_is_ok_iff: "\<not> is_ok r \<longleftrightarrow> (\<exists>e. r = Err e)"
  by (cases r) auto

subsection \<open>Strings\<close>

text \<open>\<^verbatim>\<open>[String]::join\<close>.\<close>

fun join :: "string \<Rightarrow> string list \<Rightarrow> string" where
  "join sep [] = []"
| "join sep [s] = s"
| "join sep (s # t # rest) = s @ sep @ join sep (t # rest)"

subsection \<open>Strictly ascending lists\<close>

fun ascending :: "'a::linorder list \<Rightarrow> bool" where
  "ascending (x # y # zs) = (x < y \<and> ascending (y # zs))"
| "ascending _ = True"

lemma ascending_Cons: "ascending (x # xs) \<longleftrightarrow> ascending xs \<and> (\<forall>y \<in> set xs. x < y)"
  by (induction xs arbitrary: x rule: ascending.induct) (auto dest: less_trans)

lemma ascending_sorted_wrt: "ascending xs \<longleftrightarrow> sorted_wrt (<) xs"
  by (induction xs) (auto simp: ascending_Cons)

lemma ascending_sorted: "ascending xs \<longleftrightarrow> sorted xs \<and> distinct xs"
  by (simp add: ascending_sorted_wrt strict_sorted_iff)

lemma ascending_distinct: "ascending xs \<Longrightarrow> distinct xs"
  by (simp add: ascending_sorted)

lemma ascending_nth_less: "ascending xs \<Longrightarrow> i < j \<Longrightarrow> j < length xs \<Longrightarrow> xs ! i < xs ! j"
  by (simp add: ascending_sorted_wrt sorted_wrt_iff_nth_less)

lemma ascending_unique:
  "ascending xs \<Longrightarrow> ascending ys \<Longrightarrow> set xs = set ys \<Longrightarrow> xs = ys"
  by (simp add: ascending_sorted sorted_distinct_set_unique)

text \<open>\<^verbatim>\<open>sort\<close> followed by \<^verbatim>\<open>dedup\<close> on a vector.\<close>

definition sort_dedup :: "'a::linorder list \<Rightarrow> 'a list" where
  "sort_dedup xs = remdups_adj (sort xs)"

lemma set_sort_dedup [simp]: "set (sort_dedup xs) = set xs"
  by (simp add: sort_dedup_def)

lemma sorted_remdups_adj_distinct: "sorted xs \<Longrightarrow> distinct (remdups_adj xs)"
proof (induction xs rule: remdups_adj.induct)
  case (3 x y xs)
  then show ?case by (cases "x = y") (auto simp: less_le)
qed auto

lemma ascending_sort_dedup: "ascending (sort_dedup xs)"
  by (simp add: ascending_sorted sort_dedup_def sorted_remdups_adj_distinct)

lemma sort_dedup_ascending: "ascending xs \<Longrightarrow> sort_dedup xs = xs"
  by (rule ascending_unique) (simp_all add: ascending_sort_dedup)

lemma set_map_filter_iff: "set (List.map_filter f xs) = {y. \<exists>x \<in> set xs. f x = Some y}"
  by (force simp: List.map_filter_def image_iff)

subsection \<open>Binary search\<close>

datatype ordering = Less | Equal | Greater

definition cmp :: "'a::linorder \<Rightarrow> 'a \<Rightarrow> ordering" where
  "cmp x y = (if x < y then Less else if x = y then Equal else Greater)"

lemma cmp_simps [simp]:
  "cmp x y = Less \<longleftrightarrow> x < y" "cmp x y = Equal \<longleftrightarrow> x = y" "cmp x y = Greater \<longleftrightarrow> y < x"
  by (auto simp: cmp_def)

text \<open>
  The loop of \<^verbatim>\<open>slice::binary_search_by\<close>: \<open>cnt\<close> candidates start at \<open>base\<close>; each
  round halves them. The result is the index of a match, or the insertion point.
\<close>

function search_loop :: "('a \<Rightarrow> ordering) \<Rightarrow> 'a list \<Rightarrow> nat \<Rightarrow> nat \<Rightarrow> nat" where
  "search_loop f xs cnt base =
     (if 1 < cnt
      then let half = cnt div 2; mid = base + half
           in search_loop f xs (cnt - half) (if f (xs ! mid) = Greater then base else mid)
      else base)"
  by pat_completeness auto
termination
  by (relation "measure (\<lambda>(f, xs, cnt, base). cnt)") auto

declare search_loop.simps [simp del]

definition binary_search_by :: "('a \<Rightarrow> ordering) \<Rightarrow> 'a list \<Rightarrow> (nat, nat) result" where
  "binary_search_by f xs =
     (if xs = [] then Err 0
      else let base = search_loop f xs (length xs) 0
           in if f (xs ! base) = Equal then Ok base
              else Err (if f (xs ! base) = Less then base + 1 else base))"

lemma search_loop_hits:
  assumes asc: "ascending (map key xs)" and i: "i < length xs" "key (xs ! i) = x"
  shows "0 < cnt \<Longrightarrow> base + cnt \<le> length xs \<Longrightarrow> base \<le> i \<Longrightarrow> i < base + cnt \<Longrightarrow>
    search_loop (\<lambda>e. cmp (key e) x) xs cnt base = i"
proof (induction cnt arbitrary: base rule: less_induct)
  case (less cnt)
  show ?case
  proof (cases "1 < cnt")
    case False
    with less.prems have "base = i" by simp
    then show ?thesis using False by (subst search_loop.simps) simp
  next
    case True
    define mid where "mid = base + cnt div 2"
    have mid: "base < mid" "mid < base + cnt" "mid < length xs"
      using True less.prems(2) by (auto simp: mid_def)
    have "x < key (xs ! mid) \<longleftrightarrow> i < mid"
    proof
      assume "x < key (xs ! mid)"
      then show "i < mid"
        using ascending_nth_less [OF asc, of mid i] i by (cases "mid = i") force+
    next
      assume "i < mid"
      then show "x < key (xs ! mid)"
        using ascending_nth_less [OF asc, of i mid] i mid by simp
    qed
    then have "search_loop (\<lambda>e. cmp (key e) x) xs cnt base =
        search_loop (\<lambda>e. cmp (key e) x) xs (cnt - cnt div 2) (if i < mid then base else mid)"
      using True by (subst search_loop.simps) (simp add: Let_def mid_def)
    also have "\<dots> = i"
      using True less.prems mid by (intro less.IH) (auto simp: mid_def)
    finally show ?thesis .
  qed
qed

lemma search_loop_bound:
  "0 < cnt \<Longrightarrow> base + cnt \<le> n \<Longrightarrow> search_loop f xs cnt base < n"
proof (induction cnt arbitrary: base rule: less_induct)
  case (less cnt)
  show ?case
    using less.prems less.IH [of "cnt - cnt div 2"]
    by (subst search_loop.simps) (auto simp: Let_def)
qed

lemma binary_search_by_Ok:
  assumes "ascending (map key xs)"
  shows "binary_search_by (\<lambda>e. cmp (key e) x) xs = Ok i \<longleftrightarrow> i < length xs \<and> key (xs ! i) = x"
proof
  assume "binary_search_by (\<lambda>e. cmp (key e) x) xs = Ok i"
  then show "i < length xs \<and> key (xs ! i) = x"
    using search_loop_bound [of "length xs" 0 "length xs" "\<lambda>e. cmp (key e) x" xs]
    by (auto simp: binary_search_by_def Let_def split: if_splits)
next
  assume i: "i < length xs \<and> key (xs ! i) = x"
  then have "search_loop (\<lambda>e. cmp (key e) x) xs (length xs) 0 = i"
    by (intro search_loop_hits [OF assms]) auto
  with i show "binary_search_by (\<lambda>e. cmp (key e) x) xs = Ok i"
    by (auto simp: binary_search_by_def)
qed

subsection \<open>Sorting with a comparator\<close>

text \<open>\<^verbatim>\<open>Ordering::then\<close> and the stable \<^verbatim>\<open>slice::sort_by\<close>.\<close>

fun then_cmp :: "ordering \<Rightarrow> ordering \<Rightarrow> ordering" where
  "then_cmp Equal o2 = o2"
| "then_cmp o1 _ = o1"

fun insert_by :: "('a \<Rightarrow> 'a \<Rightarrow> ordering) \<Rightarrow> 'a \<Rightarrow> 'a list \<Rightarrow> 'a list" where
  "insert_by c x [] = [x]"
| "insert_by c x (y # ys) = (if c x y = Greater then y # insert_by c x ys else x # y # ys)"

definition sort_by :: "('a \<Rightarrow> 'a \<Rightarrow> ordering) \<Rightarrow> 'a list \<Rightarrow> 'a list" where
  "sort_by c xs = foldr (insert_by c) xs []"

lemma then_cmp_Greater: "then_cmp p q = Greater \<longleftrightarrow> p = Greater \<or> p = Equal \<and> q = Greater"
  by (cases p) auto

lemma mset_insert_by: "mset (insert_by c x ys) = add_mset x (mset ys)"
  by (induction ys) auto

lemma mset_sort_by [simp]: "mset (sort_by c xs) = mset xs"
  by (induction xs) (simp_all add: sort_by_def mset_insert_by)

lemma set_sort_by [simp]: "set (sort_by c xs) = set xs"
  by (metis mset_sort_by set_mset_mset)

lemma length_sort_by [simp]: "length (sort_by c xs) = length xs"
  by (metis mset_sort_by size_mset)

lemma sorted_insert_by:
  assumes "\<And>x y. c x y = Greater \<Longrightarrow> c y x \<noteq> Greater"
    and "\<And>x y z. c x y \<noteq> Greater \<Longrightarrow> c y z \<noteq> Greater \<Longrightarrow> c x z \<noteq> Greater"
  shows "sorted_wrt (\<lambda>x y. c x y \<noteq> Greater) ys \<Longrightarrow>
    sorted_wrt (\<lambda>x y. c x y \<noteq> Greater) (insert_by c x ys)"
proof (induction ys)
  case (Cons y ys)
  have s: "set (insert_by c x ys) = insert x (set ys)"
    by (metis mset_insert_by set_mset_add_mset_insert set_mset_mset)
  show ?case
  proof (cases "c x y = Greater")
    case True
    then have "c y x \<noteq> Greater" by (rule assms(1))
    with True Cons show ?thesis by (simp add: s)
  next
    case False
    then have "c x z \<noteq> Greater" if "z \<in> set ys" for z
      using that Cons.prems by (intro assms(2) [of x y z]) simp_all
    with False Cons.prems show ?thesis by simp
  qed
qed simp

lemma sorted_sort_by:
  assumes "\<And>x y. c x y = Greater \<Longrightarrow> c y x \<noteq> Greater"
    and "\<And>x y z. c x y \<noteq> Greater \<Longrightarrow> c y z \<noteq> Greater \<Longrightarrow> c x z \<noteq> Greater"
  shows "sorted_wrt (\<lambda>x y. c x y \<noteq> Greater) (sort_by c xs)"
proof (induction xs)
  case (Cons x xs)
  have "sorted_wrt (\<lambda>x y. c x y \<noteq> Greater) (insert_by c x (sort_by c xs))"
    by (rule sorted_insert_by [OF assms Cons.IH])
  then show ?case by (simp add: sort_by_def)
qed (simp add: sort_by_def)

subsection \<open>Inclusive ranges of machine integers\<close>

lemma unat_word_of_nat_below:
  fixes b :: "'w::len word"
  assumes "n \<le> unat b"
  shows "unat (word_of_nat n :: 'w word) = n"
proof -
  have "n < 2 ^ LENGTH('w)" using assms unsigned_less [of b] by (rule order_le_less_trans)
  then show ?thesis by (simp add: unsigned_of_nat take_bit_nat_eq_self)
qed

lemma set_word_range: "set (map word_of_nat [unat a..<Suc (unat b)]) = {a..b :: 'a::len word}"
proof
  show "set (map word_of_nat [unat a..<Suc (unat b)]) \<subseteq> {a..b}"
  proof
    fix x :: "'a word" assume "x \<in> set (map word_of_nat [unat a..<Suc (unat b)])"
    then obtain n where n: "unat a \<le> n" "n \<le> unat b" "x = word_of_nat n"
      by (auto simp del: upt_Suc)
    then have "unat x = n" using unat_word_of_nat_below [of n b] by simp
    with n show "x \<in> {a..b}" by (simp add: word_le_nat_alt)
  qed
next
  show "{a..b} \<subseteq> set (map word_of_nat [unat a..<Suc (unat b)])"
  proof
    fix x assume "x \<in> {a..b}"
    then have "unat x \<in> {unat a..<Suc (unat b)}" by (simp add: word_le_nat_alt)
    then have "word_of_nat (unat x) \<in> set (map word_of_nat [unat a..<Suc (unat b)] :: 'a word list)"
      unfolding set_map set_upt by (rule imageI)
    then show "x \<in> set (map word_of_nat [unat a..<Suc (unat b)])" by simp
  qed
qed

lemma card_word_range: "card {a..b :: 'a::len word} = Suc (unat b) - unat a"
proof -
  have "inj_on (word_of_nat :: nat \<Rightarrow> 'a word) {unat a..<Suc (unat b)}"
    by (intro inj_onI) (metis atLeastLessThan_iff less_Suc_eq_le unat_word_of_nat_below)
  then have "card (word_of_nat ` {unat a..<Suc (unat b)} :: 'a word set) = Suc (unat b) - unat a"
    by (simp add: card_image)
  then show ?thesis by (simp add: set_word_range [symmetric] del: upt_Suc)
qed

end
