(* ===== verification/BTree.thy ===== *)
theory BTree
  imports Prelude
begin

text \<open>
  \<^verbatim>\<open>BTreeMap\<close> and \<^verbatim>\<open>BTreeSet\<close>: strictly ascending association lists and lists, so
  that iteration is in key order as in Rust. The locales \<open>ordered_map\<close> and
  \<open>ordered_set\<close> state what the rest of the runtime relies on; their lemmas about loops of
  insertions and of \<^verbatim>\<open>entry(..).or_insert(0) += v\<close> updates are proved once, over the
  interface, and reach the components through the interpretations \<open>btm\<close> and \<open>bts\<close>.
\<close>

subsection \<open>The interfaces\<close>

locale ordered_map =
  fixes empty :: "'m"
    and get :: "'m \<Rightarrow> 'k::linorder \<Rightarrow> 'v option"
    and insert :: "'k \<Rightarrow> 'v \<Rightarrow> 'm \<Rightarrow> 'm"
    and remove :: "'k \<Rightarrow> 'm \<Rightarrow> 'm"
    and entries :: "'m \<Rightarrow> ('k \<times> 'v) list"
    and invar :: "'m \<Rightarrow> bool"
  assumes get_empty: "get empty k = None"
    and get_insert: "invar m \<Longrightarrow> get (insert k v m) k' = (if k' = k then Some v else get m k')"
    and get_remove: "invar m \<Longrightarrow> get (remove k m) k' = (if k' = k then None else get m k')"
    and invar_empty: "invar empty"
    and invar_insert: "invar m \<Longrightarrow> invar (insert k v m)"
    and invar_remove: "invar m \<Longrightarrow> invar (remove k m)"
    and entries_get: "invar m \<Longrightarrow> (k, v) \<in> set (entries m) \<longleftrightarrow> get m k = Some v"
    and entries_ascending: "invar m \<Longrightarrow> ascending (map fst (entries m))"
begin

lemma keys_entries: "invar m \<Longrightarrow> fst ` set (entries m) = dom (get m)"
  using entries_get [of m] by (auto simp: dom_def image_iff Bex_def split_paired_Ex)

lemma entries_eqI:
  assumes "invar m" "invar m'" "\<And>k. get m k = get m' k"
  shows "entries m = entries m'"
proof -
  have "set (entries m) = set (entries m')"
    using assms by (auto simp: entries_get)
  moreover have "sorted (map fst (entries m))" "sorted (map fst (entries m'))"
    and "distinct (map fst (entries m))" "distinct (map fst (entries m'))"
    using assms(1,2)[THEN entries_ascending] by (simp_all add: ascending_sorted)
  ultimately show ?thesis
    by (intro map_sorted_distinct_set_unique [of fst]) (auto simp: inj_on_def distinct_map)
qed

text \<open>A loop that updates one entry per item, from its old value.\<close>

lemma fold_upsert_invar:
  "invar m \<Longrightarrow> invar (fold (\<lambda>(k, v) m. insert k (f (get m k) v) m) xs m)"
  by (induction xs arbitrary: m) (auto simp: invar_insert)

lemma fold_upsert_dom:
  "invar m \<Longrightarrow> dom (get (fold (\<lambda>(k, v) m. insert k (f (get m k) v) m) xs m))
     = dom (get m) \<union> fst ` set xs"
proof (induction xs arbitrary: m)
  case (Cons x xs)
  obtain k v where x: "x = (k, v)" by force
  have "dom (get (insert k (f (get m k) v) m)) = Set.insert k (dom (get m))"
    using Cons.prems by (auto simp: get_insert split: if_splits)
  then show ?case using Cons.prems by (simp add: x invar_insert Cons.IH)
qed simp

text \<open>What the loop leaves at one key depends on that key's items only.\<close>

lemma fold_upsert_get:
  "invar m \<Longrightarrow> get (fold (\<lambda>(k, v) m. insert k (f (get m k) v) m) xs m) k
     = fold (\<lambda>(_, v) acc. Some (f acc v)) (filter (\<lambda>(k', _). k' = k) xs) (get m k)"
  by (induction xs arbitrary: m) (auto simp: invar_insert get_insert)

text \<open>A loop of plain insertions with distinct keys.\<close>

lemma fold_insert_get:
  "invar m \<Longrightarrow> distinct (map fst xs) \<Longrightarrow> get (fold (\<lambda>(k, v). insert k v) xs m) k =
     (case map_of xs k of Some v \<Rightarrow> Some v | None \<Rightarrow> get m k)"
proof (induction xs arbitrary: m)
  case (Cons x xs)
  obtain k0 v0 where x: "x = (k0, v0)" by force
  then have "map_of xs k0 = None" using Cons.prems(2) by (auto simp: map_of_eq_None_iff)
  with Cons show ?case by (auto simp: x invar_insert get_insert split: option.split)
qed simp

lemma fold_insert_invar: "invar m \<Longrightarrow> invar (fold (\<lambda>(k, v). insert k v) xs m)"
  by (induction xs arbitrary: m) (auto simp: invar_insert)

lemma fold_insert_dom:
  "invar m \<Longrightarrow> dom (get (fold (\<lambda>(k, v). insert k v) xs m)) = dom (get m) \<union> fst ` set xs"
  using fold_upsert_dom [where f = "\<lambda>_ v. v"] by (simp add: case_prod_beta')

end

locale ordered_set =
  fixes empty :: "'s"
    and insert :: "'a::linorder \<Rightarrow> 's \<Rightarrow> 's"
    and contains :: "'s \<Rightarrow> 'a \<Rightarrow> bool"
    and elements :: "'s \<Rightarrow> 'a list"
    and invar :: "'s \<Rightarrow> bool"
  assumes elements_empty: "elements empty = []"
    and set_insert: "invar s \<Longrightarrow> set (elements (insert x s)) = Set.insert x (set (elements s))"
    and contains_iff: "contains s x \<longleftrightarrow> x \<in> set (elements s)"
    and invar_empty: "invar empty"
    and invar_insert: "invar s \<Longrightarrow> invar (insert x s)"
    and elements_ascending: "invar s \<Longrightarrow> ascending (elements s)"
begin

lemma elements_eqI:
  "invar s \<Longrightarrow> invar s' \<Longrightarrow> set (elements s) = set (elements s') \<Longrightarrow> elements s = elements s'"
  by (rule ascending_unique) (simp_all add: elements_ascending)

lemma fold_insert_set_invar: "invar s \<Longrightarrow> invar (fold insert xs s)"
  by (induction xs arbitrary: s) (simp_all add: invar_insert)

lemma fold_insert_set:
  "invar s \<Longrightarrow> set (elements (fold insert xs s)) = set (elements s) \<union> set xs"
  by (induction xs arbitrary: s) (auto simp: invar_insert set_insert)

lemma card_elements: "invar s \<Longrightarrow> card (set (elements s)) = length (elements s)"
  by (simp add: distinct_card ascending_distinct elements_ascending)

end

subsection \<open>The representation\<close>

type_synonym ('k, 'v) btree_map = "('k \<times> 'v) list"
type_synonym 'a btree_set = "'a list"

fun bt_insert :: "'k::linorder \<Rightarrow> 'v \<Rightarrow> ('k, 'v) btree_map \<Rightarrow> ('k, 'v) btree_map" where
  "bt_insert k v [] = [(k, v)]"
| "bt_insert k v ((k', v') # m) =
     (case cmp k k' of
        Less \<Rightarrow> (k, v) # (k', v') # m
      | Equal \<Rightarrow> (k, v) # m
      | Greater \<Rightarrow> (k', v') # bt_insert k v m)"

definition bt_remove :: "'k::linorder \<Rightarrow> ('k, 'v) btree_map \<Rightarrow> ('k, 'v) btree_map" where
  "bt_remove k m = filter (\<lambda>(k', _). k' \<noteq> k) m"

definition bt_invar :: "('k::linorder, 'v) btree_map \<Rightarrow> bool" where
  "bt_invar m \<longleftrightarrow> ascending (map fst m)"

definition bt_keys :: "('k, 'v) btree_map \<Rightarrow> 'k list" where
  "bt_keys m = map fst m"

fun bts_insert :: "'a::linorder \<Rightarrow> 'a btree_set \<Rightarrow> 'a btree_set" where
  "bts_insert x [] = [x]"
| "bts_insert x (y # s) =
     (case cmp x y of Less \<Rightarrow> x # y # s | Equal \<Rightarrow> y # s | Greater \<Rightarrow> y # bts_insert x s)"

definition bts_contains :: "'a btree_set \<Rightarrow> 'a \<Rightarrow> bool" where
  "bts_contains s x \<longleftrightarrow> x \<in> set s"

definition bts_difference :: "'a btree_set \<Rightarrow> 'a btree_set \<Rightarrow> 'a btree_set" where
  "bts_difference s t = filter (\<lambda>x. \<not> bts_contains t x) s"

text \<open>\<^verbatim>\<open>entry(k).or_insert(0) += v\<close> at the width of the counter.\<close>

definition add_entry :: "u64 option \<Rightarrow> u64 \<Rightarrow> u64" where
  "add_entry old v = (case old of None \<Rightarrow> 0 | Some w \<Rightarrow> w) + v"

definition bt_add :: "'k::linorder \<Rightarrow> u64 \<Rightarrow> ('k, u64) btree_map \<Rightarrow> ('k, u64) btree_map" where
  "bt_add k v m = bt_insert k (add_entry (map_of m k) v) m"

subsection \<open>The representation meets the interfaces\<close>

lemma set_bt_insert: "fst ` set (bt_insert k v m) = Set.insert k (fst ` set m)"
  by (induction k v m rule: bt_insert.induct) (simp_all add: cmp_def insert_commute)

lemma bt_invar_insert: "bt_invar m \<Longrightarrow> bt_invar (bt_insert k v m)"
proof (induction m)
  case (Cons x m)
  then show ?case
    using set_bt_insert [of k v m]
    by (cases x) (force simp: bt_invar_def ascending_Cons cmp_def split: ordering.split)
qed (simp add: bt_invar_def)

lemma map_of_bt_insert: "bt_invar m \<Longrightarrow> map_of (bt_insert k v m) k' = (if k' = k then Some v else map_of m k')"
  by (induction m) (auto simp: bt_invar_def ascending_Cons cmp_def split: ordering.split)

lemma map_of_bt_remove: "map_of (bt_remove k m) k' = (if k' = k then None else map_of m k')"
  by (induction m) (auto simp: bt_remove_def)

lemma bt_invar_remove: "bt_invar m \<Longrightarrow> bt_invar (bt_remove k m)"
  by (induction m) (auto simp: bt_invar_def bt_remove_def ascending_Cons)

interpretation btm: ordered_map "[]" map_of bt_insert bt_remove "\<lambda>m. m" bt_invar
proof unfold_locales
  fix m :: "('a::linorder \<times> 'b) list" and k v
  assume m: "bt_invar m"
  then have "distinct (map fst m)"
    by (auto simp: bt_invar_def dest: ascending_distinct)
  then show "(k, v) \<in> set m \<longleftrightarrow> map_of m k = Some v" by simp
  from m show "ascending (map fst m)" by (simp add: bt_invar_def)
qed (simp_all add: map_of_bt_insert map_of_bt_remove bt_invar_insert bt_invar_remove,
    simp add: bt_invar_def)

lemma set_bts_insert: "set (bts_insert x s) = Set.insert x (set s)"
  by (induction s) (auto simp: cmp_def)

lemma ascending_bts_insert: "ascending s \<Longrightarrow> ascending (bts_insert x s)"
  by (induction s) (auto simp: ascending_Cons cmp_def set_bts_insert split: ordering.split)

interpretation bts: ordered_set "[]" bts_insert bts_contains "\<lambda>s. s" ascending
  by unfold_locales (simp_all add: set_bts_insert ascending_bts_insert bts_contains_def)

lemmas [btree_simps] =
  btm.get_insert btm.get_remove btm.invar_insert btm.invar_remove btm.invar_empty
  bts.set_insert bts.invar_insert bts.invar_empty bts.contains_iff

lemma bt_invar_add: "bt_invar m \<Longrightarrow> bt_invar (bt_add k v m)"
  by (simp add: bt_add_def bt_invar_insert)

lemma map_of_bt_add [btree_simps]:
  "bt_invar m \<Longrightarrow> map_of (bt_add k v m) k' =
     (if k' = k then Some (add_entry (map_of m k) v) else map_of m k')"
  by (simp add: bt_add_def map_of_bt_insert)

lemma ascending_bts_difference: "ascending s \<Longrightarrow> ascending (bts_difference s t)"
  by (auto simp: bts_difference_def ascending_sorted_wrt sorted_wrt_filter)

lemma set_bts_difference [simp]: "set (bts_difference s t) = set s - set t"
  by (auto simp: bts_difference_def bts_contains_def)

lemma set_bt_keys: "set (bt_keys m) = dom (map_of m)"
  by (simp add: bt_keys_def dom_map_of_conv_image_fst)

lemma ascending_bt_keys: "bt_invar m \<Longrightarrow> ascending (bt_keys m)"
  by (simp add: bt_keys_def bt_invar_def)

text \<open>A loop of \<^verbatim>\<open>+=\<close> over another map's entries adds the two maps pointwise.\<close>

definition count_of :: "('k \<times> u64) list \<Rightarrow> 'k \<Rightarrow> u64" where
  "count_of m k = (case map_of m k of None \<Rightarrow> 0 | Some c \<Rightarrow> c)"

lemma fold_bt_add_invar: "bt_invar m \<Longrightarrow> bt_invar (fold (\<lambda>(k, v). bt_add k v) xs m)"
  unfolding bt_add_def by (rule btm.fold_upsert_invar [where f = add_entry])

lemma fold_bt_add_dom:
  "bt_invar m \<Longrightarrow> dom (map_of (fold (\<lambda>(k, v). bt_add k v) xs m)) = dom (map_of m) \<union> fst ` set xs"
  unfolding bt_add_def by (rule btm.fold_upsert_dom [where f = add_entry])

lemma count_bt_add: "bt_invar m \<Longrightarrow> count_of (bt_add k v m) k' = count_of m k' + (if k' = k then v else 0)"
  by (auto simp: count_of_def map_of_bt_add add_entry_def split: option.splits)

lemma count_fold_bt_add:
  assumes "bt_invar m" "distinct (map fst xs)"
  shows "count_of (fold (\<lambda>(k, v). bt_add k v) xs m) k = count_of m k + count_of xs k"
  using assms
proof (induction xs arbitrary: m)
  case (Cons x xs)
  obtain k0 v0 where x: "x = (k0, v0)" by force
  have "map_of xs k0 = None" using Cons.prems(2) by (auto simp: x map_of_eq_None_iff)
  then show ?case
    using Cons by (auto simp: x bt_invar_add count_bt_add) (auto simp: count_of_def)
qed (simp add: count_of_def)

lemma bt_invar_distinct: "bt_invar m \<Longrightarrow> distinct (map fst m)"
  by (auto simp: bt_invar_def dest: ascending_distinct)

end
