(* ===== verification/Errors.thy ===== *)
theory Errors
  imports Prelude
begin

text \<open>
  The error enumerations of \<^verbatim>\<open>src/error.rs\<close>, one datatype each. A variant keeps its name with the
  enumeration as suffix where two enumerations share it, and its fields in order. The
  \<^verbatim>\<open>#[error(..)]\<close> display strings are presentation only and are not modelled. Counters and sizes
  that are only reported are \<open>nat\<close> or \<open>int\<close>.
\<close>

datatype container_error =
    EmptyProcessArgs_Container
  | EmptyExecArgs
  | MissingProcessConfigField string
  | PtySlaveClosed
  | ExecveReturned
  | LogHelperExited int
  | LogHelperKilled string
  | LogHelperStatus string
  | WriteZeroBytes
  | ChildExitedBeforeUsernsReady
  | ParentExitedBeforeUsernsMapped
  | FailedToSetControllingTerminal
  | FailedToDupSlaveToStdin
  | FailedToDupSlaveToStdout
  | FailedToDupSlaveToStderr

datatype process_identity_error =
    MissingToken int
  | Reused int
  | PidfdOpen int string
  | PidfdSignal int string

datatype lifecycle_error =
    ContainerAlreadyExists string
  | ContainerNotCreated string
  | ChildFailed string
  | ContainerNotRunning_Lifecycle string
  | ContainerHasNoPid_Lifecycle string
  | ContainerHasNoProcessIdentity string
  | StopDidNotComplete string

datatype oci_config_error =
    EmptyProcessArgs_OciConfig
  | InvalidEnvironmentEntry nat
  | EmptyEnvironmentKey nat
  | EnvironmentContainsNul nat
  | DuplicateEnvironmentKey string
  | UnsupportedCapabilities
  | EmptyRootPath
  | EmptyMountDestination
  | UnsupportedMountType string
  | EmptyBindMountSource
  | EmptyHealthcheckTest
  | RlimitSoftExceedsHard string
  | UnsupportedRlimit string
  | EmptyOverlayPath string
  | UnsupportedCrunProfile string
  | LinuxPathNotAbsolute string
  | LinuxPathEscapesRoot string
  | UnsupportedNamespace string

datatype cgroup_error =
    InvalidMemoryLimit int
  | InvalidPidsLimit int
  | InvalidCpuQuota int
  | InvalidCpuPeriod nat
  | ContainerNotRunning_Cgroup string
  | ContainerHasNoPath string
  | PathDoesNotExist string
  | CgroupV2Unavailable
  | ControllerUnavailable string

datatype healthcheck_error =
    EmptyTest
  | Disabled
  | MissingCommand string
  | InvalidTimeout string

datatype health_run_error =
    InvalidInterval_HealthRun
  | ContainerNotRunning_HealthRun string
  | ContainerHasNoPid_HealthRun string
  | NoHealthcheckConfigured
  | HealthcheckDidNotRun

datatype event_error =
    InvalidInterval_Event

datatype state_error =
    EmptyContainerId
  | InvalidContainerId
  | ContainerIsRunning string
  | LockFailed string string

datatype network_error =
    NoBridgeSubnetsAvailable u8 u8
  | CommandFailed string string
  | CommandTimedOut_Network string string nat
  | LockTimeout

datatype mode_error =
    InvalidNetworkMode string
  | InvalidSecurityProfile string
  | InvalidLogMode string

datatype policy_error =
    UnsupportedProfile string

datatype filesystem_error =
    MountDestinationNotAbsolute string
  | MountDestinationEscapesRootfs string
  | MountDestinationUnsupportedPrefix string
  | MountDestinationIsContainerRoot
  | MissingBindMountSource
  | BindDestinationNotDirectory string
  | BindDestinationIsDirectory string
  | OverlayLowerdirDoesNotExist string
  | OverlayUpperdirDoesNotExist string
  | OverlayMergeddirAlreadyExists string

datatype seccomp_error =
    EmptyProgram
  | ProgramTooLong nat nat
  | ProgramDoesNotEndInReturn
  | JumpOutOfRange nat nat
  | UnsupportedArchitecture_Seccomp
  | InvalidSyscallNumber int
  | NoCaptures
  | ArchMismatch u32 u32
  | MissingProfilePath
  | ProfileWithoutEnforce
  | CaptureWithoutLearn
  | InvalidMode string
  | InvalidAction string
  | InvalidOrder string
  | UnsupportedConditionalRule string

datatype signal_error =
    NonPositiveSignal string
  | UnsupportedSignal string

datatype image_error =
    EmptyImageName
  | InvalidImageName
  | ImageNotFound string
  | ImageRootfsNotFound string
  | RootfsTarDoesNotExist string
  | ImageAlreadyExists string
  | TarExtractionFailed string
  | TarCommandTimedOut nat
  | ArchivePathEscapesRootfs string
  | ArchiveLinkTargetMissing string
  | UnsupportedArchiveEntry string string
  | ArchiveTooManyEntries nat
  | ArchiveTooLarge nat
  | ArchiveFileTooLarge string nat nat

datatype audit_log_error =
    RecordTooLarge nat nat
  | HistoryTooLarge nat nat

datatype checkpoint_error =
    StateConflict string
  | ContainerNotRunning_Checkpoint string
  | ContainerHasNoPid_Checkpoint
  | CriuNotAvailable string
  | ImageDirectoryAlreadyExists string
  | ImageDirectoryDoesNotExist string
  | EmptyCriuCommand
  | CriuCommandFailed string string
  | CriuCommandTimedOut string nat

datatype doctor_error =
    CommandTimedOut_Doctor string nat

datatype security_error =
    UnsupportedArchitecture_Security

datatype inspect_security_error =
    ContainerNotRunning_InspectSecurity string
  | ContainerHasNoPid_InspectSecurity string

datatype trace_error =
    ContainerNotRunning_Trace string
  | ContainerHasNoPid_Trace

end
