(* ===== verification/Text.thy ===== *)
theory Text
  imports Prelude
begin

text \<open>
  The parts of Rust's string library the runtime uses: decimal and hexadecimal formatting,
  integer parsing, splitting and trimming. White space is the ASCII white space that
  \<^verbatim>\<open>str::trim\<close> and \<^verbatim>\<open>split_whitespace\<close> recognise; the files and flags parsed here are ASCII.
\<close>

subsection \<open>Formatting\<close>

definition digit :: "nat \<Rightarrow> char" where
  "digit n = (if n < 10 then char_of (48 + n) else char_of (87 + n))"

fun nat_dec :: "nat \<Rightarrow> string" where
  "nat_dec n = (if n < 10 then [digit n] else nat_dec (n div 10) @ [digit (n mod 10)])"

declare nat_dec.simps [simp del]

definition int_dec :: "int \<Rightarrow> string" where
  "int_dec n = (if n < 0 then CHR ''-'' # nat_dec (nat (- n)) else nat_dec (nat n))"

text \<open>\<open>n\<close> lower-case hexadecimal digits of a number, most significant first.\<close>

fun hex_digits :: "nat \<Rightarrow> nat \<Rightarrow> string" where
  "hex_digits 0 v = []"
| "hex_digits (Suc n) v = hex_digits n (v div 16) @ [digit (v mod 16)]"

subsection \<open>Parsing numbers\<close>

definition is_digit :: "char \<Rightarrow> bool" where
  "is_digit c \<longleftrightarrow> 48 \<le> (of_char c :: nat) \<and> (of_char c :: nat) \<le> 57"

definition digit_value :: "char \<Rightarrow> nat" where
  "digit_value c = of_char c - 48"

definition digits_value :: "string \<Rightarrow> nat" where
  "digits_value s = foldl (\<lambda>v c. 10 * v + digit_value c) 0 s"

text \<open>\<^verbatim>\<open>str::parse\<close> for an unsigned type below \<open>2 ^ w\<close>: an optional plus sign, then digits.\<close>

definition parse_unsigned :: "nat \<Rightarrow> string \<Rightarrow> nat option" where
  "parse_unsigned w s =
     (let t = (case s of c # r \<Rightarrow> if c = CHR ''+'' then r else s | [] \<Rightarrow> [])
      in if t \<noteq> [] \<and> list_all is_digit t \<and> digits_value t < 2 ^ w then Some (digits_value t) else None)"

text \<open>\<^verbatim>\<open>str::parse\<close> for \<^verbatim>\<open>i32\<close>.\<close>

definition parse_i32 :: "string \<Rightarrow> int option" where
  "parse_i32 s =
     (let (neg, t) = (case s of
          c # r \<Rightarrow> if c = CHR ''-'' then (True, r) else if c = CHR ''+'' then (False, r) else (False, s)
        | [] \<Rightarrow> (False, []));
          v = (if neg then - int (digits_value t) else int (digits_value t))
      in if t \<noteq> [] \<and> list_all is_digit t \<and> - (2 ^ 31) \<le> v \<and> v < 2 ^ 31 then Some v else None)"

subsection \<open>Splitting and trimming\<close>

definition is_space :: "char \<Rightarrow> bool" where
  "is_space c \<longleftrightarrow> (of_char c :: nat) \<in> {9, 10, 11, 12, 13, 32}"

definition trim_start :: "string \<Rightarrow> string" where
  "trim_start s = dropWhile is_space s"

definition trim_end :: "string \<Rightarrow> string" where
  "trim_end s = rev (dropWhile is_space (rev s))"

definition trim :: "string \<Rightarrow> string" where
  "trim s = trim_end (trim_start s)"

text \<open>\<^verbatim>\<open>split_once(c)\<close> at the first occurrence of a character.\<close>

fun split_once :: "char \<Rightarrow> string \<Rightarrow> (string \<times> string) option" where
  "split_once c [] = None"
| "split_once c (x # s) =
     (if x = c then Some ([], s)
      else map_option (\<lambda>(k, v). (x # k, v)) (split_once c s))"

fun strip_prefix :: "string \<Rightarrow> string \<Rightarrow> string option" where
  "strip_prefix [] s = Some s"
| "strip_prefix (p # ps) [] = None"
| "strip_prefix (p # ps) (c # s) = (if p = c then strip_prefix ps s else None)"

definition starts_with :: "string \<Rightarrow> string \<Rightarrow> bool" where
  "starts_with s p \<longleftrightarrow> strip_prefix p s \<noteq> None"

text \<open>\<^verbatim>\<open>split_once\<close> with a string pattern.\<close>

fun split_once_str :: "string \<Rightarrow> string \<Rightarrow> (string \<times> string) option" where
  "split_once_str p [] = (if p = [] then Some ([], []) else None)"
| "split_once_str p (c # s) =
     (case strip_prefix p (c # s) of
        Some rest \<Rightarrow> Some ([], rest)
      | None \<Rightarrow> map_option (\<lambda>(k, v). (c # k, v)) (split_once_str p s))"

text \<open>\<^verbatim>\<open>rsplit_once\<close> with a string pattern: at the last occurrence.\<close>

fun rsplit_once_str :: "string \<Rightarrow> string \<Rightarrow> (string \<times> string) option" where
  "rsplit_once_str p [] = (if p = [] then Some ([], []) else None)"
| "rsplit_once_str p (c # s) =
     (case rsplit_once_str p s of
        Some (k, v) \<Rightarrow> Some (c # k, v)
      | None \<Rightarrow> map_option (\<lambda>r. ([], r)) (strip_prefix p (c # s)))"

text \<open>\<^verbatim>\<open>str::replace\<close> with a non-empty pattern.\<close>

function replace :: "string \<Rightarrow> string \<Rightarrow> string \<Rightarrow> string" where
  "replace p q [] = []"
| "replace p q (c # s) =
     (case strip_prefix p (c # s) of
        Some rest \<Rightarrow> if p = [] then c # s else q @ replace p q rest
      | None \<Rightarrow> c # replace p q s)"
  by pat_completeness auto
termination
proof (relation "measure (\<lambda>(p, q, s). length s)")
  fix p q c s rest assume "strip_prefix p (c # s) = Some rest" "p \<noteq> []"
  moreover have "strip_prefix p s = Some r \<Longrightarrow> length s = length p + length r" for p s r :: string
    by (induction p s rule: strip_prefix.induct) (auto split: if_splits)
  ultimately have "length (c # s) = length p + length rest" by blast
  with \<open>p \<noteq> []\<close> show "((p, q, rest), p, q, c # s) \<in> measure (\<lambda>(p, q, s). length s)"
    by (cases p) auto
qed auto

text \<open>The pieces between occurrences of a separator character.\<close>

fun split_char :: "char \<Rightarrow> string \<Rightarrow> string list" where
  "split_char c [] = [[]]"
| "split_char c (x # s) =
     (if x = c then [] # split_char c s
      else case split_char c s of [] \<Rightarrow> [[x]] | p # ps \<Rightarrow> (x # p) # ps)"

text \<open>\<^verbatim>\<open>str::lines\<close>: a line ends with a line feed, optionally preceded by a carriage return; an empty last
  piece is no line.\<close>

definition newline :: string where
  "newline = [char_of (10 :: nat)]"

definition strip_cr :: "string \<Rightarrow> string" where
  "strip_cr l = (if l \<noteq> [] \<and> last l = char_of (13 :: nat) then butlast l else l)"

definition lines :: "string \<Rightarrow> string list" where
  "lines s = (let ps = split_char (char_of (10 :: nat)) s in
     map strip_cr (butlast ps) @ (if last ps = [] then [] else [last ps]))"

function split_whitespace :: "string \<Rightarrow> string list" where
  "split_whitespace s =
     (let t = dropWhile is_space s
      in if t = [] then [] else takeWhile (\<lambda>c. \<not> is_space c) t #
           split_whitespace (dropWhile (\<lambda>c. \<not> is_space c) t))"
  by pat_completeness auto
termination
proof (relation "measure length")
  fix s :: string and t
  assume t: "t = dropWhile is_space s" "t \<noteq> []"
  then have "\<not> is_space (hd t)" by (metis hd_dropWhile)
  with t(2) have "length (dropWhile (\<lambda>c. \<not> is_space c) t) < length t"
    by (cases t) (auto intro: le_imp_less_Suc length_dropWhile_le)
  also have "\<dots> \<le> length s" using t(1) by (simp add: length_dropWhile_le)
  finally show "(dropWhile (\<lambda>c. \<not> is_space c) t, s) \<in> measure length" by simp
qed simp

declare split_whitespace.simps [simp del]

subsection \<open>Lemmas\<close>

lemma of_char_digit [simp]:
  "n < 10 \<Longrightarrow> (of_char (digit n) :: nat) = 48 + n"
  by (simp add: digit_def)

lemma is_digit_digit [simp]: "n < 10 \<Longrightarrow> is_digit (digit n)"
  by (simp add: is_digit_def)

lemma digit_value_digit [simp]: "n < 10 \<Longrightarrow> digit_value (digit n) = n"
  by (simp add: digit_value_def)

lemma digits_value_snoc [simp]: "digits_value (s @ [c]) = 10 * digits_value s + digit_value c"
  by (simp add: digits_value_def)

lemma nat_dec_digits: "list_all is_digit (nat_dec n)"
proof (induction n rule: nat_dec.induct)
  case (1 n)
  then show ?case by (subst nat_dec.simps) (cases "n < 10"; simp)
qed

lemma nat_dec_nonempty [simp]: "nat_dec n \<noteq> []"
  by (subst nat_dec.simps) simp

lemma digits_value_nat_dec [simp]: "digits_value (nat_dec n) = n"
proof (induction n rule: nat_dec.induct)
  case (1 n)
  then show ?case
    by (subst nat_dec.simps) (cases "n < 10"; simp add: digits_value_def [of "[_]"])
qed

lemma nat_dec_inj: "nat_dec m = nat_dec n \<longleftrightarrow> m = n"
  by (metis digits_value_nat_dec)

lemma hd_nat_dec: "\<exists>c s. nat_dec n = c # s \<and> is_digit c"
  using nat_dec_digits [of n] nat_dec_nonempty [of n] by (cases "nat_dec n") auto

lemma int_dec_inj: "int_dec m = int_dec n \<longleftrightarrow> m = n"
proof -
  have minus: "CHR ''-'' # s \<noteq> nat_dec k" for s k
    using hd_nat_dec [of k] by (auto simp: is_digit_def)
  show ?thesis
    by (cases "m < 0"; cases "n < 0")
      (simp_all add: int_dec_def nat_dec_inj minus minus [THEN not_sym] eq_nat_nat_iff)
qed

lemma parse_unsigned_nat_dec: "n < 2 ^ w \<Longrightarrow> parse_unsigned w (nat_dec n) = Some n"
proof -
  assume n: "n < 2 ^ w"
  obtain c s where cs: "nat_dec n = c # s" "is_digit c" using hd_nat_dec by blast
  then have "c \<noteq> CHR ''+''" by (auto simp: is_digit_def)
  with cs n show ?thesis
    using nat_dec_digits [of n] digits_value_nat_dec [of n] by (simp add: parse_unsigned_def)
qed

lemma parse_unsigned_bound: "parse_unsigned w s = Some n \<Longrightarrow> n < 2 ^ w"
  by (auto simp: parse_unsigned_def Let_def split: if_splits)

lemma split_once_Some: "split_once c s = Some (k, v) \<longleftrightarrow> s = k @ c # v \<and> c \<notin> set k"
proof (induction s arbitrary: k)
  case (Cons x s)
  then show ?case by (cases k; cases "x = c") auto
qed simp

lemma split_once_None: "split_once c s = None \<longleftrightarrow> c \<notin> set s"
  by (induction s) auto

lemma split_once_shorter: "split_once c s = Some (k, v) \<Longrightarrow> length v \<le> length s"
  by (auto simp: split_once_Some)

lemma strip_prefix_Some: "strip_prefix p s = Some r \<longleftrightarrow> s = p @ r"
  by (induction p s rule: strip_prefix.induct) auto

lemma starts_with_iff: "starts_with s p \<longleftrightarrow> (\<exists>r. s = p @ r)"
  by (auto simp: starts_with_def strip_prefix_Some)

lemma rsplit_once_str_None: "c \<notin> set s \<Longrightarrow> rsplit_once_str (c # p) s = None"
  by (induction s) auto

lemma rsplit_once_str_last:
  assumes "c \<notin> set v" "c \<noteq> d"
  shows "rsplit_once_str [c, d] (k @ [c, d] @ v) = Some (k, v)"
proof (induction k)
  case Nil
  have "rsplit_once_str [c, d] (d # v) = None"
    using assms by (intro rsplit_once_str_None) simp
  then show ?case by simp
qed simp

lemma split_whitespace_Nil [simp]: "split_whitespace [] = []"
  by (subst split_whitespace.simps) simp

lemma split_whitespace_word:
  assumes "w \<noteq> []" "list_all (\<lambda>c. \<not> is_space c) w"
  shows "split_whitespace w = [w]" and "is_space c \<Longrightarrow> split_whitespace (w @ c # s) = w # split_whitespace s"
proof -
  have w: "\<not> is_space (hd w)" "\<forall>c \<in> set w. \<not> is_space c" using assms by (auto simp: list_all_iff)
  then have lead: "dropWhile is_space (w @ s) = w @ s" for s
    using assms(1) by (cases w) auto
  have tw: "takeWhile (\<lambda>c. \<not> is_space c) w = w" and dw: "dropWhile (\<lambda>c. \<not> is_space c) w = []"
    using w(2) by (auto simp: takeWhile_eq_all_conv dropWhile_eq_Nil_conv)
  show "split_whitespace w = [w]"
    using lead [of "[]"] assms(1) by (subst split_whitespace.simps) (simp add: Let_def tw dw)
  show "is_space c \<Longrightarrow> split_whitespace (w @ c # s) = w # split_whitespace s"
  proof -
    assume c: "is_space c"
    have "split_whitespace (c # s) = split_whitespace s"
      using c by (subst split_whitespace.simps, subst (2) split_whitespace.simps) simp
    moreover have "takeWhile (\<lambda>c. \<not> is_space c) (w @ c # s) = w" "dropWhile (\<lambda>c. \<not> is_space c) (w @ c # s) = c # s"
      using w c by (simp_all add: takeWhile_append dropWhile_append)
    ultimately show ?thesis
      using lead [of "c # s"] assms(1) by (subst split_whitespace.simps) (simp add: Let_def)
  qed
qed

lemma split_whitespace_join:
  "(\<And>w. w \<in> set ws \<Longrightarrow> w \<noteq> [] \<and> list_all (\<lambda>c. \<not> is_space c) w) \<Longrightarrow> split_whitespace (join '' '' ws) = ws"
proof (induction ws)
  case (Cons w ws)
  then have w: "w \<noteq> []" "list_all (\<lambda>c. \<not> is_space c) w" by auto
  have sp: "is_space (CHR '' '')" by (simp add: is_space_def)
  show ?case
  proof (cases ws)
    case Nil
    then show ?thesis using split_whitespace_word(1) [OF w] by simp
  next
    case (Cons v vs)
    then show ?thesis
      using Cons.IH Cons.prems split_whitespace_word(2) [OF w sp] by simp
  qed
qed simp

lemma set_join: "set (join sep ws) \<subseteq> set sep \<union> (\<Union>w \<in> set ws. set w)"
  by (induction sep ws rule: join.induct) auto

lemma split_char_none: "c \<notin> set s \<Longrightarrow> split_char c s = [s]"
  by (induction s) auto

lemma split_char_nonempty [simp]: "split_char c s \<noteq> []"
  by (induction s) (auto split: list.split)

lemma split_char_append: "split_char c (s @ c # t) = split_char c s @ split_char c t"
proof (induction s)
  case (Cons x s)
  then show ?case by (cases "split_char c s") auto
qed simp

end
