(* ===== verification/Effects.thy ===== *)
theory Effects
  imports Prelude "HOL-Library.Sublist"
begin

text \<open>
  Code that talks to the operating system. An action extends the log of the calls made so far
  and returns a result; the outside world is an argument \<open>os\<close> that answers each call and may
  depend on everything asked before. \<open>io_bind\<close> is Rust's sequencing with \<^verbatim>\<open>?\<close>: the first error ends the
  action. \<open>io_ignore\<close> is \<^verbatim>\<open>let _ = ...\<close>.
\<close>

type_synonym ('c, 'e, 'a) io = "'c list \<Rightarrow> 'c list \<times> ('e, 'a) result"
type_synonym ('c, 'r) world = "'c list \<Rightarrow> 'c \<Rightarrow> 'r"

text \<open>The error numbers the code distinguishes.\<close>

datatype errno =
    Errno_ENOENT | Errno_ENOSYS | Errno_EINVAL | Errno_ESRCH | Errno_ECHILD | Errno_EINTR | Errno_other int

definition io_return :: "'a \<Rightarrow> ('c, 'e, 'a) io" where
  "io_return a = (\<lambda>w. (w, Ok a))"

definition io_lift :: "('e, 'a) result \<Rightarrow> ('c, 'e, 'a) io" where
  "io_lift r = (\<lambda>w. (w, r))"

definition io_bind :: "('c, 'e, 'a) io \<Rightarrow> ('a \<Rightarrow> ('c, 'e, 'b) io) \<Rightarrow> ('c, 'e, 'b) io" where
  "io_bind m f = (\<lambda>w. case m w of (w', Ok a) \<Rightarrow> f a w' | (w', Err e) \<Rightarrow> (w', Err e))"

definition io_call :: "('c, ('e, 'a) result) world \<Rightarrow> 'c \<Rightarrow> ('c, 'e, 'a) io" where
  "io_call os c = (\<lambda>w. (w @ [c], os w c))"

definition io_map_err :: "('e \<Rightarrow> 'f) \<Rightarrow> ('c, 'e, 'a) io \<Rightarrow> ('c, 'f, 'a) io" where
  "io_map_err g m = (\<lambda>w. case m w of (w', r) \<Rightarrow> (w', map_err g r))"

definition io_when :: "bool \<Rightarrow> ('c, 'e, unit) io \<Rightarrow> ('c, 'e, unit) io" where
  "io_when b m = (if b then m else io_return ())"

definition io_ignore :: "('c, 'e, 'a) io \<Rightarrow> ('c, 'f, unit) io" where
  "io_ignore m = (\<lambda>w. case m w of (w', _) \<Rightarrow> (w', Ok ()))"

text \<open>
  \<open>io_probe\<close>: only whether the call succeeds is used; \<open>io_query\<close>: a call answered with a number, used as
  a truth value that is false when the call fails; \<open>io_handle\<close>: continue with the result, error or not.
\<close>

definition io_probe :: "('c, ('e, 'a) result) world \<Rightarrow> 'c \<Rightarrow> ('c, 'f, bool) io" where
  "io_probe os c = (\<lambda>w. (w @ [c], Ok (is_ok (os w c))))"

definition io_query :: "('c, ('e, nat) result) world \<Rightarrow> 'c \<Rightarrow> ('c, 'f, bool) io" where
  "io_query os c = (\<lambda>w. (w @ [c], Ok (case os w c of Ok n \<Rightarrow> n \<noteq> 0 | Err _ \<Rightarrow> False)))"

definition io_handle :: "('c, 'e, 'a) io \<Rightarrow> (('e, 'a) result \<Rightarrow> ('c, 'f, 'b) io) \<Rightarrow> ('c, 'f, 'b) io" where
  "io_handle m f = (\<lambda>w. case m w of (w', r) \<Rightarrow> f r w')"

text \<open>
  An action on one kind of call as part of an action on a larger kind: its calls are wrapped and answered by
  the larger world after everything that came before.
\<close>

definition io_embed ::
    "('c \<Rightarrow> 'd) \<Rightarrow> ('d list \<Rightarrow> 'c \<Rightarrow> 'r) \<Rightarrow> (('c, 'r) world \<Rightarrow> ('c, 'e, 'a) io) \<Rightarrow> ('d, 'e, 'a) io" where
  "io_embed wrap answer act = (\<lambda>w.
     case act (\<lambda>v c. answer (w @ map wrap v) c) [] of (v, r) \<Rightarrow> (w @ map wrap v, r))"

text \<open>Run a handler when the action fails, then fail with the action's error.\<close>

definition io_on_err :: "('c, 'e, 'a) io \<Rightarrow> ('c, 'f, unit) io \<Rightarrow> ('c, 'e, 'a) io" where
  "io_on_err m h = io_handle m (\<lambda>r. case r of Ok a \<Rightarrow> io_return a | Err e \<Rightarrow> io_bind (io_ignore h) (\<lambda>_. io_lift (Err e)))"

fun io_each :: "('x \<Rightarrow> ('c, 'e, unit) io) \<Rightarrow> 'x list \<Rightarrow> ('c, 'e, unit) io" where
  "io_each f [] = io_return ()"
| "io_each f (x # xs) = io_bind (f x) (\<lambda>_. io_each f xs)"

lemmas io_defs = io_return_def io_lift_def io_bind_def io_call_def io_map_err_def io_when_def io_ignore_def
  io_probe_def io_query_def io_handle_def

text \<open>An action only ever appends to the log.\<close>

definition appends :: "('c, 'e, 'a) io \<Rightarrow> bool" where
  "appends m \<longleftrightarrow> (\<forall>w. prefix w (fst (m w)))"

named_theorems io_appends \<open>actions that only append to the log\<close>

lemma appends_basic [io_appends]:
  "appends (io_return a)" "appends (io_lift r)" "appends (io_call os c)"
  by (simp_all add: appends_def io_defs)

lemma appends_bind [io_appends]:
  assumes "appends m" "\<And>a. appends (f a)"
  shows "appends (io_bind m f)"
  unfolding appends_def io_bind_def
proof
  fix w
  obtain w' r where m: "m w = (w', r)" by force
  with assms(1) have "prefix w w'" unfolding appends_def by (metis fst_conv)
  moreover have "prefix w' (fst (f a w'))" for a using assms(2) by (simp add: appends_def)
  ultimately show "prefix w (fst (case m w of (w', Ok a) \<Rightarrow> f a w' | (w', Err e) \<Rightarrow> (w', Err e)))"
    by (cases r) (auto simp: m intro: prefix_order.trans)
qed

lemma appends_wrap [io_appends]:
  "appends m \<Longrightarrow> appends (io_map_err g m)" "appends m \<Longrightarrow> appends (io_when b m)"
  "appends m \<Longrightarrow> appends (io_ignore m)"
  by (auto simp: appends_def io_defs split: prod.split) (metis fst_conv)+

lemma appends_each [io_appends]: "(\<And>x. appends (f x)) \<Longrightarrow> appends (io_each f xs)"
  by (induction xs) (simp_all add: io_appends)

lemma io_bind_Ok [simp]:
  "io_bind m f w = (w2, Ok b) \<longleftrightarrow> (\<exists>w1 a. m w = (w1, Ok a) \<and> f a w1 = (w2, Ok b))"
  by (auto simp: io_bind_def split: prod.splits result.splits)

lemma io_map_err_Ok [simp]: "io_map_err g m w = (w', Ok a) \<longleftrightarrow> m w = (w', Ok a)"
  by (auto simp: io_map_err_def split: prod.splits)

lemma io_basic_Ok [simp]:
  "io_return a w = (w', Ok b) \<longleftrightarrow> w' = w \<and> b = a"
  "io_lift r w = (w', Ok b) \<longleftrightarrow> w' = w \<and> r = Ok b"
  "io_call os c w = (w', Ok b) \<longleftrightarrow> w' = w @ [c] \<and> os w c = Ok b"
  by (auto simp: io_defs)

lemma io_probe_Ok [simp]:
  "io_probe os c w = (w', Ok b) \<longleftrightarrow> w' = w @ [c] \<and> b = is_ok (os w c)"
  "io_query os c w = (w', Ok b) \<longleftrightarrow> w' = w @ [c] \<and> b = (case os w c of Ok n \<Rightarrow> n \<noteq> 0 | Err _ \<Rightarrow> False)"
  by (auto simp: io_defs)

lemma io_bind_lift [simp]: "io_bind (io_lift (Ok a)) f = f a" "io_bind (io_lift (Err e)) f = io_lift (Err e)"
  by (simp_all add: io_defs)

lemma io_bind_probe:
  "io_bind (io_probe os c) f w = f (is_ok (os w c)) (w @ [c])"
  "io_bind (io_query os' c) f w = f (case os' w c of Ok n \<Rightarrow> n \<noteq> 0 | Err _ \<Rightarrow> False) (w @ [c])"
  by (simp_all add: io_defs)

lemma io_embed_Ok [simp]:
  "io_embed wrap answer act w = (w', Ok a) \<longleftrightarrow>
     (\<exists>v. act (\<lambda>v c. answer (w @ map wrap v) c) [] = (v, Ok a) \<and> w' = w @ map wrap v)"
  by (auto simp: io_embed_def split: prod.splits)

lemma io_on_err_Ok [simp]: "io_on_err m h w = (w', Ok a) \<longleftrightarrow> m w = (w', Ok a)"
  by (auto simp: io_on_err_def io_defs split: prod.splits result.splits)

lemma io_when_Ok [simp]:
  "io_when b m w = (w', Ok u) \<longleftrightarrow> (if b then m w = (w', Ok u) else w' = w)"
  by (simp add: io_when_def)

text \<open>\<open>only P m\<close>: whatever the world answers, an action makes only calls that satisfy \<open>P\<close>.\<close>

definition only :: "('c \<Rightarrow> bool) \<Rightarrow> ('c, 'e, 'a) io \<Rightarrow> bool" where
  "only P m \<longleftrightarrow> (\<forall>w. \<exists>cs. fst (m w) = w @ cs \<and> list_all P cs)"

named_theorems io_only \<open>actions that make only calls of one kind\<close>

lemma only_basic [io_only]:
  "only P (io_return a)" "only P (io_lift r)" "P c \<Longrightarrow> only P (io_call os c)"
  "P c \<Longrightarrow> only P (io_probe os c)" "P c \<Longrightarrow> only P (io_query os' c)"
  by (simp_all add: only_def io_defs)

lemma only_handle [io_only]:
  assumes "only P m" "\<And>r. only P (f r)"
  shows "only P (io_handle m f)"
  unfolding only_def
proof
  fix w
  obtain cs where cs: "fst (m w) = w @ cs" "list_all P cs" using assms(1) unfolding only_def by blast
  obtain ds where ds: "fst (f (snd (m w)) (w @ cs)) = (w @ cs) @ ds" "list_all P ds"
    using assms(2) unfolding only_def by blast
  have "fst (io_handle m f w) = w @ (cs @ ds)" using cs(1) ds(1) by (simp add: io_handle_def split_beta)
  with cs(2) ds(2) show "\<exists>cs. fst (io_handle m f w) = w @ cs \<and> list_all P cs"
    by (intro exI [of _ "cs @ ds"]) simp
qed

lemma io_bind_handle: "io_bind m f = io_handle m (\<lambda>r. case r of Ok a \<Rightarrow> f a | Err e \<Rightarrow> io_lift (Err e))"
  by (auto simp: io_defs fun_eq_iff split: prod.split result.split)

lemma only_bind [io_only]: "only P m \<Longrightarrow> (\<And>a. only P (f a)) \<Longrightarrow> only P (io_bind m f)"
  unfolding io_bind_handle by (rule only_handle) (auto split: result.split intro: io_only)

lemma only_bind_Ok: "only P m \<Longrightarrow> (\<And>w w' a. m w = (w', Ok a) \<Longrightarrow> only P (f a)) \<Longrightarrow> only P (io_bind m f)"
  unfolding only_def
proof
  fix w assume m: "\<forall>w. \<exists>cs. fst (m w) = w @ cs \<and> list_all P cs"
    and f: "\<And>w w' a. m w = (w', Ok a) \<Longrightarrow> \<forall>w. \<exists>cs. fst (f a w) = w @ cs \<and> list_all P cs"
  obtain cs r where cs: "m w = (w @ cs, r)" "list_all P cs" using m by (metis prod.collapse)
  show "\<exists>cs. fst (io_bind m f w) = w @ cs \<and> list_all P cs"
  proof (cases r)
    case (Ok a)
    then obtain ds where "fst (f a (w @ cs)) = (w @ cs) @ ds" "list_all P ds" using f cs by blast
    then show ?thesis using cs Ok by (intro exI [of _ "cs @ ds"]) (simp add: io_bind_def)
  qed (use cs in \<open>simp add: io_bind_def\<close>)
qed

lemma only_wrap [io_only]:
  "only P m \<Longrightarrow> only P (io_map_err g m)" "(b \<Longrightarrow> only P u) \<Longrightarrow> only P (io_when b u)" "only P m \<Longrightarrow> only P (io_ignore m)"
  by (auto simp: only_def io_defs split: prod.split) (metis fst_conv)+

lemma only_on_err [io_only]: "only P m \<Longrightarrow> only P h \<Longrightarrow> only P (io_on_err m h)"
  unfolding io_on_err_def by (intro only_handle) (auto split: result.split intro: io_only)

lemma only_each [io_only]: "(\<And>x. x \<in> set xs \<Longrightarrow> only P (f x)) \<Longrightarrow> only P (io_each f xs)"
  by (induction xs) (auto intro: io_only)

lemma only_embed:
  assumes "\<And>os. only P (act os)"
  shows "only (\<lambda>d. \<exists>c. d = wrap c \<and> P c) (io_embed wrap answer act)"
  unfolding only_def
proof
  fix w
  let ?act = "act (\<lambda>v c. answer (w @ map wrap v) c)"
  obtain cs where "fst (?act []) = [] @ cs" "list_all P cs" using assms unfolding only_def by blast
  then show "\<exists>ds. fst (io_embed wrap answer act w) = w @ ds \<and> list_all (\<lambda>d. \<exists>c. d = wrap c \<and> P c) ds"
    by (intro exI [of _ "map wrap cs"]) (auto simp: io_embed_def split_beta list_all_iff)
qed

lemma only_mono: "only P m \<Longrightarrow> (\<And>c. P c \<Longrightarrow> Q c) \<Longrightarrow> only Q m"
  unfolding only_def list_all_iff by blast

lemma only_log: "only P m \<Longrightarrow> m w = (w', r) \<Longrightarrow> \<exists>cs. w' = w @ cs \<and> list_all P cs"
  unfolding only_def by (metis fst_conv)

text \<open>The calls of a log that were answered with success.\<close>

definition accepted :: "('c, ('e, 'a) result) world \<Rightarrow> 'c list \<Rightarrow> 'c list" where
  "accepted os w = map (\<lambda>i. w ! i) (filter (\<lambda>i. is_ok (os (take i w) (w ! i))) [0..<length w])"

lemma accepted_Nil [simp]: "accepted os [] = []"
  by (simp add: accepted_def)

lemma accepted_snoc [simp]: "accepted os (w @ [c]) = accepted os w @ (if is_ok (os w c) then [c] else [])"
proof -
  have "filter (\<lambda>i. is_ok (os (take i (w @ [c])) ((w @ [c]) ! i))) [0..<length w] =
      filter (\<lambda>i. is_ok (os (take i w) (w ! i))) [0..<length w]"
    by (rule filter_cong) (simp_all add: nth_append)
  then show ?thesis by (auto simp: accepted_def nth_append)
qed

lemma accepted_snoc2 [simp]:
  "accepted os (w @ [c, c']) = accepted os w @ (if is_ok (os w c) then [c] else []) @
     (if is_ok (os (w @ [c]) c') then [c'] else [])"
  using accepted_snoc [of os "w @ [c]" c'] by simp

lemma accepted_short [simp]:
  "accepted os [c] = (if is_ok (os [] c) then [c] else [])"
  "accepted os [c, c'] = accepted os [c] @ (if is_ok (os [c] c') then [c'] else [])"
  "accepted os [c, c', c''] = accepted os [c, c'] @ (if is_ok (os [c, c'] c'') then [c''] else [])"
  using accepted_snoc [of os "[]" c] accepted_snoc [of os "[c]" c'] accepted_snoc [of os "[c, c']" c'']
  by simp_all

text \<open>Calls that succeed one after the other.\<close>

fun all_ok :: "('c, ('e, 'a) result) world \<Rightarrow> 'c list \<Rightarrow> 'c list \<Rightarrow> bool" where
  "all_ok os w [] = True"
| "all_ok os w (c # cs) = (is_ok (os w c) \<and> all_ok os (w @ [c]) cs)"

lemma all_ok_append: "all_ok os w (cs @ ds) \<longleftrightarrow> all_ok os w cs \<and> all_ok os (w @ cs) ds"
  by (induction cs arbitrary: w) simp_all

lemma first_failure:
  "\<not> all_ok os w cs \<Longrightarrow>
     \<exists>n e. n < length cs \<and> all_ok os w (take n cs) \<and> os (w @ take n cs) (cs ! n) = Err e"
proof (induction cs arbitrary: w)
  case (Cons c cs)
  show ?case
  proof (cases "os w c")
    case (Err e)
    then show ?thesis by (intro exI [of _ 0]) simp
  next
    case (Ok a)
    with Cons.prems have "\<not> all_ok os (w @ [c]) cs" by simp
    then obtain n e where "n < length cs" "all_ok os (w @ [c]) (take n cs)" "os ((w @ [c]) @ take n cs) (cs ! n) = Err e"
      using Cons.IH by blast
    then show ?thesis using Ok by (intro exI [of _ "Suc n"]) simp
  qed
qed simp

end
