(* ===== verification/Network.thy ===== *)
theory Network
  imports BTree Errors Text Effects
begin

text \<open>
  \<^verbatim>\<open>src/network/mod.rs\<close>: names and addresses of a container's link, the persistent table of bridge
  subnets with the lock that guards it, and the NAT rules with their ownership record. Reading and writing
  the table are modelled with the faults they can have; the external programs \<^verbatim>\<open>ip\<close> and \<^verbatim>\<open>iptables\<close> are
  parameters.
\<close>

unbundle bit_operations_syntax

subsection \<open>Modes, names and addresses\<close>

datatype network_mode = Net_Host | Net_None | Net_Bridge

fun network_as_str :: "network_mode \<Rightarrow> string" where
  "network_as_str Net_Host = ''host''"
| "network_as_str Net_None = ''none''"
| "network_as_str Net_Bridge = ''bridge''"

definition to_effective :: "bool \<Rightarrow> network_mode \<Rightarrow> network_mode" where
  "to_effective is_root mode = (if \<not> is_root \<and> mode = Net_Bridge then Net_None else mode)"

record veth_pair =
  vp_host_name :: string
  vp_peer_name :: string

record bridge_network =
  bn_veth :: veth_pair
  bn_subnet :: string
  bn_host_cidr :: string
  bn_container_cidr :: string
  bn_gateway :: string

text \<open>32-bit FNV-1a over the bytes of the id, as eight hexadecimal digits.\<close>

definition fnv_step :: "char \<Rightarrow> u32 \<Rightarrow> u32" where
  "fnv_step byte hash = (hash XOR of_char byte) * 16777619"

definition stable_veth_token :: "string \<Rightarrow> string" where
  "stable_veth_token cid = hex_digits 8 (unat (fold fnv_step cid 2166136261))"

definition veth_for_pid :: "int \<Rightarrow> veth_pair" where
  "veth_for_pid pid = \<lparr>vp_host_name = ''vethh'' @ int_dec pid, vp_peer_name = ''vethp'' @ int_dec pid\<rparr>"

definition veth_for_container_id :: "string \<Rightarrow> veth_pair" where
  "veth_for_container_id cid =
     (let token = stable_veth_token cid
      in \<lparr>vp_host_name = ''vethh'' @ token, vp_peer_name = ''vethp'' @ token\<rparr>)"

text \<open>\<open>pid\<close> is an \<^verbatim>\<open>i32\<close>; \<^verbatim>\<open>unsigned_abs\<close> is the absolute value.\<close>

definition bridge_octet :: "int \<Rightarrow> u8" where
  "bridge_octet pid = word_of_int (\<bar>pid\<bar> mod 200 + 20)"

definition for_octet :: "veth_pair \<Rightarrow> u8 \<Rightarrow> bridge_network" where
  "for_octet veth octet =
     \<lparr>bn_veth = veth,
      bn_subnet = ''10.88.'' @ nat_dec (unat octet) @ ''.0/24'',
      bn_host_cidr = ''10.88.'' @ nat_dec (unat octet) @ ''.1/24'',
      bn_container_cidr = ''10.88.'' @ nat_dec (unat octet) @ ''.2/24'',
      bn_gateway = ''10.88.'' @ nat_dec (unat octet) @ ''.1''\<rparr>"

definition bridge_for_pid :: "int \<Rightarrow> bridge_network" where
  "bridge_for_pid pid = for_octet (veth_for_pid pid) (bridge_octet pid)"

definition bridge_for_container_id :: "string \<Rightarrow> u8 \<Rightarrow> bridge_network" where
  "bridge_for_container_id cid octet = for_octet (veth_for_container_id cid) octet"

subsection \<open>The table of subnets\<close>

record bridge_allocations =
  containers :: "(string, u8) btree_map"

definition default_allocations :: bridge_allocations where
  "default_allocations = \<lparr>containers = []\<rparr>"

text \<open>
  The file \<^verbatim>\<open>allocations.json\<close>: absent, a table, or something that cannot be read or parsed. A write
  that fails leaves whatever it leaves: \<^verbatim>\<open>fs::write\<close> truncates first.
\<close>

datatype allocations_file = Absent | Holds bridge_allocations | Unreadable string

datatype net_error = Net_error network_error | Net_io string

type_synonym write_fault = "(string \<times> allocations_file) option"

definition BRIDGE_OCTET_START :: u8 where "BRIDGE_OCTET_START = 20"
definition BRIDGE_OCTET_END :: u8 where "BRIDGE_OCTET_END = 219"

fun read_allocations :: "allocations_file \<Rightarrow> (net_error, bridge_allocations) result" where
  "read_allocations Absent = Ok default_allocations"
| "read_allocations (Holds allocs) = Ok allocs"
| "read_allocations (Unreadable e) = Err (Net_io e)"

definition save_allocations ::
    "write_fault \<Rightarrow> bridge_allocations \<Rightarrow> allocations_file \<times> (net_error, unit) result" where
  "save_allocations fault allocs =
     (case fault of None \<Rightarrow> (Holds allocs, Ok ()) | Some (e, left) \<Rightarrow> (left, Err (Net_io e)))"

fun first_free :: "u8 list \<Rightarrow> bridge_allocations \<Rightarrow> (net_error, u8) result" where
  "first_free [] allocs = Err (Net_error (NoBridgeSubnetsAvailable BRIDGE_OCTET_START BRIDGE_OCTET_END))"
| "first_free (octet # octets) allocs =
     (if octet \<notin> snd ` set (containers allocs) then Ok octet else first_free octets allocs)"

definition bridge_octets :: "u8 list" where
  "bridge_octets = map word_of_nat [unat BRIDGE_OCTET_START..<Suc (unat BRIDGE_OCTET_END)]"

definition next_free_bridge_octet :: "bridge_allocations \<Rightarrow> (net_error, u8) result" where
  "next_free_bridge_octet allocs = first_free bridge_octets allocs"

text \<open>
  \<open>lock\<close> is the outcome of acquiring the lock; a failed acquisition does nothing. The lock is released on
  every path.
\<close>

definition allocate_bridge_network ::
    "(net_error, unit) result \<Rightarrow> write_fault \<Rightarrow> string \<Rightarrow> allocations_file \<Rightarrow>
     allocations_file \<times> (net_error, bridge_network) result" where
  "allocate_bridge_network lock fault cid file =
     (case and_then lock (\<lambda>_. read_allocations file) of
        Err e \<Rightarrow> (file, Err e)
      | Ok allocs \<Rightarrow>
          (case map_of (containers allocs) cid of
             Some octet \<Rightarrow> (file, Ok (bridge_for_container_id cid octet))
           | None \<Rightarrow>
               (case next_free_bridge_octet allocs of
                  Err e \<Rightarrow> (file, Err e)
                | Ok octet \<Rightarrow>
                    (case save_allocations fault (allocs\<lparr>containers := bt_insert cid octet (containers allocs)\<rparr>) of
                       (file', r) \<Rightarrow> (file', map_ok (\<lambda>_. bridge_for_container_id cid octet) r)))))"

definition release_bridge_network ::
    "(net_error, unit) result \<Rightarrow> write_fault \<Rightarrow> string \<Rightarrow> allocations_file \<Rightarrow>
     allocations_file \<times> (net_error, unit) result" where
  "release_bridge_network lock fault cid file =
     (case and_then lock (\<lambda>_. read_allocations file) of
        Err e \<Rightarrow> (file, Err e)
      | Ok allocs \<Rightarrow> save_allocations fault (allocs\<lparr>containers := bt_remove cid (containers allocs)\<rparr>))"

subsection \<open>The table keeps subnets apart\<close>

definition allocations_wf :: "bridge_allocations \<Rightarrow> bool" where
  "allocations_wf allocs \<longleftrightarrow> bt_invar (containers allocs) \<and> distinct (map snd (containers allocs)) \<and>
     snd ` set (containers allocs) \<subseteq> {BRIDGE_OCTET_START..BRIDGE_OCTET_END}"

fun file_wf :: "allocations_file \<Rightarrow> bool" where
  "file_wf (Holds allocs) = allocations_wf allocs"
| "file_wf _ = True"

lemma first_free_eq:
  "first_free octets allocs =
     (case find (\<lambda>octet. octet \<notin> snd ` set (containers allocs)) octets of
        None \<Rightarrow> Err (Net_error (NoBridgeSubnetsAvailable BRIDGE_OCTET_START BRIDGE_OCTET_END))
      | Some octet \<Rightarrow> Ok octet)"
  by (induction octets) simp_all

lemma set_bridge_octets: "set bridge_octets = {BRIDGE_OCTET_START..BRIDGE_OCTET_END}"
  unfolding bridge_octets_def by (rule set_word_range)

lemma card_bridge_octets: "card {BRIDGE_OCTET_START..BRIDGE_OCTET_END} = 200"
  by (simp add: card_word_range) (simp add: BRIDGE_OCTET_START_def BRIDGE_OCTET_END_def)

lemma next_free_Ok:
  "next_free_bridge_octet allocs = Ok octet \<Longrightarrow>
     octet \<in> {BRIDGE_OCTET_START..BRIDGE_OCTET_END} \<and> octet \<notin> snd ` set (containers allocs)"
  unfolding next_free_bridge_octet_def first_free_eq set_bridge_octets [symmetric]
  by (auto simp: find_Some_iff split: option.splits)

lemma next_free_Err:
  "next_free_bridge_octet allocs = Err e \<longleftrightarrow>
     {BRIDGE_OCTET_START..BRIDGE_OCTET_END} \<subseteq> snd ` set (containers allocs) \<and>
     e = Net_error (NoBridgeSubnetsAvailable BRIDGE_OCTET_START BRIDGE_OCTET_END)"
  unfolding next_free_bridge_octet_def first_free_eq set_bridge_octets [symmetric]
  by (auto simp: find_None_iff find_Some_iff subset_iff split: option.splits)

lemma mset_bt_insert: "k \<notin> fst ` set m \<Longrightarrow> mset (bt_insert k v m) = add_mset (k, v) (mset m)"
  by (induction k v m rule: bt_insert.induct) (auto split: ordering.split)

lemma allocations_wf_insert:
  assumes "allocations_wf allocs" "map_of (containers allocs) cid = None"
    and "next_free_bridge_octet allocs = Ok octet"
  shows "allocations_wf (allocs\<lparr>containers := bt_insert cid octet (containers allocs)\<rparr>)"
proof -
  let ?m = "containers allocs"
  have "cid \<notin> fst ` set ?m" using assms(2) by (simp add: map_of_eq_None_iff)
  then have m: "mset (map snd (bt_insert cid octet ?m)) = mset (octet # map snd ?m)"
    by (simp add: mset_bt_insert mset_map)
  then have "distinct (map snd (bt_insert cid octet ?m)) \<longleftrightarrow> distinct (octet # map snd ?m)"
    by (rule mset_eq_imp_distinct_iff)
  moreover have "set (map snd (bt_insert cid octet ?m)) = insert octet (snd ` set ?m)"
    using m by (metis list.set_map list.simps(15) mset_eq_setD)
  ultimately show ?thesis
    using assms(1) next_free_Ok [OF assms(3)] by (simp add: allocations_wf_def btree_simps)
qed

lemma allocations_wf_remove:
  "allocations_wf allocs \<Longrightarrow> allocations_wf (allocs\<lparr>containers := bt_remove cid (containers allocs)\<rparr>)"
  by (auto simp: allocations_wf_def btree_simps) (auto simp: bt_remove_def distinct_map_filter)

text \<open>A failed write leaves the old table or something unreadable, not a different table.\<close>

definition benign :: "allocations_file \<Rightarrow> write_fault \<Rightarrow> bool" where
  "benign file fault \<longleftrightarrow> (case fault of None \<Rightarrow> True | Some (e, left) \<Rightarrow> left = file \<or> (\<exists>e. left = Unreadable e))"

text \<open>The tables that any sequence of allocations and releases, by any containers, can produce.\<close>

inductive alloc_reachable :: "allocations_file \<Rightarrow> bool" where
  start: "alloc_reachable Absent"
| allocate: "alloc_reachable file \<Longrightarrow> benign file fault \<Longrightarrow>
     alloc_reachable (fst (allocate_bridge_network lock fault cid file))"
| release: "alloc_reachable file \<Longrightarrow> benign file fault \<Longrightarrow>
     alloc_reachable (fst (release_bridge_network lock fault cid file))"

lemma read_allocations_wf: "file_wf file \<Longrightarrow> read_allocations file = Ok allocs \<Longrightarrow> allocations_wf allocs"
  by (cases "file") (auto simp: default_allocations_def allocations_wf_def btree_simps)

lemma save_allocations_wf:
  "allocations_wf allocs \<Longrightarrow> file_wf file \<Longrightarrow> benign file fault \<Longrightarrow> file_wf (fst (save_allocations fault allocs))"
  by (auto simp: save_allocations_def benign_def split: option.splits)

lemma allocate_wf:
  assumes "file_wf file" "benign file fault"
  shows "file_wf (fst (allocate_bridge_network lock fault cid file))"
  using assms
  by (auto simp: allocate_bridge_network_def split: result.splits option.splits prod.splits
      dest: read_allocations_wf allocations_wf_insert intro: save_allocations_wf)
    (metis allocations_wf_insert fst_conv read_allocations_wf save_allocations_wf)

lemma release_wf:
  assumes "file_wf file" "benign file fault"
  shows "file_wf (fst (release_bridge_network lock fault cid file))"
  using assms
  by (auto simp: release_bridge_network_def split: result.splits
      dest: read_allocations_wf intro: save_allocations_wf allocations_wf_remove)

lemma alloc_reachable_wf: "alloc_reachable file \<Longrightarrow> file_wf file"
  by (induction rule: alloc_reachable.induct) (auto intro: allocate_wf release_wf)

lemma allocations_wf_value_inj:
  assumes "allocations_wf allocs" "map_of (containers allocs) c = Some octet" "map_of (containers allocs) d = Some octet"
  shows "c = d"
proof -
  have "(c, octet) \<in> set (containers allocs)" "(d, octet) \<in> set (containers allocs)"
    using assms(2,3) by (auto dest: map_of_SomeD)
  moreover have "distinct (map snd (containers allocs))"
    using assms(1) by (simp add: allocations_wf_def)
  ultimately show ?thesis by (metis distinct_map inj_onD prod.inject snd_conv)
qed

lemma bridge_networks_differ:
  "octet \<noteq> octet' \<Longrightarrow>
     bn_subnet (bridge_for_container_id c octet) \<noteq> bn_subnet (bridge_for_container_id d octet')"
proof
  assume "octet \<noteq> octet'"
    and "bn_subnet (bridge_for_container_id c octet) = bn_subnet (bridge_for_container_id d octet')"
  then have "nat_dec (unat octet) = nat_dec (unat octet')"
    by (simp add: bridge_for_container_id_def for_octet_def)
  then show False using \<open>octet \<noteq> octet'\<close> by (simp add: nat_dec_inj word_unat_eq_iff)
qed

subsection \<open>Properties of the table\<close>

text \<open>
  C8: whatever allocations and releases were made before, by whatever containers and with whatever
  failures to lock or write, two different containers that hold a subnet hold different ones,
  and every subnet held lies between \<^verbatim>\<open>10.88.20.0/24\<close> and \<^verbatim>\<open>10.88.219.0/24\<close>.
\<close>

theorem subnets_never_shared:
  assumes "alloc_reachable (Holds allocs)"
    and "map_of (containers allocs) c = Some octet" "map_of (containers allocs) d = Some octet'" "c \<noteq> d"
  shows "bn_subnet (bridge_for_container_id c octet) \<noteq> bn_subnet (bridge_for_container_id d octet') \<and>
    20 \<le> unat octet \<and> unat octet \<le> 219"
proof -
  have wf: "allocations_wf allocs" using alloc_reachable_wf [OF assms(1)] by simp
  have "octet \<noteq> octet'" using allocations_wf_value_inj [OF wf assms(2)] assms(3,4) by blast
  moreover have "octet \<in> {BRIDGE_OCTET_START..BRIDGE_OCTET_END}"
    using wf map_of_SomeD [OF assms(2)] by (force simp: allocations_wf_def)
  ultimately show ?thesis
    by (simp add: bridge_networks_differ) (simp add: BRIDGE_OCTET_START_def BRIDGE_OCTET_END_def word_le_nat_alt)
qed

theorem subnets_never_shared_witness:
  "\<exists>allocs octet octet'. alloc_reachable (Holds allocs) \<and>
     map_of (containers allocs) ''web'' = Some octet \<and> map_of (containers allocs) ''db'' = Some octet' \<and>
     bn_subnet (bridge_for_container_id ''web'' octet) \<noteq> bn_subnet (bridge_for_container_id ''db'' octet')"
proof -
  let ?f1 = "fst (allocate_bridge_network (Ok ()) None ''web'' Absent)"
  let ?f2 = "fst (allocate_bridge_network (Ok ()) None ''db'' ?f1)"
  have upt: "[20..<Suc (Suc (k + 20))] = 20 # 21 # [22..<Suc (Suc (k + 20))]" for k
    by (simp add: upt_conv_Cons)
  have octets: "bridge_octets = 20 # 21 # map word_of_nat [22..<220]"
    using upt [of 198] by (simp add: bridge_octets_def BRIDGE_OCTET_START_def BRIDGE_OCTET_END_def del: upt_Suc)
  have f2: "?f2 = Holds \<lparr>containers = [(''db'', 21), (''web'', 20)]\<rparr>"
    by (simp add: allocate_bridge_network_def default_allocations_def next_free_bridge_octet_def octets
        save_allocations_def cmp_def)
  have "alloc_reachable ?f2"
    by (intro alloc_reachable.intros) (simp_all add: benign_def)
  then have r: "alloc_reachable (Holds \<lparr>containers = [(''db'', 21), (''web'', 20)]\<rparr>)" by (simp only: f2)
  show ?thesis
    using subnets_never_shared [OF r, of "''web''" 20 "''db''" 21] r
    by (intro exI [of _ "\<lparr>containers = [(''db'', 21), (''web'', 20)]\<rparr>"] exI [of _ 20] exI [of _ 21]) simp
qed

text \<open>
  C33: a successful allocation records exactly one new entry, for the container itself, and returns
  its network; asking again returns the same network and writes nothing; releasing then
  removes that entry and no other.
\<close>

theorem allocate_release_round_trip:
  assumes "file_wf file" and "allocate_bridge_network (Ok ()) None cid file = (file', Ok net)"
  shows "\<exists>allocs allocs' octet.
    read_allocations file = Ok allocs \<and> read_allocations file' = Ok allocs' \<and>
    net = bridge_for_container_id cid octet \<and>
    map_of (containers allocs') = (map_of (containers allocs))(cid \<mapsto> octet) \<and>
    allocate_bridge_network (Ok ()) None cid file' = (file', Ok net) \<and>
    (\<exists>allocs''. release_bridge_network (Ok ()) None cid file' = (Holds allocs'', Ok ()) \<and>
       map_of (containers allocs'') = (map_of (containers allocs))(cid := None))"
proof -
  obtain allocs where allocs: "read_allocations file = Ok allocs"
    using assms(2) by (auto simp: allocate_bridge_network_def split: result.splits)
  have wf: "bt_invar (containers allocs)"
    using read_allocations_wf [OF assms(1) allocs] by (simp add: allocations_wf_def)
  show ?thesis
  proof (cases "map_of (containers allocs) cid")
    case (Some octet)
    then show ?thesis
      using assms(2) allocs wf
      by (auto simp: allocate_bridge_network_def release_bridge_network_def save_allocations_def btree_simps
          map_of_bt_remove fun_eq_iff)
  next
    case None
    then obtain octet where "next_free_bridge_octet allocs = Ok octet"
      using assms(2) allocs by (auto simp: allocate_bridge_network_def split: result.splits)
    then show ?thesis
      using assms(2) allocs wf None
      by (auto simp: allocate_bridge_network_def release_bridge_network_def save_allocations_def btree_simps
          map_of_bt_remove fun_eq_iff)
  qed
qed

theorem allocate_release_round_trip_witness:
  "\<exists>net. allocate_bridge_network (Ok ()) None ''web'' (Holds \<lparr>containers = [(''web'', 33)]\<rparr>)
      = (Holds \<lparr>containers = [(''web'', 33)]\<rparr>, Ok net) \<and> bn_gateway net = ''10.88.33.1''"
proof -
  let ?f = "Holds \<lparr>containers = [(''web'', 33)]\<rparr>"
  have "file_wf ?f"
    by (simp add: allocations_wf_def bt_invar_def BRIDGE_OCTET_START_def BRIDGE_OCTET_END_def)
  moreover have "allocate_bridge_network (Ok ()) None ''web'' ?f = (?f, Ok (bridge_for_container_id ''web'' 33))"
    by (simp add: allocate_bridge_network_def)
  note allocate_release_round_trip [OF calculation this]
  then have "allocate_bridge_network (Ok ()) None ''web'' ?f = (?f, Ok (bridge_for_container_id ''web'' 33))"
    by (elim exE conjE)
  moreover have "nat_dec 33 = ''33''" by code_simp
  then have "bn_gateway (bridge_for_container_id ''web'' 33) = ''10.88.33.1''"
    by (simp add: bridge_for_container_id_def for_octet_def)
  ultimately show ?thesis by (intro exI conjI)
qed

text \<open>
  C34: with the lock held and working storage, a container that has no subnet yet is refused exactly when
  two hundred containers hold one, and then with the error that names the range.
\<close>

theorem allocation_exhausted:
  assumes "allocations_wf allocs" and "map_of (containers allocs) cid = None"
  shows "snd (allocate_bridge_network (Ok ()) None cid (Holds allocs)) = Err e \<longleftrightarrow>
    length (containers allocs) = 200 \<and> e = Net_error (NoBridgeSubnetsAvailable 20 219)"
proof -
  let ?used = "snd ` set (containers allocs)" and ?range = "{BRIDGE_OCTET_START..BRIDGE_OCTET_END}"
  have used: "?used \<subseteq> ?range" "card ?used = length (containers allocs)"
    using assms(1) distinct_card [of "map snd (containers allocs)"] by (simp_all add: allocations_wf_def)
  have "?range \<subseteq> ?used \<longleftrightarrow> card ?used = card ?range"
    using used(1) card_subset_eq [OF finite used(1)] by (metis subset_antisym order_refl)
  then have "next_free_bridge_octet allocs = Err e' \<longleftrightarrow>
      length (containers allocs) = 200 \<and> e' = Net_error (NoBridgeSubnetsAvailable 20 219)" for e'
    unfolding next_free_Err card_bridge_octets used(2)
    by (simp add: BRIDGE_OCTET_START_def BRIDGE_OCTET_END_def)
  then show ?thesis
    using assms(2)
    by (cases "next_free_bridge_octet allocs")
      (auto simp: allocate_bridge_network_def save_allocations_def)
qed

theorem allocation_exhausted_witness:
  "snd (allocate_bridge_network (Ok ()) None ''db'' (Holds \<lparr>containers = [(''web'', 33)]\<rparr>)) \<noteq>
     Err (Net_error (NoBridgeSubnetsAvailable 20 219))"
proof -
  have "allocations_wf \<lparr>containers = [(''web'', 33)]\<rparr>"
    by (simp add: allocations_wf_def bt_invar_def BRIDGE_OCTET_START_def BRIDGE_OCTET_END_def)
  then show ?thesis
    using allocation_exhausted [of "\<lparr>containers = [(''web'', 33)]\<rparr>" "''db''"] by simp
qed

text \<open>
  Link names have thirteen characters, below the kernel's limit of fifteen, and a
  container's two ends never have the same name; but two different valid ids can be given
  the same link, because the token is a 32-bit hash of the id.
\<close>

lemma veth_names:
  "length (vp_host_name (veth_for_container_id cid)) = 13 \<and>
   length (vp_peer_name (veth_for_container_id cid)) = 13 \<and>
   vp_host_name (veth_for_container_id cid) \<noteq> vp_peer_name (veth_for_container_id cid) \<and>
   veth_for_container_id ''declinate'' = veth_for_container_id ''macallums''"
proof -
  have "length (hex_digits n v) = n" for n v
    by (induction n arbitrary: v) simp_all
  moreover have "fold fnv_step ''declinate'' 2166136261 = fold fnv_step ''macallums'' 2166136261"
    by (simp add: fnv_step_def)
  ultimately show ?thesis
    by (simp add: veth_for_container_id_def stable_veth_token_def Let_def)
qed

end
