(* ===== verification/Alloc_Lock.thy ===== *)
theory Alloc_Lock
  imports Network
begin

text \<open>
  The lock on the subnet table in \<^verbatim>\<open>src/network/mod.rs\<close>: a directory, created to acquire it and removed
  to release it, holding a file that names its owner. A lock whose owner is gone counts as stale and is
  removed by whoever waits. The operations of several processes interleave at the granularity of the
  file-system calls; \<open>lock_step\<close> is one such call.
\<close>

definition STALE_LOCK_AFTER_SECS :: u64 where "STALE_LOCK_AFTER_SECS = 30"

record allocation_lock_owner =
  owner_pid :: u32
  owner_starttime :: "u64 option"
  owner_created_at_unix :: u64

text \<open>A missing owner file reads as process 0. Files that exist parse, since only this code writes them.\<close>

definition read_lock_owner :: "allocation_lock_owner option \<Rightarrow> allocation_lock_owner" where
  "read_lock_owner file =
     (case file of
        Some owner \<Rightarrow> owner
      | None \<Rightarrow> \<lparr>owner_pid = 0, owner_starttime = None, owner_created_at_unix = 0\<rparr>)"

definition u64_saturating_sub :: "u64 \<Rightarrow> u64 \<Rightarrow> u64" where
  "u64_saturating_sub x y = (if x \<le> y then 0 else x - y)"

definition i32_try_from_u32 :: "u32 \<Rightarrow> int" where
  "i32_try_from_u32 pid = (if uint pid < 2 ^ 31 then uint pid else 2 ^ 31 - 1)"

text \<open>\<open>starttime\<close> answers the start time of a live process; \<open>now\<close> is the clock.\<close>

definition allocation_lock_is_stale ::
    "(int \<Rightarrow> u64 option) \<Rightarrow> u64 \<Rightarrow> allocation_lock_owner option \<Rightarrow> bool" where
  "allocation_lock_is_stale starttime now file =
     (let owner = read_lock_owner file;
          current = starttime (i32_try_from_u32 (owner_pid owner))
      in if owner_pid owner = 0 then True
         else case owner_starttime owner of
           Some expected \<Rightarrow> current \<noteq> Some expected
         | None \<Rightarrow> if current = None then True
             else STALE_LOCK_AFTER_SECS < u64_saturating_sub now (owner_created_at_unix owner))"

definition lock_owner_of :: "(int \<Rightarrow> u64 option) \<Rightarrow> u64 \<Rightarrow> u32 \<Rightarrow> allocation_lock_owner" where
  "lock_owner_of starttime now pid =
     \<lparr>owner_pid = pid, owner_starttime = starttime (i32_try_from_u32 pid), owner_created_at_unix = now\<rparr>"

subsection \<open>Interleaved acquisition\<close>

text \<open>Where a process is in \<^verbatim>\<open>acquire_allocation_lock\<close>.\<close>

datatype lock_pc = Trying | Made_dir | Saw_stale | Holding | Gave_up

text \<open>\<open>lock_dir\<close>: \<open>None\<close> when the directory is missing, otherwise its owner file, if written.\<close>

record lock_state =
  lock_pcs :: "u32 \<Rightarrow> lock_pc"
  lock_dir :: "allocation_lock_owner option option"

inductive lock_step :: "(int \<Rightarrow> u64 option) \<Rightarrow> lock_state \<Rightarrow> lock_state \<Rightarrow> bool" for starttime where
  create_dir: "lock_pcs s p = Trying \<Longrightarrow> lock_dir s = None \<Longrightarrow>
     lock_step starttime s (s\<lparr>lock_pcs := (lock_pcs s)(p := Made_dir), lock_dir := Some None\<rparr>)"
| write_owner: "lock_pcs s p = Made_dir \<Longrightarrow> lock_dir s \<noteq> None \<Longrightarrow>
     lock_step starttime s (s\<lparr>lock_pcs := (lock_pcs s)(p := Holding),
                              lock_dir := Some (Some (lock_owner_of starttime now p))\<rparr>)"
| write_owner_fails: "lock_pcs s p = Made_dir \<Longrightarrow> lock_dir s = None \<Longrightarrow>
     lock_step starttime s (s\<lparr>lock_pcs := (lock_pcs s)(p := Gave_up)\<rparr>)"
| find_stale: "lock_pcs s p = Trying \<Longrightarrow> lock_dir s = Some owner \<Longrightarrow> allocation_lock_is_stale starttime now owner \<Longrightarrow>
     lock_step starttime s (s\<lparr>lock_pcs := (lock_pcs s)(p := Saw_stale)\<rparr>)"
| remove_stale: "lock_pcs s p = Saw_stale \<Longrightarrow> lock_dir s \<noteq> None \<Longrightarrow>
     lock_step starttime s (s\<lparr>lock_pcs := (lock_pcs s)(p := Trying), lock_dir := None\<rparr>)"
| remove_stale_fails: "lock_pcs s p = Saw_stale \<Longrightarrow> lock_dir s = None \<Longrightarrow>
     lock_step starttime s (s\<lparr>lock_pcs := (lock_pcs s)(p := Gave_up)\<rparr>)"
| time_out: "lock_pcs s p = Trying \<Longrightarrow> lock_dir s \<noteq> None \<Longrightarrow>
     lock_step starttime s (s\<lparr>lock_pcs := (lock_pcs s)(p := Gave_up)\<rparr>)"
| release: "lock_pcs s p = Holding \<Longrightarrow>
     lock_step starttime s (s\<lparr>lock_pcs := (lock_pcs s)(p := Gave_up), lock_dir := None\<rparr>)"
| retry: "lock_pcs s p = Gave_up \<Longrightarrow>
     lock_step starttime s (s\<lparr>lock_pcs := (lock_pcs s)(p := Trying)\<rparr>)"

definition lock_init :: lock_state where
  "lock_init = \<lparr>lock_pcs = (\<lambda>_. Trying), lock_dir = None\<rparr>"

inductive lock_reachable :: "(int \<Rightarrow> u64 option) \<Rightarrow> lock_state \<Rightarrow> bool" for starttime where
  init: "lock_reachable starttime lock_init"
| step: "lock_reachable starttime s \<Longrightarrow> lock_step starttime s s' \<Longrightarrow> lock_reachable starttime s'"

text \<open>Runs in which nobody ever takes the lock for stale.\<close>

inductive lock_calm :: "(int \<Rightarrow> u64 option) \<Rightarrow> lock_state \<Rightarrow> bool" for starttime where
  init: "lock_calm starttime lock_init"
| step: "lock_calm starttime s \<Longrightarrow> lock_step starttime s s' \<Longrightarrow> \<forall>p. lock_pcs s' p \<noteq> Saw_stale \<Longrightarrow>
     lock_calm starttime s'"

subsection \<open>Exclusion\<close>

text \<open>At most one process is between creating and removing the directory, and only while it exists.\<close>

definition exclusive :: "lock_state \<Rightarrow> bool" where
  "exclusive s \<longleftrightarrow>
     (\<forall>p q. lock_pcs s p \<in> {Made_dir, Holding} \<longrightarrow> lock_pcs s q \<in> {Made_dir, Holding} \<longrightarrow> p = q) \<and>
     (lock_dir s = None \<longrightarrow> (\<forall>p. lock_pcs s p \<notin> {Made_dir, Holding})) \<and>
     (\<forall>p. lock_pcs s p \<noteq> Saw_stale)"

lemma exclusive_step:
  assumes "exclusive s" "lock_step starttime s s'" "\<forall>p. lock_pcs s' p \<noteq> Saw_stale"
  shows "exclusive s'"
  using assms(2)
proof (cases rule: lock_step.cases)
  case (create_dir p)
  then show ?thesis using assms(1) by (auto simp: exclusive_def)
next
  case (write_owner p now)
  then show ?thesis using assms(1) unfolding exclusive_def by (auto split: if_splits)
next
  case (write_owner_fails p)
  then show ?thesis using assms(1) unfolding exclusive_def by (auto split: if_splits)
next
  case (find_stale p owner now)
  then have "lock_pcs s' p = Saw_stale" by simp
  then show ?thesis using assms(3) by blast
next
  case (remove_stale p)
  then show ?thesis using assms(1) by (auto simp: exclusive_def)
next
  case (remove_stale_fails p)
  then show ?thesis using assms(1) by (auto simp: exclusive_def)
next
  case (time_out p)
  then show ?thesis using assms(1) unfolding exclusive_def by (auto split: if_splits)
next
  case (release p)
  then show ?thesis using assms(1) unfolding exclusive_def by (auto split: if_splits)
next
  case (retry p)
  then show ?thesis using assms(1) unfolding exclusive_def by (auto split: if_splits)
qed

lemma lock_calm_exclusive: "lock_calm starttime s \<Longrightarrow> exclusive s"
proof (induction rule: lock_calm.induct)
  case init
  then show ?case by (simp add: exclusive_def lock_init_def)
next
  case (step s s')
  then show ?case using exclusive_step by blast
qed

subsection \<open>Properties\<close>

text \<open>
  A lock whose owner is alive and is the process that took it is never taken for stale, and a lock
  that was left by a process that is gone always is.
\<close>

lemma stale_only_if_owner_gone:
  "0 < pid \<Longrightarrow> allocation_lock_is_stale starttime now (Some (lock_owner_of before created pid)) \<longleftrightarrow>
     (case before (i32_try_from_u32 pid) of
        Some t \<Rightarrow> starttime (i32_try_from_u32 pid) \<noteq> Some t
      | None \<Rightarrow> starttime (i32_try_from_u32 pid) = None \<or> 30 < u64_saturating_sub now created)"
  by (auto simp: allocation_lock_is_stale_def lock_owner_of_def read_lock_owner_def Let_def
      STALE_LOCK_AFTER_SECS_def split: option.split)

lemma stale_only_if_owner_gone_example:
  "\<not> allocation_lock_is_stale (\<lambda>pid. if pid = 7 then Some 100 else None) 500
      (Some (lock_owner_of (\<lambda>pid. Some 100) 1 7))"
  using stale_only_if_owner_gone [of 7 "\<lambda>pid. if pid = 7 then Some 100 else None" 500 "\<lambda>pid. Some 100" 1]
  by (simp add: i32_try_from_u32_def)

text \<open>
  In every interleaving in which no process takes the lock for stale, at most one process holds it.
\<close>

lemma lock_exclusive_when_calm:
  assumes "lock_calm starttime s" and "lock_pcs s p = Holding" "lock_pcs s q = Holding"
  shows "p = q"
  using lock_calm_exclusive [OF assms(1)] assms(2,3) by (auto simp: exclusive_def)

lemma lock_exclusive_when_calm_example:
  "\<exists>s. lock_calm (\<lambda>_. Some 0) s \<and> lock_pcs s 1 = Holding \<and> lock_pcs s 2 \<noteq> Holding"
proof -
  let ?st = "\<lambda>_ :: int. Some (0 :: u64)"
  let ?s1 = "lock_init\<lparr>lock_pcs := (lock_pcs lock_init)(1 := Made_dir), lock_dir := Some None\<rparr>"
  let ?s2 = "?s1\<lparr>lock_pcs := (lock_pcs ?s1)(1 := Holding), lock_dir := Some (Some (lock_owner_of ?st 0 1))\<rparr>"
  have "lock_calm ?st ?s1"
    by (rule lock_calm.step [OF lock_calm.init lock_step.create_dir]) (simp_all add: lock_init_def)
  then have calm: "lock_calm ?st ?s2"
    by (rule lock_calm.step [OF _ lock_step.write_owner]) (simp_all add: lock_init_def)
  then show ?thesis
    using lock_exclusive_when_calm [OF calm, of 1 2] by (intro exI [of _ ?s2]) auto
qed

text \<open>
  C36: the lock does not exclude in general: a process that looks between another's creation of the
  directory and its writing of the owner file takes the lock for stale, removes the lock the other one
  has acquired meanwhile, and acquires it too.
\<close>

theorem lock_can_be_held_twice:
  "\<exists>s. lock_reachable (\<lambda>_. Some 0) s \<and> lock_pcs s 1 = Holding \<and> lock_pcs s 2 = Holding"
proof -
  let ?st = "\<lambda>_ :: int. Some (0 :: u64)"
  let ?st1 = "lock_owner_of ?st 0 1" and ?st2 = "lock_owner_of ?st 0 2"
  define f where "f = (\<lambda>a b (p :: u32). if p = 1 then a else if p = 2 then b else Trying :: lock_pc)"
  have upd: "(f a b)(1 := c) = f c b" "(f a b)(2 := c) = f a c" for a b c :: lock_pc
    by (auto simp: f_def fun_eq_iff)
  have f: "f a b 1 = a" "f a b (2 :: u32) = b" for a b :: lock_pc by (simp_all add: f_def)
  have 0: "lock_reachable ?st \<lparr>lock_pcs = f Trying Trying, lock_dir = None\<rparr>"
    using lock_reachable.init [of ?st] by (simp add: lock_init_def f_def cong: if_cong)
  note next_state = lock_reachable.step [where starttime = ?st]
  have 1: "lock_reachable ?st \<lparr>lock_pcs = f Made_dir Trying, lock_dir = Some None\<rparr>"
    using next_state [OF 0 lock_step.create_dir [where p = 1]] by (simp add: f upd)
  have 2: "lock_reachable ?st \<lparr>lock_pcs = f Made_dir Saw_stale, lock_dir = Some None\<rparr>"
    using next_state [OF 1 lock_step.find_stale [where p = 2 and now = 0]]
    by (simp add: f upd allocation_lock_is_stale_def read_lock_owner_def)
  have 3: "lock_reachable ?st \<lparr>lock_pcs = f Holding Saw_stale, lock_dir = Some (Some ?st1)\<rparr>"
    using next_state [OF 2 lock_step.write_owner [where p = 1 and now = 0]] by (simp add: f upd)
  have 4: "lock_reachable ?st \<lparr>lock_pcs = f Holding Trying, lock_dir = None\<rparr>"
    using next_state [OF 3 lock_step.remove_stale [where p = 2]] by (simp add: f upd)
  have 5: "lock_reachable ?st \<lparr>lock_pcs = f Holding Made_dir, lock_dir = Some None\<rparr>"
    using next_state [OF 4 lock_step.create_dir [where p = 2]] by (simp add: f upd)
  have 6: "lock_reachable ?st \<lparr>lock_pcs = f Holding Holding, lock_dir = Some (Some ?st2)\<rparr>"
    using next_state [OF 5 lock_step.write_owner [where p = 2 and now = 0]] by (simp add: f upd)
  show ?thesis
    by (intro exI [of _ "\<lparr>lock_pcs = f Holding Holding, lock_dir = Some (Some ?st2)\<rparr>"] conjI)
      (rule 6, simp_all add: f)
qed

end
