(* ===== verification/Masquerade.thy ===== *)
theory Masquerade
  imports Network
begin

text \<open>
  The NAT part of \<^verbatim>\<open>src/network/mod.rs\<close>: a container's masquerading rules with the record of which of
  them it added itself (\<^verbatim>\<open>NatLease\<close>). The program \<^verbatim>\<open>iptables\<close> and the forwarding switch in \<^verbatim>\<open>/proc\<close> are
  the parameters of the locale \<open>netfilter\<close>; its assumptions are their documented behaviour: a check never
  changes anything, an append that succeeds has added its rule and a delete that succeeds has removed one copy of
  it. Nothing is assumed of a command that fails: one that is killed at the time limit may have done its work before.
\<close>

record nat_lease =
  nl_subnet :: string
  nl_postrouting_owned :: bool
  nl_forward_source_owned :: bool
  nl_forward_destination_owned :: bool
  nl_previous_ip_forward :: "string option"

type_synonym 'h iptables = "'h \<Rightarrow> string list \<Rightarrow> 'h \<times> (net_error, unit) result"
type_synonym 'h forward_read = "'h \<Rightarrow> string option"
type_synonym 'h forward_write = "'h \<Rightarrow> string \<Rightarrow> 'h \<times> (string, unit) result"

subsection \<open>Rules\<close>

definition postrouting_rule :: "string \<Rightarrow> string \<Rightarrow> string list" where
  "postrouting_rule action subnet =
     [''-t'', ''nat'', action, ''POSTROUTING'', ''-s'', subnet, ''-j'', ''MASQUERADE'']"

definition forward_source_rule :: "string \<Rightarrow> string \<Rightarrow> string list" where
  "forward_source_rule action subnet = [action, ''FORWARD'', ''-s'', subnet, ''-j'', ''ACCEPT'']"

definition forward_destination_rule :: "string \<Rightarrow> string \<Rightarrow> string list" where
  "forward_destination_rule action subnet = [action, ''FORWARD'', ''-d'', subnet, ''-j'', ''ACCEPT'']"

text \<open>\<^verbatim>\<open>position\<close> and the assignment to \<^verbatim>\<open>check_args[action_index]\<close>: the first \<^verbatim>\<open>-A\<close> is replaced.\<close>

fun replace_append :: "string \<Rightarrow> string list \<Rightarrow> string list option" where
  "replace_append action [] = None"
| "replace_append action (arg # args) =
     (if arg = ''-A'' then Some (action # args) else map_option ((#) arg) (replace_append action args))"

definition ensure_iptables_rule :: "'h iptables \<Rightarrow> string list \<Rightarrow> 'h \<Rightarrow> 'h \<times> (net_error, bool) result" where
  "ensure_iptables_rule run add_args h =
     (case replace_append ''-C'' add_args of
        None \<Rightarrow> (h, Err (Net_io ''iptables rule is missing append action''))
      | Some check_args \<Rightarrow>
          (case run h check_args of
             (h, Ok _) \<Rightarrow> (h, Ok False)
           | (h, Err _) \<Rightarrow>
               (case run h add_args of
                  (h, Ok _) \<Rightarrow> (h, Ok True)
                | (h, Err e) \<Rightarrow> (h, Err e))))"

subsection \<open>Setting up and cleaning up\<close>

datatype nat_cleanup_error =
    Postrouting_cleanup_failed net_error
  | Forward_source_cleanup_failed net_error
  | Forward_destination_cleanup_failed net_error
  | Restore_forwarding_failed string

datatype nat_setup_error =
    Enable_forwarding_failed string
  | Nat_setup_failed net_error
  | Nat_rollback_failed net_error "nat_cleanup_error list"

definition cleanup_rule ::
    "'h iptables \<Rightarrow> (net_error \<Rightarrow> nat_cleanup_error) \<Rightarrow> bool \<Rightarrow> string list \<Rightarrow>
     'h \<times> nat_cleanup_error list \<Rightarrow> 'h \<times> nat_cleanup_error list" where
  "cleanup_rule run wrap owned args = (\<lambda>(h, errors).
     if owned
     then (case run h args of (h, Ok _) \<Rightarrow> (h, errors) | (h, Err e) \<Rightarrow> (h, errors @ [wrap e]))
     else (h, errors))"

definition restore_forwarding ::
    "'h forward_write \<Rightarrow> string option \<Rightarrow> 'h \<times> nat_cleanup_error list \<Rightarrow> 'h \<times> nat_cleanup_error list" where
  "restore_forwarding set_fwd previous = (\<lambda>(h, errors).
     case previous of
       None \<Rightarrow> (h, errors)
     | Some v \<Rightarrow>
         if v \<noteq> ''1''
         then (case set_fwd h v of
                 (h, Ok _) \<Rightarrow> (h, errors)
               | (h, Err e) \<Rightarrow> (h, errors @ [Restore_forwarding_failed e]))
         else (h, errors))"

definition cleanup_nat_lease ::
    "'h iptables \<Rightarrow> 'h forward_write \<Rightarrow> nat_lease \<Rightarrow> 'h \<Rightarrow> 'h \<times> (nat_cleanup_error list, unit) result" where
  "cleanup_nat_lease run set_fwd lease h =
     (let s = cleanup_rule run Postrouting_cleanup_failed (nl_postrouting_owned lease)
                (postrouting_rule ''-D'' (nl_subnet lease)) (h, []);
          s = cleanup_rule run Forward_source_cleanup_failed (nl_forward_source_owned lease)
                (forward_source_rule ''-D'' (nl_subnet lease)) s;
          s = cleanup_rule run Forward_destination_cleanup_failed (nl_forward_destination_owned lease)
                (forward_destination_rule ''-D'' (nl_subnet lease)) s;
          (h, errors) = restore_forwarding set_fwd (nl_previous_ip_forward lease) s
      in (h, if errors = [] then Ok () else Err errors))"

text \<open>The closure of \<^verbatim>\<open>setup_nat\<close>: three rules in turn, each recorded in the lease when it was added.\<close>

definition setup_rules ::
    "'h iptables \<Rightarrow> nat_lease \<Rightarrow> 'h \<Rightarrow> 'h \<times> nat_lease \<times> (net_error, unit) result" where
  "setup_rules run lease h =
     (case ensure_iptables_rule run (postrouting_rule ''-A'' (nl_subnet lease)) h of
        (h, Err e) \<Rightarrow> (h, lease, Err e)
      | (h, Ok owned) \<Rightarrow>
          let lease = lease\<lparr>nl_postrouting_owned := owned\<rparr> in
          (case ensure_iptables_rule run (forward_source_rule ''-A'' (nl_subnet lease)) h of
             (h, Err e) \<Rightarrow> (h, lease, Err e)
           | (h, Ok owned) \<Rightarrow>
               let lease = lease\<lparr>nl_forward_source_owned := owned\<rparr> in
               (case ensure_iptables_rule run (forward_destination_rule ''-A'' (nl_subnet lease)) h of
                  (h, Err e) \<Rightarrow> (h, lease, Err e)
                | (h, Ok owned) \<Rightarrow> (h, lease\<lparr>nl_forward_destination_owned := owned\<rparr>, Ok ()))))"

definition setup_nat ::
    "'h iptables \<Rightarrow> 'h forward_read \<Rightarrow> 'h forward_write \<Rightarrow> string \<Rightarrow> 'h \<Rightarrow> 'h \<times> (nat_setup_error, nat_lease) result" where
  "setup_nat run get_fwd set_fwd subnet h =
     (let previous = map_option trim (get_fwd h);
          (h, enabled) = (if previous \<noteq> Some ''1'' then set_fwd h ''1'' else (h, Ok ()))
      in case enabled of
           Err e \<Rightarrow> (h, Err (Enable_forwarding_failed e))
         | Ok _ \<Rightarrow>
             (case setup_rules run
                 \<lparr>nl_subnet = subnet, nl_postrouting_owned = False, nl_forward_source_owned = False,
                  nl_forward_destination_owned = False, nl_previous_ip_forward = previous\<rparr> h of
                (h, lease, Ok _) \<Rightarrow> (h, Ok lease)
              | (h, lease, Err e) \<Rightarrow>
                  (case cleanup_nat_lease run set_fwd lease h of
                     (h, Ok _) \<Rightarrow> (h, Err (Nat_setup_failed e))
                   | (h, Err errors) \<Rightarrow> (h, Err (Nat_rollback_failed e errors)))))"

definition cleanup_nat ::
    "'h iptables \<Rightarrow> 'h forward_write \<Rightarrow> string \<Rightarrow> 'h \<Rightarrow> 'h \<times> (nat_cleanup_error list, unit) result" where
  "cleanup_nat run set_fwd subnet h =
     cleanup_nat_lease run set_fwd
       \<lparr>nl_subnet = subnet, nl_postrouting_owned = True, nl_forward_source_owned = True,
        nl_forward_destination_owned = True, nl_previous_ip_forward = None\<rparr> h"

subsection \<open>The kernel's packet filter\<close>

text \<open>The action of a command line is its first action flag; a rule is named by the line that appends it.\<close>

fun action_of :: "string list \<Rightarrow> string option" where
  "action_of [] = None"
| "action_of (arg # args) = (if arg \<in> {''-A'', ''-C'', ''-D''} then Some arg else action_of args)"

definition nat_rules :: "string \<Rightarrow> string list set" where
  "nat_rules subnet = {postrouting_rule ''-A'' subnet, forward_source_rule ''-A'' subnet, forward_destination_rule ''-A'' subnet}"

lemma replace_append_defined: "action_of rule = Some ''-A'' \<Longrightarrow> \<exists>args. replace_append action rule = Some args"
  by (induction rule) (auto split: if_splits)

locale netfilter =
  fixes run :: "'h iptables"
    and get_fwd :: "'h forward_read"
    and set_fwd :: "'h forward_write"
    and rules :: "'h \<Rightarrow> string list multiset"
  assumes check: "action_of rule = Some ''-A'' \<Longrightarrow> replace_append ''-C'' rule = Some args \<Longrightarrow> fst (run h args) = h"
    and append_ok: "action_of rule = Some ''-A'' \<Longrightarrow> run h rule = (h', Ok u) \<Longrightarrow>
      rules h' = add_mset rule (rules h)"
    and delete_ok: "action_of rule = Some ''-A'' \<Longrightarrow> replace_append ''-D'' rule = Some args \<Longrightarrow> run h args = (h', Ok u) \<Longrightarrow>
      rule \<in># rules h \<and> rules h' = rules h - {#rule#}"
    and run_forward: "run h args = (h', r) \<Longrightarrow> map_option trim (get_fwd h') = map_option trim (get_fwd h)"
    and write_rules: "rules (fst (set_fwd h v)) = rules h"
    and write_ok: "set_fwd h v = (h', Ok u) \<Longrightarrow> map_option trim (get_fwd h') = Some v"
begin

text \<open>The rules a lease says were added.\<close>

definition owned :: "nat_lease \<Rightarrow> string list multiset" where
  "owned lease =
     (if nl_postrouting_owned lease then {#postrouting_rule ''-A'' (nl_subnet lease)#} else {#}) +
     (if nl_forward_source_owned lease then {#forward_source_rule ''-A'' (nl_subnet lease)#} else {#}) +
     (if nl_forward_destination_owned lease then {#forward_destination_rule ''-A'' (nl_subnet lease)#} else {#})"

definition forwarding :: "'h \<Rightarrow> string option" where
  "forwarding h = map_option trim (get_fwd h)"

lemma ensure_rule:
  assumes "ensure_iptables_rule run rule h = (h', r)" "action_of rule = Some ''-A''"
  shows "r = Ok b \<Longrightarrow> rules h' = rules h + (if b then {#rule#} else {#})"
    and "r = Err e \<Longrightarrow> run h rule = (h', Err e)" and "forwarding h' = forwarding h"
proof -
  obtain args where args: "replace_append ''-C'' rule = Some args" using replace_append_defined [OF assms(2)] by blast
  then have same: "run h args = (h, snd (run h args))" using check [OF assms(2) args, of h] by (metis prod.collapse)
  have run: "(case snd (run h args) of Ok _ \<Rightarrow> (h, Ok False)
      | Err _ \<Rightarrow> (case run h rule of (h, Ok _) \<Rightarrow> (h, Ok True) | (h, Err e) \<Rightarrow> (h, Err e))) = (h', r)"
    using assms(1) by (subst (asm) ensure_iptables_rule_def) (simp add: args, subst (asm) same, simp)
  show "r = Ok b \<Longrightarrow> rules h' = rules h + (if b then {#rule#} else {#})" "r = Err e \<Longrightarrow> run h rule = (h', Err e)"
    using run append_ok [OF assms(2)] by (auto split: prod.splits result.splits)
  show "forwarding h' = forwarding h"
    using run run_forward [of h rule] unfolding forwarding_def by (auto split: prod.splits result.splits)
qed

lemma append_rules:
  "action_of (postrouting_rule ''-A'' s) = Some ''-A''" "action_of (forward_source_rule ''-A'' s) = Some ''-A''"
  "action_of (forward_destination_rule ''-A'' s) = Some ''-A''"
  by (simp_all add: postrouting_rule_def forward_source_rule_def forward_destination_rule_def)

text \<open>What the three rules have added is in the lease, but for the one whose append failed.\<close>

lemma setup_rules_effect:
  assumes "setup_rules run lease h = (h', lease', r)" "owned lease = {#}"
  shows "r = Ok u \<Longrightarrow> rules h' = rules h + owned lease'"
    and "r = Err e \<Longrightarrow> \<exists>rule h1. rule \<in> nat_rules (nl_subnet lease) \<and> rules h1 = rules h + owned lease' \<and> run h1 rule = (h', Err e)"
    and "forwarding h' = forwarding h"
    and "nl_subnet lease' = nl_subnet lease" and "nl_previous_ip_forward lease' = nl_previous_ip_forward lease"
proof -
  let ?s = "nl_subnet lease"
  have un: "\<not> nl_postrouting_owned lease" "\<not> nl_forward_source_owned lease" "\<not> nl_forward_destination_owned lease"
    using assms(2) by (auto simp: owned_def split: if_splits)
  obtain h1 r1 where 1: "ensure_iptables_rule run (postrouting_rule ''-A'' ?s) h = (h1, r1)" by force
  obtain h2 r2 where 2: "ensure_iptables_rule run (forward_source_rule ''-A'' ?s) h1 = (h2, r2)" by force
  obtain h3 r3 where 3: "ensure_iptables_rule run (forward_destination_rule ''-A'' ?s) h2 = (h3, r3)" by force
  note e = ensure_rule [OF 1 append_rules(1)] ensure_rule [OF 2 append_rules(2)] ensure_rule [OF 3 append_rules(3)]
  note run = assms(1) [unfolded setup_rules_def Let_def, simplified, unfolded 1, simplified]
  show "r = Ok u \<Longrightarrow> rules h' = rules h + owned lease'"
    using run e(1,4,7) un by (auto simp: owned_def 2 3 split: result.splits)
  show "r = Err e \<Longrightarrow> \<exists>rule h1. rule \<in> nat_rules ?s \<and> rules h1 = rules h + owned lease' \<and> run h1 rule = (h', Err e)"
  proof -
    assume r: "r = Err e"
    show ?thesis
    proof (cases r1)
      case (Err e1)
      with run r have "lease' = lease" "run h (postrouting_rule ''-A'' ?s) = (h', Err e)" using e(2) by auto
      then show ?thesis using assms(2) by (intro exI conjI) (simp_all add: nat_rules_def)
    next
      case one: (Ok b1)
      show ?thesis
      proof (cases r2)
        case (Err e2)
        with run r one have "lease' = lease\<lparr>nl_postrouting_owned := b1\<rparr>" "run h1 (forward_source_rule ''-A'' ?s) = (h', Err e)"
          using e(5) by (auto simp: 2)
        then show ?thesis using e(1) one un by (intro exI conjI) (auto simp: nat_rules_def owned_def)
      next
        case two: (Ok b2)
        with run r one have "lease' = lease\<lparr>nl_postrouting_owned := b1, nl_forward_source_owned := b2\<rparr>"
            "run h2 (forward_destination_rule ''-A'' ?s) = (h', Err e)"
          using e(8) by (auto simp: 2 3 split: result.splits)
        then show ?thesis using e(1,4) one two un by (intro exI conjI) (auto simp: nat_rules_def owned_def)
      qed
    qed
  qed
  show "forwarding h' = forwarding h" "nl_subnet lease' = ?s" "nl_previous_ip_forward lease' = nl_previous_ip_forward lease"
    using run e(3,6,9) by (auto simp: 2 3 split: result.splits)
qed

lemma delete_args:
  "replace_append ''-D'' (postrouting_rule ''-A'' s) = Some (postrouting_rule ''-D'' s)"
  "replace_append ''-D'' (forward_source_rule ''-A'' s) = Some (forward_source_rule ''-D'' s)"
  "replace_append ''-D'' (forward_destination_rule ''-A'' s) = Some (forward_destination_rule ''-D'' s)"
  by (simp_all add: postrouting_rule_def forward_source_rule_def forward_destination_rule_def)

lemma cleanup_rule_effect:
  assumes "cleanup_rule run wrap own args (h, errors) = (h', [])" "replace_append ''-D'' rule = Some args"
    "action_of rule = Some ''-A''"
  shows "errors = []" and "rules h = rules h' + (if own then {#rule#} else {#})" and "forwarding h' = forwarding h"
  using assms delete_ok [OF assms(3,2)] run_forward unfolding cleanup_rule_def forwarding_def
  by (auto split: if_splits prod.splits result.splits)

lemma restore_forwarding_effect:
  assumes "restore_forwarding set_fwd previous (h, errors) = (h', [])"
  shows "errors = []" and "rules h' = rules h"
    and "forwarding h' = (if previous = None \<or> previous = Some ''1'' then forwarding h else previous)"
  using assms write_rules [of h] write_ok unfolding restore_forwarding_def forwarding_def
  by (auto split: option.splits if_splits prod.splits result.splits) (metis fst_conv)

lemma cleanup_effect:
  assumes "cleanup_nat_lease run set_fwd lease h = (h', Ok ())"
  shows "rules h = rules h' + owned lease"
    and "forwarding h' = (if nl_previous_ip_forward lease = None \<or> nl_previous_ip_forward lease = Some ''1''
      then forwarding h else nl_previous_ip_forward lease)"
proof -
  let ?s = "nl_subnet lease"
  obtain h1 e1 where 1: "cleanup_rule run Postrouting_cleanup_failed (nl_postrouting_owned lease)
      (postrouting_rule ''-D'' ?s) (h, []) = (h1, e1)" by force
  obtain h2 e2 where 2: "cleanup_rule run Forward_source_cleanup_failed (nl_forward_source_owned lease)
      (forward_source_rule ''-D'' ?s) (h1, e1) = (h2, e2)" by force
  obtain h3 e3 where 3: "cleanup_rule run Forward_destination_cleanup_failed (nl_forward_destination_owned lease)
      (forward_destination_rule ''-D'' ?s) (h2, e2) = (h3, e3)" by force
  have 4: "restore_forwarding set_fwd (nl_previous_ip_forward lease) (h3, e3) = (h', [])"
    using assms by (auto simp: cleanup_nat_lease_def Let_def 1 2 3 split: prod.splits if_splits)
  note r4 = restore_forwarding_effect [OF 4]
  note r3 = cleanup_rule_effect [OF 3 [unfolded r4(1)] delete_args(3) append_rules(3)]
  note r2 = cleanup_rule_effect [OF 2 [unfolded r3(1)] delete_args(2) append_rules(2)]
  note r1 = cleanup_rule_effect [OF 1 [unfolded r2(1)] delete_args(1) append_rules(1)]
  show "rules h = rules h' + owned lease" by (simp add: owned_def r1(2) r2(2) r3(2) r4(2))
  show "forwarding h' = (if nl_previous_ip_forward lease = None \<or> nl_previous_ip_forward lease = Some ''1''
      then forwarding h else nl_previous_ip_forward lease)"
    by (simp add: r4(3) r3(3) r2(3) r1(3))
qed

definition fresh_lease :: "string \<Rightarrow> 'h \<Rightarrow> nat_lease" where
  "fresh_lease subnet h =
     \<lparr>nl_subnet = subnet, nl_postrouting_owned = False, nl_forward_source_owned = False,
      nl_forward_destination_owned = False, nl_previous_ip_forward = forwarding h\<rparr>"

text \<open>Once forwarding is on, what is left of \<open>setup_nat\<close> is the rules and their rollback.\<close>

lemma setup_nat_enabled:
  assumes "setup_nat run get_fwd set_fwd subnet h = (h', r)" "\<nexists>e. r = Err (Enable_forwarding_failed e)"
  obtains h1 where "rules h1 = rules h" "forwarding h1 = Some ''1''"
    "(case setup_rules run (fresh_lease subnet h) h1 of
        (h, lease, Ok _) \<Rightarrow> (h, Ok lease)
      | (h, lease, Err e) \<Rightarrow>
          (case cleanup_nat_lease run set_fwd lease h of
             (h, Ok _) \<Rightarrow> (h, Err (Nat_setup_failed e))
           | (h, Err errors) \<Rightarrow> (h, Err (Nat_rollback_failed e errors)))) = (h', r)"
proof (cases "forwarding h = Some ''1''")
  case True
  then show ?thesis
    using assms by (intro that [of h]) (simp_all add: setup_nat_def fresh_lease_def forwarding_def)
next
  case False
  obtain h1 r1 where w: "set_fwd h ''1'' = (h1, r1)" by force
  then have "rules h1 = rules h" using write_rules [of h "''1''"] by simp
  moreover obtain u where "r1 = Ok u"
    using assms False by (cases r1) (auto simp: setup_nat_def forwarding_def w)
  moreover from this have "forwarding h1 = Some ''1''" using write_ok w by (simp add: forwarding_def)
  ultimately show ?thesis
    using assms False w by (intro that [of h1]) (simp_all add: setup_nat_def fresh_lease_def forwarding_def)
qed

lemma owned_fresh [simp]: "owned (fresh_lease subnet h) = {#}"
  by (simp add: owned_def fresh_lease_def)

lemma setup_nat_Ok:
  assumes "setup_nat run get_fwd set_fwd subnet h = (h', Ok lease)"
  shows "rules h' = rules h + owned lease" and "forwarding h' = Some ''1''"
    and "nl_previous_ip_forward lease = forwarding h"
proof -
  obtain h1 where h1: "rules h1 = rules h" "forwarding h1 = Some ''1''"
    and "setup_rules run (fresh_lease subnet h) h1 = (h', lease, Ok ())"
    by (rule setup_nat_enabled [OF assms]) (auto split: prod.splits result.splits)
  note e = setup_rules_effect [OF this(3) owned_fresh]
  show "rules h' = rules h + owned lease" "forwarding h' = Some ''1''" using e(1,3) h1 by simp_all
  show "nl_previous_ip_forward lease = forwarding h" using e(5) by (simp add: fresh_lease_def)
qed

lemma setup_nat_rolled_back:
  assumes "setup_nat run get_fwd set_fwd subnet h = (h', Err (Nat_setup_failed e))"
  shows "\<exists>rule h1 h2. rule \<in> nat_rules subnet \<and> run h1 rule = (h2, Err e) \<and> rules h' + rules h1 = rules h + rules h2"
    and "forwarding h' = (if forwarding h = None then Some ''1'' else forwarding h)"
proof -
  obtain h0 h2 lease where h0: "rules h0 = rules h" "forwarding h0 = Some ''1''"
    and s: "setup_rules run (fresh_lease subnet h) h0 = (h2, lease, Err e)"
    and c: "cleanup_nat_lease run set_fwd lease h2 = (h', Ok ())"
    by (rule setup_nat_enabled [OF assms]) (auto split: prod.splits result.splits)
  note e = setup_rules_effect [OF s owned_fresh] and k = cleanup_effect [OF c]
  obtain rule h1 where "rule \<in> nat_rules subnet" "rules h1 = rules h + owned lease" "run h1 rule = (h2, Err e)"
    using e(2) h0(1) by (auto simp: fresh_lease_def)
  moreover have "rules h' + rules h1 = rules h + rules h2" using calculation(2) k(1) by simp
  ultimately show "\<exists>rule h1 h2. rule \<in> nat_rules subnet \<and> run h1 rule = (h2, Err e) \<and> rules h' + rules h1 = rules h + rules h2"
    by blast
  show "forwarding h' = (if forwarding h = None then Some ''1'' else forwarding h)"
    using e(3,5) k(2) h0(2) by (auto simp: fresh_lease_def)
qed

end

subsection \<open>A packet filter\<close>

record host =
  host_rules :: "string list list"
  host_ip_forward :: string
  host_refuses :: "string list list"
  host_slow :: "string list list"

text \<open>
  The three actions on lists of rules; a delete or check of a missing rule fails, and so does appending a rule
  the host refuses. Appending a rule for which the host is slow adds it but is killed at the time limit.
\<close>

fun as_append :: "string list \<Rightarrow> string list" where
  "as_append [] = []"
| "as_append (arg # args) =
     (if arg \<in> {''-A'', ''-C'', ''-D''} then ''-A'' # args else arg # as_append args)"

definition host_iptables :: "host iptables" where
  "host_iptables h args =
     (let rule = as_append args; failed = (h, Err (Net_error (CommandFailed ''iptables'' (join '' '' args)))) in
      if action_of args = Some ''-A'' \<and> rule \<notin> set (host_refuses h) then
        (h\<lparr>host_rules := host_rules h @ [rule]\<rparr>,
         if rule \<in> set (host_slow h) then Err (Net_error (CommandTimedOut_Network ''iptables'' (join '' '' args) 10000)) else Ok ())
      else if rule \<notin> set (host_rules h) then failed
      else if action_of args = Some ''-C'' then (h, Ok ())
      else if action_of args = Some ''-D'' then (h\<lparr>host_rules := remove1 rule (host_rules h)\<rparr>, Ok ())
      else failed)"

definition host_read :: "host forward_read" where
  "host_read h = Some (host_ip_forward h)"

definition host_write :: "host forward_write" where
  "host_write h v = (if trim v = v then (h\<lparr>host_ip_forward := v\<rparr>, Ok ()) else (h, Err ''invalid argument''))"

lemma replace_append_first:
  assumes "replace_append action rule = Some args" "action \<in> {''-C'', ''-D''}" "action_of rule = Some ''-A''"
  shows "action_of args = Some action" and "as_append args = rule"
  using assms by (induction rule arbitrary: args) (auto split: if_splits)

interpretation host: netfilter host_iptables host_read host_write "\<lambda>h. mset (host_rules h)"
proof unfold_locales
  fix rule args :: "string list" and h h' :: host and u :: unit
  show "action_of rule = Some ''-A'' \<Longrightarrow> replace_append ''-C'' rule = Some args \<Longrightarrow> fst (host_iptables h args) = h"
    using replace_append_first [of "''-C''" rule args] by (simp add: host_iptables_def Let_def)
  show "action_of rule = Some ''-A'' \<Longrightarrow> host_iptables h rule = (h', Ok u) \<Longrightarrow>
      mset (host_rules h') = add_mset rule (mset (host_rules h))"
  proof -
    assume a: "action_of rule = Some ''-A''" and r: "host_iptables h rule = (h', Ok u)"
    from a have "as_append rule = rule" by (induction rule) (auto split: if_splits)
    with a r show ?thesis by (auto simp: host_iptables_def Let_def split: if_splits)
  qed
  show "action_of rule = Some ''-A'' \<Longrightarrow> replace_append ''-D'' rule = Some args \<Longrightarrow>
      host_iptables h args = (h', Ok u) \<Longrightarrow>
      rule \<in># mset (host_rules h) \<and> mset (host_rules h') = mset (host_rules h) - {#rule#}"
    using replace_append_first [of "''-D''" rule args] by (auto simp: host_iptables_def Let_def split: if_splits)
qed (auto simp: host_iptables_def host_read_def host_write_def Let_def split: if_splits)

subsection \<open>A host for examples\<close>

definition admin_host :: host where
  "admin_host = \<lparr>host_rules = [forward_source_rule ''-A'' ''10.88.20.0/24''], host_ip_forward = ''0'', host_refuses = [], host_slow = []\<rparr>"

definition lease_20 :: nat_lease where
  "lease_20 = \<lparr>nl_subnet = ''10.88.20.0/24'', nl_postrouting_owned = True, nl_forward_source_owned = False,
      nl_forward_destination_owned = True, nl_previous_ip_forward = Some ''0''\<rparr>"

definition host_20 :: host where
  "host_20 = \<lparr>host_rules = [forward_source_rule ''-A'' ''10.88.20.0/24'', postrouting_rule ''-A'' ''10.88.20.0/24'',
      forward_destination_rule ''-A'' ''10.88.20.0/24''], host_ip_forward = ''1'', host_refuses = [], host_slow = []\<rparr>"

lemma admin_host_setup:
  "setup_nat host_iptables host_read host_write ''10.88.20.0/24'' admin_host = (host_20, Ok lease_20)"
  by code_simp

lemma admin_host_cleanup: "cleanup_nat_lease host_iptables host_write lease_20 host_20 = (admin_host, Ok ())"
  by code_simp

subsection \<open>Properties\<close>

text \<open>
  C10: on any packet filter with the documented behaviour, setting up NAT and later cleaning up with the
  lease leaves exactly the rules that were there before, whichever of them an administrator had
  already added, and puts the forwarding switch back where it was.
\<close>

theorem nat_round_trip:
  assumes "netfilter run get_fwd set_fwd rules"
    and "setup_nat run get_fwd set_fwd subnet h = (h1, Ok lease)"
    and "cleanup_nat_lease run set_fwd lease h1 = (h2, Ok ())"
  shows "rules h2 = rules h \<and> (get_fwd h \<noteq> None \<longrightarrow> map_option trim (get_fwd h2) = map_option trim (get_fwd h))"
proof -
  note s = netfilter.setup_nat_Ok [OF assms(1,2)] and c = netfilter.cleanup_effect [OF assms(1,3)]
  have "rules h2 = rules h" using s(1) c(1) by simp
  then show ?thesis using s(2,3) c(2) by (auto simp: netfilter.forwarding_def [OF assms(1)])
qed

theorem nat_round_trip_witness:
  "\<exists>h1 h2 lease. setup_nat host_iptables host_read host_write ''10.88.20.0/24'' admin_host = (h1, Ok lease) \<and>
     cleanup_nat_lease host_iptables host_write lease h1 = (h2, Ok ()) \<and>
     \<not> nl_forward_source_owned lease \<and> mset (host_rules h2) = mset (host_rules admin_host)"
  using nat_round_trip [OF host.netfilter_axioms admin_host_setup admin_host_cleanup]
    admin_host_setup admin_host_cleanup
  by (intro exI conjI) (assumption | simp add: lease_20_def)+


text \<open>The administrator's host refuses the third rule, or is too slow to add it in time.\<close>

definition refusing_host :: host where
  "refusing_host = admin_host\<lparr>host_refuses := [forward_destination_rule ''-A'' ''10.88.20.0/24'']\<rparr>"

definition slow_host :: host where
  "slow_host = admin_host\<lparr>host_slow := [forward_destination_rule ''-A'' ''10.88.20.0/24'']\<rparr>"

lemma failing_setups:
  "case snd (setup_nat host_iptables host_read host_write ''10.88.20.0/24'' refusing_host) of
     Err (Nat_setup_failed (Net_error (CommandFailed _ _))) \<Rightarrow> True | _ \<Rightarrow> False"
  "case snd (setup_nat host_iptables host_read host_write ''10.88.20.0/24'' slow_host) of
     Err (Nat_setup_failed (Net_error (CommandTimedOut_Network _ _ _))) \<Rightarrow> True | _ \<Rightarrow> False"
  by code_simp+

lemma host_iptables_Err:
  assumes "host_iptables h1 rule = (h2, Err (Net_error e))" "rule \<in> nat_rules subnet"
  shows "(\<exists>p a. e = CommandFailed p a) \<Longrightarrow> host_rules h2 = host_rules h1"
    and "(\<exists>p a n. e = CommandTimedOut_Network p a n) \<Longrightarrow> host_rules h2 = host_rules h1 @ [rule]"
  using assms
  by (auto simp: host_iptables_def Let_def nat_rules_def postrouting_rule_def forward_source_rule_def
      forward_destination_rule_def split: if_splits)


text \<open>
  Two containers on one host: when the first to start found forwarding off and is the first to stop,
  its cleanup turns forwarding off although the second still holds its lease.
\<close>

lemma nat_cleanup_cuts_off_others:
  assumes "netfilter run get_fwd set_fwd rules" and "map_option trim (get_fwd h) = Some ''0''"
    and "setup_nat run get_fwd set_fwd subnet_a h = (h1, Ok lease_a)"
    and "setup_nat run get_fwd set_fwd subnet_b h1 = (h2, Ok lease_b)"
    and "cleanup_nat_lease run set_fwd lease_a h2 = (h3, Ok ())"
  shows "map_option trim (get_fwd h2) = Some ''1'' \<and> map_option trim (get_fwd h3) = Some ''0''"
proof -
  note defs = netfilter.forwarding_def [OF assms(1)]
  note a = netfilter.setup_nat_Ok [OF assms(1,3)] and b = netfilter.setup_nat_Ok [OF assms(1,4)]
    and c = netfilter.cleanup_effect [OF assms(1,5)]
  show ?thesis using a(2,3) b(2) c(2) assms(2) by (simp add: defs)
qed

lemma nat_cleanup_cuts_off_others_example:
  "\<exists>h1 h2 h3 lease_a lease_b.
     setup_nat host_iptables host_read host_write ''10.88.20.0/24'' admin_host = (h1, Ok lease_a) \<and>
     setup_nat host_iptables host_read host_write ''10.88.21.0/24'' h1 = (h2, Ok lease_b) \<and>
     cleanup_nat_lease host_iptables host_write lease_a h2 = (h3, Ok ()) \<and>
     map_option trim (host_read h3) = Some ''0''"
proof -
  have "is_ok (snd (setup_nat host_iptables host_read host_write ''10.88.21.0/24'' host_20))" by code_simp
  then obtain h2 lease_b where b: "setup_nat host_iptables host_read host_write ''10.88.21.0/24'' host_20 = (h2, Ok lease_b)"
    by (metis is_ok.elims(2) prod.collapse)
  have "snd (cleanup_nat_lease host_iptables host_write lease_20
      (fst (setup_nat host_iptables host_read host_write ''10.88.21.0/24'' host_20))) = Ok ()" by code_simp
  then obtain h3 where c: "cleanup_nat_lease host_iptables host_write lease_20 h2 = (h3, Ok ())"
    by (metis b fst_conv prod.collapse)
  have "map_option trim (host_read admin_host) = Some ''0''" by code_simp
  from nat_cleanup_cuts_off_others [OF host.netfilter_axioms this admin_host_setup b c]
  show ?thesis using admin_host_setup b c by blast
qed

end
