(* ===== verification/Paths.thy ===== *)
theory Paths
  imports Text
begin

text \<open>
  The part of \<^verbatim>\<open>std::path\<close> the runtime uses on Unix: the components of a path, joining, and prefixes.
  Paths are byte strings; \<^verbatim>\<open>display\<close> is the identity on them.
\<close>

datatype component = RootDir | CurDir | ParentDir | Normal string

fun piece :: "string \<Rightarrow> component option" where
  "piece p = (if p = [] \<or> p = ''.'' then None else if p = ''..'' then Some ParentDir else Some (Normal p))"

definition is_absolute :: "string \<Rightarrow> bool" where
  "is_absolute p \<longleftrightarrow> starts_with p ''/''"

definition leading :: "string \<Rightarrow> component list" where
  "leading p = (if is_absolute p then [RootDir] else if p = ''.'' \<or> starts_with p ''./'' then [CurDir] else [])"

definition components :: "string \<Rightarrow> component list" where
  "components p = leading p @ List.map_filter piece (split_char (CHR ''/'') p)"

definition ends_with_slash :: "string \<Rightarrow> bool" where
  "ends_with_slash p \<longleftrightarrow> p \<noteq> [] \<and> last p = CHR ''/''"

text \<open>\<^verbatim>\<open>Path::join\<close>: an absolute second path replaces the first.\<close>

definition path_join :: "string \<Rightarrow> string \<Rightarrow> string" where
  "path_join p q =
     (if is_absolute q then q
      else if p = [] \<or> ends_with_slash p then p @ q
      else p @ ''/'' @ q)"

text \<open>\<^verbatim>\<open>Path::strip_prefix\<close>, on components.\<close>

fun strip_components :: "component list \<Rightarrow> component list \<Rightarrow> component list option" where
  "strip_components [] cs = Some cs"
| "strip_components (b # bs) [] = None"
| "strip_components (b # bs) (c # cs) = (if b = c then strip_components bs cs else None)"

text \<open>\<^verbatim>\<open>Path::file_name\<close>.\<close>

definition path_file_name :: "string \<Rightarrow> string option" where
  "path_file_name p = (case rev (components p) of Normal n # _ \<Rightarrow> Some n | _ \<Rightarrow> None)"

subsection \<open>Lemmas\<close>

lemma is_absolute_Cons [simp]: "is_absolute (c # p) \<longleftrightarrow> c = CHR ''/''"
  by (auto simp: is_absolute_def starts_with_iff)

lemma is_absolute_Nil [simp]: "\<not> is_absolute []"
  by (simp add: is_absolute_def starts_with_iff)

lemma is_absolute_append [simp]: "is_absolute (p @ q) \<longleftrightarrow> is_absolute p \<or> p = [] \<and> is_absolute q"
  by (cases p) auto

lemma map_filter_append [simp]: "List.map_filter f (xs @ ys) = List.map_filter f xs @ List.map_filter f ys"
  by (simp add: List.map_filter_def)

lemma strip_components_append [simp]: "strip_components bs (bs @ cs) = Some cs"
  by (induction bs) simp_all

text \<open>A name that can be a path component.\<close>

definition plain_name :: "string \<Rightarrow> bool" where
  "plain_name n \<longleftrightarrow> n \<noteq> [] \<and> n \<noteq> ''.'' \<and> n \<noteq> ''..'' \<and> CHR ''/'' \<notin> set n"

lemma set_split_char: "q \<in> set (split_char c p) \<Longrightarrow> c \<notin> set q"
proof (induction p arbitrary: q)
  case (Cons x p)
  show ?case
  proof (cases "split_char c p")
    case (Cons r rs)
    then have "set (split_char c p) = insert r (set rs)" by simp
    then show ?thesis using Cons.IH Cons.prems \<open>split_char c p = r # rs\<close> by (auto split: if_splits)
  qed simp
qed simp

lemma Normal_in_components: "Normal n \<in> set (components p) \<Longrightarrow> plain_name n"
  by (auto simp: components_def leading_def plain_name_def set_map_filter_iff
      split: if_splits dest: set_split_char)

lemma split_char_join:
  "(\<And>n. n \<in> set ns \<Longrightarrow> c \<notin> set n) \<Longrightarrow> ns \<noteq> [] \<Longrightarrow> split_char c (join [c] ns) = ns"
proof (induction "[c]" ns rule: join.induct)
  case (3 n m ns)
  then show ?case using split_char_append [of c n "join [c] (m # ns)"] by (simp add: split_char_none)
qed (simp_all add: split_char_none)

lemma pieces_of_names: "list_all plain_name ns \<Longrightarrow> List.map_filter piece ns = map Normal ns"
  by (induction ns) (simp_all add: List.map_filter_simps plain_name_def)

lemma join_plain:
  assumes "list_all plain_name ns" "ns \<noteq> []"
  shows "\<not> is_absolute (join ''/'' ns)" "join ''/'' ns \<noteq> []"
    "split_char (CHR ''/'') (join ''/'' ns) = ns"
proof -
  obtain n ns' where ns: "ns = n # ns'" using assms(2) by (cases ns) auto
  obtain c n' where n: "n = c # n'" "c \<noteq> CHR ''/''"
    using assms(1) ns by (cases n) (auto simp: plain_name_def)
  have "\<exists>r. join ''/'' ns = c # r" by (cases ns') (simp_all add: ns n)
  then show "\<not> is_absolute (join ''/'' ns)" "join ''/'' ns \<noteq> []" using n(2) by auto
  show "split_char (CHR ''/'') (join ''/'' ns) = ns"
    using assms by (intro split_char_join) (auto simp: list_all_iff plain_name_def)
qed

text \<open>Joining a relative path extends the components of a base that is not empty.\<close>

lemma components_path_join:
  assumes "p \<noteq> []" "q \<noteq> []" "\<not> is_absolute q"
  shows "components (path_join p q) = components p @ List.map_filter piece (split_char (CHR ''/'') q)"
proof -
  consider r where "p = r @ ''/''" | "\<not> ends_with_slash p"
    using assms(1) by (metis append_butlast_last_id ends_with_slash_def)
  then show ?thesis
  proof cases
    case 1
    have "split_char (CHR ''/'') (p @ q) = split_char (CHR ''/'') r @ split_char (CHR ''/'') q"
      "split_char (CHR ''/'') p = split_char (CHR ''/'') r @ [[]]"
      using split_char_append [of "CHR ''/''" r q] split_char_append [of "CHR ''/''" r "[]"] by (simp_all add: 1)
    moreover have "leading (p @ q) = leading p"
      using assms(2,3) by (cases r) (auto simp: leading_def starts_with_iff 1 Cons_eq_append_conv append_eq_Cons_conv)
    ultimately show ?thesis
      using assms by (simp add: path_join_def components_def ends_with_slash_def 1 List.map_filter_simps)
  next
    case 2
    have "split_char (CHR ''/'') (p @ ''/'' @ q) = split_char (CHR ''/'') p @ split_char (CHR ''/'') q"
      using split_char_append [of "CHR ''/''" p q] by simp
    moreover have "leading (p @ ''/'' @ q) = leading p"
      using 2 assms(1) by (auto simp: leading_def starts_with_iff ends_with_slash_def append_eq_Cons_conv Cons_eq_append_conv)
    ultimately show ?thesis
      using assms 2 by (simp add: path_join_def components_def)
  qed
qed

text \<open>A relative path made of plain names adds them, whatever the base.\<close>

lemma components_join:
  assumes "list_all plain_name ns" "ns \<noteq> []"
  shows "components (path_join p (join ''/'' ns)) = components p @ map Normal ns"
proof -
  let ?q = "join ''/'' ns"
  note q = join_plain [OF assms]
  have pieces: "List.map_filter piece (split_char (CHR ''/'') ?q) = map Normal ns"
    using assms(1) by (simp add: q(3) pieces_of_names)
  show ?thesis
  proof (cases "p = []")
    case True
    have "split_char (CHR ''/'') ''.'' = [''.'']" by simp
    moreover have "split_char (CHR ''/'') (''./'' @ r) = ''.'' # split_char (CHR ''/'') r" for r
      using split_char_append [of "CHR ''/''" "''.''" r] by simp
    ultimately have "?q \<noteq> ''.''" "\<not> starts_with ?q ''./''"
      using q(3) assms by (auto simp: starts_with_iff plain_name_def)
    then have "leading ?q = []" using q(1) by (simp add: leading_def)
    with True q pieces show ?thesis by (simp add: path_join_def components_def leading_def starts_with_iff)
  qed (use components_path_join q pieces in simp)
qed

lemma components_below: "plain_name n \<Longrightarrow> components (path_join p n) = components p @ [Normal n]"
  using components_join [of "[n]" p] by simp

lemma join_plain_empty: "list_all plain_name ns \<Longrightarrow> join ''/'' ns = [] \<longleftrightarrow> ns = []"
  using join_plain(2) by fastforce

end
