(* ===== verification/Config.thy ===== *)
theory Config
  imports Paths BTree Errors
begin

text \<open>
  \<^verbatim>\<open>src/spec/config.rs\<close>: the OCI configuration of a bundle and its validation. Reading and parsing
  \<^verbatim>\<open>config.json\<close> is left out: the records are what the parser delivers. \<open>config_ok\<close> states declaratively what
  a valid configuration is.
\<close>

subsection \<open>The configuration\<close>

record process_user =
  pu_uid :: u32
  pu_gid :: u32
  pu_additional_gids :: "u32 list"

record linux_capabilities =
  lc_bounding :: "string list"
  lc_effective :: "string list"
  lc_inheritable :: "string list"
  lc_permitted :: "string list"
  lc_ambient :: "string list"

definition capabilities_is_empty :: "linux_capabilities \<Rightarrow> bool" where
  "capabilities_is_empty c \<longleftrightarrow> lc_bounding c = [] \<and> lc_effective c = [] \<and> lc_inheritable c = [] \<and>
     lc_permitted c = [] \<and> lc_ambient c = []"

record linux_rlimit =
  rl_type :: string
  rl_hard :: u64
  rl_soft :: u64

record process =
  pr_args :: "string list"
  pr_env :: "string list"
  pr_cwd :: "string option"
  pr_user :: "process_user option"
  pr_capabilities :: "linux_capabilities option"
  pr_rlimits :: "linux_rlimit list"

record root =
  root_path :: string
  root_readonly :: bool

record healthcheck =
  hc_test :: "string list"
  hc_interval :: "string option"
  hc_timeout :: "string option"
  hc_retries :: "u32 option"

record crun_overlay =
  ov_enabled :: bool
  ov_lowerdir :: "string option"
  ov_upperdir :: string
  ov_workdir :: string
  ov_mergeddir :: string

record crun_config =
  crun_profile :: "string option"
  crun_overlay :: "crun_overlay option"

record mount =
  mnt_destination :: string
  mnt_source :: "string option"
  mnt_type :: string
  mnt_options :: "string list"

record linux_namespace =
  namespace_type :: string

text \<open>Limits are \<^verbatim>\<open>i64\<close> and \<^verbatim>\<open>u64\<close> values that are only compared and printed.\<close>

record linux_memory =
  mem_limit :: "int option"

record linux_cpu =
  cpu_quota :: "int option"
  cpu_period :: "nat option"

record linux_pids =
  pids_limit :: "int option"

record linux_resources =
  res_memory :: "linux_memory option"
  res_cpu :: "linux_cpu option"
  res_pids :: "linux_pids option"

record linux =
  lx_namespaces :: "linux_namespace list"
  lx_resources :: "linux_resources option"
  lx_masked_paths :: "string list"
  lx_readonly_paths :: "string list"

record oci_config =
  cfg_hostname :: "string option"
  cfg_process :: process
  cfg_root :: root
  cfg_mounts :: "mount list"
  cfg_healthcheck :: "healthcheck option"
  cfg_linux :: "linux option"
  cfg_crun :: "crun_config option"

definition is_bind :: "mount \<Rightarrow> bool" where
  "is_bind m \<longleftrightarrow> mnt_type m \<in> {''bind'', ''rbind'', ''none''} \<or>
     list_ex (\<lambda>opt. opt = ''bind'' \<or> opt = ''rbind'') (mnt_options m)"

definition is_supported_mount_type :: "string \<Rightarrow> bool" where
  "is_supported_mount_type t \<longleftrightarrow>
     t \<in> {''bind'', ''rbind'', ''none'', ''proc'', ''sysfs'', ''tmpfs'', ''devpts'', ''mqueue'', ''cgroup'',
          ''cgroup2'', ''ramfs''}"

text \<open>Numbers of the limits as in the C library.\<close>

definition rlimit_resource :: "string \<Rightarrow> nat option" where
  "rlimit_resource name = map_of
     [(''RLIMIT_AS'', 9), (''RLIMIT_CORE'', 4), (''RLIMIT_CPU'', 0), (''RLIMIT_FSIZE'', 1),
      (''RLIMIT_NOFILE'', 7), (''RLIMIT_NPROC'', 6), (''RLIMIT_STACK'', 3)] name"

subsection \<open>Validation\<close>

text \<open>\<open>check b e\<close>: return the error when the condition holds.\<close>

abbreviation check :: "bool \<Rightarrow> 'e \<Rightarrow> ('e, unit) result \<Rightarrow> ('e, unit) result" where
  "check b e r \<equiv> (if b then Err e else r)"

fun each :: "('x \<Rightarrow> ('e, unit) result) \<Rightarrow> 'x list \<Rightarrow> ('e, unit) result" where
  "each f [] = Ok ()"
| "each f (x # xs) = and_then (f x) (\<lambda>_. each f xs)"

fun validate_environment_from ::
    "nat \<Rightarrow> string btree_set \<Rightarrow> string list \<Rightarrow> (oci_config_error, unit) result" where
  "validate_environment_from index keys [] = Ok ()"
| "validate_environment_from index keys (item # items) =
     (if char_of (0 :: nat) \<in> set item then Err (EnvironmentContainsNul index)
      else case split_once (CHR ''='') item of
        None \<Rightarrow> Err (InvalidEnvironmentEntry index)
      | Some (key, _) \<Rightarrow>
          if key = [] then Err (EmptyEnvironmentKey index)
          else if CHR ''='' \<in> set key \<or> char_of (0 :: nat) \<in> set key then Err (InvalidEnvironmentEntry index)
          else if bts_contains keys key then Err (DuplicateEnvironmentKey key)
          else validate_environment_from (index + 1) (bts_insert key keys) items)"

definition validate_environment :: "string list \<Rightarrow> (oci_config_error, unit) result" where
  "validate_environment env = validate_environment_from 0 [] env"

definition validate_container_path :: "string \<Rightarrow> (oci_config_error, unit) result" where
  "validate_container_path path =
     (if \<not> is_absolute path then Err (LinuxPathNotAbsolute path)
      else if list_ex (\<lambda>c. c = ParentDir) (components path) then Err (LinuxPathEscapesRoot path)
      else Ok ())"

definition validate_mount :: "mount \<Rightarrow> (oci_config_error, unit) result" where
  "validate_mount m =
     check (trim (mnt_destination m) = []) EmptyMountDestination
     (check (\<not> is_supported_mount_type (mnt_type m)) (UnsupportedMountType (mnt_type m))
     (check (is_bind m \<and> trim (case mnt_source m of None \<Rightarrow> [] | Some s \<Rightarrow> s) = []) EmptyBindMountSource
     (Ok ())))"

definition validate_rlimit :: "linux_rlimit \<Rightarrow> (oci_config_error, unit) result" where
  "validate_rlimit r =
     check (rl_hard r < rl_soft r) (RlimitSoftExceedsHard (rl_type r))
     (check (rlimit_resource (rl_type r) = None) (UnsupportedRlimit (rl_type r)) (Ok ()))"

definition validate_overlay :: "crun_overlay \<Rightarrow> (oci_config_error, unit) result" where
  "validate_overlay ov =
     (if ov_enabled ov then
        check (trim (ov_upperdir ov) = []) (EmptyOverlayPath ''upperdir'')
        (check (trim (ov_workdir ov) = []) (EmptyOverlayPath ''workdir'')
        (check (trim (ov_mergeddir ov) = []) (EmptyOverlayPath ''mergeddir'') (Ok ())))
      else Ok ())"

definition supported_namespaces :: "string set" where
  "supported_namespaces = {''pid'', ''mount'', ''uts'', ''ipc'', ''network'', ''user''}"

definition validate_namespace :: "linux_namespace \<Rightarrow> (oci_config_error, unit) result" where
  "validate_namespace ns =
     check (namespace_type ns \<notin> supported_namespaces) (UnsupportedNamespace (namespace_type ns)) (Ok ())"

definition validate_linux :: "linux \<Rightarrow> (oci_config_error, unit) result" where
  "validate_linux lx =
     and_then (each validate_namespace (lx_namespaces lx))
       (\<lambda>_. each validate_container_path (lx_masked_paths lx @ lx_readonly_paths lx))"

definition validate_config :: "oci_config \<Rightarrow> (oci_config_error, unit) result" where
  "validate_config c =
     check (pr_args (cfg_process c) = []) EmptyProcessArgs_OciConfig
     (check (case pr_capabilities (cfg_process c) of None \<Rightarrow> False | Some caps \<Rightarrow> \<not> capabilities_is_empty caps)
        UnsupportedCapabilities
     (and_then (validate_environment (pr_env (cfg_process c))) (\<lambda>_.
      check (trim (root_path (cfg_root c)) = []) EmptyRootPath
     (and_then (each validate_mount (cfg_mounts c)) (\<lambda>_.
      and_then (case cfg_healthcheck c of None \<Rightarrow> Ok () | Some h \<Rightarrow> check (hc_test h = []) EmptyHealthcheckTest (Ok ())) (\<lambda>_.
      and_then (each validate_rlimit (pr_rlimits (cfg_process c))) (\<lambda>_.
      and_then (case Option.bind (cfg_crun c) crun_config.crun_overlay of None \<Rightarrow> Ok () | Some ov \<Rightarrow> validate_overlay ov) (\<lambda>_.
      and_then (case Option.bind (cfg_crun c) crun_profile of
          None \<Rightarrow> Ok ()
        | Some p \<Rightarrow> check (p \<noteq> ''restricted'' \<and> p \<noteq> ''debug'') (UnsupportedCrunProfile p) (Ok ())) (\<lambda>_.
      case cfg_linux c of None \<Rightarrow> Ok () | Some lx \<Rightarrow> validate_linux lx)))))))))"

text \<open>
  \<^verbatim>\<open>load_config\<close> on the contents of the file, \<open>None\<close> when it cannot be read; \<open>parse\<close> stands for
  \<^verbatim>\<open>serde_json::from_str\<close>. \<^verbatim>\<open>validation_warnings\<close> is always empty.
\<close>

datatype load_error = Config_unreadable string | Config_unparsable | Config_invalid oci_config_error

definition load_config ::
    "(string \<Rightarrow> oci_config option) \<Rightarrow> string \<Rightarrow> string option \<Rightarrow> (load_error, oci_config) result" where
  "load_config parse path content =
     and_then (ok_or content (Config_unreadable path)) (\<lambda>text.
     and_then (ok_or (parse text) Config_unparsable) (\<lambda>config.
     and_then (map_err Config_invalid (validate_config config)) (\<lambda>_. Ok config)))"

record bundle_validation_report =
  bvr_bundle :: string
  bvr_valid :: bool
  bvr_warnings :: "string list"

definition validate_bundle ::
    "(string \<Rightarrow> oci_config option) \<Rightarrow> (string \<Rightarrow> string option) \<Rightarrow> string \<Rightarrow>
     (load_error, bundle_validation_report) result" where
  "validate_bundle parse read bundle =
     (let path = path_join bundle ''config.json'' in
      map_ok (\<lambda>_. \<lparr>bvr_bundle = bundle, bvr_valid = True, bvr_warnings = []\<rparr>)
        (load_config parse path (read path)))"

subsection \<open>What a valid configuration is\<close>

lemma each_Ok [simp]: "each f xs = Ok () \<longleftrightarrow> (\<forall>x \<in> set xs. f x = Ok ())"
  by (induction xs) auto

text \<open>The name of an environment variable: what precedes the first equals sign.\<close>

definition env_key :: "string \<Rightarrow> string" where
  "env_key item = takeWhile (\<lambda>c. c \<noteq> CHR ''='') item"

definition environment_ok :: "string list \<Rightarrow> bool" where
  "environment_ok env \<longleftrightarrow> distinct (map env_key env) \<and>
     (\<forall>item \<in> set env. CHR ''='' \<in> set item \<and> env_key item \<noteq> [] \<and> char_of (0 :: nat) \<notin> set item)"

lemma split_once_key: "split_once c s = Some (k, v) \<Longrightarrow> k = takeWhile (\<lambda>x. x \<noteq> c) s \<and> c \<in> set s"
  by (auto simp: split_once_Some takeWhile_append)

lemma validate_environment_from_Ok:
  assumes "ascending keys"
  shows "validate_environment_from index keys env = Ok () \<longleftrightarrow>
    environment_ok env \<and> set keys \<inter> env_key ` set env = {}"
  using assms
proof (induction index keys env rule: validate_environment_from.induct)
  case (2 index keys item items)
  have sub: "set (env_key item) \<subseteq> set item" by (auto simp: env_key_def dest: set_takeWhileD)
  have eq: "CHR ''='' \<notin> set (env_key item)" by (auto simp: env_key_def dest: set_takeWhileD)
  show ?case
  proof (cases "split_once (CHR ''='') item")
    case None
    then have "CHR ''='' \<notin> set item" by (simp add: split_once_None)
    with None show ?thesis by (auto simp: environment_ok_def)
  next
    case (Some kv)
    obtain k v where kv: "kv = (k, v)" by force
    then have k: "k = env_key item" "CHR ''='' \<in> set item"
      using split_once_key Some by (auto simp: env_key_def)
    show ?thesis
      using 2 Some k eq sub
      by (auto simp: kv environment_ok_def btree_simps)
  qed
qed (simp add: environment_ok_def)

definition mount_ok :: "mount \<Rightarrow> bool" where
  "mount_ok m \<longleftrightarrow> trim (mnt_destination m) \<noteq> [] \<and> is_supported_mount_type (mnt_type m) \<and>
     (is_bind m \<longrightarrow> (\<exists>s. mnt_source m = Some s \<and> trim s \<noteq> []))"

definition container_path_ok :: "string \<Rightarrow> bool" where
  "container_path_ok p \<longleftrightarrow> is_absolute p \<and> ParentDir \<notin> set (components p)"

definition config_ok :: "oci_config \<Rightarrow> bool" where
  "config_ok c \<longleftrightarrow>
     pr_args (cfg_process c) \<noteq> [] \<and>
     (\<forall>caps. pr_capabilities (cfg_process c) = Some caps \<longrightarrow> capabilities_is_empty caps) \<and>
     environment_ok (pr_env (cfg_process c)) \<and>
     trim (root_path (cfg_root c)) \<noteq> [] \<and>
     (\<forall>m \<in> set (cfg_mounts c). mount_ok m) \<and>
     (\<forall>h. cfg_healthcheck c = Some h \<longrightarrow> hc_test h \<noteq> []) \<and>
     (\<forall>r \<in> set (pr_rlimits (cfg_process c)). rl_soft r \<le> rl_hard r \<and> rlimit_resource (rl_type r) \<noteq> None) \<and>
     (\<forall>crun. cfg_crun c = Some crun \<longrightarrow>
        (\<forall>ov. crun_config.crun_overlay crun = Some ov \<longrightarrow> ov_enabled ov \<longrightarrow>
           trim (ov_upperdir ov) \<noteq> [] \<and> trim (ov_workdir ov) \<noteq> [] \<and> trim (ov_mergeddir ov) \<noteq> []) \<and>
        crun_profile crun \<in> {None, Some ''restricted'', Some ''debug''}) \<and>
     (\<forall>lx. cfg_linux c = Some lx \<longrightarrow>
        namespace_type ` set (lx_namespaces lx) \<subseteq> supported_namespaces \<and>
        (\<forall>p \<in> set (lx_masked_paths lx) \<union> set (lx_readonly_paths lx). container_path_ok p))"

lemma trim_Nil [simp]: "trim [] = []"
  by (simp add: trim_def trim_start_def trim_end_def)

lemma validate_mount_Ok: "validate_mount m = Ok () \<longleftrightarrow> mount_ok m"
  by (auto simp: validate_mount_def mount_ok_def split: option.splits)

lemma validate_rlimit_Ok:
  "validate_rlimit r = Ok () \<longleftrightarrow> rl_soft r \<le> rl_hard r \<and> rlimit_resource (rl_type r) \<noteq> None"
  by (auto simp: validate_rlimit_def not_less)

lemma validate_overlay_Ok:
  "validate_overlay ov = Ok () \<longleftrightarrow>
     (ov_enabled ov \<longrightarrow> trim (ov_upperdir ov) \<noteq> [] \<and> trim (ov_workdir ov) \<noteq> [] \<and> trim (ov_mergeddir ov) \<noteq> [])"
  by (auto simp: validate_overlay_def)

lemma validate_container_path_Ok: "validate_container_path p = Ok () \<longleftrightarrow> container_path_ok p"
  by (auto simp: validate_container_path_def container_path_ok_def list_ex_iff)

lemma validate_linux_Ok:
  "validate_linux lx = Ok () \<longleftrightarrow> namespace_type ` set (lx_namespaces lx) \<subseteq> supported_namespaces \<and>
     (\<forall>p \<in> set (lx_masked_paths lx) \<union> set (lx_readonly_paths lx). container_path_ok p)"
  by (auto simp: validate_linux_def validate_namespace_def validate_container_path_Ok)

lemma validate_environment_Ok: "validate_environment env = Ok () \<longleftrightarrow> environment_ok env"
  using validate_environment_from_Ok [of "[]" 0 env] by (simp add: validate_environment_def)

subsection \<open>Properties\<close>

text \<open>
  C29: a configuration passes validation exactly when it is valid: there is something to run, no
  capabilities are asked for, the environment is a list of distinct non-empty names with values and without
  NUL bytes, every mount, limit, overlay, profile and namespace is one the runtime supports, and the masked
  and read-only paths are absolute and never climb out of the root.
\<close>

theorem validate_config_iff_ok: "validate_config c = Ok () \<longleftrightarrow> config_ok c"
  unfolding validate_config_def config_ok_def
  by (auto simp: validate_environment_Ok validate_mount_Ok validate_rlimit_Ok validate_overlay_Ok validate_linux_Ok
      split: option.splits Option.bind_splits)

end
