(* ===== verification/Filesystem.thy ===== *)
theory Filesystem
  imports Config Effects
begin

unbundle bit_operations_syntax

text \<open>
  \<^verbatim>\<open>src/filesystem/mod.rs\<close>: preparing a container's root file system. Every system call is an \<open>fs_call\<close>; the
  world answers it with an error number or a number (a descriptor, a truth value). Error contexts and log
  messages are left out, and descriptors are closed silently.
\<close>

subsection \<open>System calls\<close>

datatype open_flag = O_PATH | O_DIRECTORY | O_CLOEXEC | O_CREAT | O_RDWR

datatype resolve_flag = RESOLVE_BENEATH | RESOLVE_NO_MAGICLINKS | RESOLVE_NO_SYMLINKS

datatype fs_call =
    Mount "string option" string "string option" u64 "string option"
  | Umount_detach string
  | Pivot_root string string
  | Chdir string
  | Create_dir_all string
  | Remove_dir string
  | Remove_file string
  | Write_file string string
  | Symlink string string
  | Mknod string nat nat nat
  | Exists string
  | Is_dir string
  | Is_symlink string
  | Symlink_metadata string
  | Metadata_is_dir string
  | Open string "open_flag list"
  | Openat2 nat string "open_flag list" "resolve_flag list" nat
  | Mkdirat nat string nat
  | Fstat_is_dir nat

type_synonym fs_world = "(fs_call, (errno, nat) result) world"

datatype fs_error =
    Fs_error filesystem_error
  | Fs_config oci_config_error
  | Fs_os errno
  | Not_beneath_rootfs
  | Invalid_device_name
  | No_final_component

type_synonym 'a fs_io = "(fs_call, fs_error, 'a) io"

definition os_call :: "fs_world \<Rightarrow> fs_call \<Rightarrow> nat fs_io" where
  "os_call os c = io_map_err Fs_os (io_call os c)"

definition os_do :: "fs_world \<Rightarrow> fs_call \<Rightarrow> unit fs_io" where
  "os_do os c = io_bind (os_call os c) (\<lambda>_. io_return ())"

definition MS_RDONLY :: u64 where "MS_RDONLY = push_bit 0 1"
definition MS_NOSUID :: u64 where "MS_NOSUID = push_bit 1 1"
definition MS_NODEV :: u64 where "MS_NODEV = push_bit 2 1"
definition MS_NOEXEC :: u64 where "MS_NOEXEC = push_bit 3 1"
definition MS_SYNCHRONOUS :: u64 where "MS_SYNCHRONOUS = push_bit 4 1"
definition MS_REMOUNT :: u64 where "MS_REMOUNT = push_bit 5 1"
definition MS_DIRSYNC :: u64 where "MS_DIRSYNC = push_bit 7 1"
definition MS_NOATIME :: u64 where "MS_NOATIME = push_bit 10 1"
definition MS_NODIRATIME :: u64 where "MS_NODIRATIME = push_bit 11 1"
definition MS_BIND :: u64 where "MS_BIND = push_bit 12 1"
definition MS_REC :: u64 where "MS_REC = push_bit 14 1"
definition MS_UNBINDABLE :: u64 where "MS_UNBINDABLE = push_bit 17 1"
definition MS_PRIVATE :: u64 where "MS_PRIVATE = push_bit 18 1"
definition MS_SLAVE :: u64 where "MS_SLAVE = push_bit 19 1"
definition MS_SHARED :: u64 where "MS_SHARED = push_bit 20 1"
definition MS_RELATIME :: u64 where "MS_RELATIME = push_bit 21 1"
definition MS_STRICTATIME :: u64 where "MS_STRICTATIME = push_bit 24 1"

subsection \<open>Root file system and overlay\<close>

record overlay_config =
  oc_lowerdir :: string
  oc_upperdir :: string
  oc_workdir :: string
  oc_mergeddir :: string

record overlay_ownership =
  oo_upperdir :: string
  oo_workdir :: string
  oo_mergeddir :: string
  oo_merged_created :: bool

definition ownership_from_config :: "fs_world \<Rightarrow> overlay_config \<Rightarrow> overlay_ownership fs_io" where
  "ownership_from_config os c =
     io_bind (io_probe os (Symlink_metadata (oc_mergeddir c))) (\<lambda>existed. io_return
       \<lparr>oo_upperdir = oc_upperdir c, oo_workdir = oc_workdir c, oo_mergeddir = oc_mergeddir c,
        oo_merged_created = \<not> existed\<rparr>)"

definition ownership_cleanup :: "fs_world \<Rightarrow> overlay_ownership \<Rightarrow> unit fs_io" where
  "ownership_cleanup os own = io_when (oo_merged_created own)
     (io_handle (io_call os (Remove_dir (oo_mergeddir own))) (\<lambda>r. case r of
          Ok _ \<Rightarrow> io_return ()
        | Err Errno_ENOENT \<Rightarrow> io_return ()
        | Err e \<Rightarrow> io_lift (Err (Fs_os e))))"

datatype rootfs_mode = Direct | Overlay

fun rootfs_as_str :: "rootfs_mode \<Rightarrow> string" where
  "rootfs_as_str Direct = ''direct''"
| "rootfs_as_str Overlay = ''overlay''"

record resolved_rootfs =
  rr_path :: string
  rr_overlay_config :: "overlay_config option"
  rr_mode :: rootfs_mode

definition resolve_bundle_path :: "string \<Rightarrow> string \<Rightarrow> string" where
  "resolve_bundle_path bundle path = (if is_absolute path then path else path_join bundle path)"

definition resolve_overlay_config :: "string \<Rightarrow> string \<Rightarrow> crun_config option \<Rightarrow> overlay_config option" where
  "resolve_overlay_config bundle rootp crun =
     Option.bind (Option.bind crun crun_config.crun_overlay) (\<lambda>ov.
       if \<not> ov_enabled ov then None
       else Some
         \<lparr>oc_lowerdir = (case ov_lowerdir ov of
              Some path \<Rightarrow> resolve_bundle_path bundle path
            | None \<Rightarrow> resolve_bundle_path bundle rootp),
          oc_upperdir = resolve_bundle_path bundle (ov_upperdir ov),
          oc_workdir = resolve_bundle_path bundle (ov_workdir ov),
          oc_mergeddir = resolve_bundle_path bundle (ov_mergeddir ov)\<rparr>)"

definition resolve_rootfs :: "string \<Rightarrow> string \<Rightarrow> crun_config option \<Rightarrow> resolved_rootfs" where
  "resolve_rootfs bundle rootp crun =
     (let overlay = resolve_overlay_config bundle rootp crun in
      \<lparr>rr_path = resolve_bundle_path bundle rootp, rr_overlay_config = overlay,
       rr_mode = (if overlay \<noteq> None then Overlay else Direct)\<rparr>)"

definition cleanup_created :: "fs_world \<Rightarrow> overlay_config \<Rightarrow> bool \<Rightarrow> bool \<Rightarrow> bool \<Rightarrow> unit fs_io" where
  "cleanup_created os c upper_existed work_existed merged_existed =
     io_bind (io_when (\<not> merged_existed) (io_ignore (io_call os (Remove_dir (oc_mergeddir c))))) (\<lambda>_.
     io_bind (io_when (\<not> work_existed) (io_ignore (io_call os (Remove_dir (oc_workdir c))))) (\<lambda>_.
     io_when (\<not> upper_existed) (io_ignore (io_call os (Remove_dir (oc_upperdir c))))))"

definition create_overlay_dirs :: "fs_world \<Rightarrow> overlay_config \<Rightarrow> unit fs_io" where
  "create_overlay_dirs os c =
     io_bind (os_do os (Create_dir_all (oc_upperdir c))) (\<lambda>_.
     io_bind (os_do os (Create_dir_all (oc_workdir c))) (\<lambda>_.
     os_do os (Create_dir_all (oc_mergeddir c))))"

definition overlay_data :: "overlay_config \<Rightarrow> string" where
  "overlay_data c = ''lowerdir='' @ oc_lowerdir c @ '',upperdir='' @ oc_upperdir c @ '',workdir='' @ oc_workdir c"

definition setup_overlay_rootfs :: "fs_world \<Rightarrow> overlay_config \<Rightarrow> string fs_io" where
  "setup_overlay_rootfs os c =
     io_bind (io_query os (Exists (oc_lowerdir c))) (\<lambda>lower.
     if \<not> lower then io_lift (Err (Fs_error (OverlayLowerdirDoesNotExist (oc_lowerdir c))))
     else
       io_bind (io_probe os (Symlink_metadata (oc_upperdir c))) (\<lambda>upper_existed.
       io_bind (io_probe os (Symlink_metadata (oc_workdir c))) (\<lambda>work_existed.
       io_bind (io_probe os (Symlink_metadata (oc_mergeddir c))) (\<lambda>merged_existed.
       if merged_existed then io_lift (Err (Fs_error (OverlayMergeddirAlreadyExists (oc_mergeddir c))))
       else
         let cleanup = cleanup_created os c upper_existed work_existed merged_existed in
         io_bind (io_on_err (create_overlay_dirs os c) cleanup) (\<lambda>_.
         io_bind (io_on_err
           (os_do os (Mount (Some ''overlay'') (oc_mergeddir c) (Some ''overlay'') 0 (Some (overlay_data c))))
           cleanup) (\<lambda>_.
         io_return (oc_mergeddir c)))))))"

subsection \<open>Mount options\<close>

record mount_options =
  mo_flags :: u64
  mo_propagation :: "u64 option"
  mo_data :: "string option"

text \<open>The options that set (\<open>True\<close>) or clear a flag, and those that name a propagation.\<close>

definition flag_option :: "string \<Rightarrow> (u64 \<times> bool) option" where
  "flag_option = map_of
     [(''ro'', MS_RDONLY, True), (''rw'', MS_RDONLY, False),
      (''nosuid'', MS_NOSUID, True), (''suid'', MS_NOSUID, False),
      (''nodev'', MS_NODEV, True), (''dev'', MS_NODEV, False),
      (''noexec'', MS_NOEXEC, True), (''exec'', MS_NOEXEC, False),
      (''sync'', MS_SYNCHRONOUS, True), (''dirsync'', MS_DIRSYNC, True), (''remount'', MS_REMOUNT, True),
      (''noatime'', MS_NOATIME, True), (''atime'', MS_NOATIME, False),
      (''nodiratime'', MS_NODIRATIME, True),
      (''relatime'', MS_RELATIME, True), (''norelatime'', MS_RELATIME, False),
      (''strictatime'', MS_STRICTATIME, True), (''nostrictatime'', MS_STRICTATIME, False)]"

definition propagation_option :: "string \<Rightarrow> u64 option" where
  "propagation_option = map_of
     [(''private'', MS_PRIVATE), (''rprivate'', MS_PRIVATE OR MS_REC),
      (''slave'', MS_SLAVE), (''rslave'', MS_SLAVE OR MS_REC),
      (''shared'', MS_SHARED), (''rshared'', MS_SHARED OR MS_REC),
      (''unbindable'', MS_UNBINDABLE), (''runbindable'', MS_UNBINDABLE OR MS_REC)]"

text \<open>One round of the loop over flags, propagation and data so far.\<close>

definition parse_option :: "string \<Rightarrow> u64 \<times> u64 option \<times> string list \<Rightarrow> u64 \<times> u64 option \<times> string list" where
  "parse_option opt = (\<lambda>(flags, propagation, data).
     if opt \<in> {''defaults'', ''bind'', ''rbind''} then (flags, propagation, data)
     else case flag_option opt of
       Some (f, True) \<Rightarrow> (flags OR f, propagation, data)
     | Some (f, False) \<Rightarrow> (flags AND NOT f, propagation, data)
     | None \<Rightarrow> (case propagation_option opt of
         Some p \<Rightarrow> (flags, Some p, data)
       | None \<Rightarrow> (flags, propagation, data @ [opt])))"

definition parse_mount_options :: "string list \<Rightarrow> mount_options" where
  "parse_mount_options options =
     (let (flags, propagation, data) = fold parse_option options (0, None, []) in
      \<lparr>mo_flags = flags, mo_propagation = propagation,
       mo_data = (if data = [] then None else Some (join '','' data))\<rparr>)"

definition filesystem_type :: "string \<Rightarrow> string" where
  "filesystem_type t = (if t = ''cgroup'' then ''cgroup2'' else t)"

subsection \<open>Mount destinations\<close>

fun push_components :: "string \<Rightarrow> string \<Rightarrow> component list \<Rightarrow> (fs_error, string) result" where
  "push_components dest relative [] = Ok relative"
| "push_components dest relative (RootDir # cs) = push_components dest relative cs"
| "push_components dest relative (CurDir # cs) = push_components dest relative cs"
| "push_components dest relative (Normal part # cs) = push_components dest (path_join relative part) cs"
| "push_components dest relative (ParentDir # cs) = Err (Fs_error (MountDestinationEscapesRootfs dest))"

definition container_mount_destination :: "string \<Rightarrow> string \<Rightarrow> (fs_error, string) result" where
  "container_mount_destination rootfs dest =
     (if \<not> is_absolute dest then Err (Fs_error (MountDestinationNotAbsolute dest))
      else and_then (push_components dest [] (components dest)) (\<lambda>relative.
        if relative = [] then Err (Fs_error MountDestinationIsContainerRoot)
        else Ok (path_join rootfs relative)))"

record prepared_mount_destination =
  pd_path :: string
  pd_fd :: nat
  pd_created_paths :: "string list"

definition mount_path :: "prepared_mount_destination \<Rightarrow> string" where
  "mount_path d = ''/proc/self/fd/'' @ nat_dec (pd_fd d)"

definition rollback :: "fs_world \<Rightarrow> prepared_mount_destination \<Rightarrow> bool \<Rightarrow> unit fs_io" where
  "rollback os d mounted =
     io_bind (io_when mounted (io_ignore (io_call os (Umount_detach (mount_path d))))) (\<lambda>_.
     io_each (\<lambda>path. io_handle (io_call os (Remove_dir path)) (\<lambda>r. case r of
         Ok _ \<Rightarrow> io_return ()
       | Err _ \<Rightarrow> io_ignore (io_call os (Remove_file path)))) (rev (pd_created_paths d)))"

fun missing_from :: "fs_world \<Rightarrow> string \<Rightarrow> string list \<Rightarrow> string list fs_io" where
  "missing_from os candidate [] = io_return []"
| "missing_from os candidate (c # cs) =
     (let candidate = path_join candidate c in
      io_bind (io_probe os (Symlink_metadata candidate)) (\<lambda>exists.
      io_bind (missing_from os candidate cs) (\<lambda>rest.
      io_return (if exists then rest else candidate # rest))))"

text \<open>
  The loop over all but the last component followed by the last one asks about the same paths, in the
  same order, whether the source is a directory or not.
\<close>

definition prospective_created_paths :: "fs_world \<Rightarrow> string \<Rightarrow> string list \<Rightarrow> bool \<Rightarrow> string list fs_io" where
  "prospective_created_paths os rootfs names source_is_dir =
     (let final_index = (if source_is_dir then length names else length names - 1) in
      io_bind (missing_from os rootfs (take final_index names)) (\<lambda>created.
      if \<not> source_is_dir \<and> names \<noteq> []
      then io_bind (missing_from os (fold (\<lambda>c p. path_join p c) (take final_index names) rootfs) [last names])
             (\<lambda>final. io_return (created @ final))
      else io_return created))"

fun relative_components :: "string \<Rightarrow> component list \<Rightarrow> (fs_error, string list) result" where
  "relative_components path [] = Ok []"
| "relative_components path (Normal part # cs) = map_ok ((#) part) (relative_components path cs)"
| "relative_components path (CurDir # cs) = relative_components path cs"
| "relative_components path (c # cs) = Err (Fs_error (MountDestinationEscapesRootfs path))"

definition safe_resolve :: "resolve_flag list" where
  "safe_resolve = [RESOLVE_BENEATH, RESOLVE_NO_MAGICLINKS, RESOLVE_NO_SYMLINKS]"

definition open_directory_at :: "fs_world \<Rightarrow> nat \<Rightarrow> string \<Rightarrow> nat fs_io" where
  "open_directory_at os parent name =
     os_call os (Openat2 parent name [O_PATH, O_DIRECTORY, O_CLOEXEC] safe_resolve 0)"

definition open_or_create_directory_at :: "fs_world \<Rightarrow> nat \<Rightarrow> string \<Rightarrow> nat fs_io" where
  "open_or_create_directory_at os parent name =
     io_handle (open_directory_at os parent name) (\<lambda>r. case r of
       Ok fd \<Rightarrow> io_return fd
     | Err (Fs_os Errno_ENOENT) \<Rightarrow>
         io_bind (os_do os (Mkdirat parent name 493)) (\<lambda>_. open_directory_at os parent name)
     | Err e \<Rightarrow> io_lift (Err e))"

fun open_tree_from :: "fs_world \<Rightarrow> nat \<Rightarrow> string list \<Rightarrow> nat fs_io" where
  "open_tree_from os current [] = io_return current"
| "open_tree_from os current (c # cs) =
     io_bind (open_or_create_directory_at os current c) (\<lambda>fd. open_tree_from os fd cs)"

definition open_or_create_directory_tree :: "fs_world \<Rightarrow> nat \<Rightarrow> string list \<Rightarrow> nat fs_io" where
  "open_or_create_directory_tree os root_fd names =
     io_bind (open_directory_at os root_fd ''.'') (\<lambda>current. open_tree_from os current names)"

definition open_or_create_file_destination :: "fs_world \<Rightarrow> nat \<Rightarrow> string list \<Rightarrow> nat fs_io" where
  "open_or_create_file_destination os root_fd names =
     (if names = [] then io_lift (Err No_final_component)
      else
        io_bind (open_or_create_directory_tree os root_fd (butlast names)) (\<lambda>parent.
        io_handle (io_call os (Openat2 parent (last names) [O_PATH, O_CLOEXEC] safe_resolve 0)) (\<lambda>r. case r of
          Ok fd \<Rightarrow>
            io_bind (os_call os (Fstat_is_dir fd)) (\<lambda>dir.
            if dir \<noteq> 0 then io_lift (Err (Fs_error (BindDestinationIsDirectory (last names)))) else io_return fd)
        | Err Errno_ENOENT \<Rightarrow> os_call os (Openat2 parent (last names) [O_CREAT, O_RDWR, O_CLOEXEC] safe_resolve 438)
        | Err e \<Rightarrow> io_lift (Err (Fs_os e)))))"

definition prepare_mount_destination ::
    "fs_world \<Rightarrow> string \<Rightarrow> string \<Rightarrow> bool \<Rightarrow> prepared_mount_destination fs_io" where
  "prepare_mount_destination os rootfs dest source_is_dir =
     io_bind (io_lift (container_mount_destination rootfs dest)) (\<lambda>path.
     io_bind (io_lift (ok_or (strip_components (components rootfs) (components path)) Not_beneath_rootfs)) (\<lambda>relative.
     io_bind (io_lift (and_then (relative_components path relative) (\<lambda>names.
         if names = [] then Err (Fs_error MountDestinationIsContainerRoot) else Ok names))) (\<lambda>names.
     io_bind (os_call os (Open rootfs [O_PATH, O_DIRECTORY, O_CLOEXEC])) (\<lambda>root_fd.
     io_bind (prospective_created_paths os rootfs names source_is_dir) (\<lambda>created.
     io_bind (if source_is_dir then open_or_create_directory_tree os root_fd names
              else open_or_create_file_destination os root_fd names) (\<lambda>fd.
     io_return \<lparr>pd_path = path, pd_fd = fd, pd_created_paths = created\<rparr>))))))"

subsection \<open>Mounting\<close>

definition setup_filesystem_mount :: "fs_world \<Rightarrow> string \<Rightarrow> mount \<Rightarrow> unit fs_io" where
  "setup_filesystem_mount os rootfs m =
     io_bind (prepare_mount_destination os rootfs (mnt_destination m) True) (\<lambda>d.
     let options = parse_mount_options (mnt_options m);
         fstype = filesystem_type (mnt_type m);
         source = (case mnt_source m of Some s \<Rightarrow> s | None \<Rightarrow> fstype) in
     io_bind (io_on_err
       (os_do os (Mount (Some source) (mount_path d) (Some fstype) (mo_flags options) (mo_data options)))
       (rollback os d False)) (\<lambda>_.
     case mo_propagation options of
       None \<Rightarrow> io_return ()
     | Some p \<Rightarrow> io_on_err (os_do os (Mount None (pd_path d) None p None)) (rollback os d True)))"

definition setup_bind_mount :: "fs_world \<Rightarrow> string \<Rightarrow> mount \<Rightarrow> unit fs_io" where
  "setup_bind_mount os rootfs m =
     (case mnt_source m of
        None \<Rightarrow> io_lift (Err (Fs_error MissingBindMountSource))
      | Some source \<Rightarrow>
          io_bind (os_call os (Metadata_is_dir source)) (\<lambda>dir.
          io_bind (prepare_mount_destination os rootfs (mnt_destination m) (dir \<noteq> 0)) (\<lambda>d.
          let recursive = list_ex (\<lambda>opt. opt = ''rbind'' \<or> opt = ''rshared'') (mnt_options m);
              readonly = list_ex (\<lambda>opt. opt = ''ro'') (mnt_options m);
              flags = (if recursive then MS_BIND OR MS_REC else MS_BIND);
              remount = (if recursive then MS_BIND OR MS_REMOUNT OR MS_RDONLY OR MS_REC
                         else MS_BIND OR MS_REMOUNT OR MS_RDONLY) in
          io_bind (io_on_err (os_do os (Mount (Some source) (mount_path d) None flags None))
            (rollback os d False)) (\<lambda>_.
          io_when readonly
            (io_on_err (os_do os (Mount None (pd_path d) None remount None)) (rollback os d True))))))"

definition filesystem_types :: "string set" where
  "filesystem_types = {''proc'', ''sysfs'', ''tmpfs'', ''devpts'', ''mqueue'', ''cgroup'', ''cgroup2'', ''ramfs''}"

definition setup_mount :: "fs_world \<Rightarrow> string \<Rightarrow> mount \<Rightarrow> unit fs_io" where
  "setup_mount os rootfs m =
     (if is_bind m then setup_bind_mount os rootfs m
      else if mnt_type m \<in> filesystem_types then setup_filesystem_mount os rootfs m
      else io_lift (Err (Fs_config (UnsupportedMountType (mnt_type m)))))"

definition setup_mounts :: "fs_world \<Rightarrow> string \<Rightarrow> mount list \<Rightarrow> unit fs_io" where
  "setup_mounts os rootfs mounts = io_each (setup_mount os rootfs) mounts"

definition trim_end_slashes :: "string \<Rightarrow> string" where
  "trim_end_slashes s = rev (dropWhile (\<lambda>c. c = CHR ''/'') (rev s))"

definition normalize_destination :: "string \<Rightarrow> string" where
  "normalize_destination d = (if trim_end_slashes d = [] then ''/'' else trim_end_slashes d)"

definition declared_destinations :: "mount list \<Rightarrow> string btree_set" where
  "declared_destinations mounts = fold bts_insert (map (\<lambda>m. normalize_destination (mnt_destination m)) mounts) []"

definition remount_root_readonly :: "fs_world \<Rightarrow> unit fs_io" where
  "remount_root_readonly os = os_do os (Mount None ''/'' None (MS_BIND OR MS_REMOUNT OR MS_RDONLY) None)"

definition create_char_device :: "fs_world \<Rightarrow> string \<times> nat \<times> nat \<times> nat \<Rightarrow> unit fs_io" where
  "create_char_device os = (\<lambda>(path, major, minor, mode).
     io_bind (io_query os (Exists path)) (\<lambda>exists.
     if exists then io_return ()
     else io_bind (io_probe os (Mknod path major minor mode)) (\<lambda>made.
       if made then io_return ()
       else io_bind (io_lift (ok_or (path_file_name path) Invalid_device_name)) (\<lambda>name.
         io_bind (os_do os (Write_file path [])) (\<lambda>_.
         os_do os (Mount (Some (''/dev/'' @ name)) path None MS_BIND None))))))"

definition setup_dev_shm :: "fs_world \<Rightarrow> unit fs_io" where
  "setup_dev_shm os =
     io_bind (os_do os (Create_dir_all ''/dev/shm'')) (\<lambda>_.
     os_do os (Mount (Some ''shm'') ''/dev/shm'' (Some ''tmpfs'') (MS_NOSUID OR MS_NODEV OR MS_NOEXEC)
       (Some ''mode=1777,size=65536k'')))"

definition fd_links :: "(string \<times> string) list" where
  "fd_links = [(''/proc/self/fd'', ''/dev/fd''), (''/proc/self/fd/0'', ''/dev/stdin''),
     (''/proc/self/fd/1'', ''/dev/stdout''), (''/proc/self/fd/2'', ''/dev/stderr'')]"

definition setup_dev_fd_links :: "fs_world \<Rightarrow> unit fs_io" where
  "setup_dev_fd_links os = io_each (\<lambda>(target, link).
     io_bind (io_query os (Exists link)) (\<lambda>exists.
     if exists then io_return ()
     else io_bind (io_query os (Is_symlink link)) (\<lambda>symlink.
       if symlink then io_return () else os_do os (Symlink target link)))) fd_links"

definition setup_dev :: "fs_world \<Rightarrow> string btree_set \<Rightarrow> unit fs_io" where
  "setup_dev os declared =
     io_bind (io_when (\<not> bts_contains declared ''/dev'')
       (io_bind (os_do os (Create_dir_all ''/dev'')) (\<lambda>_.
        os_do os (Mount (Some ''tmpfs'') ''/dev'' (Some ''tmpfs'') (MS_NOSUID OR MS_STRICTATIME) (Some ''mode=755''))))) (\<lambda>_.
     io_bind (io_each (create_char_device os)
       [(''/dev/null'', 1, 3, 438), (''/dev/zero'', 1, 5, 438), (''/dev/random'', 1, 8, 438),
        (''/dev/urandom'', 1, 9, 438)]) (\<lambda>_.
     io_bind (io_when (\<not> bts_contains declared ''/dev/shm'') (setup_dev_shm os)) (\<lambda>_.
     setup_dev_fd_links os)))"

definition setup_dns :: "fs_world \<Rightarrow> string btree_set \<Rightarrow> unit fs_io" where
  "setup_dns os declared =
     (if bts_contains declared ''/etc/resolv.conf'' then io_return ()
      else io_bind (os_do os (Create_dir_all ''/etc'')) (\<lambda>_.
        os_do os (Write_file ''/etc/resolv.conf''
          (''nameserver 1.1.1.1'' @ newline @ ''nameserver 8.8.8.8'' @ newline))))"

definition setup_proc :: "fs_world \<Rightarrow> string btree_set \<Rightarrow> unit fs_io" where
  "setup_proc os declared = io_when (\<not> bts_contains declared ''/proc'')
     (io_bind (io_query os (Exists ''/proc'')) (\<lambda>exists.
      io_bind (io_when (\<not> exists) (os_do os (Create_dir_all ''/proc''))) (\<lambda>_.
      os_do os (Mount (Some ''proc'') ''/proc'' (Some ''proc'') 0 None))))"

definition setup_rootfs :: "fs_world \<Rightarrow> string \<Rightarrow> bool \<Rightarrow> mount list \<Rightarrow> unit fs_io" where
  "setup_rootfs os rootfs readonly mounts =
     io_bind (os_do os (Mount (Some rootfs) rootfs None (MS_BIND OR MS_REC) None)) (\<lambda>_.
     io_bind (setup_mounts os rootfs mounts) (\<lambda>_.
     let old_root = path_join rootfs ''.old_root'' in
     io_bind (os_do os (Create_dir_all old_root)) (\<lambda>_.
     io_bind (os_do os (Pivot_root rootfs old_root)) (\<lambda>_.
     io_bind (os_do os (Chdir ''/'')) (\<lambda>_.
     io_bind (os_do os (Umount_detach ''/.old_root'')) (\<lambda>_.
     io_bind (io_ignore (io_call os (Remove_dir ''/.old_root''))) (\<lambda>_.
     let declared = declared_destinations mounts in
     io_bind (setup_proc os declared) (\<lambda>_.
     io_bind (setup_dns os declared) (\<lambda>_.
     io_bind (setup_dev os declared) (\<lambda>_.
     io_when readonly (remount_root_readonly os)))))))))))"

definition mask_container_path :: "fs_world \<Rightarrow> string \<Rightarrow> unit fs_io" where
  "mask_container_path os path =
     io_bind (io_query os (Exists path)) (\<lambda>exists.
     if \<not> exists then io_return ()
     else io_bind (io_query os (Is_dir path)) (\<lambda>dir.
       if dir then os_do os (Mount (Some ''tmpfs'') path (Some ''tmpfs'')
           (MS_RDONLY OR MS_NOSUID OR MS_NODEV OR MS_NOEXEC) (Some ''size=0k''))
       else os_do os (Mount (Some ''/dev/null'') path None MS_BIND None)))"

definition make_container_path_readonly :: "fs_world \<Rightarrow> string \<Rightarrow> unit fs_io" where
  "make_container_path_readonly os path =
     io_bind (io_query os (Exists path)) (\<lambda>exists.
     if \<not> exists then io_return ()
     else io_bind (os_do os (Mount (Some path) path None (MS_BIND OR MS_REC) None)) (\<lambda>_.
       os_do os (Mount (Some path) path None (MS_BIND OR MS_REC OR MS_REMOUNT OR MS_RDONLY) None)))"

definition apply_oci_linux_paths :: "fs_world \<Rightarrow> string list \<Rightarrow> string list \<Rightarrow> unit fs_io" where
  "apply_oci_linux_paths os masked_paths readonly_paths =
     io_bind (io_each (mask_container_path os) masked_paths) (\<lambda>_.
     io_each (make_container_path_readonly os) readonly_paths)"

subsection \<open>Mount options\<close>

text \<open>The last option that speaks about bit \<open>k\<close> of the flags.\<close>

definition last_word_on :: "nat \<Rightarrow> string list \<Rightarrow> string option" where
  "last_word_on k options =
     find (\<lambda>opt. case flag_option opt of None \<Rightarrow> False | Some (f, _) \<Rightarrow> bit f k) (rev options)"

lemma option_names_disjoint:
  "dom flag_option \<inter> dom propagation_option = {}" "opt \<in> {''defaults'', ''bind'', ''rbind''} \<Longrightarrow> opt \<notin> dom flag_option"
  "opt \<in> {''defaults'', ''bind'', ''rbind''} \<Longrightarrow> opt \<notin> dom propagation_option"
  unfolding flag_option_def propagation_option_def dom_map_of_conv_image_fst by auto

lemma parse_option_cases:
  "parse_option opt (flags, p, d) =
     ((case flag_option opt of None \<Rightarrow> flags | Some (f, on) \<Rightarrow> if on then flags OR f else flags AND NOT f),
      (case propagation_option opt of None \<Rightarrow> p | Some q \<Rightarrow> Some q),
      (if opt \<in> {''defaults'', ''bind'', ''rbind''} \<or> flag_option opt \<noteq> None \<or> propagation_option opt \<noteq> None
       then d else d @ [opt]))"
proof -
  have skip: "flag_option opt = None \<and> propagation_option opt = None" if "opt \<in> {''defaults'', ''bind'', ''rbind''}"
    using option_names_disjoint(2,3) [OF that] unfolding domIff by blast
  show ?thesis
  proof (cases "flag_option opt")
    case None
    then show ?thesis using skip by (auto simp: parse_option_def split: option.split)
  next
    case (Some fo)
    then have "propagation_option opt = None" "opt \<notin> {''defaults'', ''bind'', ''rbind''}"
      using option_names_disjoint(1) skip by (metis disjoint_iff domI domIff, auto)
    then show ?thesis using Some by (cases fo) (simp add: parse_option_def split: bool.split)
  qed
qed

lemma fold_parse_option:
  "\<exists>flags. fold parse_option options (0, None, []) =
     (flags, List.find (\<lambda>_. True) (List.map_filter propagation_option (rev options)),
      filter (\<lambda>opt. opt \<notin> {''defaults'', ''bind'', ''rbind''} \<and> flag_option opt = None \<and> propagation_option opt = None) options)
   \<and> (\<forall>k. bit flags k \<longleftrightarrow> (\<exists>opt f. last_word_on k options = Some opt \<and> flag_option opt = Some (f, True)))"
proof (induction options rule: rev_induct)
  case Nil
  show ?case by (simp add: last_word_on_def List.map_filter_simps)
next
  case (snoc opt options)
  then obtain flags where IH: "fold parse_option options (0, None, []) =
     (flags, List.find (\<lambda>_. True) (List.map_filter propagation_option (rev options)),
      filter (\<lambda>opt. opt \<notin> {''defaults'', ''bind'', ''rbind''} \<and> flag_option opt = None \<and> propagation_option opt = None) options)"
    and bits: "\<And>k. bit flags k \<longleftrightarrow> (\<exists>opt f. last_word_on k options = Some opt \<and> flag_option opt = Some (f, True))"
    by blast
  let ?flags = "case flag_option opt of None \<Rightarrow> flags | Some (f, on) \<Rightarrow> if on then flags OR f else flags AND NOT f"
  have "bit ?flags k \<longleftrightarrow> (\<exists>o' f. last_word_on k (options @ [opt]) = Some o' \<and> flag_option o' = Some (f, True))" for k
  proof (cases "flag_option opt")
    case None
    then have "last_word_on k (options @ [opt]) = last_word_on k options" by (simp add: last_word_on_def)
    with None bits show ?thesis by simp
  next
    case (Some fo)
    obtain f on where fo: "fo = (f, on)" by force
    have lw: "last_word_on k (options @ [opt]) = (if bit f k then Some opt else last_word_on k options)"
      using Some by (simp add: last_word_on_def fo)
    have "k < LENGTH(64)" if "bit f k \<or> bit flags k" using that bit_imp_le_length by blast
    then show ?thesis using Some bits by (auto simp: lw fo bit_simps)
  qed
  then show ?case
    by (intro exI [of _ ?flags]) (auto simp: IH parse_option_cases List.map_filter_simps split: option.split)
qed

text \<open>
  Mount options are read in order and the last one wins: a flag is set exactly when the last option
  that speaks about it sets it, the propagation is the last one named, and every option that is neither is
  handed to the file system, in order.
\<close>

lemma mount_options_last_wins:
  "(bit (mo_flags (parse_mount_options options)) k \<longleftrightarrow>
      (\<exists>opt f. last_word_on k options = Some opt \<and> flag_option opt = Some (f, True))) \<and>
   mo_propagation (parse_mount_options options) =
     (case List.map_filter propagation_option (rev options) of [] \<Rightarrow> None | p # _ \<Rightarrow> Some p) \<and>
   mo_data (parse_mount_options options) =
     (let data = filter (\<lambda>opt. opt \<notin> {''defaults'', ''bind'', ''rbind''} \<and> flag_option opt = None \<and>
          propagation_option opt = None) options
      in if data = [] then None else Some (join '','' data))"
  using fold_parse_option [of options]
  by (auto simp: parse_mount_options_def Let_def split: list.split)

subsection \<open>Mount destinations\<close>

fun normals :: "component list \<Rightarrow> string list" where
  "normals [] = []"
| "normals (Normal n # cs) = n # normals cs"
| "normals (_ # cs) = normals cs"

lemma join_snoc: "ns \<noteq> [] \<Longrightarrow> join sep (ns @ [n]) = join sep ns @ sep @ n"
  by (induction sep ns rule: join.induct) simp_all

lemma path_join_names:
  assumes "list_all plain_name ns" "plain_name n"
  shows "path_join (join ''/'' ns) n = join ''/'' (ns @ [n])"
proof (cases "ns = []")
  case True
  obtain c r where "n = c # r" "c \<noteq> CHR ''/''" using assms(2) by (cases n) (auto simp: plain_name_def)
  then show ?thesis using True by (simp add: path_join_def)
next
  case False
  obtain ms m where ns: "ns = ms @ [m]" using False by (metis append_butlast_last_id)
  have m: "plain_name m" using assms(1) ns by simp
  have "last (join ''/'' ns) = last m"
    using m by (cases "ms = []") (simp_all add: ns join_snoc plain_name_def)
  then have "\<not> ends_with_slash (join ''/'' ns)"
    using m by (auto simp: ends_with_slash_def plain_name_def dest: last_in_set)
  moreover have "\<not> is_absolute n" using assms(2) by (cases n) (auto simp: plain_name_def)
  ultimately show ?thesis
    using join_plain(2) [OF assms(1) False] False by (simp add: path_join_def join_snoc)
qed

lemma push_components_names:
  assumes "list_all plain_name ns" "\<And>n. Normal n \<in> set cs \<Longrightarrow> plain_name n"
  shows "push_components dest (join ''/'' ns) cs =
    (if ParentDir \<in> set cs then Err (Fs_error (MountDestinationEscapesRootfs dest))
     else Ok (join ''/'' (ns @ normals cs)))"
  using assms
proof (induction cs arbitrary: ns rule: normals.induct)
  case (2 n cs)
  then have "plain_name n" by simp
  then show ?case using "2.IH" [of "ns @ [n]"] "2.prems" by (simp add: path_join_names)
qed auto

lemma normals_plain: "list_all plain_name (normals (components p))"
proof -
  have "(\<And>n. Normal n \<in> set cs \<Longrightarrow> plain_name n) \<Longrightarrow> list_all plain_name (normals cs)" for cs
    by (induction cs rule: normals.induct) auto
  then show ?thesis using Normal_in_components by blast
qed

lemma container_mount_destination_eq:
  "container_mount_destination rootfs dest =
     (if \<not> is_absolute dest then Err (Fs_error (MountDestinationNotAbsolute dest))
      else if ParentDir \<in> set (components dest) then Err (Fs_error (MountDestinationEscapesRootfs dest))
      else if normals (components dest) = [] then Err (Fs_error MountDestinationIsContainerRoot)
      else Ok (path_join rootfs (join ''/'' (normals (components dest)))))"
  using push_components_names [of "[]" "components dest" dest] Normal_in_components
    join_plain(2) [OF normals_plain, of dest]
  by (auto simp: container_mount_destination_def)

text \<open>
  A mount destination is accepted exactly when it is absolute, names something below the root and
  contains no parent component; the path it is given is then the root's followed by the destination's
  ordinary components, whatever slashes and dots it was written with.
\<close>

lemma mount_destination_beneath_rootfs:
  "case container_mount_destination rootfs dest of
     Ok p \<Rightarrow> is_absolute dest \<and> ParentDir \<notin> set (components dest) \<and> normals (components dest) \<noteq> [] \<and>
       components p = components rootfs @ map Normal (normals (components dest))
   | Err e \<Rightarrow> e = Fs_error
       (if \<not> is_absolute dest then MountDestinationNotAbsolute dest
        else if ParentDir \<in> set (components dest) then MountDestinationEscapesRootfs dest
        else MountDestinationIsContainerRoot) \<and>
       (\<not> is_absolute dest \<or> ParentDir \<in> set (components dest) \<or> normals (components dest) = [])"
  using components_join [OF normals_plain, of dest rootfs]
  by (simp add: container_mount_destination_eq)

subsection \<open>Opening a destination\<close>

text \<open>
  What the kernel documents of \<^verbatim>\<open>openat2\<close> with \<^verbatim>\<open>RESOLVE_BENEATH\<close> and \<^verbatim>\<open>RESOLVE_NO_SYMLINKS\<close>: opening one
  name below a directory yields that directory's entry of this name, not what a link there points to.
  \<open>loc w fd\<close> is the place a descriptor refers to after the calls \<open>w\<close>; numbers may be reused.
\<close>

fun opens :: "fs_call \<Rightarrow> bool" where
  "opens (Open _ _) = True"
| "opens (Openat2 _ _ _ _ _) = True"
| "opens _ = False"

definition resolves_beneath ::
    "fs_world \<Rightarrow> (string \<Rightarrow> string list) \<Rightarrow> (fs_call list \<Rightarrow> nat \<Rightarrow> string list) \<Rightarrow> bool" where
  "resolves_beneath os base loc \<longleftrightarrow>
     (\<forall>w path fl fd. os w (Open path fl) = Ok fd \<longrightarrow> loc (w @ [Open path fl]) fd = base path) \<and>
     (\<forall>w parent name fl rs mode fd.
        os w (Openat2 parent name fl rs mode) = Ok fd \<longrightarrow> RESOLVE_BENEATH \<in> set rs \<longrightarrow> RESOLVE_NO_SYMLINKS \<in> set rs \<longrightarrow>
        loc (w @ [Openat2 parent name fl rs mode]) fd =
          (if name = ''.'' then loc w parent else loc w parent @ [name]) \<or> \<not> (name = ''.'' \<or> plain_name name)) \<and>
     (\<forall>w c fd. \<not> opens c \<or> \<not> is_ok (os w c) \<longrightarrow> loc (w @ [c]) fd = loc w fd)"

lemma resolves_simps:
  assumes "resolves_beneath os base loc"
  shows "os w (Open path fl) = Ok fd \<Longrightarrow> loc (w @ [Open path fl]) fd = base path"
    and "os w (Openat2 parent name fl safe_resolve mode) = Ok fd \<Longrightarrow> plain_name name \<Longrightarrow>
      loc (w @ [Openat2 parent name fl safe_resolve mode]) fd = loc w parent @ [name]"
    and "os w (Openat2 parent ''.'' fl safe_resolve mode) = Ok fd \<Longrightarrow>
      loc (w @ [Openat2 parent ''.'' fl safe_resolve mode]) fd = loc w parent"
    and "\<not> opens c \<or> \<not> is_ok (os w c) \<Longrightarrow> loc (w @ [c]) fd = loc w fd"
  using assms unfolding resolves_beneath_def
  by (auto simp: safe_resolve_def plain_name_def) (metis list.set_intros plain_name_def)+

lemma os_Ok [simp]:
  "os_call os c w = (w', Ok n) \<longleftrightarrow> w' = w @ [c] \<and> os w c = Ok n"
  "os_do os c w = (w', Ok u) \<longleftrightarrow> w' = w @ [c] \<and> is_ok (os w c)"
  by (auto simp: os_call_def os_do_def is_ok_iff)

lemma os_call_Err: "os_call os c w = (w', Err e) \<longleftrightarrow> w' = w @ [c] \<and> (\<exists>n. os w c = Err n \<and> e = Fs_os n)"
  by (auto simp: os_call_def io_defs map_err_Err)

lemma open_or_create_directory_at_loc:
  assumes "resolves_beneath os base loc" "plain_name name" "open_or_create_directory_at os parent name w = (w', Ok fd)"
  shows "loc w' fd = loc w parent @ [name]"
proof -
  let ?c = "Openat2 parent name [O_PATH, O_DIRECTORY, O_CLOEXEC] safe_resolve 0"
  have "w' = w @ [?c] \<and> os w ?c = Ok fd \<or>
     w' = ((w @ [?c]) @ [Mkdirat parent name 493]) @ [?c] \<and> \<not> is_ok (os w ?c) \<and>
       os ((w @ [?c]) @ [Mkdirat parent name 493]) ?c = Ok fd"
    using assms(3)
    by (auto simp: open_or_create_directory_at_def open_directory_at_def io_handle_def os_call_Err
        split: prod.splits result.splits fs_error.splits errno.splits)
  then show ?thesis
    using resolves_simps(2) [OF assms(1) _ assms(2)] resolves_simps(4) [OF assms(1)] by (auto simp del: append_assoc)
qed

lemma open_tree_from_loc:
  assumes "resolves_beneath os base loc"
  shows "list_all plain_name names \<Longrightarrow> open_tree_from os cur names w = (w', Ok fd) \<Longrightarrow> loc w' fd = loc w cur @ names"
proof (induction names arbitrary: cur w)
  case (Cons n names)
  then obtain w1 fd1 where 1: "open_or_create_directory_at os cur n w = (w1, Ok fd1)" "open_tree_from os fd1 names w1 = (w', Ok fd)"
    by auto
  then show ?case using Cons open_or_create_directory_at_loc [OF assms _ 1(1)] by simp
qed simp

lemma open_or_create_directory_tree_loc:
  assumes "resolves_beneath os base loc" "list_all plain_name names"
    "open_or_create_directory_tree os root_fd names w = (w', Ok fd)"
  shows "loc w' fd = loc w root_fd @ names"
  using assms(3) open_tree_from_loc [OF assms(1,2)] resolves_simps(3) [OF assms(1)]
  by (auto simp: open_or_create_directory_tree_def open_directory_at_def)

lemma open_or_create_file_destination_loc:
  assumes res: "resolves_beneath os base loc" and "list_all plain_name names"
    and "open_or_create_file_destination os root_fd names w = (w', Ok fd)"
  shows "loc w' fd = loc w root_fd @ names"
proof -
  from assms(3) have ne: "names \<noteq> []" by (auto simp: open_or_create_file_destination_def)
  let ?o = "\<lambda>p. Openat2 p (last names) [O_PATH, O_CLOEXEC] safe_resolve 0"
  let ?c = "\<lambda>p. Openat2 p (last names) [O_CREAT, O_RDWR, O_CLOEXEC] safe_resolve 438"
  have names: "list_all plain_name (butlast names)" "plain_name (last names)" "butlast names @ [last names] = names"
    using assms(2) ne by (auto simp: list_all_iff dest: in_set_butlastD)
  from assms(3) ne obtain w1 parent where tree: "open_or_create_directory_tree os root_fd (butlast names) w = (w1, Ok parent)"
    and rest: "io_handle (io_call os (?o parent)) (\<lambda>r. case r of
          Ok fd \<Rightarrow>
            io_bind (os_call os (Fstat_is_dir fd)) (\<lambda>dir.
            if dir \<noteq> 0 then io_lift (Err (Fs_error (BindDestinationIsDirectory (last names)))) else io_return fd)
        | Err Errno_ENOENT \<Rightarrow> os_call os (?c parent)
        | Err e \<Rightarrow> io_lift (Err (Fs_os e))) w1 = (w', Ok fd)"
    unfolding open_or_create_file_destination_def by auto
  have "os w1 (?o parent) = Ok fd \<and> w' = (w1 @ [?o parent]) @ [Fstat_is_dir fd] \<or>
      \<not> is_ok (os w1 (?o parent)) \<and> os (w1 @ [?o parent]) (?c parent) = Ok fd \<and> w' = (w1 @ [?o parent]) @ [?c parent]"
    using rest by (cases "os w1 (?o parent)") (auto simp: io_handle_def io_call_def split: errno.splits if_splits)
  then have "loc w' fd = loc w1 parent @ [last names]"
    using resolves_simps(2) [OF res _ names(2)] resolves_simps(4) [OF res] by (auto simp del: append_assoc)
  then show ?thesis
    using open_or_create_directory_tree_loc [OF res names(1) tree] names(3) by simp
qed

lemma missing_from_loc:
  assumes "resolves_beneath os base loc"
  shows "missing_from os p names w = (w', Ok ps) \<Longrightarrow> loc w' fd = loc w fd"
  by (induction names arbitrary: p w ps) (auto simp: Let_def resolves_simps(4) [OF assms])

lemma prospective_created_paths_loc:
  assumes "resolves_beneath os base loc" "prospective_created_paths os rootfs names dir w = (w', Ok ps)"
  shows "loc w' fd = loc w fd"
  using assms(2) missing_from_loc [OF assms(1)]
  by (auto simp: prospective_created_paths_def Let_def simp del: missing_from.simps split: if_splits)

lemma relative_components_Normal: "relative_components p (map Normal ns) = Ok ns"
  by (induction ns) simp_all

lemma prepare_Ok:
  assumes "prepare_mount_destination os rootfs dest dir w = (w', Ok d)"
  obtains root_fd w2 where
    "container_mount_destination rootfs dest = Ok (pd_path d)"
    "components (pd_path d) = components rootfs @ map Normal (normals (components dest))"
    "normals (components dest) \<noteq> []"
    "os w (Open rootfs [O_PATH, O_DIRECTORY, O_CLOEXEC]) = Ok root_fd"
    "prospective_created_paths os rootfs (normals (components dest)) dir
       (w @ [Open rootfs [O_PATH, O_DIRECTORY, O_CLOEXEC]]) = (w2, Ok (pd_created_paths d))"
    "(if dir then open_or_create_directory_tree os root_fd (normals (components dest))
      else open_or_create_file_destination os root_fd (normals (components dest))) w2 = (w', Ok (pd_fd d))"
proof -
  from assms obtain path where path: "container_mount_destination rootfs dest = Ok path"
    by (auto simp: prepare_mount_destination_def)
  then have c: "components path = components rootfs @ map Normal (normals (components dest))"
    "normals (components dest) \<noteq> []"
    using components_join [OF normals_plain, of dest rootfs]
    by (auto simp: container_mount_destination_eq split: if_splits)
  show thesis
    using assms that [unfolded if_distrib] path c
    by (auto simp: prepare_mount_destination_def relative_components_Normal)
qed

text \<open>
  C16: the descriptor something is mounted on refers to the place inside the container's root that the
  destination names, component by component, on any kernel with the documented \<^verbatim>\<open>openat2\<close>: no symbolic
  link planted in the root file system can divert a mount.
\<close>

theorem mount_descriptor_inside_rootfs:
  assumes "resolves_beneath os base loc"
    and "prepare_mount_destination os rootfs dest source_is_dir w = (w', Ok d)"
  shows "loc w' (pd_fd d) = base rootfs @ normals (components dest) \<and> normals (components dest) \<noteq> []"
proof -
  from assms(2) obtain root_fd w2 where p:
    "os w (Open rootfs [O_PATH, O_DIRECTORY, O_CLOEXEC]) = Ok root_fd" "normals (components dest) \<noteq> []"
    "prospective_created_paths os rootfs (normals (components dest)) source_is_dir
       (w @ [Open rootfs [O_PATH, O_DIRECTORY, O_CLOEXEC]]) = (w2, Ok (pd_created_paths d))"
    "(if source_is_dir then open_or_create_directory_tree os root_fd (normals (components dest))
      else open_or_create_file_destination os root_fd (normals (components dest))) w2 = (w', Ok (pd_fd d))"
    by (rule prepare_Ok)
  have "loc w2 root_fd = base rootfs"
    using prospective_created_paths_loc [OF assms(1) p(3)] resolves_simps(1) [OF assms(1) p(1)] by simp
  then show ?thesis
    using p(2,4) open_or_create_directory_tree_loc [OF assms(1) normals_plain]
      open_or_create_file_destination_loc [OF assms(1) normals_plain] by (auto split: if_splits)
qed

definition sample_fs :: fs_world where
  "sample_fs w c = (if opens c then Ok (length w) else Ok 0)"

fun sample_loc_rev :: "fs_call list \<Rightarrow> nat \<Rightarrow> string list" where
  "sample_loc_rev [] fd = []"
| "sample_loc_rev (c # r) fd = (if fd \<noteq> length r then sample_loc_rev r fd else case c of
       Open path _ \<Rightarrow> normals (components path)
     | Openat2 parent name _ _ _ \<Rightarrow> sample_loc_rev r parent @ (if name = ''.'' then [] else [name])
     | _ \<Rightarrow> sample_loc_rev r fd)"

lemma sample_resolves: "resolves_beneath sample_fs (\<lambda>p. normals (components p)) (\<lambda>w. sample_loc_rev (rev w))"
  by (auto simp: resolves_beneath_def sample_fs_def split: fs_call.splits)

theorem mount_descriptor_inside_rootfs_witness:
  "\<exists>w' d. prepare_mount_destination sample_fs ''/srv/rootfs'' ''/data/./x'' True [] = (w', Ok d) \<and>
     sample_loc_rev (rev w') (pd_fd d) = [''srv'', ''rootfs'', ''data'', ''x'']"
proof -
  have "is_ok (snd (prepare_mount_destination sample_fs ''/srv/rootfs'' ''/data/./x'' True []))" by code_simp
  then obtain w' d where p: "prepare_mount_destination sample_fs ''/srv/rootfs'' ''/data/./x'' True [] = (w', Ok d)"
    by (metis is_ok_iff prod.collapse)
  moreover have "normals (components ''/srv/rootfs'') @ normals (components ''/data/./x'') = [''srv'', ''rootfs'', ''data'', ''x'']"
    by code_simp
  ultimately show ?thesis using mount_descriptor_inside_rootfs [OF sample_resolves p] by metis
qed

subsection \<open>Calls made before the root is switched\<close>

definition beneath :: "string \<Rightarrow> string \<Rightarrow> bool" where
  "beneath rootfs p \<longleftrightarrow> (\<exists>ns. ns \<noteq> [] \<and> components p = components rootfs @ map Normal ns)"

definition proc_fd :: "string \<Rightarrow> bool" where
  "proc_fd p \<longleftrightarrow> (\<exists>n. p = ''/proc/self/fd/'' @ nat_dec n)"

text \<open>
  Calls that change nothing outside the root: mounts and removals below it or on an opened descriptor,
  creation of one name below an opened directory, and queries.
\<close>

fun confined :: "string \<Rightarrow> fs_call \<Rightarrow> bool" where
  "confined rootfs (Mount _ target _ _ _) = (proc_fd target \<or> beneath rootfs target)"
| "confined rootfs (Umount_detach target) = proc_fd target"
| "confined rootfs (Remove_dir p) = beneath rootfs p"
| "confined rootfs (Remove_file p) = beneath rootfs p"
| "confined rootfs (Open p fl) = (p = rootfs \<and> O_CREAT \<notin> set fl)"
| "confined rootfs (Openat2 _ name _ rs _) = (rs = safe_resolve \<and> (name = ''.'' \<or> plain_name name))"
| "confined rootfs (Mkdirat _ name _) = plain_name name"
| "confined rootfs (Symlink_metadata _) = True"
| "confined rootfs (Metadata_is_dir _) = True"
| "confined rootfs (Fstat_is_dir _) = True"
| "confined rootfs _ = False"

lemma only_os [io_only]: "P c \<Longrightarrow> only P (os_call os c)" "P c \<Longrightarrow> only P (os_do os c)"
  by (simp_all add: os_call_def os_do_def io_only)

lemma components_push: "plain_name n \<Longrightarrow> components (path_join p n) = components p @ [Normal n]"
  using components_join [of "[n]" p] by simp

lemma missing_from_only [io_only]: "only (confined rootfs) (missing_from os p names)"
  by (induction names arbitrary: p) (auto simp: Let_def intro!: io_only)

lemma missing_from_beneath:
  assumes "list_all plain_name names" "missing_from os p names w = (w', Ok ps)"
    "components p = components rootfs @ map Normal ns"
  shows "list_all (beneath rootfs) ps"
  using assms
proof (induction names arbitrary: p w ps ns)
  case (Cons n names)
  have c: "components (path_join p n) = components rootfs @ map Normal (ns @ [n])"
    using Cons.prems by (simp add: components_push)
  then have "beneath rootfs (path_join p n)" unfolding beneath_def by blast
  then show ?case using Cons.prems Cons.IH [OF _ _ c] by (auto simp: Let_def split: if_splits)
qed simp

lemma components_fold_push:
  "list_all plain_name names \<Longrightarrow> components (fold (\<lambda>c p. path_join p c) names p) = components p @ map Normal names"
  by (induction names arbitrary: p) (simp_all add: components_push)

lemma prospective_beneath:
  assumes "list_all plain_name names" "prospective_created_paths os rootfs names dir w = (w', Ok ps)"
  shows "list_all (beneath rootfs) ps"
proof -
  let ?ns = "take (if dir then length names else length names - 1) names"
  have ns: "list_all plain_name ?ns" "names \<noteq> [] \<Longrightarrow> list_all plain_name [last names]"
    using assms(1) by (auto simp: list_all_iff dest: in_set_takeD)
  show ?thesis
    using assms(2) missing_from_beneath [OF ns(1), of os rootfs _ _ _ rootfs "[]"]
      missing_from_beneath [OF ns(2), of os _ _ _ _ rootfs ?ns, OF _ _ components_fold_push [OF ns(1)]]
    by (auto simp: prospective_created_paths_def Let_def simp del: missing_from.simps split: if_splits)
qed

lemma prospective_only [io_only]: "only (confined rootfs) (prospective_created_paths os rootfs names dir)"
  by (auto simp: prospective_created_paths_def Let_def simp del: missing_from.simps intro!: io_only)

lemma open_directory_at_only [io_only]:
  "name = ''.'' \<or> plain_name name \<Longrightarrow> only (confined rootfs) (open_directory_at os fd name)"
  by (auto simp: open_directory_at_def intro!: io_only)

lemma open_or_create_directory_at_only [io_only]:
  "plain_name name \<Longrightarrow> only (confined rootfs) (open_or_create_directory_at os fd name)"
  by (auto simp: open_or_create_directory_at_def intro!: io_only split: result.split fs_error.split errno.split)

lemma open_tree_only: "list_all plain_name names \<Longrightarrow> only (confined rootfs) (open_tree_from os fd names)"
  by (induction names arbitrary: fd) (auto intro!: io_only)

lemma open_or_create_directory_tree_only [io_only]:
  "list_all plain_name names \<Longrightarrow> only (confined rootfs) (open_or_create_directory_tree os fd names)"
  by (auto simp: open_or_create_directory_tree_def intro!: io_only open_tree_only)

lemma open_or_create_file_only [io_only]:
  assumes "list_all plain_name names"
  shows "only (confined rootfs) (open_or_create_file_destination os fd names)"
proof (cases "names = []")
  case False
  then have "plain_name (last names)" "list_all plain_name (butlast names)"
    using assms by (auto simp: list_all_iff dest: in_set_butlastD)
  then show ?thesis
    by (auto simp: open_or_create_file_destination_def intro!: io_only split: result.split errno.split)
qed (simp add: open_or_create_file_destination_def io_only)

lemma prepare_only [io_only]: "only (confined rootfs) (prepare_mount_destination os rootfs dest dir)"
proof (cases "container_mount_destination rootfs dest")
  case (Ok path)
  then have "components path = components rootfs @ map Normal (normals (components dest))"
    "normals (components dest) \<noteq> []"
    using components_join [OF normals_plain, of dest rootfs]
    by (auto simp: container_mount_destination_eq split: if_splits)
  then show ?thesis
    by (auto simp: prepare_mount_destination_def Ok relative_components_Normal intro!: io_only normals_plain)
qed (simp add: prepare_mount_destination_def io_only)

lemma rollback_only [io_only]:
  "list_all (beneath rootfs) (pd_created_paths d) \<Longrightarrow> only (confined rootfs) (rollback os d mounted)"
  by (auto simp: rollback_def proc_fd_def mount_path_def list_all_iff intro!: io_only split: result.split)

lemma prepared_beneath:
  assumes "prepare_mount_destination os rootfs dest dir w = (w', Ok d)"
  shows "beneath rootfs (pd_path d)" "list_all (beneath rootfs) (pd_created_paths d)" "proc_fd (mount_path d)"
proof -
  obtain root_fd w2 where p: "components (pd_path d) = components rootfs @ map Normal (normals (components dest))"
    "normals (components dest) \<noteq> []"
    "prospective_created_paths os rootfs (normals (components dest)) dir
       (w @ [Open rootfs [O_PATH, O_DIRECTORY, O_CLOEXEC]]) = (w2, Ok (pd_created_paths d))"
    using assms by (rule prepare_Ok)
  then show "beneath rootfs (pd_path d)" "list_all (beneath rootfs) (pd_created_paths d)"
    using prospective_beneath [OF normals_plain p(3)] by (auto simp: beneath_def)
qed (auto simp: proc_fd_def mount_path_def)

lemma only_prepared:
  assumes "\<And>d. beneath rootfs (pd_path d) \<Longrightarrow> list_all (beneath rootfs) (pd_created_paths d) \<Longrightarrow>
    proc_fd (mount_path d) \<Longrightarrow> only (confined rootfs) (f d)"
  shows "only (confined rootfs) (io_bind (prepare_mount_destination os rootfs dest dir) f)"
  by (rule only_bind_Ok [OF prepare_only]) (intro assms; rule prepared_beneath)

lemma setup_mount_only [io_only]: "only (confined rootfs) (setup_mount os rootfs m)"
proof -
  have "only (confined rootfs) (setup_filesystem_mount os rootfs m)"
    unfolding setup_filesystem_mount_def Let_def
    by (rule only_prepared) (auto intro!: io_only split: option.split)
  moreover have "only (confined rootfs) (setup_bind_mount os rootfs m)"
    unfolding setup_bind_mount_def Let_def
    by (auto intro!: only_bind [OF only_os(1)] only_prepared io_only split: option.split)
  ultimately show ?thesis by (auto simp: setup_mount_def intro: io_only)
qed

lemma setup_mounts_only [io_only]: "only (confined rootfs) (setup_mounts os rootfs mounts)"
  unfolding setup_mounts_def by (rule io_only) (rule io_only)

subsection \<open>Switching the root\<close>

fun inside :: "fs_call \<Rightarrow> bool" where
  "inside (Mount _ target _ _ _) = (target \<in> {''/'', ''/proc'', ''/dev'', ''/dev/shm'', ''/dev/null'', ''/dev/zero'', ''/dev/random'', ''/dev/urandom''})"
| "inside (Umount_detach _) = False"
| "inside (Pivot_root _ _) = False"
| "inside (Chdir _) = False"
| "inside _ = True"

lemma after_pivot_only:
  "only inside (setup_proc os declared)" "only inside (setup_dns os declared)" "only inside (setup_dev os declared)"
  by (auto simp: setup_proc_def setup_dns_def setup_dev_def create_char_device_def setup_dev_shm_def
      setup_dev_fd_links_def intro!: io_only)

text \<open>
  C15: when the root file system is set up, the root was first bound onto itself; until it became the
  root, only confined calls were made; the old root was then switched away and detached before anything
  else was mounted, after that only the container's own special file systems; and the very last call of a
  read-only set-up made the root read-only. None of these steps was refused.
\<close>

theorem rootfs_switched_before_use:
  assumes "setup_rootfs os rootfs readonly mounts w = (w', Ok ())"
  shows "\<exists>pre post final. w' = w @ Mount (Some rootfs) rootfs None (MS_BIND OR MS_REC) None # pre @
      [Create_dir_all (path_join rootfs ''.old_root''), Pivot_root rootfs (path_join rootfs ''.old_root''), Chdir ''/'',
       Umount_detach ''/.old_root'', Remove_dir ''/.old_root''] @ post @ final \<and>
    list_all (confined rootfs) pre \<and> list_all inside post \<and>
    all_ok os (w @ Mount (Some rootfs) rootfs None (MS_BIND OR MS_REC) None # pre)
      [Create_dir_all (path_join rootfs ''.old_root''), Pivot_root rootfs (path_join rootfs ''.old_root''), Chdir ''/'',
       Umount_detach ''/.old_root''] \<and>
    final = (if readonly then [Mount None ''/'' None (MS_BIND OR MS_REMOUNT OR MS_RDONLY) None] else []) \<and>
    (readonly \<longrightarrow> is_ok (os (butlast w') (last w')))"
proof -
  let ?old = "path_join rootfs ''.old_root''"
  let ?w0 = "w @ [Mount (Some rootfs) rootfs None (MS_BIND OR MS_REC) None]"
  let ?steps = "[Create_dir_all ?old, Pivot_root rootfs ?old, Chdir ''/'', Umount_detach ''/.old_root'']"
  let ?declared = "declared_destinations mounts"
  from assms obtain w1 w3 w4 w5 where
    1: "setup_mounts os rootfs mounts ?w0 = (w1, Ok ())" "all_ok os w1 ?steps"
    and 3: "setup_proc os ?declared (w1 @ ?steps @ [Remove_dir ''/.old_root'']) = (w3, Ok ())"
    and 4: "setup_dns os ?declared w3 = (w4, Ok ())" and 5: "setup_dev os ?declared w4 = (w5, Ok ())"
    and 6: "io_when readonly (remount_root_readonly os) w5 = (w', Ok ())"
    by (auto simp: setup_rootfs_def Let_def io_ignore_def io_call_def)
  obtain pre where pre: "w1 = ?w0 @ pre" "list_all (confined rootfs) pre"
    using only_log [OF setup_mounts_only 1(1)] by blast
  obtain p3 p4 p5 where post: "w5 = w1 @ ?steps @ [Remove_dir ''/.old_root''] @ p3 @ p4 @ p5"
    "list_all inside p3" "list_all inside p4" "list_all inside p5"
    using only_log [OF after_pivot_only(1) 3] only_log [OF after_pivot_only(2) 4] only_log [OF after_pivot_only(3) 5] by auto
  show ?thesis
    using 6 1(2) pre post
    by (intro exI [of _ pre] exI [of _ "p3 @ p4 @ p5"]
        exI [of _ "if readonly then [Mount None ''/'' None (MS_BIND OR MS_REMOUNT OR MS_RDONLY) None] else []"])
      (auto simp: remount_root_readonly_def butlast_append)
qed

definition sample_proc_mount :: mount where
  "sample_proc_mount = \<lparr>mnt_destination = ''/proc'', mnt_source = None, mnt_type = ''proc'', mnt_options = []\<rparr>"

theorem rootfs_switched_before_use_witness:
  "Pivot_root ''/r'' ''/r/.old_root'' \<in> set (fst (setup_rootfs sample_fs ''/r'' True [sample_proc_mount] []))"
proof -
  have "snd (setup_rootfs sample_fs ''/r'' True [sample_proc_mount] []) = Ok ()" by code_simp
  then obtain w' where "setup_rootfs sample_fs ''/r'' True [sample_proc_mount] [] = (w', Ok ())"
    by (metis prod.collapse)
  from rootfs_switched_before_use [OF this] this show ?thesis by (auto simp: path_join_def ends_with_slash_def)
qed

subsection \<open>Overlay set-up\<close>

definition overlay_probes :: "overlay_config \<Rightarrow> fs_call list" where
  "overlay_probes c = [Exists (oc_lowerdir c), Symlink_metadata (oc_upperdir c), Symlink_metadata (oc_workdir c),
     Symlink_metadata (oc_mergeddir c)]"

definition overlay_steps :: "overlay_config \<Rightarrow> fs_call list" where
  "overlay_steps c = [Create_dir_all (oc_upperdir c), Create_dir_all (oc_workdir c), Create_dir_all (oc_mergeddir c),
     Mount (Some ''overlay'') (oc_mergeddir c) (Some ''overlay'') 0 (Some (overlay_data c))]"

text \<open>The directories that were not there when asked for, last created first.\<close>

definition overlay_missing :: "fs_world \<Rightarrow> overlay_config \<Rightarrow> fs_call list \<Rightarrow> string list" where
  "overlay_missing os c w =
     (let missing = (\<lambda>i. \<not> is_ok (os (w @ take i (overlay_probes c)) (overlay_probes c ! i))) in
      (if missing 3 then [oc_mergeddir c] else []) @ (if missing 2 then [oc_workdir c] else []) @
      (if missing 1 then [oc_upperdir c] else []))"

lemma cleanup_created_eq:
  "cleanup_created os c u k False w =
     (w @ map Remove_dir (oc_mergeddir c # (if k then [] else [oc_workdir c]) @ (if u then [] else [oc_upperdir c])), Ok ())"
  by (simp add: cleanup_created_def io_defs)

lemma os_do_eq: "os_do os c w = (w @ [c], map_ok (\<lambda>_. ()) (map_err Fs_os (os w c)))"
  by (cases "os w c") (simp_all add: os_do_def os_call_def io_defs)

lemma overlay_refused:
  assumes "\<not> ((case os w (Exists (oc_lowerdir c)) of Ok n \<Rightarrow> n \<noteq> 0 | Err _ \<Rightarrow> False) \<and>
      \<not> is_ok (os (w @ take 3 (overlay_probes c)) (Symlink_metadata (oc_mergeddir c))))"
  shows "(\<exists>k. fst (setup_overlay_rootfs os c w) = w @ take k (overlay_probes c)) \<and>
    (snd (setup_overlay_rootfs os c w) = Err (Fs_error (OverlayLowerdirDoesNotExist (oc_lowerdir c))) \<or>
     snd (setup_overlay_rootfs os c w) = Err (Fs_error (OverlayMergeddirAlreadyExists (oc_mergeddir c))))"
  using assms exI [of "\<lambda>k. w @ [Exists (oc_lowerdir c)] = w @ take k (overlay_probes c)" 1]
    exI [of "\<lambda>k. w @ overlay_probes c = w @ take k (overlay_probes c)" 4]
  by (auto simp: setup_overlay_rootfs_def overlay_probes_def io_bind_probe io_lift_def)

lemma overlay_steps_outcome:
  obtains n e where "n \<in> {0, 1, 2, 3}" "all_ok os w (take n (overlay_steps c))" "os (w @ take n (overlay_steps c)) (overlay_steps c ! n) = Err e"
    | "all_ok os w (overlay_steps c)"
proof (cases "all_ok os w (overlay_steps c)")
  case False
  then have "\<exists>n e. n < length (overlay_steps c) \<and> all_ok os w (take n (overlay_steps c)) \<and>
      os (w @ take n (overlay_steps c)) (overlay_steps c ! n) = Err e"
    by (rule first_failure)
  moreover have "n \<in> {0, 1, 2, 3}" if "n < length (overlay_steps c)" for n using that by (auto simp: overlay_steps_def)
  ultimately show ?thesis using that(1) by metis
qed (use that(2) in blast)

text \<open>
  C23: setting up an overlay either mounts it, or refuses after queries alone, or fails at some step and
  then removes exactly the directories that did not exist before, in reverse order: a directory that was
  there already is never touched.
\<close>

theorem overlay_all_or_nothing:
  "case setup_overlay_rootfs os c w of
     (w', Ok p) \<Rightarrow> p = oc_mergeddir c \<and> w' = w @ overlay_probes c @ overlay_steps c \<and>
       oc_mergeddir c \<in> set (overlay_missing os c w) \<and> all_ok os (w @ overlay_probes c) (overlay_steps c)
   | (w', Err e) \<Rightarrow>
       (\<exists>k. w' = w @ take k (overlay_probes c) \<and>
          e \<in> {Fs_error (OverlayLowerdirDoesNotExist (oc_lowerdir c)), Fs_error (OverlayMergeddirAlreadyExists (oc_mergeddir c))}) \<or>
       (\<exists>n < 4. all_ok os (w @ overlay_probes c) (take n (overlay_steps c)) \<and>
          map_err Fs_os (os (w @ overlay_probes c @ take n (overlay_steps c)) (overlay_steps c ! n)) = Err e \<and>
          w' = w @ overlay_probes c @ take (Suc n) (overlay_steps c) @ map Remove_dir (overlay_missing os c w))"
proof (cases "(case os w (Exists (oc_lowerdir c)) of Ok n \<Rightarrow> n \<noteq> 0 | Err _ \<Rightarrow> False) \<and>
    \<not> is_ok (os (w @ take 3 (overlay_probes c)) (Symlink_metadata (oc_mergeddir c)))")
  case False
  from overlay_refused [OF False] show ?thesis by (auto split: prod.split)
next
  case True
  let ?w4 = "w @ overlay_probes c"
  define u k where uk: "u = is_ok (os (w @ [Exists (oc_lowerdir c)]) (Symlink_metadata (oc_upperdir c)))"
    "k = is_ok (os (w @ [Exists (oc_lowerdir c), Symlink_metadata (oc_upperdir c)]) (Symlink_metadata (oc_workdir c)))"
  have run: "setup_overlay_rootfs os c w =
      io_bind (io_on_err (create_overlay_dirs os c) (cleanup_created os c u k False)) (\<lambda>_.
      io_bind (io_on_err (os_do os (overlay_steps c ! 3)) (cleanup_created os c u k False)) (\<lambda>_.
      io_return (oc_mergeddir c))) ?w4"
    using True by (simp add: setup_overlay_rootfs_def overlay_probes_def overlay_steps_def uk Let_def io_bind_probe)
  have missing: "overlay_missing os c w = oc_mergeddir c # (if k then [] else [oc_workdir c]) @ (if u then [] else [oc_upperdir c])"
    using True by (simp add: overlay_missing_def overlay_probes_def uk numeral_3_eq_3 numeral_2_eq_2)
  note eval = run missing io_on_err_def create_overlay_dirs_def os_do_eq cleanup_created_eq overlay_steps_def io_defs
  show ?thesis
  proof (cases rule: overlay_steps_outcome [of os ?w4 c])
    case (1 n e)
    then have "setup_overlay_rootfs os c w =
        (?w4 @ take (Suc n) (overlay_steps c) @ map Remove_dir (overlay_missing os c w), Err (Fs_os e))"
      by (auto simp: eval is_ok_iff numeral_3_eq_3 numeral_2_eq_2)
    with 1 show ?thesis by (auto intro!: exI [of _ n])
  next
    case 2
    then show ?thesis by (auto simp: eval is_ok_iff)
  qed
qed

end
