(* ===== verification/State.thy ===== *)
theory State
  imports Masquerade Filesystem
begin

text \<open>
  \<^verbatim>\<open>src/state/mod.rs\<close>: the state record of a container, its transitions, and the store of state files.
  \<^verbatim>\<open>/proc\<close> and the clock are an environment record; the cleanup of a dead container's resources is a
  sequence of calls whose outcomes the environment decides. The store maps a container's directory
  to its state file, if written; the files themselves (JSON, temporary file and rename) are taken to
  work, and a file lock serialises the operations on one container.
\<close>

subsection \<open>State records\<close>

definition STATE_SCHEMA_VERSION :: u32 where "STATE_SCHEMA_VERSION = 4"
definition DEFAULT_STATE_ROOT :: string where "DEFAULT_STATE_ROOT = ''/run/crun-rs''"

datatype container_status = Created | Running | Stopped

record user_namespace_map =
  host_uid :: u32
  host_gid :: u32

record health_state =
  hs_status :: string
  hs_exit_code :: "int option"
  hs_signal :: "string option"
  hs_command :: "string list"
  hs_checked_at_unix :: u64

record container_state =
  cs_schema_version :: u32
  cs_id :: string
  cs_pid :: "int option"
  cs_process_starttime :: "u64 option"
  cs_status :: container_status
  cs_bundle :: string
  cs_cgroup_path :: "string option"
  cs_network_mode :: string
  cs_network_subnet :: "string option"
  cs_nat_lease :: "nat_lease option"
  cs_overlay_ownership :: "overlay_ownership option"
  cs_log_path :: "string option"
  cs_log_mode :: string
  cs_security_profile :: string
  cs_userns_mode :: string
  cs_userns_map :: "user_namespace_map option"
  cs_rootfs_mode :: string
  cs_policy_profile :: string
  cs_seccomp_mode :: string
  cs_seccomp_profile :: "string option"
  cs_seccomp_action :: "string option"
  cs_seccomp_order :: string
  cs_seccomp_log :: bool
  cs_tty :: bool
  cs_health :: "health_state option"
  cs_created_at_unix :: u64
  cs_updated_at_unix :: u64
  cs_exit_code :: "int option"
  cs_signal :: "string option"

record started_resources =
  sr_cgroup_path :: "string option"
  sr_network_subnet :: "string option"
  sr_nat_lease :: "nat_lease option"
  sr_overlay_ownership :: "overlay_ownership option"
  sr_log_path :: "string option"

record runtime_metadata =
  rm_network_mode :: string
  rm_security_profile :: string
  rm_log_mode :: string
  rm_userns_mode :: string
  rm_userns_map :: "user_namespace_map option"
  rm_rootfs_mode :: string
  rm_policy_profile :: string
  rm_tty :: bool
  rm_seccomp_mode :: string
  rm_seccomp_profile :: "string option"
  rm_seccomp_action :: "string option"
  rm_seccomp_order :: string
  rm_seccomp_log :: bool

subsection \<open>The environment\<close>

text \<open>Which \<^verbatim>\<open>/proc/<pid>\<close> exist, what their \<^verbatim>\<open>stat\<close> reads, and the clock.\<close>

record environment =
  env_proc_exists :: "int \<Rightarrow> bool"
  env_proc_stat :: "int \<Rightarrow> string option"
  env_now :: u64

definition pid_is_alive :: "environment \<Rightarrow> int \<Rightarrow> bool" where
  "pid_is_alive env pid =
     (if \<not> env_proc_exists env pid then False
      else case env_proc_stat env pid of
        None \<Rightarrow> True
      | Some stat \<Rightarrow>
          (case rsplit_once_str '') '' stat of
             None \<Rightarrow> True
           | Some (_, after_comm) \<Rightarrow> \<not> starts_with after_comm ''Z''))"

datatype starttime_error = Stat_unreadable | Stat_malformed | Starttime_missing | Starttime_invalid

definition process_starttime :: "environment \<Rightarrow> int \<Rightarrow> (starttime_error, u64) result" where
  "process_starttime env pid =
     and_then (ok_or (env_proc_stat env pid) Stat_unreadable) (\<lambda>stat.
     and_then (ok_or (rsplit_once_str '') '' stat) Stat_malformed) (\<lambda>(_, after_comm).
       let fields = split_whitespace after_comm in
       and_then (ok_or (if 19 < length fields then Some (fields ! 19) else None) Starttime_missing) (\<lambda>field.
         map_ok word_of_nat (ok_or (parse_unsigned 64 field) Starttime_invalid))))"

subsection \<open>Container ids and paths\<close>

definition is_id_byte :: "char \<Rightarrow> bool" where
  "is_id_byte c \<longleftrightarrow>
     (let b = (of_char c :: nat) in
      48 \<le> b \<and> b \<le> 57 \<or> 65 \<le> b \<and> b \<le> 90 \<or> 97 \<le> b \<and> b \<le> 122 \<or> c \<in> {CHR ''-'', CHR ''_'', CHR ''.''})"

definition validate_id :: "string \<Rightarrow> (state_error, unit) result" where
  "validate_id cid =
     (if cid = [] then Err EmptyContainerId
      else if cid \<in> {''.'', ''..''} \<or> \<not> list_all is_id_byte cid then Err InvalidContainerId
      else Ok ())"

definition container_dir :: "string \<Rightarrow> string \<Rightarrow> string" where
  "container_dir root cid = root @ ''/'' @ cid"

definition state_file :: "string \<Rightarrow> string \<Rightarrow> string" where
  "state_file root cid = container_dir root cid @ ''/state.json''"

definition log_file :: "string \<Rightarrow> string" where
  "log_file cid = container_dir DEFAULT_STATE_ROOT cid @ ''/container.log''"

definition runtime_log_file :: "string \<Rightarrow> string" where
  "runtime_log_file cid = container_dir DEFAULT_STATE_ROOT cid @ ''/runtime.log''"

definition state_capture_file :: "string \<Rightarrow> string" where
  "state_capture_file cid = container_dir DEFAULT_STATE_ROOT cid @ ''/syscalls.json''"

definition log_path :: "string \<Rightarrow> (state_error, string) result" where
  "log_path cid = and_then (validate_id cid) (\<lambda>_. Ok (log_file cid))"

definition runtime_log_path :: "string \<Rightarrow> (state_error, string) result" where
  "runtime_log_path cid = and_then (validate_id cid) (\<lambda>_. Ok (runtime_log_file cid))"

definition capture_path :: "string \<Rightarrow> (state_error, string) result" where
  "capture_path cid = and_then (validate_id cid) (\<lambda>_. Ok (state_capture_file cid))"

subsection \<open>Transitions of a state\<close>

definition created :: "u64 \<Rightarrow> string \<Rightarrow> string \<Rightarrow> runtime_metadata \<Rightarrow> (state_error, container_state) result" where
  "created now cid bundle md =
     and_then (validate_id cid) (\<lambda>_. Ok
       \<lparr>cs_schema_version = STATE_SCHEMA_VERSION, cs_id = cid, cs_pid = None, cs_process_starttime = None,
        cs_status = Created, cs_bundle = bundle, cs_cgroup_path = None,
        cs_network_mode = rm_network_mode md, cs_network_subnet = None, cs_nat_lease = None,
        cs_overlay_ownership = None, cs_log_path = Some (log_file cid), cs_log_mode = rm_log_mode md,
        cs_security_profile = rm_security_profile md, cs_userns_mode = rm_userns_mode md,
        cs_userns_map = rm_userns_map md, cs_rootfs_mode = rm_rootfs_mode md,
        cs_policy_profile = rm_policy_profile md, cs_seccomp_mode = rm_seccomp_mode md,
        cs_seccomp_profile = rm_seccomp_profile md, cs_seccomp_action = rm_seccomp_action md,
        cs_seccomp_order = rm_seccomp_order md, cs_seccomp_log = rm_seccomp_log md, cs_tty = rm_tty md,
        cs_health = None, cs_created_at_unix = now, cs_updated_at_unix = now, cs_exit_code = None,
        cs_signal = None\<rparr>)"

definition running ::
    "environment \<Rightarrow> string \<Rightarrow> string \<Rightarrow> int \<Rightarrow> started_resources \<Rightarrow> runtime_metadata \<Rightarrow>
     (state_error, container_state) result" where
  "running env cid bundle pid res md =
     and_then (validate_id cid) (\<lambda>_. Ok
       \<lparr>cs_schema_version = STATE_SCHEMA_VERSION, cs_id = cid, cs_pid = Some pid,
        cs_process_starttime = ok_value (process_starttime env pid),
        cs_status = Running, cs_bundle = bundle, cs_cgroup_path = sr_cgroup_path res,
        cs_network_mode = rm_network_mode md, cs_network_subnet = sr_network_subnet res,
        cs_nat_lease = sr_nat_lease res, cs_overlay_ownership = sr_overlay_ownership res,
        cs_log_path = sr_log_path res, cs_log_mode = rm_log_mode md,
        cs_security_profile = rm_security_profile md, cs_userns_mode = rm_userns_mode md,
        cs_userns_map = rm_userns_map md, cs_rootfs_mode = rm_rootfs_mode md,
        cs_policy_profile = rm_policy_profile md, cs_seccomp_mode = rm_seccomp_mode md,
        cs_seccomp_profile = rm_seccomp_profile md, cs_seccomp_action = rm_seccomp_action md,
        cs_seccomp_order = rm_seccomp_order md, cs_seccomp_log = rm_seccomp_log md, cs_tty = rm_tty md,
        cs_health = None, cs_created_at_unix = env_now env, cs_updated_at_unix = env_now env,
        cs_exit_code = None, cs_signal = None\<rparr>)"

definition mark_running ::
    "environment \<Rightarrow> int \<Rightarrow> started_resources \<Rightarrow> string \<Rightarrow> container_state \<Rightarrow>
     (starttime_error, container_state) result" where
  "mark_running env pid res log_mode s =
     and_then (process_starttime env pid) (\<lambda>t. Ok
       (s\<lparr>cs_pid := Some pid, cs_process_starttime := Some t, cs_status := Running,
          cs_cgroup_path := sr_cgroup_path res, cs_network_subnet := sr_network_subnet res,
          cs_nat_lease := sr_nat_lease res, cs_overlay_ownership := sr_overlay_ownership res,
          cs_log_path := sr_log_path res, cs_log_mode := log_mode, cs_updated_at_unix := env_now env,
          cs_exit_code := None, cs_signal := None\<rparr>))"

definition mark_health :: "u64 \<Rightarrow> health_state \<Rightarrow> container_state \<Rightarrow> container_state" where
  "mark_health now health s = s\<lparr>cs_health := Some health, cs_updated_at_unix := now\<rparr>"

definition mark_stopped :: "u64 \<Rightarrow> int option \<Rightarrow> string option \<Rightarrow> container_state \<Rightarrow> container_state" where
  "mark_stopped now exit_code signal s =
     s\<lparr>cs_pid := None, cs_process_starttime := None, cs_status := Stopped, cs_updated_at_unix := now,
       cs_cgroup_path := None, cs_network_subnet := None, cs_nat_lease := None,
       cs_overlay_ownership := None, cs_exit_code := exit_code, cs_signal := signal\<rparr>"

subsection \<open>Recovering from a dead process\<close>

text \<open>
  The cleanup calls. \<open>Remove_cgroup\<close> stands for the test for the directory and its removal: it is
  answered with success when the directory is missing.
\<close>

datatype cleanup_call =
    Remove_cgroup string
  | Cleanup_nat_rules nat_lease
  | Cleanup_overlay overlay_ownership
  | Cleanup_veth string
  | Release_bridge string

type_synonym cleanup_world = "(cleanup_call, (string, unit) result) world"

text \<open>Make a call; on failure note the error and go on.\<close>

definition try_cleanup ::
    "cleanup_world \<Rightarrow> (string \<Rightarrow> string) \<Rightarrow> cleanup_call \<Rightarrow> cleanup_call list \<times> string list \<Rightarrow>
     cleanup_call list \<times> string list" where
  "try_cleanup os wrap c = (\<lambda>(w, errors).
     (w @ [c], case os w c of Ok _ \<Rightarrow> errors | Err e \<Rightarrow> errors @ [wrap e]))"

definition veth_cleanups :: "container_state \<Rightarrow> string list" where
  "veth_cleanups s =
     (let stable = vp_host_name (veth_for_container_id (cs_id s)) in
      stable # (case cs_pid s of
          None \<Rightarrow> []
        | Some pid \<Rightarrow>
            let legacy = vp_host_name (veth_for_pid pid)
            in if legacy \<noteq> stable then [legacy] else []))"

definition cleanup_stale_resources ::
    "cleanup_world \<Rightarrow> container_state \<Rightarrow> bool \<Rightarrow> (cleanup_call, string, unit) io" where
  "cleanup_stale_resources os s pid_identity_owned = (\<lambda>w.
     let acc = (w, []);
         acc = (case cs_cgroup_path s of
             None \<Rightarrow> acc
           | Some path \<Rightarrow> try_cleanup os (\<lambda>e. ''cgroup cleanup failed: '' @ e) (Remove_cgroup path) acc);
         acc = (if cs_network_mode s = ''bridge'' then
             (case cs_nat_lease s of
                None \<Rightarrow> acc
              | Some lease \<Rightarrow> try_cleanup os (\<lambda>e. ''NAT cleanup failed: '' @ e) (Cleanup_nat_rules lease) acc)
             else acc);
         acc = (case cs_overlay_ownership s of
             None \<Rightarrow> acc
           | Some overlay \<Rightarrow> try_cleanup os (\<lambda>e. ''overlay cleanup failed: '' @ e) (Cleanup_overlay overlay) acc);
         (w, errors) = (if pid_identity_owned
             then fold (\<lambda>name. try_cleanup os (\<lambda>e. ''veth '' @ name @ '' cleanup failed: '' @ e) (Cleanup_veth name))
                    (veth_cleanups s) acc
             else acc)
     in (w, if errors = [] then Ok () else Err (join ''; '' errors)))"

definition release_state_network_allocation ::
    "cleanup_world \<Rightarrow> container_state \<Rightarrow> (cleanup_call, string, unit) io" where
  "release_state_network_allocation os s =
     (if cs_network_mode s \<noteq> ''bridge'' then io_return () else io_call os (Release_bridge (cs_id s)))"

definition format_stale_signal :: "string \<Rightarrow> string list \<Rightarrow> string" where
  "format_stale_signal base errors =
     (if errors = [] then base else base @ ''_CLEANUP_FAILED: '' @ join ''; '' errors)"

definition stale_recovery_signal ::
    "cleanup_world \<Rightarrow> container_state \<Rightarrow> bool \<Rightarrow> string \<Rightarrow> cleanup_call list \<Rightarrow> cleanup_call list \<times> string" where
  "stale_recovery_signal os s pid_identity_owned base w =
     (let (w, r) = cleanup_stale_resources os s pid_identity_owned w;
          errors = (case r of Ok _ \<Rightarrow> [] | Err e \<Rightarrow> [e]);
          (w, r) = release_state_network_allocation os s w;
          errors = errors @ (case r of Ok _ \<Rightarrow> [] | Err e \<Rightarrow> [''bridge allocation cleanup failed: '' @ e])
      in (w, format_stale_signal base errors))"

text \<open>The new state and whether it has to be written.\<close>

definition refresh_liveness ::
    "cleanup_world \<Rightarrow> environment \<Rightarrow> container_state \<Rightarrow> cleanup_call list \<Rightarrow>
     cleanup_call list \<times> container_state \<times> bool" where
  "refresh_liveness os env s w =
     (if cs_status s \<noteq> Running then (w, s, False)
      else case cs_pid s of
        None \<Rightarrow> (w, s, False)
      | Some pid \<Rightarrow>
          if pid_is_alive env pid then
            (case cs_process_starttime s of
               Some expected \<Rightarrow>
                 if ok_value (process_starttime env pid) = Some expected then (w, s, False)
                 else let (w, signal) = stale_recovery_signal os s False ''STALE_PID_REUSED'' w
                      in (w, mark_stopped (env_now env) None (Some signal) s, True)
             | None \<Rightarrow>
                 let (w, signal) = stale_recovery_signal os s False ''STALE_IDENTITY_MISSING'' w
                 in (w, mark_stopped (env_now env) None (Some signal) s, True))
          else
            let (w, signal) = stale_recovery_signal os s True ''STALE'' w
            in (w, mark_stopped (env_now env) None (Some signal) s, True))"

subsection \<open>The store\<close>

text \<open>The directories under the state root in name order; a directory may have no state file yet.\<close>

type_synonym state_store = "(string, container_state option) btree_map"

datatype store_error =
    Store_error state_error
  | Store_unreadable string
  | Store_release_failed string

definition ensure_dir :: "string \<Rightarrow> state_store \<Rightarrow> state_store" where
  "ensure_dir cid st = (case map_of st cid of None \<Rightarrow> bt_insert cid None st | Some _ \<Rightarrow> st)"

definition lock_state :: "string \<Rightarrow> state_store \<Rightarrow> state_store \<times> (store_error, unit) result" where
  "lock_state cid st =
     (case validate_id cid of
        Err e \<Rightarrow> (st, Err (Store_error e))
      | Ok _ \<Rightarrow> (ensure_dir cid st, Ok ()))"

definition write_state_atomic :: "container_state \<Rightarrow> state_store \<Rightarrow> state_store \<times> (store_error, unit) result" where
  "write_state_atomic s st =
     (case validate_id (cs_id s) of
        Err e \<Rightarrow> (st, Err (Store_error e))
      | Ok _ \<Rightarrow> (bt_insert (cs_id s) (Some s) st, Ok ()))"

definition save_to :: "container_state \<Rightarrow> state_store \<Rightarrow> state_store \<times> (store_error, unit) result" where
  "save_to s st =
     (case lock_state (cs_id s) st of
        (st, Err e) \<Rightarrow> (st, Err e)
      | (st, Ok _) \<Rightarrow> write_state_atomic s st)"

definition load_from :: "string \<Rightarrow> state_store \<Rightarrow> (store_error, container_state) result" where
  "load_from cid st =
     and_then (map_err Store_error (validate_id cid)) (\<lambda>_.
       case map_of st cid of
         Some (Some s) \<Rightarrow> Ok s
       | _ \<Rightarrow> Err (Store_unreadable (state_file DEFAULT_STATE_ROOT cid)))"

definition exists_state :: "string \<Rightarrow> state_store \<Rightarrow> (store_error, bool) result" where
  "exists_state cid st =
     and_then (map_err Store_error (validate_id cid)) (\<lambda>_. Ok (\<exists>s. map_of st cid = Some (Some s)))"

text \<open>Operations that may clean up thread the store and the log of cleanup calls.\<close>

type_synonym 'a store_op = "state_store \<times> cleanup_call list \<Rightarrow> (state_store \<times> cleanup_call list) \<times> (store_error, 'a) result"

definition load_current_from :: "cleanup_world \<Rightarrow> environment \<Rightarrow> string \<Rightarrow> container_state store_op" where
  "load_current_from os env cid = (\<lambda>(st, w).
     case lock_state cid st of
       (st, Err e) \<Rightarrow> ((st, w), Err e)
     | (st, Ok _) \<Rightarrow>
         (case load_from cid st of
            Err e \<Rightarrow> ((st, w), Err e)
          | Ok s \<Rightarrow>
              let (w, s, changed) = refresh_liveness os env s w in
              if changed
              then (case write_state_atomic s st of
                      (st, Ok _) \<Rightarrow> ((st, w), Ok s)
                    | (st, Err e) \<Rightarrow> ((st, w), Err e))
              else ((st, w), Ok s)))"

definition container_ids :: "state_store \<Rightarrow> string list" where
  "container_ids st = map fst (filter (\<lambda>(_, s). s \<noteq> None) st)"

fun load_each :: "(string \<Rightarrow> container_state store_op) \<Rightarrow> string list \<Rightarrow> container_state list store_op" where
  "load_each load [] x = (x, Ok [])"
| "load_each load (cid # cids) x =
     (case load cid x of
        (x, Err e) \<Rightarrow> (x, Err e)
      | (x, Ok s) \<Rightarrow> (case load_each load cids x of (x, r) \<Rightarrow> (x, map_ok ((#) s) r)))"

definition list_from :: "cleanup_world \<Rightarrow> environment \<Rightarrow> container_state list store_op" where
  "list_from os env x =
     (case load_each (load_current_from os env) (container_ids (fst x)) x of
        (x, r) \<Rightarrow> (x, map_ok (sort_by (\<lambda>s t. cmp (cs_id s) (cs_id t))) r))"

definition list_raw_from :: "state_store \<Rightarrow> (store_error, container_state list) result" where
  "list_raw_from st =
     map_ok (sort_by (\<lambda>s t. cmp (cs_id s) (cs_id t)))
       (snd (load_each (\<lambda>cid x. (x, load_from cid (fst x))) (container_ids st) (st, [])))"

definition delete_from :: "cleanup_world \<Rightarrow> environment \<Rightarrow> string \<Rightarrow> unit store_op" where
  "delete_from os env cid x =
     (case load_current_from os env cid x of
        (x, Err e) \<Rightarrow> (x, Err e)
      | ((st, w), Ok s) \<Rightarrow>
          if cs_status s = Running then ((st, w), Err (Store_error (ContainerIsRunning cid)))
          else (case release_state_network_allocation os s w of
                  (w, Err e) \<Rightarrow> ((st, w), Err (Store_release_failed e))
                | (w, Ok _) \<Rightarrow> ((bt_remove cid st, w), Ok ())))"

subsection \<open>Invariants\<close>

definition holds_no_resources :: "container_state \<Rightarrow> bool" where
  "holds_no_resources s \<longleftrightarrow> cs_pid s = None \<and> cs_process_starttime s = None \<and> cs_cgroup_path s = None \<and>
     cs_network_subnet s = None \<and> cs_nat_lease s = None \<and> cs_overlay_ownership s = None"

definition state_wf :: "container_state \<Rightarrow> bool" where
  "state_wf s \<longleftrightarrow> validate_id (cs_id s) = Ok () \<and>
     (if cs_status s = Running then cs_pid s \<noteq> None else holds_no_resources s)"

definition store_wf :: "state_store \<Rightarrow> bool" where
  "store_wf st \<longleftrightarrow> bt_invar st \<and>
     (\<forall>cid s. map_of st cid = Some (Some s) \<longrightarrow> cs_id s = cid \<and> state_wf s)"

lemma created_wf: "created now cid bundle md = Ok s \<Longrightarrow> state_wf s \<and> cs_id s = cid \<and> cs_status s = Created"
  by (auto simp: created_def state_wf_def holds_no_resources_def)

lemma running_wf:
  "running env cid bundle pid res md = Ok s \<Longrightarrow> state_wf s \<and> cs_id s = cid \<and> cs_status s = Running \<and> cs_pid s = Some pid"
  by (auto simp: running_def state_wf_def)

lemma mark_running_wf:
  "state_wf s \<Longrightarrow> mark_running env pid res lm s = Ok s' \<Longrightarrow>
     state_wf s' \<and> cs_id s' = cs_id s \<and> cs_status s' = Running \<and> cs_pid s' = Some pid"
  by (auto simp: mark_running_def state_wf_def)

lemma mark_stopped_wf:
  "state_wf s \<Longrightarrow> state_wf (mark_stopped now code sig s)"
  "cs_id (mark_stopped now code sig s) = cs_id s" "cs_status (mark_stopped now code sig s) = Stopped"
  by (simp_all add: mark_stopped_def state_wf_def holds_no_resources_def)

lemma mark_health_wf: "state_wf s \<Longrightarrow> state_wf (mark_health now h s)"
  by (auto simp: mark_health_def state_wf_def holds_no_resources_def split: if_splits)

lemma refresh_wf:
  assumes "refresh_liveness os env s w = (w', s', changed)"
  shows "state_wf s \<Longrightarrow> state_wf s'" and "cs_id s' = cs_id s"
    and "changed \<Longrightarrow> cs_status s = Running \<and> cs_status s' = Stopped" and "\<not> changed \<Longrightarrow> s' = s \<and> w' = w"
  using assms unfolding refresh_liveness_def
  by (auto simp: mark_stopped_wf split: if_splits option.splits prod.splits)

lemma store_wf_insert:
  "store_wf st \<Longrightarrow> state_wf s \<Longrightarrow> cid = cs_id s \<Longrightarrow> store_wf (bt_insert cid (Some s) st)"
  by (auto simp: store_wf_def btree_simps split: if_splits)

lemma store_wf_ensure_dir: "store_wf st \<Longrightarrow> store_wf (ensure_dir cid st)"
  by (auto simp: store_wf_def ensure_dir_def btree_simps split: if_splits option.splits)

lemma map_of_ensure_dir:
  "bt_invar st \<Longrightarrow> map_of (ensure_dir cid st) c = (if c = cid \<and> map_of st cid = None then Some None else map_of st c)"
  by (auto simp: ensure_dir_def btree_simps split: option.splits)

lemma lock_state_wf: "store_wf st \<Longrightarrow> store_wf (fst (lock_state cid st))"
  by (auto simp: lock_state_def store_wf_ensure_dir split: result.split)

lemma save_to_wf:
  assumes "store_wf st" "state_wf s"
  shows "store_wf (fst (save_to s st))"
  using assms store_wf_insert [OF store_wf_ensure_dir [OF assms(1)] assms(2) refl, of "cs_id s"]
  by (auto simp: save_to_def lock_state_def write_state_atomic_def state_wf_def split: result.split)

lemma save_to_Ok:
  assumes "store_wf st" "state_wf s"
  shows "snd (save_to s st) = Ok ()" and "map_of (fst (save_to s st)) c = (if c = cs_id s then Some (Some s) else map_of st c)"
proof -
  have "bt_invar (ensure_dir (cs_id s) st)" "bt_invar st"
    using store_wf_ensure_dir [OF assms(1)] assms(1) by (simp_all add: store_wf_def)
  then show "snd (save_to s st) = Ok ()" "map_of (fst (save_to s st)) c = (if c = cs_id s then Some (Some s) else map_of st c)"
    using assms by (auto simp: save_to_def lock_state_def write_state_atomic_def state_wf_def btree_simps map_of_ensure_dir)
qed

text \<open>What reading a current state does to the store.\<close>

lemma load_current_Ok:
  assumes "store_wf st" "load_current_from os env cid (st, w) = ((st', w'), Ok s')"
  shows "\<exists>s. map_of st cid = Some (Some s) \<and> refresh_liveness os env s w = (w', s', s' \<noteq> s) \<and>
      map_of st' = (map_of st)(cid \<mapsto> Some s') \<and> store_wf st'"
proof -
  from assms(2) have v: "validate_id cid = Ok ()"
    by (auto simp: load_current_from_def lock_state_def split: prod.splits result.splits)
  let ?st = "ensure_dir cid st"
  have inv: "bt_invar st" "bt_invar ?st" "store_wf ?st"
    using store_wf_ensure_dir [OF assms(1)] assms(1) by (simp_all add: store_wf_def)
  from assms(2) v obtain s changed where s: "map_of st cid = Some (Some s)"
    and r: "refresh_liveness os env s w = (w', s', changed)"
    and st': "st' = (if changed then bt_insert (cs_id s') (Some s') ?st else ?st)"
    by (auto simp: load_current_from_def lock_state_def load_from_def write_state_atomic_def map_of_ensure_dir inv
        split: prod.splits result.splits option.splits if_splits)
  have s_wf: "cs_id s = cid" "state_wf s" using assms(1) s by (auto simp: store_wf_def)
  note rw = refresh_wf [OF r]
  have "changed \<longleftrightarrow> s' \<noteq> s" using rw(3,4) by fastforce
  moreover have "map_of st' = (map_of st)(cid \<mapsto> Some s')"
    using rw(2,4) s_wf s by (auto simp: st' fun_eq_iff btree_simps inv map_of_ensure_dir)
  moreover have "store_wf st'"
    using rw(1,2) s_wf inv store_wf_insert [OF inv(3), of s' cid] by (simp add: st')
  ultimately show ?thesis using s r by blast
qed

lemma load_current_wf:
  assumes "store_wf (fst x)"
  shows "store_wf (fst (fst (load_current_from os env cid x)))"
proof -
  obtain st w where x: "x = (st, w)" by force
  obtain st' w' r where l: "load_current_from os env cid x = ((st', w'), r)" by (metis prod.exhaust)
  show ?thesis
  proof (cases r)
    case (Ok s')
    then show ?thesis using load_current_Ok [of st os env cid w st' w' s'] assms l x by auto
  next
    case (Err e)
    then show ?thesis
      using assms l store_wf_ensure_dir
      by (auto simp: x load_current_from_def lock_state_def write_state_atomic_def load_from_def
          split: prod.splits result.splits option.splits if_splits)
  qed
qed

lemma delete_wf:
  assumes "store_wf (fst x)"
  shows "store_wf (fst (fst (delete_from os env cid x)))"
proof -
  have rem: "store_wf st \<Longrightarrow> store_wf (bt_remove cid st)" for st
    by (auto simp: store_wf_def btree_simps map_of_bt_remove split: if_splits)
  obtain st w r where l: "load_current_from os env cid x = ((st, w), r)" by (metis prod.exhaust)
  then have "store_wf st" using load_current_wf [OF assms, of os env cid] by simp
  then show ?thesis
    by (auto simp: delete_from_def l rem split: result.splits prod.splits)
qed

subsection \<open>Cleanup calls\<close>

text \<open>What a dead container is owed: every resource its state names, each once.\<close>

definition owed_cleanup :: "container_state \<Rightarrow> bool \<Rightarrow> cleanup_call list" where
  "owed_cleanup s process_gone =
     (case cs_cgroup_path s of None \<Rightarrow> [] | Some path \<Rightarrow> [Remove_cgroup path]) @
     (if cs_network_mode s = ''bridge''
      then (case cs_nat_lease s of None \<Rightarrow> [] | Some lease \<Rightarrow> [Cleanup_nat_rules lease]) else []) @
     (case cs_overlay_ownership s of None \<Rightarrow> [] | Some overlay \<Rightarrow> [Cleanup_overlay overlay]) @
     (if process_gone then map Cleanup_veth (veth_cleanups s) else []) @
     (if cs_network_mode s = ''bridge'' then [Release_bridge (cs_id s)] else [])"

lemma fst_try_cleanup [simp]: "fst (try_cleanup os wrap c acc) = fst acc @ [c]"
  by (cases acc) (simp add: try_cleanup_def)

lemma snd_try_cleanup: "snd (try_cleanup os wrap c acc) = [] \<longleftrightarrow> snd acc = [] \<and> is_ok (os (fst acc) c)"
  by (cases acc) (auto simp: try_cleanup_def split: result.splits)

lemma fst_fold_veth:
  "fst (fold (\<lambda>name. try_cleanup os (wrap name) (Cleanup_veth name)) names acc) = fst acc @ map Cleanup_veth names"
  by (induction names arbitrary: acc) simp_all

lemma fst_stale_recovery: "fst (stale_recovery_signal os s gone base w) = w @ owed_cleanup s gone"
  by (simp add: stale_recovery_signal_def cleanup_stale_resources_def release_state_network_allocation_def
      owed_cleanup_def Let_def split_beta fst_fold_veth io_return_def io_call_def split: option.split)

lemma snd_fold_veth:
  "snd (fold (\<lambda>name. try_cleanup os (wrap name) (Cleanup_veth name)) names acc) = [] \<longleftrightarrow>
     snd acc = [] \<and> all_ok os (fst acc) (map Cleanup_veth names)"
  by (induction names arbitrary: acc) (auto simp: snd_try_cleanup)

lemma cleanup_stale_Ok:
  "is_ok (snd (cleanup_stale_resources os s gone w)) \<longleftrightarrow>
     all_ok os w
       ((case cs_cgroup_path s of None \<Rightarrow> [] | Some path \<Rightarrow> [Remove_cgroup path]) @
        (if cs_network_mode s = ''bridge''
         then (case cs_nat_lease s of None \<Rightarrow> [] | Some lease \<Rightarrow> [Cleanup_nat_rules lease]) else []) @
        (case cs_overlay_ownership s of None \<Rightarrow> [] | Some overlay \<Rightarrow> [Cleanup_overlay overlay]) @
        (if gone then map Cleanup_veth (veth_cleanups s) else []))"
  unfolding cleanup_stale_resources_def Let_def all_ok_append
  by (cases "cs_cgroup_path s"; cases "cs_nat_lease s"; cases "cs_overlay_ownership s")
    (auto simp: split_beta snd_try_cleanup snd_fold_veth)

lemma snd_stale_recovery:
  "snd (stale_recovery_signal os s gone base w) = base \<longleftrightarrow> all_ok os w (owed_cleanup s gone)"
proof -
  obtain w1 r1 where 1: "cleanup_stale_resources os s gone w = (w1, r1)" by force
  obtain w2 r2 where 2: "release_state_network_allocation os s w1 = (w2, r2)" by force
  have "snd (stale_recovery_signal os s gone base w) = base \<longleftrightarrow> is_ok r1 \<and> is_ok r2"
    by (cases r1; cases r2) (simp_all add: stale_recovery_signal_def Let_def 1 2 format_stale_signal_def)
  moreover have "w1 = fst (cleanup_stale_resources os s gone w)" using 1 by simp
  then have "w1 @ (if cs_network_mode s = ''bridge'' then [Release_bridge (cs_id s)] else []) = w @ owed_cleanup s gone"
    using fst_stale_recovery [of os s gone base w] 2
    by (auto simp: stale_recovery_signal_def Let_def 1 release_state_network_allocation_def io_return_def io_call_def
        split: if_splits)
  moreover have "is_ok r2 \<longleftrightarrow> all_ok os w1 (if cs_network_mode s = ''bridge'' then [Release_bridge (cs_id s)] else [])"
    using 2 by (auto simp: release_state_network_allocation_def io_return_def io_call_def split: if_splits)
  ultimately show ?thesis
    using cleanup_stale_Ok [of os s gone w] 1
    by (auto simp: owed_cleanup_def all_ok_append append_assoc [symmetric] simp del: append_assoc split: if_splits)
qed

definition stale_base :: "container_state \<Rightarrow> bool \<Rightarrow> string" where
  "stale_base s process_gone =
     (if process_gone then ''STALE''
      else if cs_process_starttime s = None then ''STALE_IDENTITY_MISSING'' else ''STALE_PID_REUSED'')"

subsection \<open>Reading \<^verbatim>\<open>/proc\<close>\<close>

lemma process_starttime_field:
  assumes "env_proc_stat env pid = Some (before @ '') '' @ join '' '' fs)"
    and "\<forall>f \<in> set fs. f \<noteq> [] \<and> list_all (\<lambda>c. \<not> is_space c \<and> c \<noteq> CHR '')'') f"
    and "19 < length fs" "fs ! 19 = nat_dec t" "t < 2 ^ 64"
  shows "process_starttime env pid = Ok (word_of_nat t)"
proof -
  have "CHR '')'' \<notin> set (join '' '' fs)"
    using set_join [of "'' ''" fs] assms(2) by (auto simp: list_all_iff)
  then have "rsplit_once_str '') '' (before @ '') '' @ join '' '' fs) = Some (before, join '' '' fs)"
    by (intro rsplit_once_str_last) auto
  moreover have "split_whitespace (join '' '' fs) = fs"
    using assms(2) by (intro split_whitespace_join) (auto simp: list_all_iff)
  ultimately show ?thesis
    using assms(1,3,4,5) by (simp add: process_starttime_def parse_unsigned_nat_dec)
qed

definition sample_env :: environment where
  "sample_env = \<lparr>env_proc_exists = (\<lambda>pid. pid = 42),
     env_proc_stat = (\<lambda>pid. if pid = 42 then Some (''42 (evil) R) '' @ join '' '' (replicate 19 ''0'' @ [''777''])) else None),
     env_now = 1000\<rparr>"

lemma nat_dec_777: "nat_dec 777 = ''777''"
  by code_simp

lemma nat_dec_888: "nat_dec 888 = ''888''"
  by code_simp

lemma sample_starttime: "process_starttime sample_env 42 = Ok 777"
  using process_starttime_field [of sample_env 42 "''42 (evil) R''" "replicate 19 ''0'' @ [''777'']" 777]
  by (auto simp: sample_env_def nat_dec_777 is_space_def nth_append)

subsection \<open>Properties\<close>

text \<open>
  The start time is read from the right field whatever the process is called: even when the
  program's name contains a closing parenthesis followed by a space.
\<close>

lemma process_starttime_reads_field_22:
  assumes "env_proc_stat env pid = Some (before @ '') '' @ join '' '' fs)"
    and "\<forall>f \<in> set fs. f \<noteq> [] \<and> list_all (\<lambda>c. \<not> is_space c \<and> c \<noteq> CHR '')'') f"
    and "19 < length fs" "fs ! 19 = nat_dec t" "t < 2 ^ 64"
  shows "process_starttime env pid = Ok (word_of_nat t)"
  using assms by (rule process_starttime_field)

lemma process_starttime_reads_field_22_example: "process_starttime sample_env 42 = Ok 777"
proof -
  have "process_starttime sample_env 42 = Ok (word_of_nat 777)"
    by (rule process_starttime_reads_field_22 [where before = "''42 (evil) R''" and fs = "replicate 19 ''0'' @ [''777'']"])
      (auto simp: sample_env_def nat_dec_777 is_space_def nth_append)
  then show ?thesis by simp
qed

text \<open>
  C9: reading a state never loses a container that is alive and is the recorded process: nothing is
  changed and nothing is cleaned up. A running container whose process is gone, was replaced by another or
  was never identified is marked stopped, holding nothing; then exactly the resources its state names are
  given back, each once and all of them even when some calls fail, its links only when the process is
  really gone; and the recorded signal is plain exactly when every call succeeded.
\<close>

theorem refresh_liveness_recovers:
  assumes "refresh_liveness os env s w = (w', s', changed)"
  shows "if changed
    then cs_status s = Running \<and> cs_status s' = Stopped \<and> holds_no_resources s' \<and>
      (\<exists>pid. cs_pid s = Some pid \<and>
        \<not> (pid_is_alive env pid \<and> cs_process_starttime s \<noteq> None \<and>
           ok_value (process_starttime env pid) = cs_process_starttime s) \<and>
        w' = w @ owed_cleanup s (\<not> pid_is_alive env pid) \<and>
        (cs_signal s' = Some (stale_base s (\<not> pid_is_alive env pid)) \<longleftrightarrow>
         all_ok os w (owed_cleanup s (\<not> pid_is_alive env pid))))
    else s' = s \<and> w' = w \<and>
      (cs_status s \<noteq> Running \<or> cs_pid s = None \<or>
       (\<exists>pid t. cs_pid s = Some pid \<and> pid_is_alive env pid \<and> cs_process_starttime s = Some t \<and>
          process_starttime env pid = Ok t))"
proof (cases "cs_status s = Running \<and> cs_pid s \<noteq> None")
  case False
  then show ?thesis using assms by (auto simp: refresh_liveness_def split: if_splits option.splits)
next
  case True
  then obtain pid where pid: "cs_status s = Running" "cs_pid s = Some pid" by auto
  let ?gone = "\<not> pid_is_alive env pid"
  obtain sig where sig: "stale_recovery_signal os s ?gone (stale_base s ?gone) w = (w @ owed_cleanup s ?gone, sig)"
    using fst_stale_recovery [of os s ?gone] by (metis prod.collapse)
  have ok: "sig = stale_base s ?gone \<longleftrightarrow> all_ok os w (owed_cleanup s ?gone)"
    using snd_stale_recovery [of os s ?gone "stale_base s ?gone" w] by (simp add: sig)
  have same: "ok_value (process_starttime env pid) = Some t \<longleftrightarrow> process_starttime env pid = Ok t" for t
    by (cases "process_starttime env pid") auto
  show ?thesis
    using assms pid sig ok
    by (cases "cs_process_starttime s")
      (auto simp: refresh_liveness_def stale_base_def same mark_stopped_def holds_no_resources_def
        split: if_splits)
qed

definition sample_state :: "int \<Rightarrow> u64 option \<Rightarrow> container_state" where
  "sample_state pid t =
     \<lparr>cs_schema_version = 4, cs_id = ''web'', cs_pid = Some pid, cs_process_starttime = t,
      cs_status = Running, cs_bundle = ''/b'', cs_cgroup_path = Some ''/cg/web'',
      cs_network_mode = ''none'', cs_network_subnet = None, cs_nat_lease = None,
      cs_overlay_ownership = None, cs_log_path = None, cs_log_mode = ''auto'',
      cs_security_profile = ''denylist'', cs_userns_mode = ''host'', cs_userns_map = None,
      cs_rootfs_mode = ''direct'', cs_policy_profile = ''none'', cs_seccomp_mode = ''off'',
      cs_seccomp_profile = None, cs_seccomp_action = None, cs_seccomp_order = ''by-frequency'',
      cs_seccomp_log = False, cs_tty = False, cs_health = None, cs_created_at_unix = 1,
      cs_updated_at_unix = 1, cs_exit_code = None, cs_signal = None\<rparr>"

theorem refresh_liveness_recovers_witness:
  "\<exists>w' s'. refresh_liveness (\<lambda>_ _. Ok ()) sample_env (sample_state 42 (Some 5)) [] = (w', s', True) \<and>
     w' = [Remove_cgroup ''/cg/web''] \<and> cs_signal s' = Some ''STALE_PID_REUSED''"
proof -
  let ?s = "sample_state 42 (Some 5)"
  have alive: "pid_is_alive sample_env 42" by code_simp
  have "ok_value (process_starttime sample_env 42) \<noteq> Some 5" by (simp add: sample_starttime)
  moreover have "cs_status ?s = Running" "cs_pid ?s = Some 42" "cs_process_starttime ?s = Some 5"
    by (simp_all add: sample_state_def)
  ultimately have "snd (snd (refresh_liveness (\<lambda>_ _. Ok ()) sample_env ?s []))"
    by (simp add: refresh_liveness_def alive Let_def split: prod.split)
  then obtain w' s' where r: "refresh_liveness (\<lambda>_ _. Ok ()) sample_env ?s [] = (w', s', True)"
    by (metis prod.collapse)
  have "owed_cleanup ?s False = [Remove_cgroup ''/cg/web'']" "stale_base ?s False = ''STALE_PID_REUSED''"
    by (simp_all add: owed_cleanup_def sample_state_def stale_base_def)
  then show ?thesis
    using refresh_liveness_recovers [OF r] r alive by (auto simp: sample_state_def)
qed

text \<open>
  An accepted id is one path component other than the two special ones, so a container's state file
  lies directly in its own directory under the state root.
\<close>

lemma valid_id_is_one_component:
  assumes "validate_id cid = Ok ()"
  shows "split_char (CHR ''/'') (state_file root cid) = split_char (CHR ''/'') root @ [cid, ''state.json''] \<and>
    cid \<notin> {[], ''.'', ''..''}"
proof -
  have "list_all is_id_byte cid" "cid \<notin> {[], ''.'', ''..''}"
    using assms by (auto simp: validate_id_def split: if_splits)
  then have "CHR ''/'' \<notin> set cid" by (auto simp: list_all_iff is_id_byte_def)
  then have "split_char (CHR ''/'') (cid @ ''/state.json'') = [cid, ''state.json'']"
    using split_char_append [of "CHR ''/''" cid "''state.json''"] by (simp add: split_char_none)
  then show ?thesis
    using split_char_append [of "CHR ''/''" root "cid @ ''/state.json''"] \<open>cid \<notin> {[], ''.'', ''..''}\<close>
    by (simp add: state_file_def container_dir_def)
qed

lemma valid_id_is_one_component_example:
  "split_char (CHR ''/'') (state_file ''/run/crun-rs'' ''web-1'') = [[], ''run'', ''crun-rs'', ''web-1'', ''state.json'']"
proof -
  have "validate_id ''web-1'' = Ok ()" by (simp add: validate_id_def is_id_byte_def)
  from valid_id_is_one_component [OF this, of "''/run/crun-rs''"] show ?thesis by simp
qed

text \<open>A container whose recorded process is alive.\<close>

definition live :: "environment \<Rightarrow> container_state \<Rightarrow> bool" where
  "live env s \<longleftrightarrow> cs_status s = Running \<and>
     (\<exists>pid t. cs_pid s = Some pid \<and> pid_is_alive env pid \<and> cs_process_starttime s = Some t \<and>
        process_starttime env pid = Ok t)"

lemma refresh_live: "live env s \<Longrightarrow> refresh_liveness os env s w = (w, s, False)"
  by (auto simp: live_def refresh_liveness_def)

text \<open>
  C26: deleting removes one container's directory and nothing else, and never that of a container whose
  recorded process is alive: that is refused, and nothing changes.
\<close>

theorem delete_spares_live:
  assumes "store_wf st" "map_of st cid = Some (Some s)"
  shows "(live env s \<longrightarrow> (\<exists>st'. delete_from os env cid (st, w) =
        ((st', w), Err (Store_error (ContainerIsRunning cid))) \<and> map_of st' = map_of st)) \<and>
    (snd (delete_from os env cid (st, w)) = Ok () \<longrightarrow>
       map_of (fst (fst (delete_from os env cid (st, w)))) = (map_of st)(cid := None))"
proof (intro conjI impI)
  have valid: "validate_id cid = Ok ()" using assms by (auto simp: store_wf_def state_wf_def)
  have inv: "bt_invar st" using assms(1) by (simp add: store_wf_def)
  have dir: "ensure_dir cid st = st" using assms(2) by (simp add: ensure_dir_def)
  show "\<exists>st'. delete_from os env cid (st, w) = ((st', w), Err (Store_error (ContainerIsRunning cid))) \<and>
      map_of st' = map_of st" if "live env s"
    using that refresh_live [OF that, of os w] valid assms(2)
    by (auto simp: delete_from_def load_current_from_def lock_state_def load_from_def dir live_def)
  assume ok: "snd (delete_from os env cid (st, w)) = Ok ()"
  then obtain st1 w1 s1 where l: "load_current_from os env cid (st, w) = ((st1, w1), Ok s1)"
    by (auto simp: delete_from_def split: prod.splits result.splits)
  have "fst (fst (delete_from os env cid (st, w))) = bt_remove cid st1"
    using ok by (auto simp: delete_from_def l split: prod.splits result.splits if_splits)
  moreover obtain s0 where "map_of st1 = (map_of st)(cid \<mapsto> s0)"
    using load_current_Ok [OF assms(1) l] by blast
  ultimately show "map_of (fst (fst (delete_from os env cid (st, w)))) = (map_of st)(cid := None)"
    by (auto simp: map_of_bt_remove fun_eq_iff)
qed

theorem delete_spares_live_witness:
  "\<exists>st'. delete_from (\<lambda>_ _. Ok ()) sample_env ''web'' ([(''web'', Some (sample_state 42 (Some 777)))], []) =
     ((st', []), Err (Store_error (ContainerIsRunning ''web'')))"
proof -
  have id: "validate_id ''web'' = Ok ()" by (simp add: validate_id_def is_id_byte_def)
  then have "store_wf [(''web'', Some (sample_state 42 (Some 777)))]"
    by (auto simp: store_wf_def bt_invar_def state_wf_def sample_state_def)
  moreover have "pid_is_alive sample_env 42" by code_simp
  then have "live sample_env (sample_state 42 (Some 777))" by (simp add: live_def sample_state_def sample_starttime)
  ultimately show ?thesis
    using delete_spares_live [of "[(''web'', Some (sample_state 42 (Some 777)))]" "''web''"
        "sample_state 42 (Some 777)" sample_env "\<lambda>_ _. Ok ()" "[]"] by auto
qed

end
