(* ===== verification/Cgroup.thy ===== *)
theory Cgroup
  imports State
begin

text \<open>
  \<^verbatim>\<open>src/cgroup/mod.rs\<close>: resource limits through the unified control-group hierarchy. File accesses are
  \<open>cg_call\<close>s; a read is answered with the file's contents.
\<close>

subsection \<open>Limits\<close>

record cgroup_config =
  cg_memory_limit :: "int option"
  cg_cpu_quota :: "int option"
  cg_cpu_period :: "nat option"
  cg_pids_limit :: "int option"

definition refuse_if :: "('x \<Rightarrow> bool) \<Rightarrow> ('x \<Rightarrow> 'e) \<Rightarrow> 'x option \<Rightarrow> ('e, unit) result" where
  "refuse_if bad e x = (case x of None \<Rightarrow> Ok () | Some v \<Rightarrow> if bad v then Err (e v) else Ok ())"

definition validate_cgroup :: "cgroup_config \<Rightarrow> (cgroup_error, unit) result" where
  "validate_cgroup c =
     and_then (refuse_if (\<lambda>v. v \<le> 0) InvalidMemoryLimit (cg_memory_limit c)) (\<lambda>_.
     and_then (refuse_if (\<lambda>v. v \<le> 0) InvalidCpuQuota (cg_cpu_quota c)) (\<lambda>_.
     and_then (refuse_if (\<lambda>v. v = 0) InvalidCpuPeriod (cg_cpu_period c)) (\<lambda>_.
     refuse_if (\<lambda>v. v \<le> 0) InvalidPidsLimit (cg_pids_limit c))))"

subsection \<open>Finding the hierarchy\<close>

definition unescape_mountinfo_path :: "string \<Rightarrow> string" where
  "unescape_mountinfo_path path =
     replace (CHR 0x5C # ''134'') [CHR 0x5C]
       (replace (CHR 0x5C # ''012'') [CHR 0x0A]
         (replace (CHR 0x5C # ''011'') [CHR 0x09]
           (replace (CHR 0x5C # ''040'') '' '' path)))"

fun find_in_lines :: "string list \<Rightarrow> string option" where
  "find_in_lines [] = None"
| "find_in_lines (line # rest) =
     (case split_once_str '' - '' line of
        None \<Rightarrow> find_in_lines rest
      | Some (mount_fields, filesystem_fields) \<Rightarrow>
          if (case split_whitespace filesystem_fields of t # _ \<Rightarrow> t = ''cgroup2'' | [] \<Rightarrow> False)
          then let parts = split_whitespace mount_fields
               in if 4 < length parts then Some (unescape_mountinfo_path (parts ! 4)) else None
          else find_in_lines rest)"

definition find_cgroup2_mountpoint :: "string \<Rightarrow> string option" where
  "find_cgroup2_mountpoint mountinfo = find_in_lines (lines mountinfo)"

subsection \<open>Creating and deleting a control group\<close>

datatype cg_call =
    Cg_read string
  | Cg_write string string
  | Cg_mkdir string
  | Cg_rmdir string
  | Cg_exists string
  | Cg_sleep nat

type_synonym cg_world = "(cg_call, (errno, string) result) world"

datatype cg_error = Cg_error cgroup_error | Cg_state state_error | Cg_os errno | Cg_store store_error

type_synonym 'a cg_io = "(cg_call, cg_error, 'a) io"

definition cg_read :: "cg_world \<Rightarrow> string \<Rightarrow> string cg_io" where
  "cg_read os path = io_map_err Cg_os (io_call os (Cg_read path))"

definition cg_do :: "cg_world \<Rightarrow> cg_call \<Rightarrow> unit cg_io" where
  "cg_do os c = io_bind (io_map_err Cg_os (io_call os c)) (\<lambda>_. io_return ())"

definition CGROUP_ROOT_NAME :: string where "CGROUP_ROOT_NAME = ''container-runtime''"

definition cgroup_root :: "cg_world \<Rightarrow> string cg_io" where
  "cgroup_root os =
     io_bind (cg_read os ''/proc/self/mountinfo'') (\<lambda>mountinfo.
     io_lift (ok_or (find_cgroup2_mountpoint mountinfo) (Cg_error CgroupV2Unavailable)))"

definition required_controllers :: "cgroup_config \<Rightarrow> string btree_set" where
  "required_controllers c =
     (let r = [];
          r = (if cg_memory_limit c \<noteq> None then bts_insert ''memory'' r else r);
          r = (if cg_cpu_quota c \<noteq> None then bts_insert ''cpu'' r else r)
      in (if cg_pids_limit c \<noteq> None then bts_insert ''pids'' r else r))"

record controller_activation =
  ca_previous :: string
  ca_added :: "string list"

definition enable_required_controllers :: "cg_world \<Rightarrow> string \<Rightarrow> cgroup_config \<Rightarrow> controller_activation cg_io" where
  "enable_required_controllers os root c =
     (let required = required_controllers c in
      if required = [] then io_return \<lparr>ca_previous = [], ca_added = []\<rparr>
      else
        io_bind (cg_read os (path_join root ''cgroup.controllers'')) (\<lambda>available.
        case find (\<lambda>k. k \<notin> set (split_whitespace available)) required of
          Some k \<Rightarrow> io_lift (Err (Cg_error (ControllerUnavailable k)))
        | None \<Rightarrow>
            io_bind (cg_read os (path_join root ''cgroup.subtree_control'')) (\<lambda>previous.
            let added = filter (\<lambda>k. k \<notin> set (split_whitespace previous)) required in
            if added = [] then io_return \<lparr>ca_previous = previous, ca_added = added\<rparr>
            else
              io_bind (cg_do os (Cg_write (path_join root ''cgroup.subtree_control'') (join '' '' (map ((@) ''+'') added)))) (\<lambda>_.
              io_return \<lparr>ca_previous = previous, ca_added = added\<rparr>))))"

definition rollback_enabled_controllers :: "cg_world \<Rightarrow> string \<Rightarrow> controller_activation \<Rightarrow> unit cg_io" where
  "rollback_enabled_controllers os root act =
     io_when (ca_added act \<noteq> [])
       (io_ignore (io_call os (Cg_write (path_join root ''cgroup.subtree_control'') (ca_previous act))))"

definition write_limits :: "cg_world \<Rightarrow> string \<Rightarrow> cgroup_config \<Rightarrow> unit cg_io" where
  "write_limits os path c =
     io_bind (case cg_memory_limit c of None \<Rightarrow> io_return ()
       | Some limit \<Rightarrow> cg_do os (Cg_write (path_join path ''memory.max'') (int_dec limit))) (\<lambda>_.
     io_bind (case cg_cpu_quota c of None \<Rightarrow> io_return ()
       | Some quota \<Rightarrow>
           let period = (case cg_cpu_period c of Some p \<Rightarrow> p | None \<Rightarrow> 100000) in
           cg_do os (Cg_write (path_join path ''cpu.max'') (int_dec quota @ '' '' @ nat_dec period))) (\<lambda>_.
     case cg_pids_limit c of None \<Rightarrow> io_return ()
     | Some limit \<Rightarrow> cg_do os (Cg_write (path_join path ''pids.max'') (int_dec limit))))"

definition new_at :: "cg_world \<Rightarrow> string \<Rightarrow> string \<Rightarrow> cgroup_config \<Rightarrow> string cg_io" where
  "new_at os root cid c =
     io_bind (io_lift (map_err Cg_state (validate_id cid))) (\<lambda>_.
     io_bind (io_lift (map_err Cg_error (validate_cgroup c))) (\<lambda>_.
     io_bind (cg_do os (Cg_mkdir root)) (\<lambda>_.
     io_bind (enable_required_controllers os root c) (\<lambda>act.
     let path = path_join root cid in
     io_bind (io_on_err
       (io_bind (cg_do os (Cg_mkdir path)) (\<lambda>_. write_limits os path c))
       (io_bind (io_ignore (io_call os (Cg_rmdir path))) (\<lambda>_. rollback_enabled_controllers os root act))) (\<lambda>_.
     io_return path)))))"

definition new_cgroup :: "cg_world \<Rightarrow> string \<Rightarrow> cgroup_config \<Rightarrow> string cg_io" where
  "new_cgroup os cid c =
     io_bind (cgroup_root os) (\<lambda>root. new_at os (path_join root CGROUP_ROOT_NAME) cid c)"

definition add_process :: "cg_world \<Rightarrow> string \<Rightarrow> int \<Rightarrow> unit cg_io" where
  "add_process os path pid = cg_do os (Cg_write (path_join path ''cgroup.procs'') (int_dec pid))"

text \<open>The loop of \<^verbatim>\<open>delete\<close>: at most \<open>n\<close> rounds of waiting for the processes to leave.\<close>

fun wait_empty :: "cg_world \<Rightarrow> string \<Rightarrow> nat \<Rightarrow> unit cg_io" where
  "wait_empty os path 0 = io_return ()"
| "wait_empty os path (Suc n) =
     io_handle (io_call os (Cg_read (path_join path ''cgroup.procs''))) (\<lambda>r.
       let procs = (case r of Ok s \<Rightarrow> s | Err _ \<Rightarrow> []) in
       if trim procs = [] then io_return ()
       else io_bind (io_ignore (io_call os (Cg_sleep 100))) (\<lambda>_. wait_empty os path n))"

definition delete_cgroup :: "cg_world \<Rightarrow> string \<Rightarrow> unit cg_io" where
  "delete_cgroup os path =
     io_bind (wait_empty os path 10) (\<lambda>_.
     io_bind (io_probe os (Cg_exists path)) (\<lambda>exists.
     io_when exists (cg_do os (Cg_rmdir path))))"

subsection \<open>Statistics\<close>

record memory_stats =
  ms_current :: "u64 option"
  ms_max :: "string option"
  ms_events :: "(string, u64) btree_map"
  ms_pressure :: "string option"

record cpu_stats =
  cst_usage_usec :: "u64 option"
  cst_user_usec :: "u64 option"
  cst_system_usec :: "u64 option"
  cst_nr_periods :: "u64 option"
  cst_nr_throttled :: "u64 option"
  cst_throttled_usec :: "u64 option"
  cst_pressure :: "string option"

record pids_stats =
  pst_current :: "u64 option"
  pst_max :: "string option"
  pst_events :: "(string, u64) btree_map"

record io_device_stats =
  io_device :: string
  io_rbytes :: "u64 option"
  io_wbytes :: "u64 option"
  io_rios :: "u64 option"
  io_wios :: "u64 option"
  io_dbytes :: "u64 option"
  io_dios :: "u64 option"
  io_raw :: "(string, u64) btree_map"

record cgroup_stats =
  cgs_path :: string
  cgs_memory_current :: "u64 option"
  cgs_memory_max :: "string option"
  cgs_cpu_usage_usec :: "u64 option"
  cgs_cpu_user_usec :: "u64 option"
  cgs_cpu_system_usec :: "u64 option"
  cgs_pids_current :: "u64 option"
  cgs_pids_max :: "string option"
  cgs_memory :: memory_stats
  cgs_cpu :: cpu_stats
  cgs_pids :: pids_stats
  cgs_io :: "io_device_stats list"

definition parse_u64 :: "string \<Rightarrow> u64 option" where
  "parse_u64 s = map_option word_of_nat (parse_unsigned 64 s)"

definition parse_keyed_line :: "string \<Rightarrow> (string, u64) btree_map \<Rightarrow> (string, u64) btree_map" where
  "parse_keyed_line line values =
     (case split_whitespace line of
        key # value # _ \<Rightarrow> (case parse_u64 value of Some v \<Rightarrow> bt_insert key v values | None \<Rightarrow> values)
      | _ \<Rightarrow> values)"

definition parse_keyed_u64_btree :: "string \<Rightarrow> (string, u64) btree_map" where
  "parse_keyed_u64_btree content = fold parse_keyed_line (lines content) []"

definition parse_io_metric :: "string \<Rightarrow> (string, u64) btree_map \<Rightarrow> (string, u64) btree_map" where
  "parse_io_metric metric raw =
     (case split_once (CHR ''='') metric of
        None \<Rightarrow> raw
      | Some (key, value) \<Rightarrow> (case parse_u64 value of Some v \<Rightarrow> bt_insert key v raw | None \<Rightarrow> raw))"

definition parse_io_line :: "string \<Rightarrow> io_device_stats option" where
  "parse_io_line line =
     (case split_whitespace line of
        [] \<Rightarrow> None
      | device # metrics \<Rightarrow>
          let raw = fold parse_io_metric metrics [] in
          Some \<lparr>io_device = device, io_rbytes = map_of raw ''rbytes'', io_wbytes = map_of raw ''wbytes'',
            io_rios = map_of raw ''rios'', io_wios = map_of raw ''wios'', io_dbytes = map_of raw ''dbytes'',
            io_dios = map_of raw ''dios'', io_raw = raw\<rparr>)"

definition parse_io_stats :: "string \<Rightarrow> io_device_stats list" where
  "parse_io_stats content = List.map_filter parse_io_line (lines content)"

definition read_optional_string :: "cg_world \<Rightarrow> string \<Rightarrow> string option cg_io" where
  "read_optional_string os path =
     io_handle (io_call os (Cg_read path)) (\<lambda>r. case r of
       Ok value \<Rightarrow> io_return (Some (trim value))
     | Err Errno_ENOENT \<Rightarrow> io_return None
     | Err e \<Rightarrow> io_lift (Err (Cg_os e)))"

definition read_optional_u64 :: "cg_world \<Rightarrow> string \<Rightarrow> u64 option cg_io" where
  "read_optional_u64 os path =
     io_bind (read_optional_string os path) (\<lambda>v. io_return (Option.bind v parse_u64))"

text \<open>
  \<^verbatim>\<open>read_keyed_u64\<close> fills a hash map that is only looked up, \<^verbatim>\<open>read_keyed_u64_btree\<close> an ordered one; both
  parse alike.
\<close>

definition read_keyed_u64_btree :: "cg_world \<Rightarrow> string \<Rightarrow> (string, u64) btree_map cg_io" where
  "read_keyed_u64_btree os path =
     io_bind (read_optional_string os path) (\<lambda>v.
       io_return (case v of None \<Rightarrow> [] | Some content \<Rightarrow> parse_keyed_u64_btree content))"

definition read_io_stats :: "cg_world \<Rightarrow> string \<Rightarrow> io_device_stats list cg_io" where
  "read_io_stats os path =
     io_bind (read_optional_string os path) (\<lambda>v.
       io_return (case v of None \<Rightarrow> [] | Some content \<Rightarrow> parse_io_stats content))"

definition read_stats :: "cg_world \<Rightarrow> string \<Rightarrow> cgroup_stats cg_io" where
  "read_stats os path =
     io_bind (read_keyed_u64_btree os (path_join path ''cpu.stat'')) (\<lambda>cpu_stat.
     io_bind (read_optional_u64 os (path_join path ''memory.current'')) (\<lambda>memory_current.
     io_bind (read_optional_string os (path_join path ''memory.max'')) (\<lambda>memory_max.
     io_bind (read_optional_u64 os (path_join path ''pids.current'')) (\<lambda>pids_current.
     io_bind (read_optional_string os (path_join path ''pids.max'')) (\<lambda>pids_max.
     io_bind (read_keyed_u64_btree os (path_join path ''memory.events'')) (\<lambda>memory_events.
     io_bind (read_optional_string os (path_join path ''memory.pressure'')) (\<lambda>memory_pressure.
     io_bind (read_optional_string os (path_join path ''cpu.pressure'')) (\<lambda>cpu_pressure.
     io_bind (read_keyed_u64_btree os (path_join path ''pids.events'')) (\<lambda>pids_events.
     io_bind (read_io_stats os (path_join path ''io.stat'')) (\<lambda>io. io_return
       \<lparr>cgs_path = path, cgs_memory_current = memory_current, cgs_memory_max = memory_max,
        cgs_cpu_usage_usec = map_of cpu_stat ''usage_usec'', cgs_cpu_user_usec = map_of cpu_stat ''user_usec'',
        cgs_cpu_system_usec = map_of cpu_stat ''system_usec'', cgs_pids_current = pids_current,
        cgs_pids_max = pids_max,
        cgs_memory = \<lparr>ms_current = memory_current, ms_max = memory_max, ms_events = memory_events,
          ms_pressure = memory_pressure\<rparr>,
        cgs_cpu = \<lparr>cst_usage_usec = map_of cpu_stat ''usage_usec'', cst_user_usec = map_of cpu_stat ''user_usec'',
          cst_system_usec = map_of cpu_stat ''system_usec'', cst_nr_periods = map_of cpu_stat ''nr_periods'',
          cst_nr_throttled = map_of cpu_stat ''nr_throttled'',
          cst_throttled_usec = map_of cpu_stat ''throttled_usec'', cst_pressure = cpu_pressure\<rparr>,
        cgs_pids = \<lparr>pst_current = pids_current, pst_max = pids_max, pst_events = pids_events\<rparr>,
        cgs_io = io\<rparr>))))))))))"

text \<open>\<open>exists\<close> says whether the recorded directory is there.\<close>

definition running_cgroup_path ::
    "cleanup_world \<Rightarrow> environment \<Rightarrow> (string \<Rightarrow> bool) \<Rightarrow> string \<Rightarrow> state_store \<times> cleanup_call list \<Rightarrow>
     (state_store \<times> cleanup_call list) \<times> (cg_error, string) result" where
  "running_cgroup_path os env exists cid x =
     (case load_current_from os env cid x of
        (x, Err e) \<Rightarrow> (x, Err (Cg_store e))
      | (x, Ok s) \<Rightarrow>
          (x, if cs_status s \<noteq> Running then Err (Cg_error (ContainerNotRunning_Cgroup cid))
              else case cs_cgroup_path s of
                None \<Rightarrow> Err (Cg_error (ContainerHasNoPath cid))
              | Some path \<Rightarrow> if exists path then Ok path else Err (Cg_error (PathDoesNotExist path))))"

subsection \<open>Mount points\<close>

text \<open>How the kernel prints a mount point: blanks and backslashes as octal escapes.\<close>

definition escape_mountinfo_path :: "string \<Rightarrow> string" where
  "escape_mountinfo_path p = concat (map (\<lambda>c.
     if c = CHR '' '' then CHR 0x5C # ''040''
     else if c = CHR 0x09 then CHR 0x5C # ''011''
     else if c = CHR 0x0A then CHR 0x5C # ''012''
     else if c = CHR 0x5C then CHR 0x5C # ''134''
     else [c]) p)"

lemma replace_concat:
  assumes "\<And>x s. replace p q (f x @ s) = g x @ replace p q s"
  shows "replace p q (concat (map f xs)) = concat (map g xs)"
  by (induction xs) (simp_all add: assms)

lemma unescape_escape: "unescape_mountinfo_path (escape_mountinfo_path p) = p"
proof -
  let ?b = "CHR 0x5C"
  let ?f = "\<lambda>c. if c = CHR 0x09 then ?b # ''011'' else if c = CHR 0x0A then ?b # ''012'' else if c = ?b then ?b # ''134'' else [c]"
  let ?g = "\<lambda>c. if c = CHR 0x0A then ?b # ''012'' else if c = ?b then ?b # ''134'' else [c]"
  let ?h = "\<lambda>c. if c = ?b then ?b # ''134'' else [c]"
  have "replace (?b # ''040'') '' '' (escape_mountinfo_path p) = concat (map ?f p)"
    unfolding escape_mountinfo_path_def by (rule replace_concat) simp
  moreover have "replace (?b # ''011'') [CHR 0x09] (concat (map ?f p)) = concat (map ?g p)"
    by (rule replace_concat) simp
  moreover have "replace (?b # ''012'') [CHR 0x0A] (concat (map ?g p)) = concat (map ?h p)"
    by (rule replace_concat) simp
  moreover have "replace (?b # ''134'') [?b] (concat (map ?h p)) = concat (map (\<lambda>c. [c]) p)"
    by (rule replace_concat) simp
  ultimately show ?thesis by (simp add: unescape_mountinfo_path_def)
qed

subsection \<open>Creation\<close>

definition limit_writes :: "cgroup_config \<Rightarrow> string \<Rightarrow> cg_call list" where
  "limit_writes c path =
     (case cg_memory_limit c of None \<Rightarrow> [] | Some l \<Rightarrow> [Cg_write (path_join path ''memory.max'') (int_dec l)]) @
     (case cg_cpu_quota c of None \<Rightarrow> [] | Some q \<Rightarrow> [Cg_write (path_join path ''cpu.max'')
        (int_dec q @ '' '' @ nat_dec (case cg_cpu_period c of Some p \<Rightarrow> p | None \<Rightarrow> 100000))]) @
     (case cg_pids_limit c of None \<Rightarrow> [] | Some l \<Rightarrow> [Cg_write (path_join path ''pids.max'') (int_dec l)])"

definition limits_positive :: "cgroup_config \<Rightarrow> bool" where
  "limits_positive c \<longleftrightarrow> (\<forall>v. cg_memory_limit c = Some v \<or> cg_cpu_quota c = Some v \<or> cg_pids_limit c = Some v \<longrightarrow> 0 < v) \<and>
     cg_cpu_period c \<noteq> Some 0"

lemma validate_cgroup_Ok: "validate_cgroup c = Ok () \<longleftrightarrow> limits_positive c"
  unfolding validate_cgroup_def limits_positive_def refuse_if_def
  by (cases "cg_memory_limit c"; cases "cg_cpu_quota c"; cases "cg_cpu_period c"; cases "cg_pids_limit c") auto

lemma cg_do_eq: "cg_do os c w = (w @ [c], map_ok (\<lambda>_. ()) (map_err Cg_os (os w c)))"
  by (cases "os w c") (simp_all add: cg_do_def io_defs)

lemma cg_Ok [simp]:
  "cg_do os c w = (w', Ok u) \<longleftrightarrow> w' = w @ [c] \<and> is_ok (os w c)"
  "cg_read os p w = (w', Ok s) \<longleftrightarrow> w' = w @ [Cg_read p] \<and> os w (Cg_read p) = Ok s"
  by (auto simp: cg_do_def cg_read_def is_ok_iff)

lemma write_limits_Ok:
  "write_limits os path c w = (w', Ok ()) \<longleftrightarrow> w' = w @ limit_writes c path \<and> all_ok os w (limit_writes c path)"
  unfolding write_limits_def limit_writes_def
  by (cases "cg_memory_limit c"; cases "cg_cpu_quota c"; cases "cg_pids_limit c") (auto simp: Let_def)

lemma set_required_controllers:
  "set (required_controllers c) = (if cg_memory_limit c \<noteq> None then {''memory''} else {}) \<union>
     (if cg_cpu_quota c \<noteq> None then {''cpu''} else {}) \<union> (if cg_pids_limit c \<noteq> None then {''pids''} else {})"
  by (auto simp: required_controllers_def Let_def set_bts_insert)

lemma enable_required_Ok:
  assumes "enable_required_controllers os root c w = (w1, Ok act)"
  shows "set (required_controllers c) \<subseteq> set (split_whitespace (ca_previous act)) \<union> set (ca_added act) \<and>
    (ca_added act \<noteq> [] \<longrightarrow> (\<exists>w0. w1 = w0 @ [Cg_write (path_join root ''cgroup.subtree_control'') (join '' '' (map ((@) ''+'') (ca_added act)))] \<and>
       is_ok (os w0 (last w1))))"
  using assms
  by (auto simp: enable_required_controllers_def Let_def filter_empty_conv split: if_splits option.splits)

text \<open>Calls made one after the other up to the first that fails.\<close>

fun do_each :: "cg_world \<Rightarrow> cg_call list \<Rightarrow> unit cg_io" where
  "do_each os [] = io_return ()"
| "do_each os (x # xs) = io_bind (cg_do os x) (\<lambda>_. do_each os xs)"

lemma do_each_Ok: "do_each os xs w = (w', Ok ()) \<longleftrightarrow> w' = w @ xs \<and> all_ok os w xs"
  by (induction xs arbitrary: w) auto

lemma do_each_Err:
  "do_each os xs w = (w', Err e) \<Longrightarrow>
     \<exists>pre x post err. xs = pre @ x # post \<and> all_ok os w pre \<and> os (w @ pre) x = Err err \<and> e = Cg_os err \<and> w' = w @ pre @ [x]"
proof (induction xs arbitrary: w)
  case (Cons x xs)
  show ?case
  proof (cases "os w x")
    case (Err err)
    with Cons.prems have "e = Cg_os err" "w' = w @ [x]" by (auto simp: cg_do_eq io_defs)
    then show ?thesis using Err by (intro exI [of _ "[]"]) simp
  next
    case (Ok a)
    with Cons.prems have "do_each os xs (w @ [x]) = (w', Err e)" by (simp add: cg_do_eq io_defs)
    then obtain pre y post err where "xs = pre @ y # post" "all_ok os (w @ [x]) pre" "os ((w @ [x]) @ pre) y = Err err"
        "e = Cg_os err" "w' = (w @ [x]) @ pre @ [y]"
      using Cons.IH by blast
    then show ?thesis using Ok by (intro exI [of _ "x # pre"]) simp
  qed
qed (simp add: io_defs)

lemma io_bind_return_unit: "io_bind m io_return = (m :: unit cg_io)"
  by (rule ext) (simp add: io_defs split: prod.split result.split)

lemma io_bind_return: "io_bind (io_return ()) m = (m () :: unit cg_io)"
  by (rule ext) (simp add: io_defs)

lemma write_limits_each: "write_limits os path c = do_each os (limit_writes c path)"
  unfolding write_limits_def limit_writes_def
  by (cases "cg_memory_limit c"; cases "cg_cpu_quota c"; cases "cg_pids_limit c")
    (simp_all add: Let_def io_bind_return_unit io_bind_return)

lemma failed_call: "map_ok f (map_err g r) = Err e \<Longrightarrow> \<exists>err. r = Err err"
  by (cases r) simp_all

text \<open>Switching on the controllers fails without having switched any on.\<close>

lemma enable_required_Err:
  assumes "enable_required_controllers os root c w = (w', Err e)"
  shows "\<exists>reads rest. w' = w @ map Cg_read reads @ rest \<and>
    (rest = [] \<or> (\<exists>v err. rest = [Cg_write (path_join root ''cgroup.subtree_control'') v] \<and> os (w @ map Cg_read reads) (hd rest) = Err err))"
proof -
  let ?available = "path_join root ''cgroup.controllers''" and ?control = "path_join root ''cgroup.subtree_control''"
  have "w' = w @ map Cg_read [?available] \<or> w' = w @ map Cg_read [?available, ?control] \<or>
      (\<exists>v err. w' = w @ map Cg_read [?available, ?control] @ [Cg_write ?control v] \<and>
         os (w @ map Cg_read [?available, ?control]) (Cg_write ?control v) = Err err)"
    using assms
    by (cases "os w (Cg_read ?available)"; cases "os (w @ [Cg_read ?available]) (Cg_read ?control)")
      (auto simp: enable_required_controllers_def Let_def cg_read_def cg_do_eq io_defs
        dest: failed_call split: if_splits option.splits result.splits)
  then show ?thesis
  proof (elim disjE exE conjE)
    fix v err
    assume "w' = w @ map Cg_read [?available, ?control] @ [Cg_write ?control v]"
      "os (w @ map Cg_read [?available, ?control]) (Cg_write ?control v) = Err err"
    then show ?thesis by (intro exI [of _ "[?available, ?control]"] exI [of _ "[Cg_write ?control v]"]) simp
  qed (metis append_Nil2)+
qed

text \<open>
  C19: a control group is made completely or not at all. When \<^verbatim>\<open>new_at\<close> succeeds, its directory is the container's own, every
  limit of the configuration is positive and was written to it and accepted, and every controller these limits need
  was active already or has just been switched on. When it fails, either nothing was created below the root: the id or a limit was
  refused, or the root or the controllers could not be had, in which case no write was accepted; or one of creating the
  directory and writing the limits failed, and then the calls after that one are exactly the removal of the directory and, when controllers had
  been switched on, writing back the list of controllers that was read before, and the error is that of the failing call.
\<close>

theorem cgroup_limits_enforced:
  "case new_at os root cid c w of
     (w', Ok path) \<Rightarrow> path = path_join root cid \<and> validate_id cid = Ok () \<and> limits_positive c \<and>
       (\<exists>w1 act. enable_required_controllers os root c (w @ [Cg_mkdir root]) = (w1, Ok act) \<and>
          w' = w1 @ Cg_mkdir path # limit_writes c path \<and> all_ok os w1 (Cg_mkdir path # limit_writes c path) \<and>
          set (required_controllers c) \<subseteq> set (split_whitespace (ca_previous act)) \<union> set (ca_added act) \<and>
          (ca_added act \<noteq> [] \<longrightarrow> (\<exists>w0. w1 = w0 @ [Cg_write (path_join root ''cgroup.subtree_control'')
               (join '' '' (map ((@) ''+'') (ca_added act)))] \<and> is_ok (os w0 (last w1)))))
   | (w', Err e) \<Rightarrow>
       w' = w \<and> (validate_id cid \<noteq> Ok () \<or> \<not> limits_positive c) \<or>
       (\<exists>err. w' = w @ [Cg_mkdir root] \<and> os w (Cg_mkdir root) = Err err) \<or>
       (\<exists>reads rest. w' = w @ Cg_mkdir root # map Cg_read reads @ rest \<and>
          (rest = [] \<or> (\<exists>v err. rest = [Cg_write (path_join root ''cgroup.subtree_control'') v] \<and>
             os (w @ Cg_mkdir root # map Cg_read reads) (hd rest) = Err err))) \<or>
       (\<exists>w1 act pre x post err. enable_required_controllers os root c (w @ [Cg_mkdir root]) = (w1, Ok act) \<and>
          Cg_mkdir (path_join root cid) # limit_writes c (path_join root cid) = pre @ x # post \<and>
          all_ok os w1 pre \<and> os (w1 @ pre) x = Err err \<and> e = Cg_os err \<and>
          w' = w1 @ pre @ x # Cg_rmdir (path_join root cid) #
            (if ca_added act = [] then [] else [Cg_write (path_join root ''cgroup.subtree_control'') (ca_previous act)]))"
  (is "case _ of (w', Ok path) \<Rightarrow> ?done w' path | (w', Err e) \<Rightarrow> ?undone w' e")
proof -
  let ?path = "path_join root cid"
  let ?make = "Cg_mkdir ?path # limit_writes c ?path"
  consider (refused) "validate_id cid \<noteq> Ok () \<or> \<not> limits_positive c"
    | (root) err where "validate_id cid = Ok ()" "limits_positive c" "os w (Cg_mkdir root) = Err err"
    | (controllers) w1 e where "validate_id cid = Ok ()" "limits_positive c" "is_ok (os w (Cg_mkdir root))"
        "enable_required_controllers os root c (w @ [Cg_mkdir root]) = (w1, Err e)"
    | (make) w1 act where "validate_id cid = Ok ()" "limits_positive c" "is_ok (os w (Cg_mkdir root))"
        "enable_required_controllers os root c (w @ [Cg_mkdir root]) = (w1, Ok act)"
    by (cases "os w (Cg_mkdir root)"; cases "enable_required_controllers os root c (w @ [Cg_mkdir root])")
      (metis is_ok.simps(1) result.exhaust)+
  then show ?thesis
  proof cases
    case refused
    then obtain e where "new_at os root cid c w = (w, Err e)"
      by (cases "validate_id cid"; cases "validate_cgroup c")
        (auto simp: new_at_def io_defs validate_cgroup_Ok [symmetric])
    then show ?thesis using refused by simp
  next
    case root
    then have "validate_cgroup c = Ok ()" by (simp add: validate_cgroup_Ok)
    then have "new_at os root cid c w = (w @ [Cg_mkdir root], Err (Cg_os err))"
      using root by (simp add: new_at_def io_defs cg_do_eq)
    then show ?thesis using root by simp
  next
    case controllers
    then have "validate_cgroup c = Ok ()" by (simp add: validate_cgroup_Ok)
    then have "new_at os root cid c w = (w1, Err e)"
      using controllers by (auto simp: new_at_def io_defs cg_do_eq is_ok_iff)
    then show ?thesis using enable_required_Err [OF controllers(4)] by simp
  next
    case make
    obtain w2 r where m: "do_each os ?make w1 = (w2, r)" by force
    have new: "new_at os root cid c w = io_bind (io_on_err (do_each os ?make)
        (io_bind (io_ignore (io_call os (Cg_rmdir ?path))) (\<lambda>_. rollback_enabled_controllers os root act))) (\<lambda>_. io_return ?path) w1"
      using make validate_cgroup_Ok [of c] by (auto simp: new_at_def io_defs cg_do_eq is_ok_iff write_limits_each Let_def)
    show ?thesis
    proof (cases r)
      case (Ok u)
      then have "do_each os ?make w1 = (w2, Ok ())" using m by simp
      then have all: "w2 = w1 @ ?make" "all_ok os w1 ?make" by (simp_all only: do_each_Ok)
      have "new_at os root cid c w = (w2, Ok ?path)"
        using m Ok unfolding new io_on_err_def by (simp add: io_defs del: do_each.simps)
      then show ?thesis using all make enable_required_Ok [OF make(4)] by simp
    next
      case (Err e)
      then have d: "do_each os ?make w1 = (w2, Err e)" using m by simp
      have "new_at os root cid c w = (w2 @ Cg_rmdir ?path #
          (if ca_added act = [] then [] else [Cg_write (path_join root ''cgroup.subtree_control'') (ca_previous act)]), Err e)"
        using d unfolding new io_on_err_def rollback_enabled_controllers_def
        by (simp add: io_defs io_when_def del: do_each.simps split: prod.split result.split)
      then show ?thesis using do_each_Err [OF d] make(4) by (simp del: do_each.simps)
    qed
  qed
qed

definition sample_cg :: cg_world where
  "sample_cg w c = (case c of
       Cg_read p \<Rightarrow> if p = ''/cg/cgroup.controllers'' then Ok ''cpu memory pids'' else Ok ''cpu''
     | _ \<Rightarrow> Ok [])"

definition sample_limits :: cgroup_config where
  "sample_limits = \<lparr>cg_memory_limit = Some 1024, cg_cpu_quota = None, cg_cpu_period = None, cg_pids_limit = Some 64\<rparr>"

text \<open>A host that does not accept the limit on processes.\<close>

definition no_pids_cg :: cg_world where
  "no_pids_cg w c = (case c of
       Cg_write p v \<Rightarrow> if p = ''/cg/web/pids.max'' then Err Errno_EINVAL else Ok []
     | _ \<Rightarrow> sample_cg w c)"

theorem cgroup_limits_enforced_witness:
  "(\<exists>w1. fst (new_at sample_cg ''/cg'' ''web'' sample_limits []) =
     w1 @ Cg_mkdir ''/cg/web'' # limit_writes sample_limits ''/cg/web'') \<and>
   (\<exists>w1 rest. fst (new_at no_pids_cg ''/cg'' ''web'' sample_limits []) =
     w1 @ Cg_write ''/cg/web/pids.max'' ''64'' # Cg_rmdir ''/cg/web'' # rest)"
proof
  have "new_at sample_cg ''/cg'' ''web'' sample_limits [] =
      (fst (new_at sample_cg ''/cg'' ''web'' sample_limits []), Ok ''/cg/web'')" by code_simp
  with cgroup_limits_enforced
      [where os = sample_cg and root = "''/cg''" and cid = "''web''" and c = sample_limits and w = "[]"]
  show "\<exists>w1. fst (new_at sample_cg ''/cg'' ''web'' sample_limits []) =
     w1 @ Cg_mkdir ''/cg/web'' # limit_writes sample_limits ''/cg/web''" by (auto split: prod.splits result.splits)
next
  have path: "path_join ''/cg'' ''web'' = ''/cg/web''" by code_simp
  have writes: "limit_writes sample_limits ''/cg/web'' =
      [Cg_write ''/cg/web/memory.max'' ''1024'', Cg_write ''/cg/web/pids.max'' ''64'']" by code_simp
  have made: "snd (new_at no_pids_cg ''/cg'' ''web'' sample_limits []) = Err (Cg_os Errno_EINVAL)"
    "Cg_rmdir ''/cg/web'' \<in> set (fst (new_at no_pids_cg ''/cg'' ''web'' sample_limits []))" by code_simp+
  obtain w' where new: "new_at no_pids_cg ''/cg'' ''web'' sample_limits [] = (w', Err (Cg_os Errno_EINVAL))"
    using made(1) by (metis prod.collapse)
  have "Cg_rmdir ''/cg/web'' \<in> set w'" using made(2) by (simp add: new)
  then obtain w1 pre x post err rest where f:
      "Cg_mkdir ''/cg/web'' # limit_writes sample_limits ''/cg/web'' = pre @ x # post" "no_pids_cg (w1 @ pre) x = Err err"
      "w' = w1 @ pre @ x # Cg_rmdir ''/cg/web'' # rest"
    using cgroup_limits_enforced
      [where os = no_pids_cg and root = "''/cg''" and cid = "''web''" and c = sample_limits and w = "[]"]
    by (auto simp: new path)
  then have "x = Cg_write ''/cg/web/pids.max'' ''64''"
    by (auto simp: writes no_pids_cg_def sample_cg_def Cons_eq_append_conv split: if_splits)
  then show "\<exists>w1 rest. fst (new_at no_pids_cg ''/cg'' ''web'' sample_limits []) =
     w1 @ Cg_write ''/cg/web/pids.max'' ''64'' # Cg_rmdir ''/cg/web'' # rest"
    using f(3) by (intro exI [where x = "w1 @ pre"] exI [where x = rest]) (simp add: new)
qed

text \<open>
  A mount point read from \<^verbatim>\<open>mountinfo\<close> is the directory's real name, whatever blanks and backslashes it
  contains: the escapes are undone in an order that never decodes a character twice.
\<close>

lemma mountinfo_round_trip: "unescape_mountinfo_path (escape_mountinfo_path p) = p"
  by (rule unescape_escape)

end
