(* ===== verification/Syscall_Entry.thy ===== *)
theory Syscall_Entry
  imports Prelude
begin

text \<open>
  The entry type of the syscall tables (\<^verbatim>\<open>SyscallEntry\<close> of \<^verbatim>\<open>src/seccomp/syscalls.rs\<close>), and
  a bottom-up merge by number with which the kernel checks that a table sorted by name and a
  table sorted by number hold the same entries.
\<close>

datatype syscall_entry = SyscallEntry (entry_name: string) (entry_number: int)

fun merge_by_number :: "syscall_entry list \<Rightarrow> syscall_entry list \<Rightarrow> syscall_entry list" where
  "merge_by_number [] es = es"
| "merge_by_number ds [] = ds"
| "merge_by_number (d # ds) (e # es) =
     (if entry_number e < entry_number d then e # merge_by_number (d # ds) es
      else d # merge_by_number ds (e # es))"

fun merge_round :: "syscall_entry list list \<Rightarrow> syscall_entry list list" where
  "merge_round (r1 # r2 # rs) = merge_by_number r1 r2 # merge_round rs"
| "merge_round rs = rs"

definition merge_rounds :: "nat \<Rightarrow> syscall_entry list \<Rightarrow> syscall_entry list list" where
  "merge_rounds n es = (merge_round ^^ n) (map (\<lambda>e. [e]) es)"

lemma set_merge_by_number: "set (merge_by_number ds es) = set ds \<union> set es"
  by (induction ds es rule: merge_by_number.induct) auto

lemma set_merge_round: "\<Union> (set ` set (merge_round rs)) = \<Union> (set ` set rs)"
  by (induction rs rule: merge_round.induct) (auto simp: set_merge_by_number)

lemma merge_rounds_set:
  assumes "merge_rounds n es = [ds]"
  shows "set es = set ds"
proof -
  have "\<Union> (set ` set ((merge_round ^^ n) rs)) = \<Union> (set ` set rs)" for rs
    by (induction n) (simp_all add: set_merge_round)
  from this [of "map (\<lambda>e. [e]) es"] show ?thesis
    using assms by (auto simp: merge_rounds_def)
qed

end
