(* ===== verification/Syscalls_X86_64.thy ===== *)
theory Syscalls_X86_64
  imports Syscall_Entry
begin

text \<open>
  The tables of \<^verbatim>\<open>src/seccomp/syscalls_x86_64.rs\<close>, entry by entry in the order of the
  file; a table longer than a page is the concatenation of its consecutive parts.
\<close>

definition TABLE_x86_64_1 :: "syscall_entry list" where
  "TABLE_x86_64_1 = [
     SyscallEntry ''_sysctl'' 156,
     SyscallEntry ''accept'' 43,
     SyscallEntry ''accept4'' 288,
     SyscallEntry ''access'' 21,
     SyscallEntry ''acct'' 163,
     SyscallEntry ''add_key'' 248,
     SyscallEntry ''adjtimex'' 159,
     SyscallEntry ''afs_syscall'' 183,
     SyscallEntry ''alarm'' 37,
     SyscallEntry ''arch_prctl'' 158,
     SyscallEntry ''bind'' 49,
     SyscallEntry ''bpf'' 321,
     SyscallEntry ''brk'' 12,
     SyscallEntry ''capget'' 125,
     SyscallEntry ''capset'' 126,
     SyscallEntry ''chdir'' 80,
     SyscallEntry ''chmod'' 90,
     SyscallEntry ''chown'' 92,
     SyscallEntry ''chroot'' 161,
     SyscallEntry ''clock_adjtime'' 305,
     SyscallEntry ''clock_getres'' 229,
     SyscallEntry ''clock_gettime'' 228,
     SyscallEntry ''clock_nanosleep'' 230,
     SyscallEntry ''clock_settime'' 227,
     SyscallEntry ''clone'' 56,
     SyscallEntry ''clone3'' 435,
     SyscallEntry ''close'' 3,
     SyscallEntry ''close_range'' 436,
     SyscallEntry ''connect'' 42,
     SyscallEntry ''copy_file_range'' 326,
     SyscallEntry ''creat'' 85,
     SyscallEntry ''create_module'' 174,
     SyscallEntry ''delete_module'' 176,
     SyscallEntry ''dup'' 32,
     SyscallEntry ''dup2'' 33,
     SyscallEntry ''dup3'' 292,
     SyscallEntry ''epoll_create'' 213,
     SyscallEntry ''epoll_create1'' 291,
     SyscallEntry ''epoll_ctl'' 233,
     SyscallEntry ''epoll_ctl_old'' 214,
     SyscallEntry ''epoll_pwait'' 281,
     SyscallEntry ''epoll_pwait2'' 441,
     SyscallEntry ''epoll_wait'' 232,
     SyscallEntry ''epoll_wait_old'' 215,
     SyscallEntry ''eventfd'' 284,
     SyscallEntry ''eventfd2'' 290,
     SyscallEntry ''execve'' 59,
     SyscallEntry ''execveat'' 322,
     SyscallEntry ''exit'' 60,
     SyscallEntry ''exit_group'' 231,
     SyscallEntry ''faccessat'' 269,
     SyscallEntry ''faccessat2'' 439,
     SyscallEntry ''fadvise64'' 221,
     SyscallEntry ''fallocate'' 285,
     SyscallEntry ''fanotify_init'' 300,
     SyscallEntry ''fanotify_mark'' 301,
     SyscallEntry ''fchdir'' 81,
     SyscallEntry ''fchmod'' 91,
     SyscallEntry ''fchmodat'' 268,
     SyscallEntry ''fchmodat2'' 452,
     SyscallEntry ''fchown'' 93,
     SyscallEntry ''fchownat'' 260,
     SyscallEntry ''fcntl'' 72,
     SyscallEntry ''fdatasync'' 75,
     SyscallEntry ''fgetxattr'' 193,
     SyscallEntry ''finit_module'' 313,
     SyscallEntry ''flistxattr'' 196,
     SyscallEntry ''flock'' 73,
     SyscallEntry ''fork'' 57,
     SyscallEntry ''fremovexattr'' 199,
     SyscallEntry ''fsconfig'' 431,
     SyscallEntry ''fsetxattr'' 190,
     SyscallEntry ''fsmount'' 432,
     SyscallEntry ''fsopen'' 430,
     SyscallEntry ''fspick'' 433,
     SyscallEntry ''fstat'' 5,
     SyscallEntry ''fstatfs'' 138,
     SyscallEntry ''fsync'' 74,
     SyscallEntry ''ftruncate'' 77,
     SyscallEntry ''futex'' 202,
     SyscallEntry ''futex_waitv'' 449,
     SyscallEntry ''futimesat'' 261,
     SyscallEntry ''get_kernel_syms'' 177,
     SyscallEntry ''get_mempolicy'' 239,
     SyscallEntry ''get_robust_list'' 274,
     SyscallEntry ''get_thread_area'' 211,
     SyscallEntry ''getcpu'' 309,
     SyscallEntry ''getcwd'' 79,
     SyscallEntry ''getdents'' 78,
     SyscallEntry ''getdents64'' 217,
     SyscallEntry ''getegid'' 108,
     SyscallEntry ''geteuid'' 107,
     SyscallEntry ''getgid'' 104,
     SyscallEntry ''getgroups'' 115,
     SyscallEntry ''getitimer'' 36,
     SyscallEntry ''getpeername'' 52,
     SyscallEntry ''getpgid'' 121,
     SyscallEntry ''getpgrp'' 111,
     SyscallEntry ''getpid'' 39,
     SyscallEntry ''getpmsg'' 181,
     SyscallEntry ''getppid'' 110,
     SyscallEntry ''getpriority'' 140,
     SyscallEntry ''getrandom'' 318,
     SyscallEntry ''getresgid'' 120,
     SyscallEntry ''getresuid'' 118,
     SyscallEntry ''getrlimit'' 97,
     SyscallEntry ''getrusage'' 98,
     SyscallEntry ''getsid'' 124,
     SyscallEntry ''getsockname'' 51,
     SyscallEntry ''getsockopt'' 55,
     SyscallEntry ''gettid'' 186,
     SyscallEntry ''gettimeofday'' 96,
     SyscallEntry ''getuid'' 102,
     SyscallEntry ''getxattr'' 191,
     SyscallEntry ''init_module'' 175,
     SyscallEntry ''inotify_add_watch'' 254,
     SyscallEntry ''inotify_init'' 253,
     SyscallEntry ''inotify_init1'' 294,
     SyscallEntry ''inotify_rm_watch'' 255,
     SyscallEntry ''io_cancel'' 210,
     SyscallEntry ''io_destroy'' 207,
     SyscallEntry ''io_getevents'' 208,
     SyscallEntry ''io_setup'' 206,
     SyscallEntry ''io_submit'' 209,
     SyscallEntry ''io_uring_enter'' 426,
     SyscallEntry ''io_uring_register'' 427,
     SyscallEntry ''io_uring_setup'' 425,
     SyscallEntry ''ioctl'' 16,
     SyscallEntry ''ioperm'' 173,
     SyscallEntry ''iopl'' 172,
     SyscallEntry ''ioprio_get'' 252,
     SyscallEntry ''ioprio_set'' 251,
     SyscallEntry ''kcmp'' 312,
     SyscallEntry ''kexec_file_load'' 320,
     SyscallEntry ''kexec_load'' 246,
     SyscallEntry ''keyctl'' 250,
     SyscallEntry ''kill'' 62,
     SyscallEntry ''landlock_add_rule'' 445,
     SyscallEntry ''landlock_create_ruleset'' 444,
     SyscallEntry ''landlock_restrict_self'' 446,
     SyscallEntry ''lchown'' 94,
     SyscallEntry ''lgetxattr'' 192,
     SyscallEntry ''link'' 86,
     SyscallEntry ''linkat'' 265,
     SyscallEntry ''listen'' 50,
     SyscallEntry ''listxattr'' 194,
     SyscallEntry ''llistxattr'' 195,
     SyscallEntry ''lookup_dcookie'' 212]"

definition TABLE_x86_64_2 :: "syscall_entry list" where
  "TABLE_x86_64_2 = [
     SyscallEntry ''lremovexattr'' 198,
     SyscallEntry ''lseek'' 8,
     SyscallEntry ''lsetxattr'' 189,
     SyscallEntry ''lstat'' 6,
     SyscallEntry ''madvise'' 28,
     SyscallEntry ''mbind'' 237,
     SyscallEntry ''membarrier'' 324,
     SyscallEntry ''memfd_create'' 319,
     SyscallEntry ''memfd_secret'' 447,
     SyscallEntry ''migrate_pages'' 256,
     SyscallEntry ''mincore'' 27,
     SyscallEntry ''mkdir'' 83,
     SyscallEntry ''mkdirat'' 258,
     SyscallEntry ''mknod'' 133,
     SyscallEntry ''mknodat'' 259,
     SyscallEntry ''mlock'' 149,
     SyscallEntry ''mlock2'' 325,
     SyscallEntry ''mlockall'' 151,
     SyscallEntry ''mmap'' 9,
     SyscallEntry ''modify_ldt'' 154,
     SyscallEntry ''mount'' 165,
     SyscallEntry ''mount_setattr'' 442,
     SyscallEntry ''move_mount'' 429,
     SyscallEntry ''move_pages'' 279,
     SyscallEntry ''mprotect'' 10,
     SyscallEntry ''mq_getsetattr'' 245,
     SyscallEntry ''mq_notify'' 244,
     SyscallEntry ''mq_open'' 240,
     SyscallEntry ''mq_timedreceive'' 243,
     SyscallEntry ''mq_timedsend'' 242,
     SyscallEntry ''mq_unlink'' 241,
     SyscallEntry ''mremap'' 25,
     SyscallEntry ''mseal'' 462,
     SyscallEntry ''msgctl'' 71,
     SyscallEntry ''msgget'' 68,
     SyscallEntry ''msgrcv'' 70,
     SyscallEntry ''msgsnd'' 69,
     SyscallEntry ''msync'' 26,
     SyscallEntry ''munlock'' 150,
     SyscallEntry ''munlockall'' 152,
     SyscallEntry ''munmap'' 11,
     SyscallEntry ''name_to_handle_at'' 303,
     SyscallEntry ''nanosleep'' 35,
     SyscallEntry ''newfstatat'' 262,
     SyscallEntry ''nfsservctl'' 180,
     SyscallEntry ''open'' 2,
     SyscallEntry ''open_by_handle_at'' 304,
     SyscallEntry ''open_tree'' 428,
     SyscallEntry ''openat'' 257,
     SyscallEntry ''openat2'' 437,
     SyscallEntry ''pause'' 34,
     SyscallEntry ''perf_event_open'' 298,
     SyscallEntry ''personality'' 135,
     SyscallEntry ''pidfd_getfd'' 438,
     SyscallEntry ''pidfd_open'' 434,
     SyscallEntry ''pidfd_send_signal'' 424,
     SyscallEntry ''pipe'' 22,
     SyscallEntry ''pipe2'' 293,
     SyscallEntry ''pivot_root'' 155,
     SyscallEntry ''pkey_alloc'' 330,
     SyscallEntry ''pkey_free'' 331,
     SyscallEntry ''pkey_mprotect'' 329,
     SyscallEntry ''poll'' 7,
     SyscallEntry ''ppoll'' 271,
     SyscallEntry ''prctl'' 157,
     SyscallEntry ''pread64'' 17,
     SyscallEntry ''preadv'' 295,
     SyscallEntry ''preadv2'' 327,
     SyscallEntry ''prlimit64'' 302,
     SyscallEntry ''process_madvise'' 440,
     SyscallEntry ''process_mrelease'' 448,
     SyscallEntry ''process_vm_readv'' 310,
     SyscallEntry ''process_vm_writev'' 311,
     SyscallEntry ''pselect6'' 270,
     SyscallEntry ''ptrace'' 101,
     SyscallEntry ''putpmsg'' 182,
     SyscallEntry ''pwrite64'' 18,
     SyscallEntry ''pwritev'' 296,
     SyscallEntry ''pwritev2'' 328,
     SyscallEntry ''query_module'' 178,
     SyscallEntry ''quotactl'' 179,
     SyscallEntry ''quotactl_fd'' 443,
     SyscallEntry ''read'' 0,
     SyscallEntry ''readahead'' 187,
     SyscallEntry ''readlink'' 89,
     SyscallEntry ''readlinkat'' 267,
     SyscallEntry ''readv'' 19,
     SyscallEntry ''reboot'' 169,
     SyscallEntry ''recvfrom'' 45,
     SyscallEntry ''recvmmsg'' 299,
     SyscallEntry ''recvmsg'' 47,
     SyscallEntry ''remap_file_pages'' 216,
     SyscallEntry ''removexattr'' 197,
     SyscallEntry ''rename'' 82,
     SyscallEntry ''renameat'' 264,
     SyscallEntry ''renameat2'' 316,
     SyscallEntry ''request_key'' 249,
     SyscallEntry ''restart_syscall'' 219,
     SyscallEntry ''rmdir'' 84,
     SyscallEntry ''rseq'' 334,
     SyscallEntry ''rt_sigaction'' 13,
     SyscallEntry ''rt_sigpending'' 127,
     SyscallEntry ''rt_sigprocmask'' 14,
     SyscallEntry ''rt_sigqueueinfo'' 129,
     SyscallEntry ''rt_sigreturn'' 15,
     SyscallEntry ''rt_sigsuspend'' 130,
     SyscallEntry ''rt_sigtimedwait'' 128,
     SyscallEntry ''rt_tgsigqueueinfo'' 297,
     SyscallEntry ''sched_get_priority_max'' 146,
     SyscallEntry ''sched_get_priority_min'' 147,
     SyscallEntry ''sched_getaffinity'' 204,
     SyscallEntry ''sched_getattr'' 315,
     SyscallEntry ''sched_getparam'' 143,
     SyscallEntry ''sched_getscheduler'' 145,
     SyscallEntry ''sched_rr_get_interval'' 148,
     SyscallEntry ''sched_setaffinity'' 203,
     SyscallEntry ''sched_setattr'' 314,
     SyscallEntry ''sched_setparam'' 142,
     SyscallEntry ''sched_setscheduler'' 144,
     SyscallEntry ''sched_yield'' 24,
     SyscallEntry ''seccomp'' 317,
     SyscallEntry ''security'' 185,
     SyscallEntry ''select'' 23,
     SyscallEntry ''semctl'' 66,
     SyscallEntry ''semget'' 64,
     SyscallEntry ''semop'' 65,
     SyscallEntry ''semtimedop'' 220,
     SyscallEntry ''sendfile'' 40,
     SyscallEntry ''sendmmsg'' 307,
     SyscallEntry ''sendmsg'' 46,
     SyscallEntry ''sendto'' 44,
     SyscallEntry ''set_mempolicy'' 238,
     SyscallEntry ''set_mempolicy_home_node'' 450,
     SyscallEntry ''set_robust_list'' 273,
     SyscallEntry ''set_thread_area'' 205,
     SyscallEntry ''set_tid_address'' 218,
     SyscallEntry ''setdomainname'' 171,
     SyscallEntry ''setfsgid'' 123,
     SyscallEntry ''setfsuid'' 122,
     SyscallEntry ''setgid'' 106,
     SyscallEntry ''setgroups'' 116,
     SyscallEntry ''sethostname'' 170,
     SyscallEntry ''setitimer'' 38,
     SyscallEntry ''setns'' 308,
     SyscallEntry ''setpgid'' 109,
     SyscallEntry ''setpriority'' 141,
     SyscallEntry ''setregid'' 114,
     SyscallEntry ''setresgid'' 119]"

definition TABLE_x86_64_3 :: "syscall_entry list" where
  "TABLE_x86_64_3 = [
     SyscallEntry ''setresuid'' 117,
     SyscallEntry ''setreuid'' 113,
     SyscallEntry ''setrlimit'' 160,
     SyscallEntry ''setsid'' 112,
     SyscallEntry ''setsockopt'' 54,
     SyscallEntry ''settimeofday'' 164,
     SyscallEntry ''setuid'' 105,
     SyscallEntry ''setxattr'' 188,
     SyscallEntry ''shmat'' 30,
     SyscallEntry ''shmctl'' 31,
     SyscallEntry ''shmdt'' 67,
     SyscallEntry ''shmget'' 29,
     SyscallEntry ''shutdown'' 48,
     SyscallEntry ''sigaltstack'' 131,
     SyscallEntry ''signalfd'' 282,
     SyscallEntry ''signalfd4'' 289,
     SyscallEntry ''socket'' 41,
     SyscallEntry ''socketpair'' 53,
     SyscallEntry ''splice'' 275,
     SyscallEntry ''stat'' 4,
     SyscallEntry ''statfs'' 137,
     SyscallEntry ''statx'' 332,
     SyscallEntry ''swapoff'' 168,
     SyscallEntry ''swapon'' 167,
     SyscallEntry ''symlink'' 88,
     SyscallEntry ''symlinkat'' 266,
     SyscallEntry ''sync'' 162,
     SyscallEntry ''sync_file_range'' 277,
     SyscallEntry ''syncfs'' 306,
     SyscallEntry ''sysfs'' 139,
     SyscallEntry ''sysinfo'' 99,
     SyscallEntry ''syslog'' 103,
     SyscallEntry ''tee'' 276,
     SyscallEntry ''tgkill'' 234,
     SyscallEntry ''time'' 201,
     SyscallEntry ''timer_create'' 222,
     SyscallEntry ''timer_delete'' 226,
     SyscallEntry ''timer_getoverrun'' 225,
     SyscallEntry ''timer_gettime'' 224,
     SyscallEntry ''timer_settime'' 223,
     SyscallEntry ''timerfd_create'' 283,
     SyscallEntry ''timerfd_gettime'' 287,
     SyscallEntry ''timerfd_settime'' 286,
     SyscallEntry ''times'' 100,
     SyscallEntry ''tkill'' 200,
     SyscallEntry ''truncate'' 76,
     SyscallEntry ''tuxcall'' 184,
     SyscallEntry ''umask'' 95,
     SyscallEntry ''umount2'' 166,
     SyscallEntry ''uname'' 63,
     SyscallEntry ''unlink'' 87,
     SyscallEntry ''unlinkat'' 263,
     SyscallEntry ''unshare'' 272,
     SyscallEntry ''uselib'' 134,
     SyscallEntry ''userfaultfd'' 323,
     SyscallEntry ''ustat'' 136,
     SyscallEntry ''utime'' 132,
     SyscallEntry ''utimensat'' 280,
     SyscallEntry ''utimes'' 235,
     SyscallEntry ''vfork'' 58,
     SyscallEntry ''vhangup'' 153,
     SyscallEntry ''vmsplice'' 278,
     SyscallEntry ''vserver'' 236,
     SyscallEntry ''wait4'' 61,
     SyscallEntry ''waitid'' 247,
     SyscallEntry ''write'' 1,
     SyscallEntry ''writev'' 20]"

definition TABLE_x86_64 :: "syscall_entry list" where
  "TABLE_x86_64 = TABLE_x86_64_1 @ TABLE_x86_64_2 @ TABLE_x86_64_3"

definition BY_NUMBER_x86_64_1 :: "syscall_entry list" where
  "BY_NUMBER_x86_64_1 = [
     SyscallEntry ''read'' 0,
     SyscallEntry ''write'' 1,
     SyscallEntry ''open'' 2,
     SyscallEntry ''close'' 3,
     SyscallEntry ''stat'' 4,
     SyscallEntry ''fstat'' 5,
     SyscallEntry ''lstat'' 6,
     SyscallEntry ''poll'' 7,
     SyscallEntry ''lseek'' 8,
     SyscallEntry ''mmap'' 9,
     SyscallEntry ''mprotect'' 10,
     SyscallEntry ''munmap'' 11,
     SyscallEntry ''brk'' 12,
     SyscallEntry ''rt_sigaction'' 13,
     SyscallEntry ''rt_sigprocmask'' 14,
     SyscallEntry ''rt_sigreturn'' 15,
     SyscallEntry ''ioctl'' 16,
     SyscallEntry ''pread64'' 17,
     SyscallEntry ''pwrite64'' 18,
     SyscallEntry ''readv'' 19,
     SyscallEntry ''writev'' 20,
     SyscallEntry ''access'' 21,
     SyscallEntry ''pipe'' 22,
     SyscallEntry ''select'' 23,
     SyscallEntry ''sched_yield'' 24,
     SyscallEntry ''mremap'' 25,
     SyscallEntry ''msync'' 26,
     SyscallEntry ''mincore'' 27,
     SyscallEntry ''madvise'' 28,
     SyscallEntry ''shmget'' 29,
     SyscallEntry ''shmat'' 30,
     SyscallEntry ''shmctl'' 31,
     SyscallEntry ''dup'' 32,
     SyscallEntry ''dup2'' 33,
     SyscallEntry ''pause'' 34,
     SyscallEntry ''nanosleep'' 35,
     SyscallEntry ''getitimer'' 36,
     SyscallEntry ''alarm'' 37,
     SyscallEntry ''setitimer'' 38,
     SyscallEntry ''getpid'' 39,
     SyscallEntry ''sendfile'' 40,
     SyscallEntry ''socket'' 41,
     SyscallEntry ''connect'' 42,
     SyscallEntry ''accept'' 43,
     SyscallEntry ''sendto'' 44,
     SyscallEntry ''recvfrom'' 45,
     SyscallEntry ''sendmsg'' 46,
     SyscallEntry ''recvmsg'' 47,
     SyscallEntry ''shutdown'' 48,
     SyscallEntry ''bind'' 49,
     SyscallEntry ''listen'' 50,
     SyscallEntry ''getsockname'' 51,
     SyscallEntry ''getpeername'' 52,
     SyscallEntry ''socketpair'' 53,
     SyscallEntry ''setsockopt'' 54,
     SyscallEntry ''getsockopt'' 55,
     SyscallEntry ''clone'' 56,
     SyscallEntry ''fork'' 57,
     SyscallEntry ''vfork'' 58,
     SyscallEntry ''execve'' 59,
     SyscallEntry ''exit'' 60,
     SyscallEntry ''wait4'' 61,
     SyscallEntry ''kill'' 62,
     SyscallEntry ''uname'' 63,
     SyscallEntry ''semget'' 64,
     SyscallEntry ''semop'' 65,
     SyscallEntry ''semctl'' 66,
     SyscallEntry ''shmdt'' 67,
     SyscallEntry ''msgget'' 68,
     SyscallEntry ''msgsnd'' 69,
     SyscallEntry ''msgrcv'' 70,
     SyscallEntry ''msgctl'' 71,
     SyscallEntry ''fcntl'' 72,
     SyscallEntry ''flock'' 73,
     SyscallEntry ''fsync'' 74,
     SyscallEntry ''fdatasync'' 75,
     SyscallEntry ''truncate'' 76,
     SyscallEntry ''ftruncate'' 77,
     SyscallEntry ''getdents'' 78,
     SyscallEntry ''getcwd'' 79,
     SyscallEntry ''chdir'' 80,
     SyscallEntry ''fchdir'' 81,
     SyscallEntry ''rename'' 82,
     SyscallEntry ''mkdir'' 83,
     SyscallEntry ''rmdir'' 84,
     SyscallEntry ''creat'' 85,
     SyscallEntry ''link'' 86,
     SyscallEntry ''unlink'' 87,
     SyscallEntry ''symlink'' 88,
     SyscallEntry ''readlink'' 89,
     SyscallEntry ''chmod'' 90,
     SyscallEntry ''fchmod'' 91,
     SyscallEntry ''chown'' 92,
     SyscallEntry ''fchown'' 93,
     SyscallEntry ''lchown'' 94,
     SyscallEntry ''umask'' 95,
     SyscallEntry ''gettimeofday'' 96,
     SyscallEntry ''getrlimit'' 97,
     SyscallEntry ''getrusage'' 98,
     SyscallEntry ''sysinfo'' 99,
     SyscallEntry ''times'' 100,
     SyscallEntry ''ptrace'' 101,
     SyscallEntry ''getuid'' 102,
     SyscallEntry ''syslog'' 103,
     SyscallEntry ''getgid'' 104,
     SyscallEntry ''setuid'' 105,
     SyscallEntry ''setgid'' 106,
     SyscallEntry ''geteuid'' 107,
     SyscallEntry ''getegid'' 108,
     SyscallEntry ''setpgid'' 109,
     SyscallEntry ''getppid'' 110,
     SyscallEntry ''getpgrp'' 111,
     SyscallEntry ''setsid'' 112,
     SyscallEntry ''setreuid'' 113,
     SyscallEntry ''setregid'' 114,
     SyscallEntry ''getgroups'' 115,
     SyscallEntry ''setgroups'' 116,
     SyscallEntry ''setresuid'' 117,
     SyscallEntry ''getresuid'' 118,
     SyscallEntry ''setresgid'' 119,
     SyscallEntry ''getresgid'' 120,
     SyscallEntry ''getpgid'' 121,
     SyscallEntry ''setfsuid'' 122,
     SyscallEntry ''setfsgid'' 123,
     SyscallEntry ''getsid'' 124,
     SyscallEntry ''capget'' 125,
     SyscallEntry ''capset'' 126,
     SyscallEntry ''rt_sigpending'' 127,
     SyscallEntry ''rt_sigtimedwait'' 128,
     SyscallEntry ''rt_sigqueueinfo'' 129,
     SyscallEntry ''rt_sigsuspend'' 130,
     SyscallEntry ''sigaltstack'' 131,
     SyscallEntry ''utime'' 132,
     SyscallEntry ''mknod'' 133,
     SyscallEntry ''uselib'' 134,
     SyscallEntry ''personality'' 135,
     SyscallEntry ''ustat'' 136,
     SyscallEntry ''statfs'' 137,
     SyscallEntry ''fstatfs'' 138,
     SyscallEntry ''sysfs'' 139,
     SyscallEntry ''getpriority'' 140,
     SyscallEntry ''setpriority'' 141,
     SyscallEntry ''sched_setparam'' 142,
     SyscallEntry ''sched_getparam'' 143,
     SyscallEntry ''sched_setscheduler'' 144,
     SyscallEntry ''sched_getscheduler'' 145,
     SyscallEntry ''sched_get_priority_max'' 146,
     SyscallEntry ''sched_get_priority_min'' 147]"

definition BY_NUMBER_x86_64_2 :: "syscall_entry list" where
  "BY_NUMBER_x86_64_2 = [
     SyscallEntry ''sched_rr_get_interval'' 148,
     SyscallEntry ''mlock'' 149,
     SyscallEntry ''munlock'' 150,
     SyscallEntry ''mlockall'' 151,
     SyscallEntry ''munlockall'' 152,
     SyscallEntry ''vhangup'' 153,
     SyscallEntry ''modify_ldt'' 154,
     SyscallEntry ''pivot_root'' 155,
     SyscallEntry ''_sysctl'' 156,
     SyscallEntry ''prctl'' 157,
     SyscallEntry ''arch_prctl'' 158,
     SyscallEntry ''adjtimex'' 159,
     SyscallEntry ''setrlimit'' 160,
     SyscallEntry ''chroot'' 161,
     SyscallEntry ''sync'' 162,
     SyscallEntry ''acct'' 163,
     SyscallEntry ''settimeofday'' 164,
     SyscallEntry ''mount'' 165,
     SyscallEntry ''umount2'' 166,
     SyscallEntry ''swapon'' 167,
     SyscallEntry ''swapoff'' 168,
     SyscallEntry ''reboot'' 169,
     SyscallEntry ''sethostname'' 170,
     SyscallEntry ''setdomainname'' 171,
     SyscallEntry ''iopl'' 172,
     SyscallEntry ''ioperm'' 173,
     SyscallEntry ''create_module'' 174,
     SyscallEntry ''init_module'' 175,
     SyscallEntry ''delete_module'' 176,
     SyscallEntry ''get_kernel_syms'' 177,
     SyscallEntry ''query_module'' 178,
     SyscallEntry ''quotactl'' 179,
     SyscallEntry ''nfsservctl'' 180,
     SyscallEntry ''getpmsg'' 181,
     SyscallEntry ''putpmsg'' 182,
     SyscallEntry ''afs_syscall'' 183,
     SyscallEntry ''tuxcall'' 184,
     SyscallEntry ''security'' 185,
     SyscallEntry ''gettid'' 186,
     SyscallEntry ''readahead'' 187,
     SyscallEntry ''setxattr'' 188,
     SyscallEntry ''lsetxattr'' 189,
     SyscallEntry ''fsetxattr'' 190,
     SyscallEntry ''getxattr'' 191,
     SyscallEntry ''lgetxattr'' 192,
     SyscallEntry ''fgetxattr'' 193,
     SyscallEntry ''listxattr'' 194,
     SyscallEntry ''llistxattr'' 195,
     SyscallEntry ''flistxattr'' 196,
     SyscallEntry ''removexattr'' 197,
     SyscallEntry ''lremovexattr'' 198,
     SyscallEntry ''fremovexattr'' 199,
     SyscallEntry ''tkill'' 200,
     SyscallEntry ''time'' 201,
     SyscallEntry ''futex'' 202,
     SyscallEntry ''sched_setaffinity'' 203,
     SyscallEntry ''sched_getaffinity'' 204,
     SyscallEntry ''set_thread_area'' 205,
     SyscallEntry ''io_setup'' 206,
     SyscallEntry ''io_destroy'' 207,
     SyscallEntry ''io_getevents'' 208,
     SyscallEntry ''io_submit'' 209,
     SyscallEntry ''io_cancel'' 210,
     SyscallEntry ''get_thread_area'' 211,
     SyscallEntry ''lookup_dcookie'' 212,
     SyscallEntry ''epoll_create'' 213,
     SyscallEntry ''epoll_ctl_old'' 214,
     SyscallEntry ''epoll_wait_old'' 215,
     SyscallEntry ''remap_file_pages'' 216,
     SyscallEntry ''getdents64'' 217,
     SyscallEntry ''set_tid_address'' 218,
     SyscallEntry ''restart_syscall'' 219,
     SyscallEntry ''semtimedop'' 220,
     SyscallEntry ''fadvise64'' 221,
     SyscallEntry ''timer_create'' 222,
     SyscallEntry ''timer_settime'' 223,
     SyscallEntry ''timer_gettime'' 224,
     SyscallEntry ''timer_getoverrun'' 225,
     SyscallEntry ''timer_delete'' 226,
     SyscallEntry ''clock_settime'' 227,
     SyscallEntry ''clock_gettime'' 228,
     SyscallEntry ''clock_getres'' 229,
     SyscallEntry ''clock_nanosleep'' 230,
     SyscallEntry ''exit_group'' 231,
     SyscallEntry ''epoll_wait'' 232,
     SyscallEntry ''epoll_ctl'' 233,
     SyscallEntry ''tgkill'' 234,
     SyscallEntry ''utimes'' 235,
     SyscallEntry ''vserver'' 236,
     SyscallEntry ''mbind'' 237,
     SyscallEntry ''set_mempolicy'' 238,
     SyscallEntry ''get_mempolicy'' 239,
     SyscallEntry ''mq_open'' 240,
     SyscallEntry ''mq_unlink'' 241,
     SyscallEntry ''mq_timedsend'' 242,
     SyscallEntry ''mq_timedreceive'' 243,
     SyscallEntry ''mq_notify'' 244,
     SyscallEntry ''mq_getsetattr'' 245,
     SyscallEntry ''kexec_load'' 246,
     SyscallEntry ''waitid'' 247,
     SyscallEntry ''add_key'' 248,
     SyscallEntry ''request_key'' 249,
     SyscallEntry ''keyctl'' 250,
     SyscallEntry ''ioprio_set'' 251,
     SyscallEntry ''ioprio_get'' 252,
     SyscallEntry ''inotify_init'' 253,
     SyscallEntry ''inotify_add_watch'' 254,
     SyscallEntry ''inotify_rm_watch'' 255,
     SyscallEntry ''migrate_pages'' 256,
     SyscallEntry ''openat'' 257,
     SyscallEntry ''mkdirat'' 258,
     SyscallEntry ''mknodat'' 259,
     SyscallEntry ''fchownat'' 260,
     SyscallEntry ''futimesat'' 261,
     SyscallEntry ''newfstatat'' 262,
     SyscallEntry ''unlinkat'' 263,
     SyscallEntry ''renameat'' 264,
     SyscallEntry ''linkat'' 265,
     SyscallEntry ''symlinkat'' 266,
     SyscallEntry ''readlinkat'' 267,
     SyscallEntry ''fchmodat'' 268,
     SyscallEntry ''faccessat'' 269,
     SyscallEntry ''pselect6'' 270,
     SyscallEntry ''ppoll'' 271,
     SyscallEntry ''unshare'' 272,
     SyscallEntry ''set_robust_list'' 273,
     SyscallEntry ''get_robust_list'' 274,
     SyscallEntry ''splice'' 275,
     SyscallEntry ''tee'' 276,
     SyscallEntry ''sync_file_range'' 277,
     SyscallEntry ''vmsplice'' 278,
     SyscallEntry ''move_pages'' 279,
     SyscallEntry ''utimensat'' 280,
     SyscallEntry ''epoll_pwait'' 281,
     SyscallEntry ''signalfd'' 282,
     SyscallEntry ''timerfd_create'' 283,
     SyscallEntry ''eventfd'' 284,
     SyscallEntry ''fallocate'' 285,
     SyscallEntry ''timerfd_settime'' 286,
     SyscallEntry ''timerfd_gettime'' 287,
     SyscallEntry ''accept4'' 288,
     SyscallEntry ''signalfd4'' 289,
     SyscallEntry ''eventfd2'' 290,
     SyscallEntry ''epoll_create1'' 291,
     SyscallEntry ''dup3'' 292,
     SyscallEntry ''pipe2'' 293,
     SyscallEntry ''inotify_init1'' 294,
     SyscallEntry ''preadv'' 295]"

definition BY_NUMBER_x86_64_3 :: "syscall_entry list" where
  "BY_NUMBER_x86_64_3 = [
     SyscallEntry ''pwritev'' 296,
     SyscallEntry ''rt_tgsigqueueinfo'' 297,
     SyscallEntry ''perf_event_open'' 298,
     SyscallEntry ''recvmmsg'' 299,
     SyscallEntry ''fanotify_init'' 300,
     SyscallEntry ''fanotify_mark'' 301,
     SyscallEntry ''prlimit64'' 302,
     SyscallEntry ''name_to_handle_at'' 303,
     SyscallEntry ''open_by_handle_at'' 304,
     SyscallEntry ''clock_adjtime'' 305,
     SyscallEntry ''syncfs'' 306,
     SyscallEntry ''sendmmsg'' 307,
     SyscallEntry ''setns'' 308,
     SyscallEntry ''getcpu'' 309,
     SyscallEntry ''process_vm_readv'' 310,
     SyscallEntry ''process_vm_writev'' 311,
     SyscallEntry ''kcmp'' 312,
     SyscallEntry ''finit_module'' 313,
     SyscallEntry ''sched_setattr'' 314,
     SyscallEntry ''sched_getattr'' 315,
     SyscallEntry ''renameat2'' 316,
     SyscallEntry ''seccomp'' 317,
     SyscallEntry ''getrandom'' 318,
     SyscallEntry ''memfd_create'' 319,
     SyscallEntry ''kexec_file_load'' 320,
     SyscallEntry ''bpf'' 321,
     SyscallEntry ''execveat'' 322,
     SyscallEntry ''userfaultfd'' 323,
     SyscallEntry ''membarrier'' 324,
     SyscallEntry ''mlock2'' 325,
     SyscallEntry ''copy_file_range'' 326,
     SyscallEntry ''preadv2'' 327,
     SyscallEntry ''pwritev2'' 328,
     SyscallEntry ''pkey_mprotect'' 329,
     SyscallEntry ''pkey_alloc'' 330,
     SyscallEntry ''pkey_free'' 331,
     SyscallEntry ''statx'' 332,
     SyscallEntry ''rseq'' 334,
     SyscallEntry ''pidfd_send_signal'' 424,
     SyscallEntry ''io_uring_setup'' 425,
     SyscallEntry ''io_uring_enter'' 426,
     SyscallEntry ''io_uring_register'' 427,
     SyscallEntry ''open_tree'' 428,
     SyscallEntry ''move_mount'' 429,
     SyscallEntry ''fsopen'' 430,
     SyscallEntry ''fsconfig'' 431,
     SyscallEntry ''fsmount'' 432,
     SyscallEntry ''fspick'' 433,
     SyscallEntry ''pidfd_open'' 434,
     SyscallEntry ''clone3'' 435,
     SyscallEntry ''close_range'' 436,
     SyscallEntry ''openat2'' 437,
     SyscallEntry ''pidfd_getfd'' 438,
     SyscallEntry ''faccessat2'' 439,
     SyscallEntry ''process_madvise'' 440,
     SyscallEntry ''epoll_pwait2'' 441,
     SyscallEntry ''mount_setattr'' 442,
     SyscallEntry ''quotactl_fd'' 443,
     SyscallEntry ''landlock_create_ruleset'' 444,
     SyscallEntry ''landlock_add_rule'' 445,
     SyscallEntry ''landlock_restrict_self'' 446,
     SyscallEntry ''memfd_secret'' 447,
     SyscallEntry ''process_mrelease'' 448,
     SyscallEntry ''futex_waitv'' 449,
     SyscallEntry ''set_mempolicy_home_node'' 450,
     SyscallEntry ''fchmodat2'' 452,
     SyscallEntry ''mseal'' 462]"

definition BY_NUMBER_x86_64 :: "syscall_entry list" where
  "BY_NUMBER_x86_64 = BY_NUMBER_x86_64_1 @ BY_NUMBER_x86_64_2 @ BY_NUMBER_x86_64_3"

lemmas x86_64_table_defs =
  TABLE_x86_64_def TABLE_x86_64_1_def TABLE_x86_64_2_def TABLE_x86_64_3_def BY_NUMBER_x86_64_def BY_NUMBER_x86_64_1_def BY_NUMBER_x86_64_2_def BY_NUMBER_x86_64_3_def

lemma TABLE_x86_64_ascending: "ascending (map entry_name TABLE_x86_64)"
  unfolding x86_64_table_defs by code_simp

lemma BY_NUMBER_x86_64_ascending: "ascending (map entry_number BY_NUMBER_x86_64)"
  unfolding x86_64_table_defs by code_simp

text \<open>
  The two tables hold the same entries: sorting the first by number, run by run, gives the
  second.
\<close>

lemma TABLE_x86_64_sorted_by_number: "merge_rounds 9 TABLE_x86_64 = [BY_NUMBER_x86_64]"
  unfolding x86_64_table_defs by code_simp

lemma set_TABLE_x86_64: "set TABLE_x86_64 = set BY_NUMBER_x86_64"
  using TABLE_x86_64_sorted_by_number by (rule merge_rounds_set)

lemma TABLE_x86_64_length: "length TABLE_x86_64 = 363"
  unfolding x86_64_table_defs by code_simp

lemma TABLE_x86_64_numbers: "\<forall>e \<in> set TABLE_x86_64. 0 \<le> entry_number e \<and> entry_number e < 463"
  unfolding x86_64_table_defs by code_simp

lemma TABLE_x86_64_no_placeholder: "list_all (\<lambda>e. take 8 (entry_name e) \<noteq> ''unknown_'') TABLE_x86_64"
  unfolding x86_64_table_defs by code_simp

end
