(* ===== verification/Syscalls_Aarch64.thy ===== *)
theory Syscalls_Aarch64
  imports Syscall_Entry
begin

text \<open>
  The tables of \<^verbatim>\<open>src/seccomp/syscalls_aarch64.rs\<close>, entry by entry in the order of the
  file; a table longer than a page is the concatenation of its consecutive parts.
\<close>

definition TABLE_aarch64_1 :: "syscall_entry list" where
  "TABLE_aarch64_1 = [
     SyscallEntry ''accept'' 202,
     SyscallEntry ''accept4'' 242,
     SyscallEntry ''acct'' 89,
     SyscallEntry ''add_key'' 217,
     SyscallEntry ''adjtimex'' 171,
     SyscallEntry ''bind'' 200,
     SyscallEntry ''bpf'' 280,
     SyscallEntry ''brk'' 214,
     SyscallEntry ''capget'' 90,
     SyscallEntry ''capset'' 91,
     SyscallEntry ''chdir'' 49,
     SyscallEntry ''chroot'' 51,
     SyscallEntry ''clock_adjtime'' 266,
     SyscallEntry ''clock_getres'' 114,
     SyscallEntry ''clock_gettime'' 113,
     SyscallEntry ''clock_nanosleep'' 115,
     SyscallEntry ''clock_settime'' 112,
     SyscallEntry ''clone'' 220,
     SyscallEntry ''clone3'' 435,
     SyscallEntry ''close'' 57,
     SyscallEntry ''close_range'' 436,
     SyscallEntry ''connect'' 203,
     SyscallEntry ''copy_file_range'' 285,
     SyscallEntry ''delete_module'' 106,
     SyscallEntry ''dup'' 23,
     SyscallEntry ''dup3'' 24,
     SyscallEntry ''epoll_create1'' 20,
     SyscallEntry ''epoll_ctl'' 21,
     SyscallEntry ''epoll_pwait'' 22,
     SyscallEntry ''epoll_pwait2'' 441,
     SyscallEntry ''eventfd2'' 19,
     SyscallEntry ''execve'' 221,
     SyscallEntry ''execveat'' 281,
     SyscallEntry ''exit'' 93,
     SyscallEntry ''exit_group'' 94,
     SyscallEntry ''faccessat'' 48,
     SyscallEntry ''faccessat2'' 439,
     SyscallEntry ''fallocate'' 47,
     SyscallEntry ''fanotify_init'' 262,
     SyscallEntry ''fanotify_mark'' 263,
     SyscallEntry ''fchdir'' 50,
     SyscallEntry ''fchmod'' 52,
     SyscallEntry ''fchmodat'' 53,
     SyscallEntry ''fchown'' 55,
     SyscallEntry ''fchownat'' 54,
     SyscallEntry ''fcntl'' 25,
     SyscallEntry ''fdatasync'' 83,
     SyscallEntry ''fgetxattr'' 10,
     SyscallEntry ''finit_module'' 273,
     SyscallEntry ''flistxattr'' 13,
     SyscallEntry ''flock'' 32,
     SyscallEntry ''fremovexattr'' 16,
     SyscallEntry ''fsconfig'' 431,
     SyscallEntry ''fsetxattr'' 7,
     SyscallEntry ''fsmount'' 432,
     SyscallEntry ''fsopen'' 430,
     SyscallEntry ''fspick'' 433,
     SyscallEntry ''fstat'' 80,
     SyscallEntry ''fstatfs'' 44,
     SyscallEntry ''fsync'' 82,
     SyscallEntry ''ftruncate'' 46,
     SyscallEntry ''futex'' 98,
     SyscallEntry ''futex_waitv'' 449,
     SyscallEntry ''get_mempolicy'' 236,
     SyscallEntry ''get_robust_list'' 100,
     SyscallEntry ''getcpu'' 168,
     SyscallEntry ''getcwd'' 17,
     SyscallEntry ''getdents64'' 61,
     SyscallEntry ''getegid'' 177,
     SyscallEntry ''geteuid'' 175,
     SyscallEntry ''getgid'' 176,
     SyscallEntry ''getgroups'' 158,
     SyscallEntry ''getitimer'' 102,
     SyscallEntry ''getpeername'' 205,
     SyscallEntry ''getpgid'' 155,
     SyscallEntry ''getpid'' 172,
     SyscallEntry ''getppid'' 173,
     SyscallEntry ''getpriority'' 141,
     SyscallEntry ''getrandom'' 278,
     SyscallEntry ''getresgid'' 150,
     SyscallEntry ''getresuid'' 148,
     SyscallEntry ''getrusage'' 165,
     SyscallEntry ''getsid'' 156,
     SyscallEntry ''getsockname'' 204,
     SyscallEntry ''getsockopt'' 209,
     SyscallEntry ''gettid'' 178,
     SyscallEntry ''gettimeofday'' 169,
     SyscallEntry ''getuid'' 174,
     SyscallEntry ''getxattr'' 8,
     SyscallEntry ''init_module'' 105,
     SyscallEntry ''inotify_add_watch'' 27,
     SyscallEntry ''inotify_init1'' 26,
     SyscallEntry ''inotify_rm_watch'' 28,
     SyscallEntry ''io_cancel'' 3,
     SyscallEntry ''io_destroy'' 1,
     SyscallEntry ''io_getevents'' 4,
     SyscallEntry ''io_setup'' 0,
     SyscallEntry ''io_submit'' 2,
     SyscallEntry ''io_uring_enter'' 426,
     SyscallEntry ''io_uring_register'' 427,
     SyscallEntry ''io_uring_setup'' 425,
     SyscallEntry ''ioctl'' 29,
     SyscallEntry ''ioprio_get'' 31,
     SyscallEntry ''ioprio_set'' 30,
     SyscallEntry ''kcmp'' 272,
     SyscallEntry ''kexec_file_load'' 294,
     SyscallEntry ''kexec_load'' 104,
     SyscallEntry ''keyctl'' 219,
     SyscallEntry ''kill'' 129,
     SyscallEntry ''landlock_add_rule'' 445,
     SyscallEntry ''landlock_create_ruleset'' 444,
     SyscallEntry ''landlock_restrict_self'' 446,
     SyscallEntry ''lgetxattr'' 9,
     SyscallEntry ''linkat'' 37,
     SyscallEntry ''listen'' 201,
     SyscallEntry ''listxattr'' 11,
     SyscallEntry ''llistxattr'' 12,
     SyscallEntry ''lookup_dcookie'' 18,
     SyscallEntry ''lremovexattr'' 15,
     SyscallEntry ''lseek'' 62,
     SyscallEntry ''lsetxattr'' 6,
     SyscallEntry ''madvise'' 233,
     SyscallEntry ''mbind'' 235,
     SyscallEntry ''membarrier'' 283,
     SyscallEntry ''memfd_create'' 279,
     SyscallEntry ''memfd_secret'' 447,
     SyscallEntry ''migrate_pages'' 238,
     SyscallEntry ''mincore'' 232,
     SyscallEntry ''mkdirat'' 34,
     SyscallEntry ''mknodat'' 33,
     SyscallEntry ''mlock'' 228,
     SyscallEntry ''mlock2'' 284,
     SyscallEntry ''mlockall'' 230,
     SyscallEntry ''mmap'' 222,
     SyscallEntry ''mount'' 40,
     SyscallEntry ''mount_setattr'' 442,
     SyscallEntry ''move_mount'' 429,
     SyscallEntry ''move_pages'' 239,
     SyscallEntry ''mprotect'' 226,
     SyscallEntry ''mq_getsetattr'' 185,
     SyscallEntry ''mq_notify'' 184,
     SyscallEntry ''mq_open'' 180,
     SyscallEntry ''mq_timedreceive'' 183,
     SyscallEntry ''mq_timedsend'' 182,
     SyscallEntry ''mq_unlink'' 181,
     SyscallEntry ''mremap'' 216,
     SyscallEntry ''mseal'' 462,
     SyscallEntry ''msgctl'' 187]"

definition TABLE_aarch64_2 :: "syscall_entry list" where
  "TABLE_aarch64_2 = [
     SyscallEntry ''msgget'' 186,
     SyscallEntry ''msgrcv'' 188,
     SyscallEntry ''msgsnd'' 189,
     SyscallEntry ''msync'' 227,
     SyscallEntry ''munlock'' 229,
     SyscallEntry ''munlockall'' 231,
     SyscallEntry ''munmap'' 215,
     SyscallEntry ''name_to_handle_at'' 264,
     SyscallEntry ''nanosleep'' 101,
     SyscallEntry ''newfstatat'' 79,
     SyscallEntry ''nfsservctl'' 42,
     SyscallEntry ''open_by_handle_at'' 265,
     SyscallEntry ''open_tree'' 428,
     SyscallEntry ''openat'' 56,
     SyscallEntry ''openat2'' 437,
     SyscallEntry ''perf_event_open'' 241,
     SyscallEntry ''personality'' 92,
     SyscallEntry ''pidfd_getfd'' 438,
     SyscallEntry ''pidfd_open'' 434,
     SyscallEntry ''pidfd_send_signal'' 424,
     SyscallEntry ''pipe2'' 59,
     SyscallEntry ''pivot_root'' 41,
     SyscallEntry ''pkey_alloc'' 289,
     SyscallEntry ''pkey_free'' 290,
     SyscallEntry ''pkey_mprotect'' 288,
     SyscallEntry ''ppoll'' 73,
     SyscallEntry ''prctl'' 167,
     SyscallEntry ''pread64'' 67,
     SyscallEntry ''preadv'' 69,
     SyscallEntry ''preadv2'' 286,
     SyscallEntry ''prlimit64'' 261,
     SyscallEntry ''process_madvise'' 440,
     SyscallEntry ''process_mrelease'' 448,
     SyscallEntry ''process_vm_readv'' 270,
     SyscallEntry ''process_vm_writev'' 271,
     SyscallEntry ''pselect6'' 72,
     SyscallEntry ''ptrace'' 117,
     SyscallEntry ''pwrite64'' 68,
     SyscallEntry ''pwritev'' 70,
     SyscallEntry ''pwritev2'' 287,
     SyscallEntry ''quotactl'' 60,
     SyscallEntry ''quotactl_fd'' 443,
     SyscallEntry ''read'' 63,
     SyscallEntry ''readahead'' 213,
     SyscallEntry ''readlinkat'' 78,
     SyscallEntry ''readv'' 65,
     SyscallEntry ''reboot'' 142,
     SyscallEntry ''recvfrom'' 207,
     SyscallEntry ''recvmmsg'' 243,
     SyscallEntry ''recvmsg'' 212,
     SyscallEntry ''remap_file_pages'' 234,
     SyscallEntry ''removexattr'' 14,
     SyscallEntry ''renameat2'' 276,
     SyscallEntry ''request_key'' 218,
     SyscallEntry ''restart_syscall'' 128,
     SyscallEntry ''rseq'' 293,
     SyscallEntry ''rt_sigaction'' 134,
     SyscallEntry ''rt_sigpending'' 136,
     SyscallEntry ''rt_sigprocmask'' 135,
     SyscallEntry ''rt_sigqueueinfo'' 138,
     SyscallEntry ''rt_sigreturn'' 139,
     SyscallEntry ''rt_sigsuspend'' 133,
     SyscallEntry ''rt_sigtimedwait'' 137,
     SyscallEntry ''rt_tgsigqueueinfo'' 240,
     SyscallEntry ''sched_get_priority_max'' 125,
     SyscallEntry ''sched_get_priority_min'' 126,
     SyscallEntry ''sched_getaffinity'' 123,
     SyscallEntry ''sched_getattr'' 275,
     SyscallEntry ''sched_getparam'' 121,
     SyscallEntry ''sched_getscheduler'' 120,
     SyscallEntry ''sched_rr_get_interval'' 127,
     SyscallEntry ''sched_setaffinity'' 122,
     SyscallEntry ''sched_setattr'' 274,
     SyscallEntry ''sched_setparam'' 118,
     SyscallEntry ''sched_setscheduler'' 119,
     SyscallEntry ''sched_yield'' 124,
     SyscallEntry ''seccomp'' 277,
     SyscallEntry ''semctl'' 191,
     SyscallEntry ''semget'' 190,
     SyscallEntry ''semop'' 193,
     SyscallEntry ''semtimedop'' 192,
     SyscallEntry ''sendmmsg'' 269,
     SyscallEntry ''sendmsg'' 211,
     SyscallEntry ''sendto'' 206,
     SyscallEntry ''set_mempolicy'' 237,
     SyscallEntry ''set_mempolicy_home_node'' 450,
     SyscallEntry ''set_robust_list'' 99,
     SyscallEntry ''set_tid_address'' 96,
     SyscallEntry ''setdomainname'' 162,
     SyscallEntry ''setfsgid'' 152,
     SyscallEntry ''setfsuid'' 151,
     SyscallEntry ''setgid'' 144,
     SyscallEntry ''setgroups'' 159,
     SyscallEntry ''sethostname'' 161,
     SyscallEntry ''setitimer'' 103,
     SyscallEntry ''setns'' 268,
     SyscallEntry ''setpgid'' 154,
     SyscallEntry ''setpriority'' 140,
     SyscallEntry ''setregid'' 143,
     SyscallEntry ''setresgid'' 149,
     SyscallEntry ''setresuid'' 147,
     SyscallEntry ''setreuid'' 145,
     SyscallEntry ''setsid'' 157,
     SyscallEntry ''setsockopt'' 208,
     SyscallEntry ''settimeofday'' 170,
     SyscallEntry ''setuid'' 146,
     SyscallEntry ''setxattr'' 5,
     SyscallEntry ''shmat'' 196,
     SyscallEntry ''shmctl'' 195,
     SyscallEntry ''shmdt'' 197,
     SyscallEntry ''shmget'' 194,
     SyscallEntry ''shutdown'' 210,
     SyscallEntry ''sigaltstack'' 132,
     SyscallEntry ''signalfd4'' 74,
     SyscallEntry ''socket'' 198,
     SyscallEntry ''socketpair'' 199,
     SyscallEntry ''splice'' 76,
     SyscallEntry ''statfs'' 43,
     SyscallEntry ''statx'' 291,
     SyscallEntry ''swapoff'' 225,
     SyscallEntry ''swapon'' 224,
     SyscallEntry ''symlinkat'' 36,
     SyscallEntry ''sync'' 81,
     SyscallEntry ''syncfs'' 267,
     SyscallEntry ''sysinfo'' 179,
     SyscallEntry ''syslog'' 116,
     SyscallEntry ''tee'' 77,
     SyscallEntry ''tgkill'' 131,
     SyscallEntry ''timer_create'' 107,
     SyscallEntry ''timer_delete'' 111,
     SyscallEntry ''timer_getoverrun'' 109,
     SyscallEntry ''timer_gettime'' 108,
     SyscallEntry ''timer_settime'' 110,
     SyscallEntry ''timerfd_create'' 85,
     SyscallEntry ''timerfd_gettime'' 87,
     SyscallEntry ''timerfd_settime'' 86,
     SyscallEntry ''times'' 153,
     SyscallEntry ''tkill'' 130,
     SyscallEntry ''truncate'' 45,
     SyscallEntry ''umask'' 166,
     SyscallEntry ''umount2'' 39,
     SyscallEntry ''uname'' 160,
     SyscallEntry ''unlinkat'' 35,
     SyscallEntry ''unshare'' 97,
     SyscallEntry ''userfaultfd'' 282,
     SyscallEntry ''utimensat'' 88,
     SyscallEntry ''vhangup'' 58,
     SyscallEntry ''vmsplice'' 75]"

definition TABLE_aarch64_3 :: "syscall_entry list" where
  "TABLE_aarch64_3 = [
     SyscallEntry ''wait4'' 260,
     SyscallEntry ''waitid'' 95,
     SyscallEntry ''write'' 64,
     SyscallEntry ''writev'' 66]"

definition TABLE_aarch64 :: "syscall_entry list" where
  "TABLE_aarch64 = TABLE_aarch64_1 @ TABLE_aarch64_2 @ TABLE_aarch64_3"

definition BY_NUMBER_aarch64_1 :: "syscall_entry list" where
  "BY_NUMBER_aarch64_1 = [
     SyscallEntry ''io_setup'' 0,
     SyscallEntry ''io_destroy'' 1,
     SyscallEntry ''io_submit'' 2,
     SyscallEntry ''io_cancel'' 3,
     SyscallEntry ''io_getevents'' 4,
     SyscallEntry ''setxattr'' 5,
     SyscallEntry ''lsetxattr'' 6,
     SyscallEntry ''fsetxattr'' 7,
     SyscallEntry ''getxattr'' 8,
     SyscallEntry ''lgetxattr'' 9,
     SyscallEntry ''fgetxattr'' 10,
     SyscallEntry ''listxattr'' 11,
     SyscallEntry ''llistxattr'' 12,
     SyscallEntry ''flistxattr'' 13,
     SyscallEntry ''removexattr'' 14,
     SyscallEntry ''lremovexattr'' 15,
     SyscallEntry ''fremovexattr'' 16,
     SyscallEntry ''getcwd'' 17,
     SyscallEntry ''lookup_dcookie'' 18,
     SyscallEntry ''eventfd2'' 19,
     SyscallEntry ''epoll_create1'' 20,
     SyscallEntry ''epoll_ctl'' 21,
     SyscallEntry ''epoll_pwait'' 22,
     SyscallEntry ''dup'' 23,
     SyscallEntry ''dup3'' 24,
     SyscallEntry ''fcntl'' 25,
     SyscallEntry ''inotify_init1'' 26,
     SyscallEntry ''inotify_add_watch'' 27,
     SyscallEntry ''inotify_rm_watch'' 28,
     SyscallEntry ''ioctl'' 29,
     SyscallEntry ''ioprio_set'' 30,
     SyscallEntry ''ioprio_get'' 31,
     SyscallEntry ''flock'' 32,
     SyscallEntry ''mknodat'' 33,
     SyscallEntry ''mkdirat'' 34,
     SyscallEntry ''unlinkat'' 35,
     SyscallEntry ''symlinkat'' 36,
     SyscallEntry ''linkat'' 37,
     SyscallEntry ''umount2'' 39,
     SyscallEntry ''mount'' 40,
     SyscallEntry ''pivot_root'' 41,
     SyscallEntry ''nfsservctl'' 42,
     SyscallEntry ''statfs'' 43,
     SyscallEntry ''fstatfs'' 44,
     SyscallEntry ''truncate'' 45,
     SyscallEntry ''ftruncate'' 46,
     SyscallEntry ''fallocate'' 47,
     SyscallEntry ''faccessat'' 48,
     SyscallEntry ''chdir'' 49,
     SyscallEntry ''fchdir'' 50,
     SyscallEntry ''chroot'' 51,
     SyscallEntry ''fchmod'' 52,
     SyscallEntry ''fchmodat'' 53,
     SyscallEntry ''fchownat'' 54,
     SyscallEntry ''fchown'' 55,
     SyscallEntry ''openat'' 56,
     SyscallEntry ''close'' 57,
     SyscallEntry ''vhangup'' 58,
     SyscallEntry ''pipe2'' 59,
     SyscallEntry ''quotactl'' 60,
     SyscallEntry ''getdents64'' 61,
     SyscallEntry ''lseek'' 62,
     SyscallEntry ''read'' 63,
     SyscallEntry ''write'' 64,
     SyscallEntry ''readv'' 65,
     SyscallEntry ''writev'' 66,
     SyscallEntry ''pread64'' 67,
     SyscallEntry ''pwrite64'' 68,
     SyscallEntry ''preadv'' 69,
     SyscallEntry ''pwritev'' 70,
     SyscallEntry ''pselect6'' 72,
     SyscallEntry ''ppoll'' 73,
     SyscallEntry ''signalfd4'' 74,
     SyscallEntry ''vmsplice'' 75,
     SyscallEntry ''splice'' 76,
     SyscallEntry ''tee'' 77,
     SyscallEntry ''readlinkat'' 78,
     SyscallEntry ''newfstatat'' 79,
     SyscallEntry ''fstat'' 80,
     SyscallEntry ''sync'' 81,
     SyscallEntry ''fsync'' 82,
     SyscallEntry ''fdatasync'' 83,
     SyscallEntry ''timerfd_create'' 85,
     SyscallEntry ''timerfd_settime'' 86,
     SyscallEntry ''timerfd_gettime'' 87,
     SyscallEntry ''utimensat'' 88,
     SyscallEntry ''acct'' 89,
     SyscallEntry ''capget'' 90,
     SyscallEntry ''capset'' 91,
     SyscallEntry ''personality'' 92,
     SyscallEntry ''exit'' 93,
     SyscallEntry ''exit_group'' 94,
     SyscallEntry ''waitid'' 95,
     SyscallEntry ''set_tid_address'' 96,
     SyscallEntry ''unshare'' 97,
     SyscallEntry ''futex'' 98,
     SyscallEntry ''set_robust_list'' 99,
     SyscallEntry ''get_robust_list'' 100,
     SyscallEntry ''nanosleep'' 101,
     SyscallEntry ''getitimer'' 102,
     SyscallEntry ''setitimer'' 103,
     SyscallEntry ''kexec_load'' 104,
     SyscallEntry ''init_module'' 105,
     SyscallEntry ''delete_module'' 106,
     SyscallEntry ''timer_create'' 107,
     SyscallEntry ''timer_gettime'' 108,
     SyscallEntry ''timer_getoverrun'' 109,
     SyscallEntry ''timer_settime'' 110,
     SyscallEntry ''timer_delete'' 111,
     SyscallEntry ''clock_settime'' 112,
     SyscallEntry ''clock_gettime'' 113,
     SyscallEntry ''clock_getres'' 114,
     SyscallEntry ''clock_nanosleep'' 115,
     SyscallEntry ''syslog'' 116,
     SyscallEntry ''ptrace'' 117,
     SyscallEntry ''sched_setparam'' 118,
     SyscallEntry ''sched_setscheduler'' 119,
     SyscallEntry ''sched_getscheduler'' 120,
     SyscallEntry ''sched_getparam'' 121,
     SyscallEntry ''sched_setaffinity'' 122,
     SyscallEntry ''sched_getaffinity'' 123,
     SyscallEntry ''sched_yield'' 124,
     SyscallEntry ''sched_get_priority_max'' 125,
     SyscallEntry ''sched_get_priority_min'' 126,
     SyscallEntry ''sched_rr_get_interval'' 127,
     SyscallEntry ''restart_syscall'' 128,
     SyscallEntry ''kill'' 129,
     SyscallEntry ''tkill'' 130,
     SyscallEntry ''tgkill'' 131,
     SyscallEntry ''sigaltstack'' 132,
     SyscallEntry ''rt_sigsuspend'' 133,
     SyscallEntry ''rt_sigaction'' 134,
     SyscallEntry ''rt_sigprocmask'' 135,
     SyscallEntry ''rt_sigpending'' 136,
     SyscallEntry ''rt_sigtimedwait'' 137,
     SyscallEntry ''rt_sigqueueinfo'' 138,
     SyscallEntry ''rt_sigreturn'' 139,
     SyscallEntry ''setpriority'' 140,
     SyscallEntry ''getpriority'' 141,
     SyscallEntry ''reboot'' 142,
     SyscallEntry ''setregid'' 143,
     SyscallEntry ''setgid'' 144,
     SyscallEntry ''setreuid'' 145,
     SyscallEntry ''setuid'' 146,
     SyscallEntry ''setresuid'' 147,
     SyscallEntry ''getresuid'' 148,
     SyscallEntry ''setresgid'' 149,
     SyscallEntry ''getresgid'' 150]"

definition BY_NUMBER_aarch64_2 :: "syscall_entry list" where
  "BY_NUMBER_aarch64_2 = [
     SyscallEntry ''setfsuid'' 151,
     SyscallEntry ''setfsgid'' 152,
     SyscallEntry ''times'' 153,
     SyscallEntry ''setpgid'' 154,
     SyscallEntry ''getpgid'' 155,
     SyscallEntry ''getsid'' 156,
     SyscallEntry ''setsid'' 157,
     SyscallEntry ''getgroups'' 158,
     SyscallEntry ''setgroups'' 159,
     SyscallEntry ''uname'' 160,
     SyscallEntry ''sethostname'' 161,
     SyscallEntry ''setdomainname'' 162,
     SyscallEntry ''getrusage'' 165,
     SyscallEntry ''umask'' 166,
     SyscallEntry ''prctl'' 167,
     SyscallEntry ''getcpu'' 168,
     SyscallEntry ''gettimeofday'' 169,
     SyscallEntry ''settimeofday'' 170,
     SyscallEntry ''adjtimex'' 171,
     SyscallEntry ''getpid'' 172,
     SyscallEntry ''getppid'' 173,
     SyscallEntry ''getuid'' 174,
     SyscallEntry ''geteuid'' 175,
     SyscallEntry ''getgid'' 176,
     SyscallEntry ''getegid'' 177,
     SyscallEntry ''gettid'' 178,
     SyscallEntry ''sysinfo'' 179,
     SyscallEntry ''mq_open'' 180,
     SyscallEntry ''mq_unlink'' 181,
     SyscallEntry ''mq_timedsend'' 182,
     SyscallEntry ''mq_timedreceive'' 183,
     SyscallEntry ''mq_notify'' 184,
     SyscallEntry ''mq_getsetattr'' 185,
     SyscallEntry ''msgget'' 186,
     SyscallEntry ''msgctl'' 187,
     SyscallEntry ''msgrcv'' 188,
     SyscallEntry ''msgsnd'' 189,
     SyscallEntry ''semget'' 190,
     SyscallEntry ''semctl'' 191,
     SyscallEntry ''semtimedop'' 192,
     SyscallEntry ''semop'' 193,
     SyscallEntry ''shmget'' 194,
     SyscallEntry ''shmctl'' 195,
     SyscallEntry ''shmat'' 196,
     SyscallEntry ''shmdt'' 197,
     SyscallEntry ''socket'' 198,
     SyscallEntry ''socketpair'' 199,
     SyscallEntry ''bind'' 200,
     SyscallEntry ''listen'' 201,
     SyscallEntry ''accept'' 202,
     SyscallEntry ''connect'' 203,
     SyscallEntry ''getsockname'' 204,
     SyscallEntry ''getpeername'' 205,
     SyscallEntry ''sendto'' 206,
     SyscallEntry ''recvfrom'' 207,
     SyscallEntry ''setsockopt'' 208,
     SyscallEntry ''getsockopt'' 209,
     SyscallEntry ''shutdown'' 210,
     SyscallEntry ''sendmsg'' 211,
     SyscallEntry ''recvmsg'' 212,
     SyscallEntry ''readahead'' 213,
     SyscallEntry ''brk'' 214,
     SyscallEntry ''munmap'' 215,
     SyscallEntry ''mremap'' 216,
     SyscallEntry ''add_key'' 217,
     SyscallEntry ''request_key'' 218,
     SyscallEntry ''keyctl'' 219,
     SyscallEntry ''clone'' 220,
     SyscallEntry ''execve'' 221,
     SyscallEntry ''mmap'' 222,
     SyscallEntry ''swapon'' 224,
     SyscallEntry ''swapoff'' 225,
     SyscallEntry ''mprotect'' 226,
     SyscallEntry ''msync'' 227,
     SyscallEntry ''mlock'' 228,
     SyscallEntry ''munlock'' 229,
     SyscallEntry ''mlockall'' 230,
     SyscallEntry ''munlockall'' 231,
     SyscallEntry ''mincore'' 232,
     SyscallEntry ''madvise'' 233,
     SyscallEntry ''remap_file_pages'' 234,
     SyscallEntry ''mbind'' 235,
     SyscallEntry ''get_mempolicy'' 236,
     SyscallEntry ''set_mempolicy'' 237,
     SyscallEntry ''migrate_pages'' 238,
     SyscallEntry ''move_pages'' 239,
     SyscallEntry ''rt_tgsigqueueinfo'' 240,
     SyscallEntry ''perf_event_open'' 241,
     SyscallEntry ''accept4'' 242,
     SyscallEntry ''recvmmsg'' 243,
     SyscallEntry ''wait4'' 260,
     SyscallEntry ''prlimit64'' 261,
     SyscallEntry ''fanotify_init'' 262,
     SyscallEntry ''fanotify_mark'' 263,
     SyscallEntry ''name_to_handle_at'' 264,
     SyscallEntry ''open_by_handle_at'' 265,
     SyscallEntry ''clock_adjtime'' 266,
     SyscallEntry ''syncfs'' 267,
     SyscallEntry ''setns'' 268,
     SyscallEntry ''sendmmsg'' 269,
     SyscallEntry ''process_vm_readv'' 270,
     SyscallEntry ''process_vm_writev'' 271,
     SyscallEntry ''kcmp'' 272,
     SyscallEntry ''finit_module'' 273,
     SyscallEntry ''sched_setattr'' 274,
     SyscallEntry ''sched_getattr'' 275,
     SyscallEntry ''renameat2'' 276,
     SyscallEntry ''seccomp'' 277,
     SyscallEntry ''getrandom'' 278,
     SyscallEntry ''memfd_create'' 279,
     SyscallEntry ''bpf'' 280,
     SyscallEntry ''execveat'' 281,
     SyscallEntry ''userfaultfd'' 282,
     SyscallEntry ''membarrier'' 283,
     SyscallEntry ''mlock2'' 284,
     SyscallEntry ''copy_file_range'' 285,
     SyscallEntry ''preadv2'' 286,
     SyscallEntry ''pwritev2'' 287,
     SyscallEntry ''pkey_mprotect'' 288,
     SyscallEntry ''pkey_alloc'' 289,
     SyscallEntry ''pkey_free'' 290,
     SyscallEntry ''statx'' 291,
     SyscallEntry ''rseq'' 293,
     SyscallEntry ''kexec_file_load'' 294,
     SyscallEntry ''pidfd_send_signal'' 424,
     SyscallEntry ''io_uring_setup'' 425,
     SyscallEntry ''io_uring_enter'' 426,
     SyscallEntry ''io_uring_register'' 427,
     SyscallEntry ''open_tree'' 428,
     SyscallEntry ''move_mount'' 429,
     SyscallEntry ''fsopen'' 430,
     SyscallEntry ''fsconfig'' 431,
     SyscallEntry ''fsmount'' 432,
     SyscallEntry ''fspick'' 433,
     SyscallEntry ''pidfd_open'' 434,
     SyscallEntry ''clone3'' 435,
     SyscallEntry ''close_range'' 436,
     SyscallEntry ''openat2'' 437,
     SyscallEntry ''pidfd_getfd'' 438,
     SyscallEntry ''faccessat2'' 439,
     SyscallEntry ''process_madvise'' 440,
     SyscallEntry ''epoll_pwait2'' 441,
     SyscallEntry ''mount_setattr'' 442,
     SyscallEntry ''quotactl_fd'' 443,
     SyscallEntry ''landlock_create_ruleset'' 444,
     SyscallEntry ''landlock_add_rule'' 445,
     SyscallEntry ''landlock_restrict_self'' 446,
     SyscallEntry ''memfd_secret'' 447]"

definition BY_NUMBER_aarch64_3 :: "syscall_entry list" where
  "BY_NUMBER_aarch64_3 = [
     SyscallEntry ''process_mrelease'' 448,
     SyscallEntry ''futex_waitv'' 449,
     SyscallEntry ''set_mempolicy_home_node'' 450,
     SyscallEntry ''mseal'' 462]"

definition BY_NUMBER_aarch64 :: "syscall_entry list" where
  "BY_NUMBER_aarch64 = BY_NUMBER_aarch64_1 @ BY_NUMBER_aarch64_2 @ BY_NUMBER_aarch64_3"

lemmas aarch64_table_defs =
  TABLE_aarch64_def TABLE_aarch64_1_def TABLE_aarch64_2_def TABLE_aarch64_3_def BY_NUMBER_aarch64_def BY_NUMBER_aarch64_1_def BY_NUMBER_aarch64_2_def BY_NUMBER_aarch64_3_def

lemma TABLE_aarch64_ascending: "ascending (map entry_name TABLE_aarch64)"
  unfolding aarch64_table_defs by code_simp

lemma BY_NUMBER_aarch64_ascending: "ascending (map entry_number BY_NUMBER_aarch64)"
  unfolding aarch64_table_defs by code_simp

text \<open>
  The two tables hold the same entries: sorting the first by number, run by run, gives the
  second.
\<close>

lemma TABLE_aarch64_sorted_by_number: "merge_rounds 9 TABLE_aarch64 = [BY_NUMBER_aarch64]"
  unfolding aarch64_table_defs by code_simp

lemma set_TABLE_aarch64: "set TABLE_aarch64 = set BY_NUMBER_aarch64"
  using TABLE_aarch64_sorted_by_number by (rule merge_rounds_set)

lemma TABLE_aarch64_length: "length TABLE_aarch64 = 300"
  unfolding aarch64_table_defs by code_simp

lemma TABLE_aarch64_numbers: "\<forall>e \<in> set TABLE_aarch64. 0 \<le> entry_number e \<and> entry_number e < 463"
  unfolding aarch64_table_defs by code_simp

lemma TABLE_aarch64_no_placeholder: "list_all (\<lambda>e. take 8 (entry_name e) \<noteq> ''unknown_'') TABLE_aarch64"
  unfolding aarch64_table_defs by code_simp

end
