(* ===== verification/Syscalls.thy ===== *)
theory Syscalls
  imports BTree Errors Syscalls_X86_64 Syscalls_Aarch64
begin

text \<open>
  \<^verbatim>\<open>src/seccomp/arch.rs\<close> and \<^verbatim>\<open>src/seccomp/syscalls.rs\<close>. The \<^verbatim>\<open>cfg(target_arch)\<close> choice
  is the argument of type \<open>target_arch\<close>; the crate has syscall tables for these two
  architectures only, so it does not build for a third one and the fall-back branches of
  \<^verbatim>\<open>arch.rs\<close> are not compiled in. The locale \<open>syscall_table\<close> is the interface that
  profile compilation and generation rely on; it is interpreted on the real tables.
\<close>

datatype target_arch = X86_64 | Aarch64

subsection \<open>Architecture identifiers\<close>

text \<open>The two members of the OCI crate's \<^verbatim>\<open>Arch\<close> enumeration the runtime names, with their values.\<close>

datatype oci_arch = ScmpArchX86_64 | ScmpArchAarch64

fun oci_arch_value :: "oci_arch \<Rightarrow> u32" where
  "oci_arch_value ScmpArchX86_64 = 0xC000003E"
| "oci_arch_value ScmpArchAarch64 = 0xC00000B7"

fun AUDIT_ARCH_NATIVE :: "target_arch \<Rightarrow> u32" where
  "AUDIT_ARCH_NATIVE X86_64 = oci_arch_value ScmpArchX86_64"
| "AUDIT_ARCH_NATIVE Aarch64 = oci_arch_value ScmpArchAarch64"

definition X32_SYSCALL_BIT :: u32 where
  "X32_SYSCALL_BIT = 0x40000000"

fun NATIVE_ARCH_NAME :: "target_arch \<Rightarrow> string" where
  "NATIVE_ARCH_NAME X86_64 = ''x86_64''"
| "NATIVE_ARCH_NAME Aarch64 = ''aarch64''"

fun native_oci_arch :: "target_arch \<Rightarrow> (seccomp_error, oci_arch) result" where
  "native_oci_arch X86_64 = Ok ScmpArchX86_64"
| "native_oci_arch Aarch64 = Ok ScmpArchAarch64"

definition ensure_supported :: "target_arch \<Rightarrow> (seccomp_error, unit) result" where
  "ensure_supported a = (if AUDIT_ARCH_NATIVE a = 0 then Err UnsupportedArchitecture_Seccomp else Ok ())"

lemma ensure_supported_Ok [simp]: "ensure_supported a = Ok ()"
  by (cases a) (simp_all add: ensure_supported_def)

subsection \<open>Tables and look-up\<close>

fun table :: "target_arch \<Rightarrow> syscall_entry list" where
  "table X86_64 = TABLE_x86_64"
| "table Aarch64 = TABLE_aarch64"

fun table_by_number :: "target_arch \<Rightarrow> syscall_entry list" where
  "table_by_number X86_64 = BY_NUMBER_x86_64"
| "table_by_number Aarch64 = BY_NUMBER_aarch64"

definition syscall_number :: "target_arch \<Rightarrow> string \<Rightarrow> int option" where
  "syscall_number a s =
     map_option (\<lambda>i. entry_number (table a ! i))
       (ok_value (binary_search_by (\<lambda>e. cmp (entry_name e) s) (table a)))"

definition syscall_name :: "target_arch \<Rightarrow> int \<Rightarrow> string option" where
  "syscall_name a n =
     map_option (\<lambda>i. entry_name (table_by_number a ! i))
       (ok_value (binary_search_by (\<lambda>e. cmp (entry_number e) n) (table_by_number a)))"

fun resolve_loop :: "target_arch \<Rightarrow> string list \<Rightarrow> int list \<Rightarrow> string list \<Rightarrow> int list \<times> string list" where
  "resolve_loop a [] resolved unresolved = (resolved, unresolved)"
| "resolve_loop a (item # items) resolved unresolved =
     (case syscall_number a item of
        Some v \<Rightarrow> resolve_loop a items (resolved @ [v]) unresolved
      | None \<Rightarrow> resolve_loop a items resolved (unresolved @ [item]))"

definition resolve_all :: "target_arch \<Rightarrow> string list \<Rightarrow> int list \<times> string list" where
  "resolve_all a names =
     (case resolve_loop a names [] [] of
        (resolved, unresolved) \<Rightarrow> (sort_dedup resolved, sort_dedup unresolved))"

subsection \<open>The interface of the tables\<close>

locale syscall_table =
  fixes number_of :: "string \<Rightarrow> int option"
    and name_of :: "int \<Rightarrow> string option"
  assumes inverse: "number_of s = Some n \<longleftrightarrow> name_of n = Some s"
    and number_range: "number_of s = Some n \<Longrightarrow> 0 \<le> n \<and> n < 463"
begin

lemma number_inj: "number_of s = Some n \<Longrightarrow> number_of t = Some n \<Longrightarrow> s = t"
  using inverse by (metis option.inject)

lemma numbers_subset: "{n. \<exists>s. number_of s = Some n} \<subseteq> {0..<463}"
  by (auto dest: number_range)

text \<open>However many names a profile lists, at most 463 distinct numbers come out.\<close>

lemma ascending_numbers_length:
  assumes "ascending ns" "set ns \<subseteq> {n. \<exists>s. number_of s = Some n}"
  shows "length ns \<le> 463"
proof -
  have "length ns = card (set ns)"
    using assms(1) by (simp add: distinct_card ascending_distinct)
  also have "\<dots> \<le> card {0..<463::int}"
    by (rule card_mono) (use assms(2) numbers_subset in auto)
  finally show ?thesis by simp
qed

end

subsection \<open>The tables meet the interface\<close>

lemma table_ascending: "ascending (map entry_name (table a))"
  by (cases a) (simp_all add: TABLE_x86_64_ascending TABLE_aarch64_ascending)

lemma table_by_number_ascending: "ascending (map entry_number (table_by_number a))"
  by (cases a) (simp_all add: BY_NUMBER_x86_64_ascending BY_NUMBER_aarch64_ascending)

lemma set_table: "set (table_by_number a) = set (table a)"
  by (cases a) (simp_all add: set_TABLE_x86_64 set_TABLE_aarch64)

lemma table_numbers: "e \<in> set (table a) \<Longrightarrow> 0 \<le> entry_number e \<and> entry_number e < 463"
  using TABLE_x86_64_numbers TABLE_aarch64_numbers by (cases a) auto

lemma syscall_number_Some: "syscall_number a s = Some n \<longleftrightarrow> SyscallEntry s n \<in> set (table a)"
  unfolding syscall_number_def
  by (force simp: binary_search_by_Ok [OF table_ascending] in_set_conv_nth)

lemma syscall_name_Some: "syscall_name a n = Some s \<longleftrightarrow> SyscallEntry s n \<in> set (table a)"
  unfolding syscall_name_def set_table [symmetric]
  by (force simp: binary_search_by_Ok [OF table_by_number_ascending] in_set_conv_nth)

interpretation native: syscall_table "syscall_number a" "syscall_name a" for a
  by unfold_locales (auto simp: syscall_number_Some syscall_name_Some dest: table_numbers)

lemma no_placeholder_name: "syscall_number a (''unknown_'' @ s) = None"
proof (rule ccontr)
  assume "syscall_number a (''unknown_'' @ s) \<noteq> None"
  then obtain n where "SyscallEntry (''unknown_'' @ s) n \<in> set (table a)"
    by (auto simp: syscall_number_Some)
  then have "take 8 (entry_name (SyscallEntry (''unknown_'' @ s) n)) \<noteq> ''unknown_''"
    using TABLE_x86_64_no_placeholder TABLE_aarch64_no_placeholder
    unfolding list_all_iff by (cases a) (simp_all only: table.simps, blast+)
  then show False by simp
qed

text \<open>An evaluation rule: look-up as a linear search, for closed instances.\<close>

lemma syscall_number_map_of:
  "syscall_number a s = map_of (map (\<lambda>e. (entry_name e, entry_number e)) (table a)) s"
proof -
  have d: "distinct (map fst (map (\<lambda>e. (entry_name e, entry_number e)) (table a)))"
    using ascending_distinct [OF table_ascending] by (simp add: comp_def)
  have "syscall_number a s = Some n \<longleftrightarrow>
      map_of (map (\<lambda>e. (entry_name e, entry_number e)) (table a)) s = Some n" for n
    unfolding map_of_eq_Some_iff [OF d]
    by (force simp: syscall_number_Some image_iff syscall_entry.expand)
  then show ?thesis by (metis not_None_eq)
qed

lemma resolve_loop_eq:
  "resolve_loop a names rs us =
     (rs @ List.map_filter (syscall_number a) names,
      us @ filter (\<lambda>s. syscall_number a s = None) names)"
  by (induction names arbitrary: rs us) (auto simp: map_filter_simps split: option.split)

lemma fst_resolve_all: "set (fst (resolve_all a names)) = {n. \<exists>s \<in> set names. syscall_number a s = Some n}"
  by (simp add: resolve_all_def resolve_loop_eq set_map_filter_iff)

lemma snd_resolve_all: "set (snd (resolve_all a names)) = {s \<in> set names. syscall_number a s = None}"
  by (simp add: resolve_all_def resolve_loop_eq)

lemma resolve_all_ascending: "ascending (fst (resolve_all a names))" "ascending (snd (resolve_all a names))"
  by (simp_all add: resolve_all_def resolve_loop_eq ascending_sort_dedup)

lemma resolve_all_length: "length (fst (resolve_all a names)) \<le> 463"
  by (rule native.ascending_numbers_length [of _ a])
    (auto simp: resolve_all_ascending fst_resolve_all)

subsection \<open>Properties\<close>

text \<open>
  C35: on both supported architectures the two binary searches over the generated tables are
  inverse to each other: a name resolves to a number exactly when that number is reported under
  that name, so no syscall is aliased, shadowed or lost between the table sorted by name and the
  table sorted by number.
\<close>

theorem syscall_lookup_inverse:
  "syscall_number a s = Some n \<longleftrightarrow> syscall_name a n = Some s"
  by (rule native.inverse)

text \<open>
  Resolving a list of profile names splits it without loss: the first component is, in
  strictly ascending order, exactly the set of numbers of the names the architecture defines, the
  second, in strictly ascending order, exactly the names it does not define.
\<close>

lemma resolve_all_partitions:
  "fst (resolve_all a names) = sorted_list_of_set {n. \<exists>s \<in> set names. syscall_number a s = Some n}
   \<and> snd (resolve_all a names) = sorted_list_of_set {s \<in> set names. syscall_number a s = None}"
proof
  let ?R = "resolve_all a names"
  show "fst ?R = sorted_list_of_set {n. \<exists>s \<in> set names. syscall_number a s = Some n}"
    using resolve_all_ascending(1) [of a names]
    by (simp add: ascending_sorted flip: fst_resolve_all) (simp add: sorted_list_of_set_sort_remdups
        sorted_sort_id distinct_remdups_id)
  show "snd ?R = sorted_list_of_set {s \<in> set names. syscall_number a s = None}"
    using resolve_all_ascending(2) [of a names]
    by (simp add: ascending_sorted flip: snd_resolve_all) (simp add: sorted_list_of_set_sort_remdups
        sorted_sort_id distinct_remdups_id)
qed

end
