(* ===== verification/Capture.thy ===== *)
theory Capture
  imports Syscalls Text
begin

text \<open>
  \<^verbatim>\<open>src/seccomp/capture.rs\<close>: what the tracer accumulates, the capture file written from it, and
  the union of several files. Counters are 64-bit words; \<^verbatim>\<open>+=\<close> wraps, as in the release build.
  \<^verbatim>\<open>load\<close> and \<^verbatim>\<open>save\<close> (JSON files) are left out; \<open>runtime_version\<close> is the crate's version
  string.
\<close>

definition CAPTURE_SCHEMA_VERSION :: u32 where
  "CAPTURE_SCHEMA_VERSION = 1"

definition CARGO_PKG_VERSION :: string where
  "CARGO_PKG_VERSION = ''0.1.0''"

record syscall_observation =
  obs_count :: u64
  obs_first_seen_ms :: u64

record capture =
  cap_audit_arch :: u32
  cap_counts :: "(int, syscall_observation) btree_map"
  cap_foreign_arch_counts :: "(u32, u64) btree_map"
  cap_processes_seen :: u64
  cap_started_at_unix :: u64
  cap_duration_ms :: u64
  cap_events :: u64
  cap_truncated :: bool

definition default_capture :: capture where
  "default_capture =
     \<lparr>cap_audit_arch = 0, cap_counts = [], cap_foreign_arch_counts = [], cap_processes_seen = 0,
      cap_started_at_unix = 0, cap_duration_ms = 0, cap_events = 0, cap_truncated = False\<rparr>"

definition record_syscall :: "capture \<Rightarrow> int \<Rightarrow> u64 \<Rightarrow> capture" where
  "record_syscall c n elapsed_ms =
     (let entry = (case map_of (cap_counts c) n of
          None \<Rightarrow> \<lparr>obs_count = 0, obs_first_seen_ms = elapsed_ms\<rparr> | Some obs \<Rightarrow> obs)
      in c\<lparr>cap_counts := bt_insert n (entry\<lparr>obs_count := obs_count entry + 1\<rparr>) (cap_counts c),
           cap_events := cap_events c + 1\<rparr>)"

definition record_foreign :: "capture \<Rightarrow> u32 \<Rightarrow> capture" where
  "record_foreign c audit_arch =
     c\<lparr>cap_foreign_arch_counts := bt_add audit_arch 1 (cap_foreign_arch_counts c),
       cap_events := cap_events c + 1\<rparr>"

definition unique_syscalls :: "capture \<Rightarrow> nat" where
  "unique_syscalls c = length (cap_counts c)"

subsection \<open>Capture files\<close>

record capture_file =
  cf_schema_version :: u32
  cf_id :: string
  cf_command :: "string list"
  cf_arch :: string
  cf_audit_arch :: u32
  cf_runtime_version :: string
  cf_started_at_unix :: u64
  cf_duration_ms :: u64
  cf_total_events :: u64
  cf_processes_seen :: u64
  cf_truncated :: bool
  cf_syscalls :: "(string, u64) btree_map"
  cf_first_seen_ms :: "(string, u64) btree_map"
  cf_foreign_arch :: "(string, u64) btree_map"

text \<open>The name a number is filed under.\<close>

definition capture_name :: "target_arch \<Rightarrow> int \<Rightarrow> string" where
  "capture_name a n = (case syscall_name a n of Some s \<Rightarrow> s | None \<Rightarrow> ''unknown_'' @ int_dec n)"

definition from_capture :: "target_arch \<Rightarrow> string \<Rightarrow> string list \<Rightarrow> capture \<Rightarrow> capture_file" where
  "from_capture a cid command c =
     \<lparr>cf_schema_version = CAPTURE_SCHEMA_VERSION,
      cf_id = cid,
      cf_command = command,
      cf_arch = NATIVE_ARCH_NAME a,
      cf_audit_arch = (if cap_audit_arch c = 0 then AUDIT_ARCH_NATIVE a else cap_audit_arch c),
      cf_runtime_version = CARGO_PKG_VERSION,
      cf_started_at_unix = cap_started_at_unix c,
      cf_duration_ms = cap_duration_ms c,
      cf_total_events = cap_events c,
      cf_processes_seen = cap_processes_seen c,
      cf_truncated = cap_truncated c,
      cf_syscalls = fold (\<lambda>(n, obs). bt_insert (capture_name a n) (obs_count obs)) (cap_counts c) [],
      cf_first_seen_ms =
        fold (\<lambda>(n, obs). bt_insert (capture_name a n) (obs_first_seen_ms obs)) (cap_counts c) [],
      cf_foreign_arch =
        fold (\<lambda>(arch, n). bt_insert (''0x'' @ hex_digits 8 (unat arch)) n) (cap_foreign_arch_counts c) []\<rparr>"

subsection \<open>Merging\<close>

record merged_capture =
  mc_audit_arch :: u32
  mc_syscalls :: "(string, u64) btree_map"
  mc_first_seen_ms :: "(string, u64) btree_map"
  mc_foreign_arch :: "(string, u64) btree_map"
  mc_total_events :: u64
  mc_total_duration_ms :: u64
  mc_sources :: "capture_file list"

definition merge_first_seen :: "string \<times> u64 \<Rightarrow> (string, u64) btree_map \<Rightarrow> (string, u64) btree_map" where
  "merge_first_seen = (\<lambda>(s, ms) m. bt_insert s (case map_of m s of Some v \<Rightarrow> min v ms | None \<Rightarrow> ms) m)"

definition merge_one :: "capture_file \<Rightarrow> merged_capture \<Rightarrow> merged_capture" where
  "merge_one c m =
     m\<lparr>mc_syscalls := fold (\<lambda>(s, n). bt_add s n) (cf_syscalls c) (mc_syscalls m),
       mc_first_seen_ms := fold merge_first_seen (cf_first_seen_ms c) (mc_first_seen_ms m),
       mc_foreign_arch := fold (\<lambda>(s, n). bt_add s n) (cf_foreign_arch c) (mc_foreign_arch m),
       mc_total_events := mc_total_events m + cf_total_events c,
       mc_total_duration_ms := mc_total_duration_ms m + cf_duration_ms c,
       mc_sources := mc_sources m @ [c]\<rparr>"

fun merge_loop :: "capture_file list \<Rightarrow> merged_capture \<Rightarrow> (seccomp_error, merged_capture) result" where
  "merge_loop [] m = Ok m"
| "merge_loop (c # cs) m =
     (if cf_audit_arch c \<noteq> mc_audit_arch m
        then Err (ArchMismatch (mc_audit_arch m) (cf_audit_arch c))
      else merge_loop cs (merge_one c m))"

definition merge :: "capture_file list \<Rightarrow> (seccomp_error, merged_capture) result" where
  "merge captures =
     (case captures of
        [] \<Rightarrow> Err NoCaptures
      | first # _ \<Rightarrow>
          merge_loop captures
            \<lparr>mc_audit_arch = cf_audit_arch first, mc_syscalls = [], mc_first_seen_ms = [],
             mc_foreign_arch = [], mc_total_events = 0, mc_total_duration_ms = 0, mc_sources = []\<rparr>)"

text \<open>What the types of the Rust fields guarantee: the maps are ordered.\<close>

definition capture_file_wf :: "capture_file \<Rightarrow> bool" where
  "capture_file_wf c \<longleftrightarrow>
     bt_invar (cf_syscalls c) \<and> bt_invar (cf_first_seen_ms c) \<and> bt_invar (cf_foreign_arch c)"

definition capture_wf :: "capture \<Rightarrow> bool" where
  "capture_wf c \<longleftrightarrow> bt_invar (cap_counts c) \<and> bt_invar (cap_foreign_arch_counts c)"

subsection \<open>Recording\<close>

lemma capture_wf_default: "capture_wf default_capture"
  by (simp add: capture_wf_def default_capture_def btree_simps)

lemma capture_wf_record: "capture_wf c \<Longrightarrow> capture_wf (record_syscall c n ms)"
  by (simp add: capture_wf_def record_syscall_def Let_def btree_simps)

lemma capture_wf_record_foreign: "capture_wf c \<Longrightarrow> capture_wf (record_foreign c arch)"
  by (simp add: capture_wf_def record_foreign_def bt_invar_add)

abbreviation record_all :: "(int \<times> u64) list \<Rightarrow> capture \<Rightarrow> capture" where
  "record_all evs \<equiv> fold (\<lambda>(n, ms) c. record_syscall c n ms) evs"

lemma capture_wf_record_all: "capture_wf c \<Longrightarrow> capture_wf (record_all evs c)"
  by (induction evs arbitrary: c) (auto simp: capture_wf_record)

definition times_seen :: "(int \<times> u64) list \<Rightarrow> int \<Rightarrow> nat" where
  "times_seen evs n = length (filter (\<lambda>(m, _). m = n) evs)"

lemma record_all_get:
  "capture_wf c \<Longrightarrow> map_of (cap_counts (record_all evs c)) n =
     (case map_of (cap_counts c) n of
        Some obs \<Rightarrow> Some (obs\<lparr>obs_count := obs_count obs + of_nat (times_seen evs n)\<rparr>)
      | None \<Rightarrow> map_option (\<lambda>ms. \<lparr>obs_count = of_nat (times_seen evs n), obs_first_seen_ms = ms\<rparr>)
                 (map_of evs n))"
proof (induction evs arbitrary: c)
  case (Cons ev evs)
  obtain m ms where ev: "ev = (m, ms)" by force
  have "map_of (cap_counts (record_syscall c m ms)) n =
      (if n = m then Some (let entry = (case map_of (cap_counts c) m of
          None \<Rightarrow> \<lparr>obs_count = 0, obs_first_seen_ms = ms\<rparr> | Some obs \<Rightarrow> obs)
        in entry\<lparr>obs_count := obs_count entry + 1\<rparr>) else map_of (cap_counts c) n)"
    using Cons.prems by (simp add: record_syscall_def capture_wf_def Let_def btree_simps)
  then show ?case
    using Cons.IH [OF capture_wf_record, OF Cons.prems, of m ms]
    by (cases "n = m"; cases "map_of (cap_counts c) n")
      (auto simp: ev times_seen_def Let_def add.commute add.left_commute)
qed (auto simp: times_seen_def split: option.split)

lemma record_all_events: "cap_events (record_all evs c) = cap_events c + of_nat (length evs)"
  by (induction evs arbitrary: c) (auto simp: record_syscall_def Let_def)

subsection \<open>Writing\<close>

lemma number_capture_name:
  "syscall_number a (capture_name a n) = (if syscall_name a n = None then None else Some n)"
proof (cases "syscall_name a n")
  case None
  then have "capture_name a n = ''unknown_'' @ int_dec n" by (simp add: capture_name_def)
  with None show ?thesis by (simp only: no_placeholder_name) simp
qed (simp add: capture_name_def native.inverse)

lemma capture_name_inj:
  assumes eq: "capture_name a m = capture_name a n"
  shows "m = n"
proof (cases "syscall_name a m = None \<and> syscall_name a n = None")
  case True
  with eq show ?thesis by (simp add: capture_name_def int_dec_inj)
next
  case False
  then show ?thesis
    using number_capture_name [of a m] number_capture_name [of a n] unfolding eq
    by (auto split: if_splits)
qed

lemma map_of_renamed:
  assumes "\<And>m n. g m = g n \<Longrightarrow> m = n"
  shows "map_of (map (\<lambda>(n, v). (g n, h v)) xs) (g n) = map_option h (map_of xs n)"
  by (induction xs) (auto dest: assms)

lemma fold_renamed:
  "fold (\<lambda>(n, v). bt_insert (g n) (h v)) xs m = fold (\<lambda>(k, v). bt_insert k v) (map (\<lambda>(n, v). (g n, h v)) xs) m"
  by (induction xs arbitrary: m) auto

lemma from_capture_lookup:
  fixes h :: "syscall_observation \<Rightarrow> u64"
    and counts :: "(int, syscall_observation) btree_map"
  assumes "bt_invar counts"
    and names_def: "names = fold (\<lambda>(n, obs). bt_insert (capture_name a n) (h obs)) counts []"
  shows "bt_invar names" and "map_of names (capture_name a n) = map_option h (map_of counts n)"
    and "fst ` set names = capture_name a ` fst ` set counts"
proof -
  let ?xs = "map (\<lambda>(n, obs). (capture_name a n, h obs)) counts"
  have names: "names = fold (\<lambda>(k, v). bt_insert k v) ?xs []"
    unfolding names_def by (rule fold_renamed)
  have "distinct (map fst counts)"
    using assms(1) by (auto simp: bt_invar_def dest: ascending_distinct)
  then have "distinct (map (capture_name a) (map fst counts))"
    by (simp only: distinct_map) (auto simp: inj_on_def dest: capture_name_inj)
  moreover have "map fst ?xs = map (capture_name a) (map fst counts)"
    by auto
  ultimately have d: "distinct (map fst ?xs)" by (simp only:)
  show inv: "bt_invar names"
    unfolding names by (rule btm.fold_insert_invar) (rule btm.invar_empty)
  show "map_of names (capture_name a n) = map_option h (map_of counts n)"
    unfolding names btm.fold_insert_get [OF btm.invar_empty d]
    by (subst map_of_renamed [where g = "capture_name a"], erule capture_name_inj)
      (cases "map_of counts n"; simp)
  have "dom (map_of names) = fst ` set ?xs"
    unfolding names using btm.fold_insert_dom [OF btm.invar_empty, of ?xs] by simp
  also have "fst ` set ?xs = capture_name a ` fst ` set counts"
    by (simp only: set_map image_image case_prod_beta fst_conv)
  finally show "fst ` set names = capture_name a ` fst ` set counts"
    by (simp only: dom_map_of_conv_image_fst)
qed

lemma foreign_names_invar:
  "bt_invar (fold (\<lambda>(arch, n). bt_insert (''0x'' @ hex_digits 8 (unat arch)) n) xs [])"
proof -
  have "fold (\<lambda>(arch, n). bt_insert (''0x'' @ hex_digits 8 (unat arch)) n) xs m =
      fold (\<lambda>(k, v). bt_insert k v) (map (\<lambda>(arch, n). (''0x'' @ hex_digits 8 (unat arch), n)) xs) m" for m
    by (induction xs arbitrary: m) auto
  then show ?thesis by (simp only: btm.fold_insert_invar btm.invar_empty)
qed

lemma from_capture_wf: "capture_wf c \<Longrightarrow> capture_file_wf (from_capture a cid command c)"
  unfolding capture_file_wf_def from_capture_def capture_wf_def
  using from_capture_lookup(1) [OF _ refl, of "cap_counts c" a obs_count]
    from_capture_lookup(1) [OF _ refl, of "cap_counts c" a obs_first_seen_ms]
    foreign_names_invar [of "cap_foreign_arch_counts c"]
  by (simp only: capture_file.simps simp_thms)

lemma dom_cap_counts_record_all:
  "dom (map_of (cap_counts (record_all trace default_capture))) = fst ` set trace"
  using record_all_get [OF capture_wf_default, of trace]
  by (auto simp: default_capture_def dom_map_of_conv_image_fst [of trace, symmetric])

lemma dom_cf_syscalls_trace:
  "dom (map_of (cf_syscalls (from_capture a cid command (record_all trace default_capture)))) =
     capture_name a ` fst ` set trace"
proof -
  have wf: "bt_invar (cap_counts (record_all trace default_capture))"
    using capture_wf_record_all [OF capture_wf_default] by (simp add: capture_wf_def)
  show ?thesis
    using from_capture_lookup(3) [OF wf refl, of a obs_count] dom_cap_counts_record_all [of trace]
    by (simp add: from_capture_def dom_map_of_conv_image_fst)
qed

lemma cap_audit_arch_record_all [simp]: "cap_audit_arch (record_all evs c) = cap_audit_arch c"
  by (induction evs arbitrary: c) (auto simp: record_syscall_def Let_def)

subsection \<open>Merging\<close>

text \<open>The earlier of two optional times.\<close>

fun earlier :: "u64 option \<Rightarrow> u64 option \<Rightarrow> u64 option" where
  "earlier None t = t"
| "earlier t None = t"
| "earlier (Some t) (Some u) = Some (min t u)"

lemma earlier_None [simp]: "earlier t None = t"
  by (cases t) auto

lemma fold_first_seen_invar: "bt_invar m \<Longrightarrow> bt_invar (fold merge_first_seen xs m)"
  by (induction xs arbitrary: m) (auto simp: merge_first_seen_def btree_simps)

lemma fold_first_seen_get:
  assumes "bt_invar m" "distinct (map fst xs)"
  shows "map_of (fold merge_first_seen xs m) k = earlier (map_of m k) (map_of xs k)"
  using assms
proof (induction xs arbitrary: m)
  case (Cons x xs)
  obtain k0 v0 where x: "x = (k0, v0)" by force
  have "map_of xs k0 = None" using Cons.prems(2) by (auto simp: x map_of_eq_None_iff)
  moreover have "bt_invar (merge_first_seen (k0, v0) m)"
    using Cons.prems(1) by (simp add: merge_first_seen_def btree_simps)
  ultimately show ?case
    using Cons by (auto simp: x merge_first_seen_def btree_simps split: option.split)
qed simp

definition merged_wf :: "merged_capture \<Rightarrow> bool" where
  "merged_wf m \<longleftrightarrow> bt_invar (mc_syscalls m) \<and> bt_invar (mc_first_seen_ms m) \<and> bt_invar (mc_foreign_arch m)"

lemma merge_one_arch [simp]: "mc_audit_arch (merge_one c m) = mc_audit_arch m"
  by (simp add: merge_one_def)

lemma merge_one_wf: "merged_wf m \<Longrightarrow> merged_wf (merge_one c m)"
  by (simp add: merged_wf_def merge_one_def fold_bt_add_invar fold_first_seen_invar)

lemma merge_one_counts:
  assumes "merged_wf m" "capture_file_wf c"
  shows "count_of (mc_syscalls (merge_one c m)) s = count_of (mc_syscalls m) s + count_of (cf_syscalls c) s"
    and "count_of (mc_foreign_arch (merge_one c m)) s =
      count_of (mc_foreign_arch m) s + count_of (cf_foreign_arch c) s"
    and "map_of (mc_first_seen_ms (merge_one c m)) s =
      earlier (map_of (mc_first_seen_ms m) s) (map_of (cf_first_seen_ms c) s)"
    and "dom (map_of (mc_syscalls (merge_one c m))) = dom (map_of (mc_syscalls m)) \<union> dom (map_of (cf_syscalls c))"
  using assms
  by (simp_all add: merged_wf_def capture_file_wf_def merge_one_def bt_invar_distinct
      count_fold_bt_add fold_first_seen_get fold_bt_add_dom dom_map_of_conv_image_fst [symmetric])

lemma merge_loop_Ok:
  "merge_loop cs m = Ok r \<longleftrightarrow> (\<forall>c \<in> set cs. cf_audit_arch c = mc_audit_arch m) \<and> r = fold merge_one cs m"
  by (induction cs m rule: merge_loop.induct) auto

lemma merge_loop_Err:
  "merge_loop cs m = Err e \<longleftrightarrow>
     (\<exists>c. find (\<lambda>c. cf_audit_arch c \<noteq> mc_audit_arch m) cs = Some c \<and>
        e = ArchMismatch (mc_audit_arch m) (cf_audit_arch c))"
  by (induction cs m rule: merge_loop.induct) auto

lemma fold_merge_one:
  assumes "merged_wf m" "\<forall>c \<in> set cs. capture_file_wf c"
  shows "count_of (mc_syscalls (fold merge_one cs m)) s =
      count_of (mc_syscalls m) s + (\<Sum>c\<leftarrow>cs. count_of (cf_syscalls c) s)"
    and "count_of (mc_foreign_arch (fold merge_one cs m)) s =
      count_of (mc_foreign_arch m) s + (\<Sum>c\<leftarrow>cs. count_of (cf_foreign_arch c) s)"
    and "map_of (mc_first_seen_ms (fold merge_one cs m)) s =
      foldl earlier (map_of (mc_first_seen_ms m) s) (map (\<lambda>c. map_of (cf_first_seen_ms c) s) cs)"
    and "dom (map_of (mc_syscalls (fold merge_one cs m))) =
      dom (map_of (mc_syscalls m)) \<union> (\<Union>c\<in>set cs. dom (map_of (cf_syscalls c)))"
    and "merged_wf (fold merge_one cs m)"
  using assms
  by (induction cs arbitrary: m) (auto simp: merge_one_wf merge_one_counts add.assoc)

lemma fold_merge_one_totals:
  "mc_total_events (fold merge_one cs m) = mc_total_events m + (\<Sum>c\<leftarrow>cs. cf_total_events c)"
  "mc_total_duration_ms (fold merge_one cs m) = mc_total_duration_ms m + (\<Sum>c\<leftarrow>cs. cf_duration_ms c)"
  "mc_sources (fold merge_one cs m) = mc_sources m @ cs"
  "mc_audit_arch (fold merge_one cs m) = mc_audit_arch m"
  by (induction cs arbitrary: m) (simp_all add: merge_one_def add.assoc)

lemma merge_Ok:
  "merge cs = Ok r \<longleftrightarrow> cs \<noteq> [] \<and> (\<forall>c \<in> set cs. cf_audit_arch c = cf_audit_arch (hd cs)) \<and>
     r = fold merge_one cs
       \<lparr>mc_audit_arch = cf_audit_arch (hd cs), mc_syscalls = [], mc_first_seen_ms = [],
        mc_foreign_arch = [], mc_total_events = 0, mc_total_duration_ms = 0, mc_sources = []\<rparr>"
  by (cases cs) (simp_all add: merge_def merge_loop_Ok del: merge_loop.simps)

text \<open>The earliest of a list of optional times is its minimum.\<close>

lemma map_filter_id: "List.map_filter id (map f xs) = List.map_filter f xs"
  by (induction xs) (simp_all add: List.map_filter_simps split: option.split)

lemma foldl_earlier:
  "foldl earlier t ts = (let us = List.map_filter id (t # ts) in if us = [] then None else Some (Min (set us)))"
proof (induction ts arbitrary: t)
  case (Cons u ts)
  let ?S = "set (List.map_filter (\<lambda>t. t) ts)"
  have "Min (insert (min v w) ?S) = min v (Min (insert w ?S))" for v w
    by (cases "?S = {}") (simp_all add: min.assoc)
  then show ?case
    by (cases t; cases u) (simp_all add: Cons Let_def List.map_filter_simps id_def)
qed (cases t; simp add: List.map_filter_def)+

subsection \<open>Properties\<close>

text \<open>
  The capture file of a trace lists, under the name of each system call, how often the call
  was recorded (modulo the counter's width) and when it was first recorded, and under no other
  name; the event total is the length of the trace.
\<close>

lemma capture_file_of_trace:
  "let f = from_capture a cid command (fold (\<lambda>(n, ms) c. record_syscall c n ms) trace default_capture)
   in map_of (cf_syscalls f) (capture_name a n) =
        (if n \<in> fst ` set trace then Some (of_nat (count_list (map fst trace) n)) else None) \<and>
      map_of (cf_first_seen_ms f) (capture_name a n) = map_of trace n \<and>
      fst ` set (cf_syscalls f) = capture_name a ` fst ` set trace \<and>
      cf_total_events f = of_nat (length trace)"
proof -
  let ?c = "record_all trace default_capture"
  have wf: "bt_invar (cap_counts ?c)"
    using capture_wf_record_all [OF capture_wf_default] by (simp add: capture_wf_def)
  have get: "map_of (cap_counts ?c) k = map_option (\<lambda>ms. \<lparr>obs_count = of_nat (times_seen trace k), obs_first_seen_ms = ms\<rparr>)
      (map_of trace k)" for k
    using record_all_get [OF capture_wf_default, of trace k] by (simp add: default_capture_def)
  then have "dom (map_of (cap_counts ?c)) = dom (map_of trace)" by auto
  then have keys: "fst ` set (cap_counts ?c) = fst ` set trace"
    by (simp add: dom_map_of_conv_image_fst)
  have seen: "times_seen trace n = count_list (map fst trace) n"
    by (induction trace) (auto simp: times_seen_def)
  have mem: "n \<in> fst ` set trace \<longleftrightarrow> map_of trace n \<noteq> None"
    by (simp add: map_of_eq_None_iff)
  have "cap_events ?c = of_nat (length trace)"
    using record_all_events [of trace default_capture] by (simp add: default_capture_def)
  then show ?thesis
    using from_capture_lookup [OF wf refl, of a obs_count] from_capture_lookup [OF wf refl, of a obs_first_seen_ms]
    unfolding Let_def from_capture_def keys get seen capture_file.simps mem
    by (cases "map_of trace n") (simp_all add: seen)
qed

text \<open>
  A successful merge adds the call counts and the foreign-architecture counts of all files
  name by name, keeps the earliest first sighting of each name, names nothing the files do not
  name, adds the totals, lists the files in order, and is over one architecture.
\<close>

lemma merge_adds_up:
  assumes "\<forall>c \<in> set files. capture_file_wf c" and "merge files = Ok m"
  shows "count_of (mc_syscalls m) s = (\<Sum>c\<leftarrow>files. count_of (cf_syscalls c) s) \<and>
    count_of (mc_foreign_arch m) s = (\<Sum>c\<leftarrow>files. count_of (cf_foreign_arch c) s) \<and>
    map_of (mc_first_seen_ms m) s =
      (let ts = List.map_filter (\<lambda>c. map_of (cf_first_seen_ms c) s) files
       in if ts = [] then None else Some (Min (set ts))) \<and>
    dom (map_of (mc_syscalls m)) = (\<Union>c\<in>set files. dom (map_of (cf_syscalls c))) \<and>
    mc_total_events m = (\<Sum>c\<leftarrow>files. cf_total_events c) \<and>
    mc_total_duration_ms m = (\<Sum>c\<leftarrow>files. cf_duration_ms c) \<and>
    mc_sources m = files \<and> cf_audit_arch ` set files = {mc_audit_arch m}"
proof -
  let ?m0 = "\<lparr>mc_audit_arch = cf_audit_arch (hd files), mc_syscalls = [], mc_first_seen_ms = [],
        mc_foreign_arch = [], mc_total_events = 0, mc_total_duration_ms = 0, mc_sources = []\<rparr>"
  have m: "files \<noteq> []" "\<forall>c \<in> set files. cf_audit_arch c = cf_audit_arch (hd files)"
      "m = fold merge_one files ?m0"
    using assms(2) unfolding merge_Ok by blast+
  have wf: "merged_wf ?m0" by (simp add: merged_wf_def btree_simps)
  have "cf_audit_arch ` set files = {cf_audit_arch (hd files)}"
    using m(1,2) by (cases files) auto
  moreover have "count_of [] s = 0" by (simp add: count_of_def)
  ultimately show ?thesis
    unfolding m(3) fold_merge_one [OF wf assms(1)] fold_merge_one_totals
    by (simp add: foldl_earlier List.map_filter_simps map_filter_id)
qed

definition sample_file :: "string \<Rightarrow> u64 \<Rightarrow> u64 \<Rightarrow> capture_file" where
  "sample_file s calls ms = (from_capture X86_64 ''web'' [] default_capture)
     \<lparr>cf_syscalls := [(s, calls)], cf_first_seen_ms := [(s, ms)], cf_total_events := calls\<rparr>"

lemma merge_adds_up_example:
  "\<exists>m. merge [sample_file ''read'' 2 7, sample_file ''read'' 3 5] = Ok m \<and>
     count_of (mc_syscalls m) ''read'' = 5 \<and> map_of (mc_first_seen_ms m) ''read'' = Some 5"
proof -
  let ?fs = "[sample_file ''read'' 2 7, sample_file ''read'' 3 5]"
  have wf: "\<forall>c \<in> set ?fs. capture_file_wf c"
    by (simp add: sample_file_def capture_file_wf_def from_capture_def default_capture_def bt_invar_def)
  obtain m where m: "merge ?fs = Ok m"
    by (simp add: merge_Ok sample_file_def from_capture_def)
  show ?thesis
    using merge_adds_up [OF wf m, of "''read''"] m
    by (simp add: sample_file_def count_of_def List.map_filter_simps)
qed

text \<open>
  Merging fails exactly when there is nothing to merge or some file is for another
  architecture than the first; the error names the first such file's architecture.
\<close>

lemma merge_errors:
  "merge files = Err e \<longleftrightarrow> files = [] \<and> e = NoCaptures \<or>
     (\<exists>c. find (\<lambda>c. cf_audit_arch c \<noteq> cf_audit_arch (hd files)) files = Some c \<and>
        e = ArchMismatch (cf_audit_arch (hd files)) (cf_audit_arch c))"
  by (cases files) (auto simp: merge_def merge_loop_Err simp del: merge_loop.simps find.simps(2))

end
