(* ===== verification/Bpf.thy ===== *)
theory Bpf
  imports Errors Effects
begin

text \<open>
  \<^verbatim>\<open>src/seccomp/bpf.rs\<close>: classic BPF instructions, the filter builder and the validation of
  finished programs. The kernel that runs a filter is not part of the repository: it enters as
  the parameter of the locale \<open>seccomp_vm\<close>, whose assumptions are the documented meaning of the
  instructions the builder emits. \<open>bpf_exec\<close> is a small interpreter that satisfies them. The
  installation system call (\<^verbatim>\<open>Program::install\<close>) is modelled with the two system calls it makes as
  arguments.
\<close>

unbundle bit_operations_syntax

subsection \<open>Instructions\<close>

record sock_filter =
  sf_code :: u16
  sf_jt :: u8
  sf_jf :: u8
  sf_k :: u32

definition BPF_LD :: u32 where "BPF_LD = 0x00"
definition BPF_JMP :: u32 where "BPF_JMP = 0x05"
definition BPF_RET :: u32 where "BPF_RET = 0x06"
definition BPF_W :: u32 where "BPF_W = 0x00"
definition BPF_ABS :: u32 where "BPF_ABS = 0x20"
definition BPF_K :: u32 where "BPF_K = 0x00"
definition BPF_JEQ :: u32 where "BPF_JEQ = 0x10"
definition BPF_JGE :: u32 where "BPF_JGE = 0x30"

definition SECCOMP_RET_KILL_PROCESS :: u32 where "SECCOMP_RET_KILL_PROCESS = 0x80000000"
definition SECCOMP_RET_ERRNO :: u32 where "SECCOMP_RET_ERRNO = 0x00050000"
definition SECCOMP_RET_TRACE :: u32 where "SECCOMP_RET_TRACE = 0x7ff00000"
definition SECCOMP_RET_LOG :: u32 where "SECCOMP_RET_LOG = 0x7ffc0000"
definition SECCOMP_RET_ALLOW :: u32 where "SECCOMP_RET_ALLOW = 0x7fff0000"
definition EPERM :: u32 where "EPERM = 1"
definition ENOSYS :: u32 where "ENOSYS = 38"

lemmas libc_constants =
  BPF_LD_def BPF_JMP_def BPF_RET_def BPF_W_def BPF_ABS_def BPF_K_def BPF_JEQ_def BPF_JGE_def
  SECCOMP_RET_KILL_PROCESS_def SECCOMP_RET_ERRNO_def SECCOMP_RET_TRACE_def SECCOMP_RET_LOG_def
  SECCOMP_RET_ALLOW_def EPERM_def ENOSYS_def

definition MAX_BPF_INSNS :: nat where "MAX_BPF_INSNS = 4096"
definition SECCOMP_DATA_NR_OFFSET :: u32 where "SECCOMP_DATA_NR_OFFSET = 0"
definition SECCOMP_DATA_ARCH_OFFSET :: u32 where "SECCOMP_DATA_ARCH_OFFSET = 4"

definition stmt :: "u32 \<Rightarrow> u32 \<Rightarrow> sock_filter" where
  "stmt code k = \<lparr>sf_code = ucast code, sf_jt = 0, sf_jf = 0, sf_k = k\<rparr>"

definition jump :: "u32 \<Rightarrow> u32 \<Rightarrow> u8 \<Rightarrow> u8 \<Rightarrow> sock_filter" where
  "jump code k jt jf = \<lparr>sf_code = ucast code, sf_jt = jt, sf_jf = jf, sf_k = k\<rparr>"

subsection \<open>The builder\<close>

record filter_builder =
  fb_insns :: "sock_filter list"

record program =
  insns :: "sock_filter list"

definition new_builder :: filter_builder where
  "new_builder = \<lparr>fb_insns = []\<rparr>"

definition push_insn :: "sock_filter \<Rightarrow> filter_builder \<Rightarrow> filter_builder" where
  "push_insn i b = b\<lparr>fb_insns := fb_insns b @ [i]\<rparr>"

definition load_arch :: "filter_builder \<Rightarrow> filter_builder" where
  "load_arch b = push_insn (stmt (BPF_LD OR BPF_W OR BPF_ABS) SECCOMP_DATA_ARCH_OFFSET) b"

definition load_syscall_nr :: "filter_builder \<Rightarrow> filter_builder" where
  "load_syscall_nr b = push_insn (stmt (BPF_LD OR BPF_W OR BPF_ABS) SECCOMP_DATA_NR_OFFSET) b"

definition ret :: "u32 \<Rightarrow> filter_builder \<Rightarrow> filter_builder" where
  "ret action b = push_insn (stmt (BPF_RET OR BPF_K) action) b"

definition jeq_then_ret :: "u32 \<Rightarrow> u32 \<Rightarrow> filter_builder \<Rightarrow> filter_builder" where
  "jeq_then_ret k action b = ret action (push_insn (jump (BPF_JMP OR BPF_JEQ OR BPF_K) k 0 1) b)"

definition jne_then_ret :: "u32 \<Rightarrow> u32 \<Rightarrow> filter_builder \<Rightarrow> filter_builder" where
  "jne_then_ret k action b = ret action (push_insn (jump (BPF_JMP OR BPF_JEQ OR BPF_K) k 1 0) b)"

definition jge_then_ret :: "u32 \<Rightarrow> u32 \<Rightarrow> filter_builder \<Rightarrow> filter_builder" where
  "jge_then_ret k action b = ret action (push_insn (jump (BPF_JMP OR BPF_JGE OR BPF_K) k 0 1) b)"

lemmas builder_defs =
  new_builder_def push_insn_def load_arch_def load_syscall_nr_def ret_def
  jeq_then_ret_def jne_then_ret_def jge_then_ret_def

subsection \<open>Validation\<close>

fun validate_jumps :: "nat \<Rightarrow> nat \<Rightarrow> sock_filter list \<Rightarrow> (seccomp_error, unit) result" where
  "validate_jumps len index [] = Ok ()"
| "validate_jumps len index (insn # rest) =
     (if (ucast (sf_code insn) :: u32) AND 0x07 \<noteq> BPF_JMP then validate_jumps len (index + 1) rest
      else if len \<le> index + 1 + unat (sf_jt insn)
        then Err (JumpOutOfRange index (index + 1 + unat (sf_jt insn)))
      else if len \<le> index + 1 + unat (sf_jf insn)
        then Err (JumpOutOfRange index (index + 1 + unat (sf_jf insn)))
      else validate_jumps len (index + 1) rest)"

definition validate :: "program \<Rightarrow> (seccomp_error, unit) result" where
  "validate p =
     (if insns p = [] then Err EmptyProgram
      else if MAX_BPF_INSNS < length (insns p)
        then Err (ProgramTooLong (length (insns p)) MAX_BPF_INSNS)
      else if (ucast (sf_code (insns p ! (length (insns p) - 1))) :: u32) AND (BPF_RET OR BPF_K)
                \<noteq> (BPF_RET OR BPF_K)
        then Err ProgramDoesNotEndInReturn
      else validate_jumps (length (insns p)) 0 (insns p))"

definition build :: "filter_builder \<Rightarrow> (seccomp_error, program) result" where
  "build b =
     (let p = \<lparr>insns = fb_insns b\<rparr> in and_then (validate p) (\<lambda>_. Ok p))"

subsection \<open>Installation\<close>

text \<open>
  The two system calls that can install a filter; each succeeds or fails with an error number.
  \<open>call_of\<close> places them among the calls of the caller. The length of the program is narrowed to the
  16 bits of \<^verbatim>\<open>sock_fprog.len\<close>.
\<close>

datatype filter_call = Seccomp_set_mode_filter u64 program | Prctl_set_seccomp program

datatype install_error =
    Install_seccomp seccomp_error
  | Install_prctl_failed errno
  | Install_failed errno

definition install ::
    "('c, (errno, unit) result) world \<Rightarrow> (filter_call \<Rightarrow> 'c) \<Rightarrow> program \<Rightarrow> u64 \<Rightarrow> ('c, install_error, unit) io" where
  "install os call_of p flags =
     (if 65535 < length (insns p)
        then io_lift (Err (Install_seccomp (ProgramTooLong (length (insns p)) MAX_BPF_INSNS)))
      else (\<lambda>w. case io_call os (call_of (Seccomp_set_mode_filter flags p)) w of
          (w', Ok _) \<Rightarrow> (w', Ok ())
        | (w', Err e) \<Rightarrow>
            if flags = 0 \<and> e \<in> {Errno_ENOSYS, Errno_EINVAL}
              then io_map_err Install_prctl_failed (io_call os (call_of (Prctl_set_seccomp p))) w'
            else (w', Err (Install_failed e))))"

subsection \<open>The kernel's filter machine\<close>

text \<open>The part of \<^verbatim>\<open>struct seccomp_data\<close> the filters read.\<close>

record seccomp_data =
  sd_nr :: u32
  sd_arch :: u32

text \<open>
  \<open>exec p d pc A\<close> is what the kernel returns for program \<open>p\<close> on the system call \<open>d\<close> when it
  is at instruction \<open>pc\<close> with accumulator \<open>A\<close>; a filter is run from \<open>exec p d 0 0\<close>. The
  assumptions are the classic BPF semantics of absolute loads, returns and conditional jumps.
\<close>

locale seccomp_vm =
  fixes exec :: "sock_filter list \<Rightarrow> seccomp_data \<Rightarrow> nat \<Rightarrow> u32 \<Rightarrow> u32 option"
  assumes exec_load_nr:
      "pc < length p \<Longrightarrow> p ! pc = stmt (BPF_LD OR BPF_W OR BPF_ABS) SECCOMP_DATA_NR_OFFSET \<Longrightarrow>
       exec p d pc A = exec p d (pc + 1) (sd_nr d)"
    and exec_load_arch:
      "pc < length p \<Longrightarrow> p ! pc = stmt (BPF_LD OR BPF_W OR BPF_ABS) SECCOMP_DATA_ARCH_OFFSET \<Longrightarrow>
       exec p d pc A = exec p d (pc + 1) (sd_arch d)"
    and exec_ret:
      "pc < length p \<Longrightarrow> p ! pc = stmt (BPF_RET OR BPF_K) action \<Longrightarrow> exec p d pc A = Some action"
    and exec_jeq:
      "pc < length p \<Longrightarrow> p ! pc = jump (BPF_JMP OR BPF_JEQ OR BPF_K) k jt jf \<Longrightarrow>
       exec p d pc A = exec p d (pc + 1 + unat (if A = k then jt else jf)) A"
    and exec_jge:
      "pc < length p \<Longrightarrow> p ! pc = jump (BPF_JMP OR BPF_JGE OR BPF_K) k jt jf \<Longrightarrow>
       exec p d pc A = exec p d (pc + 1 + unat (if k \<le> A then jt else jf)) A"
begin

text \<open>
  Each builder operation appends a group of instructions whose meaning is one equation, read off
  the suffix of the program that starts at \<open>pc\<close>.
\<close>

lemma at_suffix: "drop pc p = i # rest \<Longrightarrow> pc < length p \<and> p ! pc = i \<and> drop (pc + 1) p = rest"
  by (metis Cons_nth_drop_Suc Suc_eq_plus1 drop_eq_Nil2 leI list.distinct(1) list.inject)

lemma run_load_arch:
  "drop pc p = stmt (BPF_LD OR BPF_W OR BPF_ABS) SECCOMP_DATA_ARCH_OFFSET # rest \<Longrightarrow>
   exec p d pc A = exec p d (pc + 1) (sd_arch d)"
  by (drule at_suffix) (simp add: exec_load_arch)

lemma run_load_nr:
  "drop pc p = stmt (BPF_LD OR BPF_W OR BPF_ABS) SECCOMP_DATA_NR_OFFSET # rest \<Longrightarrow>
   exec p d pc A = exec p d (pc + 1) (sd_nr d)"
  by (drule at_suffix) (simp add: exec_load_nr)

lemma run_ret:
  "drop pc p = stmt (BPF_RET OR BPF_K) action # rest \<Longrightarrow> exec p d pc A = Some action"
  by (drule at_suffix) (simp add: exec_ret)

lemma run_jeq_then_ret:
  assumes "drop pc p = jump (BPF_JMP OR BPF_JEQ OR BPF_K) k 0 1 # stmt (BPF_RET OR BPF_K) action # rest"
  shows "exec p d pc A = (if A = k then Some action else exec p d (pc + 2) A)"
  using at_suffix [OF assms] run_ret [of "pc + 1" p action rest d A]
  by (auto simp: exec_jeq)

lemma run_jne_then_ret:
  assumes "drop pc p = jump (BPF_JMP OR BPF_JEQ OR BPF_K) k 1 0 # stmt (BPF_RET OR BPF_K) action # rest"
  shows "exec p d pc A = (if A = k then exec p d (pc + 2) A else Some action)"
  using at_suffix [OF assms] run_ret [of "pc + 1" p action rest d A]
  by (auto simp: exec_jeq)

lemma run_jge_then_ret:
  assumes "drop pc p = jump (BPF_JMP OR BPF_JGE OR BPF_K) k 0 1 # stmt (BPF_RET OR BPF_K) action # rest"
  shows "exec p d pc A = (if k \<le> A then Some action else exec p d (pc + 2) A)"
  using at_suffix [OF assms] run_ret [of "pc + 1" p action rest d A]
  by (auto simp: exec_jge)

end

subsection \<open>Chains of comparisons\<close>

text \<open>The instructions a loop of \<open>jeq_then_ret\<close> appends.\<close>

definition jeq_pair :: "u32 \<Rightarrow> u32 \<Rightarrow> sock_filter list" where
  "jeq_pair action k =
     [jump (BPF_JMP OR BPF_JEQ OR BPF_K) k 0 1, stmt (BPF_RET OR BPF_K) action]"

lemma fb_insns_jeq_then_ret [simp]:
  "fb_insns (jeq_then_ret k action b) = fb_insns b @ jeq_pair action k"
  by (simp add: builder_defs jeq_pair_def)

lemma fb_insns_fold_jeq [simp]:
  "fb_insns (fold (\<lambda>k. jeq_then_ret k action) ks b) = fb_insns b @ concat (map (jeq_pair action) ks)"
  by (induction ks arbitrary: b) simp_all

lemma length_jeq_pairs [simp]: "length (concat (map (jeq_pair action) ks)) = 2 * length ks"
  by (induction ks) (simp_all add: jeq_pair_def)

context seccomp_vm
begin

lemma run_chain:
  "drop pc p = concat (map (jeq_pair action) ks) @ stmt (BPF_RET OR BPF_K) final # rest \<Longrightarrow>
   exec p d pc A = Some (if A \<in> set ks then action else final)"
proof (induction ks arbitrary: pc)
  case Nil
  then show ?case by (simp add: run_ret)
next
  case (Cons k ks)
  from Cons.prems have here: "drop pc p = jump (BPF_JMP OR BPF_JEQ OR BPF_K) k 0 1 #
      stmt (BPF_RET OR BPF_K) action #
      concat (map (jeq_pair action) ks) @ stmt (BPF_RET OR BPF_K) final # rest"
    by (simp add: jeq_pair_def [of action k])
  then have "drop (pc + 2) p =
      concat (map (jeq_pair action) ks) @ stmt (BPF_RET OR BPF_K) final # rest"
    using at_suffix [OF here] at_suffix [of "pc + 1" p] by (simp add: numeral_2_eq_2)
  then have "exec p d (pc + 2) A = Some (if A \<in> set ks then action else final)"
    by (rule Cons.IH)
  then show ?case using run_jeq_then_ret [OF here] by simp
qed

end

subsection \<open>Validation of built programs\<close>

definition forward_pair :: "sock_filter list \<Rightarrow> bool" where
  "forward_pair g \<longleftrightarrow> (\<exists>code k jt jf action.
     g = [jump code k jt jf, stmt (BPF_RET OR BPF_K) action] \<and> unat jt \<le> 1 \<and> unat jf \<le> 1)"

lemma validate_jumps_append:
  "validate_jumps len i (xs @ ys) =
     and_then (validate_jumps len i xs) (\<lambda>_. validate_jumps len (i + length xs) ys)"
  by (induction xs arbitrary: i) simp_all

lemma validate_jumps_stmt [simp]:
  "validate_jumps len i (stmt (BPF_RET OR BPF_K) k # xs) = validate_jumps len (i + 1) xs"
  "validate_jumps len i (stmt (BPF_LD OR BPF_W OR BPF_ABS) k # xs) = validate_jumps len (i + 1) xs"
  by (simp_all add: stmt_def libc_constants)

lemma validate_jumps_jump [simp]:
  "i + 1 + unat jt < len \<Longrightarrow> i + 1 + unat jf < len \<Longrightarrow>
   validate_jumps len i (jump code k jt jf # xs) = validate_jumps len (i + 1) xs"
  by (simp add: jump_def)

declare validate_jumps.simps(2) [simp del]

lemma validate_jumps_pairs:
  "i + 2 * length gs < len \<Longrightarrow> \<forall>g \<in> set gs. forward_pair g \<Longrightarrow>
   validate_jumps len i (concat gs) = Ok ()"
proof (induction gs arbitrary: i)
  case (Cons g gs)
  from Cons.prems(2) obtain code k jt jf action where
    g: "g = [jump code k jt jf, stmt (BPF_RET OR BPF_K) action]" "unat jt \<le> 1" "unat jf \<le> 1"
    by (auto simp: forward_pair_def)
  moreover have "validate_jumps len (i + 2) (concat gs) = Ok ()"
    using Cons.prems by (intro Cons.IH) auto
  ultimately show ?case using Cons.prems(1) by simp
qed simp

lemma forward_pair_jeq [simp]: "forward_pair (jeq_pair action k)"
  unfolding forward_pair_def jeq_pair_def by (intro exI conjI, rule refl) simp_all

subsection \<open>A machine\<close>

text \<open>An interpreter for loads, returns and conditional jumps; anything else is refused.\<close>

function bpf_exec :: "sock_filter list \<Rightarrow> seccomp_data \<Rightarrow> nat \<Rightarrow> u32 \<Rightarrow> u32 option" where
  "bpf_exec p d pc A =
     (if length p \<le> pc then None
      else let i = p ! pc in
        if sf_code i = ucast (BPF_LD OR BPF_W OR BPF_ABS)
          then if sf_k i = SECCOMP_DATA_NR_OFFSET then bpf_exec p d (pc + 1) (sd_nr d)
               else if sf_k i = SECCOMP_DATA_ARCH_OFFSET then bpf_exec p d (pc + 1) (sd_arch d)
               else None
        else if sf_code i = ucast (BPF_RET OR BPF_K) then Some (sf_k i)
        else if sf_code i = ucast (BPF_JMP OR BPF_JEQ OR BPF_K)
          then bpf_exec p d (pc + 1 + unat (if A = sf_k i then sf_jt i else sf_jf i)) A
        else if sf_code i = ucast (BPF_JMP OR BPF_JGE OR BPF_K)
          then bpf_exec p d (pc + 1 + unat (if sf_k i \<le> A then sf_jt i else sf_jf i)) A
        else None)"
  by pat_completeness auto
termination
  by (relation "measure (\<lambda>(p, d, pc, A). length p - pc)") auto

declare bpf_exec.simps [simp del]

interpretation kernel: seccomp_vm bpf_exec
  by unfold_locales
    (subst bpf_exec.simps, simp add: stmt_def jump_def libc_constants
      SECCOMP_DATA_NR_OFFSET_def SECCOMP_DATA_ARCH_OFFSET_def)+

end
