(* ===== verification/Profile.thy ===== *)
theory Profile
  imports Syscalls
begin

text \<open>
  \<^verbatim>\<open>src/seccomp/profile.rs\<close>: OCI seccomp profiles with the runtime's provenance. The OCI schema
  types come from the \<^verbatim>\<open>oci-spec\<close> crate; the records below carry the fields of the schema the
  runtime reads or writes. Reading and writing the JSON files (\<^verbatim>\<open>load\<close>, \<^verbatim>\<open>save\<close>) is left out.
\<close>

subsection \<open>OCI schema\<close>

datatype linux_seccomp_action =
    ScmpActAllow | ScmpActErrno | ScmpActKillProcess | ScmpActLog | ScmpActOther string

record linux_seccomp_arg =
  arg_index :: nat
  arg_value :: u64
  arg_value_two :: "u64 option"
  arg_op :: string

record linux_syscall =
  rule_names :: "string list"
  rule_action :: linux_seccomp_action
  rule_errno_ret :: "u32 option"
  rule_args :: "linux_seccomp_arg list option"

record linux_seccomp =
  sc_default_action :: linux_seccomp_action
  sc_default_errno_ret :: "u32 option"
  sc_architectures :: "oci_arch list option"
  sc_syscalls :: "linux_syscall list option"

subsection \<open>Profiles\<close>

definition METADATA_SCHEMA_VERSION :: u32 where
  "METADATA_SCHEMA_VERSION = 1"

definition mandatory_baseline :: "string list" where
  "mandatory_baseline =
     [''clock_getres'', ''clock_gettime'', ''exit'', ''exit_group'', ''getcpu'', ''gettimeofday'',
      ''restart_syscall'', ''rt_sigreturn'', ''time'']"

definition glibc_compat_set :: "string list" where
  "glibc_compat_set = [''clone3'', ''faccessat2'', ''getrandom'', ''newfstatat'', ''rseq'', ''statx'']"

record source_run =
  run_container_id :: string
  run_command :: "string list"
  run_started_at_unix :: u64
  run_duration_ms :: u64
  run_events :: u64
  run_unique_syscalls :: nat

record crun_metadata =
  md_schema_version :: u32
  md_generator :: string
  md_runtime_version :: string
  md_workload :: "string option"
  md_arch :: string
  md_audit_arch :: u32
  md_generated_at_unix :: u64
  md_observed_syscall_count :: nat
  md_baseline_syscall_count :: nat
  md_total_syscall_count :: nat
  md_capture_duration_ms :: u64
  md_total_events :: u64
  md_source_runs :: "source_run list"
  md_unresolved :: "string list"
  md_foreign_arch :: "(string, u64) btree_map"
  md_syscall_counts :: "(string, u64) btree_map"

record seccomp_profile =
  seccomp :: linux_seccomp
  crun_metadata :: "crun_metadata option"

definition default_action :: "seccomp_profile \<Rightarrow> linux_seccomp_action" where
  "default_action p = sc_default_action (seccomp p)"

fun validate_rules :: "linux_syscall list \<Rightarrow> (seccomp_error, unit) result" where
  "validate_rules [] = Ok ()"
| "validate_rules (rule # rules) =
     (if (case rule_args rule of None \<Rightarrow> False | Some args \<Rightarrow> args \<noteq> [])
        then Err (UnsupportedConditionalRule (join '','' (rule_names rule)))
      else validate_rules rules)"

definition validate_supported :: "seccomp_profile \<Rightarrow> (seccomp_error, unit) result" where
  "validate_supported p =
     (case sc_syscalls (seccomp p) of None \<Rightarrow> Ok () | Some rules \<Rightarrow> validate_rules rules)"

definition allowed_names :: "seccomp_profile \<Rightarrow> string btree_set" where
  "allowed_names p =
     (case sc_syscalls (seccomp p) of
        None \<Rightarrow> []
      | Some rules \<Rightarrow>
          sort_dedup (concat (map rule_names (filter (\<lambda>rule. rule_action rule = ScmpActAllow) rules))))"

definition allowed_names_for_arch :: "target_arch \<Rightarrow> seccomp_profile \<Rightarrow> string btree_set" where
  "allowed_names_for_arch a p = filter (\<lambda>s. syscall_number a s \<noteq> None) (allowed_names p)"

definition build_profile_for_arch ::
    "string btree_set \<Rightarrow> linux_seccomp_action \<Rightarrow> u32 option \<Rightarrow> crun_metadata option \<Rightarrow> oci_arch \<Rightarrow>
     (seccomp_error, seccomp_profile) result" where
  "build_profile_for_arch names action errno_ret metadata oci =
     Ok \<lparr>seccomp = \<lparr>sc_default_action = action, sc_default_errno_ret = errno_ret,
            sc_architectures = Some [oci],
            sc_syscalls = Some [\<lparr>rule_names = names, rule_action = ScmpActAllow,
              rule_errno_ret = None, rule_args = None\<rparr>]\<rparr>,
         crun_metadata = metadata\<rparr>"

definition build_profile ::
    "target_arch \<Rightarrow> string btree_set \<Rightarrow> linux_seccomp_action \<Rightarrow> u32 option \<Rightarrow> crun_metadata option \<Rightarrow>
     (seccomp_error, seccomp_profile) result" where
  "build_profile a names action errno_ret metadata =
     and_then (native_oci_arch a) (build_profile_for_arch names action errno_ret metadata)"

subsection \<open>Lemmas\<close>

definition conditional_rule :: "linux_syscall \<Rightarrow> bool" where
  "conditional_rule r \<longleftrightarrow> (\<exists>arg args. rule_args r = Some (arg # args))"

lemma conditional_rule_alt:
  "(case rule_args r of None \<Rightarrow> False | Some args \<Rightarrow> args \<noteq> []) \<longleftrightarrow> conditional_rule r"
  by (auto simp: conditional_rule_def neq_Nil_conv split: option.splits)

text \<open>What a profile says, read off its rules: whether it has a rule with argument conditions, and which calls it allows.\<close>

definition has_rule :: "seccomp_profile \<Rightarrow> linux_syscall \<Rightarrow> bool" where
  "has_rule p r \<longleftrightarrow> (\<exists>rules. sc_syscalls (seccomp p) = Some rules \<and> r \<in> set rules)"

definition allows_call :: "seccomp_profile \<Rightarrow> string \<Rightarrow> bool" where
  "allows_call p s \<longleftrightarrow> (\<exists>r. has_rule p r \<and> rule_action r = ScmpActAllow \<and> s \<in> set (rule_names r))"

lemma validate_rules_Ok: "validate_rules rules = Ok () \<longleftrightarrow> (\<forall>r \<in> set rules. \<not> conditional_rule r)"
  by (induction rules) (auto simp: conditional_rule_alt)

lemma validate_rules_Err:
  "validate_rules rules = Err e \<Longrightarrow>
     \<exists>r \<in> set rules. conditional_rule r \<and> e = UnsupportedConditionalRule (join '','' (rule_names r))"
  by (induction rules) (auto simp: conditional_rule_alt split: if_splits)

lemma validate_supported_Ok: "validate_supported p = Ok () \<longleftrightarrow> (\<forall>r. has_rule p r \<longrightarrow> \<not> conditional_rule r)"
  by (auto simp: validate_supported_def validate_rules_Ok has_rule_def split: option.split)

lemma validate_supported_Err:
  "validate_supported p = Err e \<Longrightarrow>
     \<exists>r. has_rule p r \<and> conditional_rule r \<and> e = UnsupportedConditionalRule (join '','' (rule_names r))"
  by (auto simp: validate_supported_def has_rule_def dest!: validate_rules_Err split: option.splits)

lemma in_allowed_names: "s \<in> set (allowed_names p) \<longleftrightarrow> allows_call p s"
  by (cases "sc_syscalls (seccomp p)") (auto simp: allowed_names_def allows_call_def has_rule_def)

lemma ascending_allowed_names [simp]: "ascending (allowed_names p)"
  by (simp add: allowed_names_def ascending_sort_dedup split: option.split)

lemma native_oci_arch_cases: "\<exists>oci. native_oci_arch a = Ok oci \<and> oci_arch_value oci = AUDIT_ARCH_NATIVE a"
  by (cases a) simp_all

lemma build_profile_Ok:
  "\<exists>p. build_profile a names action errno_ret metadata = Ok p \<and> validate_supported p = Ok () \<and>
     (ascending names \<longrightarrow> allowed_names p = names) \<and> default_action p = action \<and>
     crun_metadata p = metadata \<and>
     (\<exists>oci. sc_architectures (seccomp p) = Some [oci] \<and> oci_arch_value oci = AUDIT_ARCH_NATIVE a)"
  using native_oci_arch_cases [of a]
  by (auto simp: build_profile_def build_profile_for_arch_def allowed_names_def default_action_def
      validate_supported_def sort_dedup_ascending)

end
