(* ===== verification/Compile.thy ===== *)
theory Compile
  imports Bpf Profile
begin

text \<open>
  \<^verbatim>\<open>src/seccomp/compile.rs\<close>: the compiler from a profile to an allowlist filter. The theorems run
  the emitted program on any machine that satisfies \<open>seccomp_vm\<close> and compare its verdict with
  the profile.
\<close>

subsection \<open>Actions, orders and options\<close>

datatype seccomp_action = Act_Errno | Act_Enosys | Act_Kill | Act_Log

fun action_as_str :: "seccomp_action \<Rightarrow> string" where
  "action_as_str Act_Errno = ''errno''"
| "action_as_str Act_Enosys = ''enosys''"
| "action_as_str Act_Kill = ''kill''"
| "action_as_str Act_Log = ''log''"

fun to_bpf_ret :: "seccomp_action \<Rightarrow> u32" where
  "to_bpf_ret Act_Errno = SECCOMP_RET_ERRNO OR EPERM"
| "to_bpf_ret Act_Enosys = SECCOMP_RET_ERRNO OR ENOSYS"
| "to_bpf_ret Act_Kill = SECCOMP_RET_KILL_PROCESS"
| "to_bpf_ret Act_Log = SECCOMP_RET_LOG"

fun to_oci :: "seccomp_action \<Rightarrow> linux_seccomp_action" where
  "to_oci Act_Errno = ScmpActErrno"
| "to_oci Act_Enosys = ScmpActErrno"
| "to_oci Act_Kill = ScmpActKillProcess"
| "to_oci Act_Log = ScmpActLog"

fun action_errno :: "seccomp_action \<Rightarrow> u32 option" where
  "action_errno Act_Errno = Some EPERM"
| "action_errno Act_Enosys = Some ENOSYS"
| "action_errno Act_Kill = None"
| "action_errno Act_Log = None"

datatype syscall_order = AsListed | ByNumber | ByFrequency

fun order_as_str :: "syscall_order \<Rightarrow> string" where
  "order_as_str AsListed = ''as-listed''"
| "order_as_str ByNumber = ''by-number''"
| "order_as_str ByFrequency = ''by-frequency''"

record compile_options =
  co_default_action :: seccomp_action
  co_order :: syscall_order

definition default_compile_options :: compile_options where
  "default_compile_options = \<lparr>co_default_action = Act_Errno, co_order = ByFrequency\<rparr>"

record compiled_profile =
  cp_program :: program
  cp_allowed :: "int list"
  cp_unresolved :: "string list"
  cp_default_action :: seccomp_action

subsection \<open>Ordering the comparisons\<close>

definition observed_count :: "target_arch \<Rightarrow> (string, u64) btree_map \<Rightarrow> int \<Rightarrow> u64" where
  "observed_count a counts n =
     (case Option.bind (syscall_name a n) (map_of counts) of None \<Rightarrow> 0 | Some c \<Rightarrow> c)"

definition cmp_frequency :: "target_arch \<Rightarrow> (string, u64) btree_map \<Rightarrow> int \<Rightarrow> int \<Rightarrow> ordering" where
  "cmp_frequency a counts l r =
     then_cmp (cmp (observed_count a counts r) (observed_count a counts l)) (cmp l r)"

definition order_syscalls :: "target_arch \<Rightarrow> int list \<Rightarrow> seccomp_profile \<Rightarrow> syscall_order \<Rightarrow> int list" where
  "order_syscalls a allowed p order =
     (case order of
        AsListed \<Rightarrow> allowed
      | ByNumber \<Rightarrow> allowed
      | ByFrequency \<Rightarrow>
          (case crun_metadata p of
             None \<Rightarrow> allowed
           | Some md \<Rightarrow>
               if md_syscall_counts md = [] then allowed
               else sort_by (cmp_frequency a (md_syscall_counts md)) allowed))"

subsection \<open>Building the program\<close>

definition u32_try_from :: "int \<Rightarrow> u32 option" where
  "u32_try_from n = (if 0 \<le> n \<and> n < 2 ^ 32 then Some (word_of_int n) else None)"

fun allow_each :: "int list \<Rightarrow> filter_builder \<Rightarrow> (seccomp_error, filter_builder) result" where
  "allow_each [] b = Ok b"
| "allow_each (n # ns) b =
     and_then (ok_or (u32_try_from n) (InvalidSyscallNumber n))
       (\<lambda>k. allow_each ns (jeq_then_ret k SECCOMP_RET_ALLOW b))"

definition allowlist_prologue :: "target_arch \<Rightarrow> u32 \<Rightarrow> filter_builder" where
  "allowlist_prologue a deny =
     (let b = load_syscall_nr (jne_then_ret (AUDIT_ARCH_NATIVE a) deny (load_arch new_builder))
      in case a of X86_64 \<Rightarrow> jge_then_ret X32_SYSCALL_BIT deny b | Aarch64 \<Rightarrow> b)"

definition build_allowlist :: "target_arch \<Rightarrow> int list \<Rightarrow> seccomp_action \<Rightarrow> (seccomp_error, program) result" where
  "build_allowlist a allowed action =
     and_then (ensure_supported a) (\<lambda>_.
       let deny = to_bpf_ret action in
       and_then (allow_each allowed (allowlist_prologue a deny)) (\<lambda>b. build (ret deny b)))"

definition compile :: "target_arch \<Rightarrow> seccomp_profile \<Rightarrow> compile_options \<Rightarrow> (seccomp_error, compiled_profile) result" where
  "compile a p opts =
     and_then (ensure_supported a) (\<lambda>_.
     and_then (validate_supported p) (\<lambda>_.
       let names = allowed_names p;
           (resolved, unresolved) = resolve_all a names;
           allowed = order_syscalls a resolved p (co_order opts)
       in and_then (build_allowlist a allowed (co_default_action opts)) (\<lambda>prog.
            Ok \<lparr>cp_program = prog, cp_allowed = allowed, cp_unresolved = unresolved,
                cp_default_action = co_default_action opts\<rparr>)))"

subsection \<open>Shape of the program\<close>

text \<open>Instructions before the comparison chain.\<close>

definition prologue_insns :: "target_arch \<Rightarrow> u32 \<Rightarrow> sock_filter list" where
  "prologue_insns a deny =
     [stmt (BPF_LD OR BPF_W OR BPF_ABS) SECCOMP_DATA_ARCH_OFFSET,
      jump (BPF_JMP OR BPF_JEQ OR BPF_K) (AUDIT_ARCH_NATIVE a) 1 0, stmt (BPF_RET OR BPF_K) deny,
      stmt (BPF_LD OR BPF_W OR BPF_ABS) SECCOMP_DATA_NR_OFFSET] @
     (case a of
        X86_64 \<Rightarrow> [jump (BPF_JMP OR BPF_JGE OR BPF_K) X32_SYSCALL_BIT 0 1, stmt (BPF_RET OR BPF_K) deny]
      | Aarch64 \<Rightarrow> [])"

definition allowlist_insns :: "target_arch \<Rightarrow> u32 list \<Rightarrow> u32 \<Rightarrow> sock_filter list" where
  "allowlist_insns a ks deny =
     prologue_insns a deny @ concat (map (jeq_pair SECCOMP_RET_ALLOW) ks) @ [stmt (BPF_RET OR BPF_K) deny]"

lemma fb_insns_prologue [simp]: "fb_insns (allowlist_prologue a deny) = prologue_insns a deny"
  by (cases a) (simp_all add: allowlist_prologue_def prologue_insns_def builder_defs Let_def)

lemma u32_try_from_Some: "u32_try_from n = Some k \<longleftrightarrow> uint k = n"
  using uint_lt2p [of k] by (auto simp: u32_try_from_def word_of_int_inverse)

lemma u32_try_from_value: "u32_try_from n = Some k \<Longrightarrow> k = word_of_int n"
  by (auto simp: u32_try_from_Some)

lemma allow_each_eq:
  "allow_each ns b =
     (case find (\<lambda>n. u32_try_from n = None) ns of
        Some n \<Rightarrow> Err (InvalidSyscallNumber n)
      | None \<Rightarrow> Ok (fold (\<lambda>k. jeq_then_ret k SECCOMP_RET_ALLOW) (map word_of_int ns) b))"
proof (induction ns arbitrary: b)
  case (Cons n ns)
  then show ?case
    by (cases "u32_try_from n") (auto dest: u32_try_from_value split: option.split)
qed simp

lemma length_allowlist_insns:
  "length (allowlist_insns a ks deny) = (case a of X86_64 \<Rightarrow> 7 | Aarch64 \<Rightarrow> 5) + 2 * length ks"
  by (cases a) (simp_all add: allowlist_insns_def prologue_insns_def)

lemma validate_jumps_allowlist:
  "validate_jumps (length (allowlist_insns a ks deny)) 0 (allowlist_insns a ks deny) = Ok ()"
proof -
  let ?n = "length (allowlist_insns a ks deny)"
  have "validate_jumps ?n i (concat (map (jeq_pair SECCOMP_RET_ALLOW) ks)) = Ok ()"
    if "i + 2 * length ks < ?n" for i
    using that by (intro validate_jumps_pairs) auto
  then show ?thesis
    by (cases a) (simp_all add: allowlist_insns_def prologue_insns_def validate_jumps_append
        length_allowlist_insns validate_jumps.simps(1))
qed

lemma validate_allowlist:
  "validate \<lparr>insns = allowlist_insns a ks deny\<rparr> =
     (if 4096 < length (allowlist_insns a ks deny)
      then Err (ProgramTooLong (length (allowlist_insns a ks deny)) 4096) else Ok ())"
proof -
  have "allowlist_insns a ks deny \<noteq> []"
    by (simp add: allowlist_insns_def)
  moreover have "allowlist_insns a ks deny ! (length (allowlist_insns a ks deny) - 1) =
      stmt (BPF_RET OR BPF_K) deny"
    by (simp add: allowlist_insns_def nth_append)
  moreover have "(ucast (sf_code (stmt (BPF_RET OR BPF_K) deny)) :: u32) AND (BPF_RET OR BPF_K)
      = BPF_RET OR BPF_K"
    by (simp add: stmt_def libc_constants)
  ultimately show ?thesis
    by (simp add: validate_def MAX_BPF_INSNS_def validate_jumps_allowlist)
qed

lemma build_allowlist_eq:
  "build_allowlist a allowed action =
     (case find (\<lambda>n. u32_try_from n = None) allowed of
        Some n \<Rightarrow> Err (InvalidSyscallNumber n)
      | None \<Rightarrow>
          let is = allowlist_insns a (map word_of_int allowed) (to_bpf_ret action)
          in if 4096 < length is then Err (ProgramTooLong (length is) 4096) else Ok \<lparr>insns = is\<rparr>)"
proof -
  have "fb_insns (ret deny (fold (\<lambda>k. jeq_then_ret k SECCOMP_RET_ALLOW) ks (allowlist_prologue a deny)))
      = allowlist_insns a ks deny" for ks deny
    by (simp add: ret_def push_insn_def allowlist_insns_def)
  then show ?thesis
    by (simp add: build_allowlist_def allow_each_eq build_def Let_def validate_allowlist
        split: option.split)
qed

subsection \<open>Meaning of the program\<close>

context seccomp_vm
begin

lemma run_allowlist:
  "exec (allowlist_insns a ks deny) d 0 A =
     Some (if sd_arch d = AUDIT_ARCH_NATIVE a \<and> (a = X86_64 \<longrightarrow> sd_nr d < X32_SYSCALL_BIT) \<and>
              sd_nr d \<in> set ks then SECCOMP_RET_ALLOW else deny)"
proof -
  let ?p = "allowlist_insns a ks deny"
  let ?chain = "concat (map (jeq_pair SECCOMP_RET_ALLOW) ks) @ [stmt (BPF_RET OR BPF_K) deny]"
  have start: "exec ?p d 0 A = exec ?p d 1 (sd_arch d)"
    by (rule trans, rule run_load_arch) (auto simp: allowlist_insns_def prologue_insns_def eval_nat_numeral)
  have arch: "exec ?p d 1 (sd_arch d) =
      (if sd_arch d = AUDIT_ARCH_NATIVE a then exec ?p d 3 (sd_arch d) else Some deny)"
    by (rule trans, rule run_jne_then_ret) (auto simp: allowlist_insns_def prologue_insns_def eval_nat_numeral)
  have nr: "exec ?p d 3 (sd_arch d) = exec ?p d 4 (sd_nr d)"
    by (rule trans, rule run_load_nr) (auto simp: allowlist_insns_def prologue_insns_def eval_nat_numeral)
  have chain: "exec ?p d pc (sd_nr d) = Some (if sd_nr d \<in> set ks then SECCOMP_RET_ALLOW else deny)"
    if "drop pc ?p = ?chain" for pc
    using that by (intro run_chain) simp
  show ?thesis
  proof (cases a)
    case X86_64
    then have "exec ?p d 4 (sd_nr d) =
        (if X32_SYSCALL_BIT \<le> sd_nr d then Some deny else exec ?p d 6 (sd_nr d))"
      by (intro trans [OF run_jge_then_ret]) (auto simp: allowlist_insns_def prologue_insns_def eval_nat_numeral)
    moreover have "exec ?p d 6 (sd_nr d) = Some (if sd_nr d \<in> set ks then SECCOMP_RET_ALLOW else deny)"
      using X86_64 by (intro chain) (simp add: allowlist_insns_def prologue_insns_def eval_nat_numeral)
    ultimately show ?thesis using X86_64 start arch nr by auto
  next
    case Aarch64
    then have "exec ?p d 4 (sd_nr d) = Some (if sd_nr d \<in> set ks then SECCOMP_RET_ALLOW else deny)"
      by (intro chain) (simp add: allowlist_insns_def prologue_insns_def eval_nat_numeral)
    then show ?thesis using Aarch64 start arch nr by auto
  qed
qed

lemma run_build_allowlist:
  assumes "build_allowlist a allowed action = Ok p"
  shows "exec (insns p) d 0 A =
    Some (if sd_arch d = AUDIT_ARCH_NATIVE a \<and> (a = X86_64 \<longrightarrow> sd_nr d < X32_SYSCALL_BIT) \<and>
             uint (sd_nr d) \<in> set allowed then SECCOMP_RET_ALLOW else to_bpf_ret action)"
proof -
  from assms have none: "find (\<lambda>n. u32_try_from n = None) allowed = None"
    and p: "insns p = allowlist_insns a (map word_of_int allowed) (to_bpf_ret action)"
    by (auto simp: build_allowlist_eq Let_def split: option.splits if_splits)
  from none have "\<forall>n \<in> set allowed. \<exists>k. u32_try_from n = Some k"
    by (auto simp: find_None_iff)
  then have "x \<in> word_of_int ` set allowed \<longleftrightarrow> uint x \<in> set allowed" for x :: u32
    by (force simp: u32_try_from_Some)
  then show ?thesis by (simp add: p run_allowlist)
qed

end

subsection \<open>Resolved numbers always fit\<close>

lemma order_syscalls_mset [simp]: "mset (order_syscalls a ns p order) = mset ns"
  by (simp add: order_syscalls_def split: syscall_order.split option.split)

lemma set_order_syscalls [simp]: "set (order_syscalls a ns p order) = set ns"
  by (metis order_syscalls_mset set_mset_mset)

lemma length_order_syscalls [simp]: "length (order_syscalls a ns p order) = length ns"
  by (metis order_syscalls_mset size_mset)

lemma resolved_in_range: "n \<in> set (fst (resolve_all a names)) \<Longrightarrow> 0 \<le> n \<and> n < 463"
  using native.number_range by (fastforce simp: fst_resolve_all)

lemma build_allowlist_resolved:
  "\<exists>p. build_allowlist a (order_syscalls a (fst (resolve_all a names)) q order) action = Ok p"
proof -
  let ?ns = "order_syscalls a (fst (resolve_all a names)) q order"
  have "find (\<lambda>n. u32_try_from n = None) ?ns = None"
    using resolved_in_range [of _ a names] by (force simp: find_None_iff u32_try_from_def)
  moreover have "length ?ns \<le> 463"
    by (simp add: resolve_all_length)
  then have "length (allowlist_insns a (map word_of_int ?ns) deny) \<le> 4096" for deny
    by (cases a) (simp_all add: length_allowlist_insns)
  ultimately show ?thesis
    by (auto simp: build_allowlist_eq Let_def not_less [symmetric])
qed

lemma compile_Ok:
  assumes "validate_supported p = Ok ()"
  shows "\<exists>c. compile a p opts = Ok c \<and>
    build_allowlist a (cp_allowed c) (co_default_action opts) = Ok (cp_program c) \<and>
    cp_allowed c = order_syscalls a (fst (resolve_all a (allowed_names p))) p (co_order opts) \<and>
    cp_unresolved c = snd (resolve_all a (allowed_names p))"
  using assms build_allowlist_resolved [of a "allowed_names p" p "co_order opts" "co_default_action opts"]
  by (auto simp: compile_def Let_def split_beta)

lemma set_cp_allowed:
  assumes "compile a p opts = Ok c"
  shows "set (cp_allowed c) = {n. \<exists>s \<in> set (allowed_names p). syscall_number a s = Some n}"
  using assms by (auto simp: compile_def Let_def split_beta fst_resolve_all)

lemma low_number_not_x32: "uint (k :: u32) < 463 \<Longrightarrow> k < X32_SYSCALL_BIT"
  by (simp add: X32_SYSCALL_BIT_def word_less_def)

lemma cmp_frequency_Greater:
  "cmp_frequency a counts m n = Greater \<longleftrightarrow>
     observed_count a counts m < observed_count a counts n \<or>
     observed_count a counts n = observed_count a counts m \<and> n < m"
  by (auto simp: cmp_frequency_def then_cmp_Greater)

lemma sorted_by_frequency:
  "sorted_wrt (\<lambda>m n. cmp_frequency a counts m n \<noteq> Greater) (sort_by (cmp_frequency a counts) ns)"
  by (rule sorted_sort_by) (auto simp: cmp_frequency_Greater)

subsection \<open>Properties\<close>

text \<open>
  C7: whenever \<^verbatim>\<open>build_allowlist\<close> succeeds, the program it emits decides every system call as
  intended, on any machine with the documented instruction meaning: the call is allowed exactly
  when it comes from the native architecture, is not an x32 call (on x86_64), and its number is in
  the list; every other call gets the default action. In particular the relative jumps land on
  the right instructions however long the chain is, and the order of the list does not matter.
\<close>

theorem build_allowlist_decides:
  assumes "seccomp_vm exec" and "build_allowlist a allowed action = Ok p"
  shows "exec (insns p) d 0 0 =
    Some (if sd_arch d = AUDIT_ARCH_NATIVE a \<and> (a = X86_64 \<longrightarrow> sd_nr d < X32_SYSCALL_BIT) \<and>
             uint (sd_nr d) \<in> set allowed then SECCOMP_RET_ALLOW else to_bpf_ret action)"
  using assms by (rule seccomp_vm.run_build_allowlist)

theorem build_allowlist_decides_witness:
  "\<exists>p. build_allowlist X86_64 [60, 0] Act_Kill = Ok p \<and>
     bpf_exec (insns p) \<lparr>sd_nr = 60, sd_arch = 0xC000003E\<rparr> 0 0 = Some SECCOMP_RET_ALLOW \<and>
     bpf_exec (insns p) \<lparr>sd_nr = 0x4000003C, sd_arch = 0xC000003E\<rparr> 0 0 = Some SECCOMP_RET_KILL_PROCESS \<and>
     bpf_exec (insns p) \<lparr>sd_nr = 60, sd_arch = 0x40000003\<rparr> 0 0 = Some SECCOMP_RET_KILL_PROCESS"
proof -
  obtain p where p: "build_allowlist X86_64 [60, 0] Act_Kill = Ok p"
    by (auto simp: build_allowlist_eq u32_try_from_def length_allowlist_insns Let_def)
  show ?thesis
    by (rule exI [of _ p])
      (simp add: p build_allowlist_decides [OF kernel.seccomp_vm_axioms p] X32_SYSCALL_BIT_def)
qed

text \<open>
  The only ways \<^verbatim>\<open>build_allowlist\<close> can fail are a number that does not fit 32 bits (the first
  such number is reported) and, otherwise, a program of more than 4096 instructions, whose length
  is seven (x86_64) or five (aarch64) plus two per allowed call. Validation never rejects a built
  program for its jumps or its last instruction.
\<close>

lemma build_allowlist_errors:
  "build_allowlist a allowed action =
     (case find (\<lambda>n. n < 0 \<or> 2 ^ 32 \<le> n) allowed of
        Some n \<Rightarrow> Err (InvalidSyscallNumber n)
      | None \<Rightarrow>
          let len = (case a of X86_64 \<Rightarrow> 7 | Aarch64 \<Rightarrow> 5) + 2 * length allowed
          in if 4096 < len then Err (ProgramTooLong len 4096)
             else Ok \<lparr>insns = allowlist_insns a (map word_of_int allowed) (to_bpf_ret action)\<rparr>)"
proof -
  have "(\<lambda>n. u32_try_from n = None) = (\<lambda>n. n < 0 \<or> 2 ^ 32 \<le> n)"
    by (auto simp: u32_try_from_def)
  then show ?thesis by (simp add: build_allowlist_eq length_allowlist_insns Let_def split: option.split)
qed

text \<open>What a compiled profile decides.\<close>

lemma compiled_decides:
  assumes "seccomp_vm exec" "compile a p opts = Ok c"
  shows "exec (insns (cp_program c)) d 0 0 =
    Some (if sd_arch d = AUDIT_ARCH_NATIVE a \<and> (\<exists>s \<in> set (allowed_names p). syscall_number a s = Some (uint (sd_nr d)))
          then SECCOMP_RET_ALLOW else to_bpf_ret (co_default_action opts))"
proof -
  have prog: "build_allowlist a (cp_allowed c) (co_default_action opts) = Ok (cp_program c)"
    using assms(2) by (auto simp: compile_def Let_def split: prod.splits)
  have "syscall_number a s = Some (uint k) \<Longrightarrow> k < X32_SYSCALL_BIT" for s and k :: u32
    using native.number_range low_number_not_x32 by blast
  then show ?thesis
    using seccomp_vm.run_build_allowlist [OF assms(1) prog, of _ 0] set_cp_allowed [OF assms(2)] by auto
qed

text \<open>
  C13: compiling a profile succeeds exactly when none of its rules has argument conditions, on both architectures and with
  every option, and is otherwise refused with the names of such a rule. The compiled filter enforces exactly what the rules
  of the profile say: a native call is allowed if and only if some rule whose action is to allow names it, whatever rules
  with other actions say of it, and everything else, foreign architectures and x32 calls included, gets the default action.
\<close>

theorem compile_enforces_profile:
  assumes "seccomp_vm exec"
  shows "case compile a p opts of
      Err e \<Rightarrow> \<exists>r. has_rule p r \<and> conditional_rule r \<and> e = UnsupportedConditionalRule (join '','' (rule_names r))
    | Ok c \<Rightarrow> \<not> (\<exists>r. has_rule p r \<and> conditional_rule r) \<and>
        (\<forall>d. exec (insns (cp_program c)) d 0 0 =
          Some (if sd_arch d = AUDIT_ARCH_NATIVE a \<and>
                   (\<exists>s. allows_call p s \<and> syscall_number a s = Some (uint (sd_nr d)))
                then SECCOMP_RET_ALLOW else to_bpf_ret (co_default_action opts)))"
proof (cases "validate_supported p")
  case (Ok u)
  then have "validate_supported p = Ok ()" by simp
  then obtain c where "compile a p opts = Ok c" "\<not> (\<exists>r. has_rule p r \<and> conditional_rule r)"
    using compile_Ok [of p a opts] by (auto simp: validate_supported_Ok)
  then show ?thesis
    using compiled_decides [OF assms] by (simp add: in_allowed_names Bex_def)
next
  case (Err e)
  then show ?thesis
    using validate_supported_Err by (cases a) (simp_all add: compile_def)
qed

definition example_profile :: seccomp_profile where
  "example_profile =
     \<lparr>seccomp = \<lparr>sc_default_action = ScmpActErrno, sc_default_errno_ret = Some EPERM,
        sc_architectures = Some [ScmpArchX86_64],
        sc_syscalls = Some
          [\<lparr>rule_names = [''write'', ''read''], rule_action = ScmpActAllow, rule_errno_ret = None, rule_args = None\<rparr>,
           \<lparr>rule_names = [''ptrace''], rule_action = ScmpActErrno, rule_errno_ret = None, rule_args = Some []\<rparr>]\<rparr>,
      crun_metadata = None\<rparr>"

lemma example_profile_simps:
  "validate_supported example_profile = Ok ()" "set (allowed_names example_profile) = {''read'', ''write''}"
  by (auto simp: example_profile_def validate_supported_def allowed_names_def)

lemma syscall_number_read_write:
  "syscall_number X86_64 ''read'' = Some 0" "syscall_number X86_64 ''write'' = Some 1"
  by (simp_all add: syscall_number_Some x86_64_table_defs)

definition conditional_profile :: seccomp_profile where
  "conditional_profile = example_profile\<lparr>seccomp := (seccomp example_profile)\<lparr>sc_syscalls := Some
     [\<lparr>rule_names = [''personality'', ''clone''], rule_action = ScmpActAllow, rule_errno_ret = None,
       rule_args = Some [\<lparr>arg_index = 0, arg_value = 8, arg_value_two = None, arg_op = ''SCMP_CMP_EQ''\<rparr>]\<rparr>]\<rparr>\<rparr>"

theorem compile_enforces_profile_witness:
  "(\<exists>c. compile X86_64 example_profile default_compile_options = Ok c \<and>
     bpf_exec (insns (cp_program c)) \<lparr>sd_nr = 0, sd_arch = 0xC000003E\<rparr> 0 0 = Some SECCOMP_RET_ALLOW \<and>
     bpf_exec (insns (cp_program c)) \<lparr>sd_nr = 101, sd_arch = 0xC000003E\<rparr> 0 0
       = Some (SECCOMP_RET_ERRNO OR EPERM)) \<and>
   compile Aarch64 conditional_profile default_compile_options
     = Err (UnsupportedConditionalRule ''personality,clone'')"
proof
  have allows: "allows_call example_profile s \<longleftrightarrow> s \<in> {''read'', ''write''}" for s
    using example_profile_simps(2) by (simp add: in_allowed_names [symmetric])
  obtain c where c: "compile X86_64 example_profile default_compile_options = Ok c"
    using compile_Ok [OF example_profile_simps(1)] by blast
  show "\<exists>c. compile X86_64 example_profile default_compile_options = Ok c \<and>
     bpf_exec (insns (cp_program c)) \<lparr>sd_nr = 0, sd_arch = 0xC000003E\<rparr> 0 0 = Some SECCOMP_RET_ALLOW \<and>
     bpf_exec (insns (cp_program c)) \<lparr>sd_nr = 101, sd_arch = 0xC000003E\<rparr> 0 0 = Some (SECCOMP_RET_ERRNO OR EPERM)"
    using compile_enforces_profile
      [OF kernel.seccomp_vm_axioms, where a = X86_64 and p = example_profile and opts = default_compile_options] c
    by (auto simp: allows syscall_number_read_write default_compile_options_def)
  have "has_rule conditional_profile r \<longleftrightarrow> r = \<lparr>rule_names = [''personality'', ''clone''], rule_action = ScmpActAllow,
      rule_errno_ret = None, rule_args = Some [\<lparr>arg_index = 0, arg_value = 8, arg_value_two = None, arg_op = ''SCMP_CMP_EQ''\<rparr>]\<rparr>" for r
    by (simp add: has_rule_def conditional_profile_def)
  then show "compile Aarch64 conditional_profile default_compile_options = Err (UnsupportedConditionalRule ''personality,clone'')"
    using compile_enforces_profile
      [OF kernel.seccomp_vm_axioms, where a = Aarch64 and p = conditional_profile and opts = default_compile_options]
    by (simp add: conditional_rule_def split: result.splits)
qed

text \<open>
  With \<^verbatim>\<open>by-frequency\<close> order and recorded counts, the comparison chain is a rearrangement of the
  resolved numbers in which a more frequent call is never compared after a less frequent one, and
  calls seen equally often are compared in ascending numeric order.
\<close>

lemma compile_orders_by_frequency:
  assumes "compile a p \<lparr>co_default_action = action, co_order = ByFrequency\<rparr> = Ok c"
    and "crun_metadata p = Some md" and "md_syscall_counts md \<noteq> []"
  shows "mset (cp_allowed c) = mset (fst (resolve_all a (allowed_names p))) \<and>
    sorted_wrt (\<lambda>m n. observed_count a (md_syscall_counts md) n \<le> observed_count a (md_syscall_counts md) m \<and>
        (observed_count a (md_syscall_counts md) n = observed_count a (md_syscall_counts md) m \<longrightarrow> m \<le> n))
      (cp_allowed c)"
proof
  let ?C = "md_syscall_counts md"
  have c: "cp_allowed c = sort_by (cmp_frequency a ?C) (fst (resolve_all a (allowed_names p)))"
    using assms by (auto simp: compile_def order_syscalls_def Let_def split_beta)
  then show "mset (cp_allowed c) = mset (fst (resolve_all a (allowed_names p)))" by simp
  show "sorted_wrt (\<lambda>m n. observed_count a ?C n \<le> observed_count a ?C m \<and>
      (observed_count a ?C n = observed_count a ?C m \<longrightarrow> m \<le> n)) (cp_allowed c)"
    unfolding c using sorted_by_frequency [of a ?C]
    by (rule sorted_wrt_mono_rel [rotated]) (auto simp: cmp_frequency_Greater not_less)
qed

definition counted_profile :: seccomp_profile where
  "counted_profile = example_profile\<lparr>crun_metadata := Some
     \<lparr>md_schema_version = 1, md_generator = ''crun-rs'', md_runtime_version = ''0.1.0'',
      md_workload = None, md_arch = ''x86_64'', md_audit_arch = 0xC000003E,
      md_generated_at_unix = 0, md_observed_syscall_count = 2, md_baseline_syscall_count = 0,
      md_total_syscall_count = 2, md_capture_duration_ms = 5, md_total_events = 9,
      md_source_runs = [], md_unresolved = [], md_foreign_arch = [],
      md_syscall_counts = [(''read'', 2), (''write'', 7)]\<rparr>\<rparr>"

lemma syscall_name_0_1: "syscall_name X86_64 0 = Some ''read''" "syscall_name X86_64 1 = Some ''write''"
  by (simp_all add: native.inverse [symmetric] syscall_number_read_write)

lemma compile_orders_by_frequency_example:
  "\<exists>c. compile X86_64 counted_profile \<lparr>co_default_action = Act_Errno, co_order = ByFrequency\<rparr> = Ok c \<and>
     mset (cp_allowed c) = {#0, 1#} \<and> cp_allowed c \<noteq> [0, 1]"
proof -
  have names: "allowed_names counted_profile = [''read'', ''write'']"
    by (rule ascending_unique)
      (auto simp: counted_profile_def example_profile_def allowed_names_def ascending_sort_dedup)
  have ok: "validate_supported counted_profile = Ok ()"
    using example_profile_simps(1) by (simp add: counted_profile_def validate_supported_def)
  then obtain c where c: "compile X86_64 counted_profile
      \<lparr>co_default_action = Act_Errno, co_order = ByFrequency\<rparr> = Ok c"
    using compile_Ok by blast
  have res: "fst (resolve_all X86_64 [''read'', ''write'']) = [0, 1]"
    by (rule ascending_unique)
      (auto simp: resolve_all_ascending fst_resolve_all syscall_number_read_write)
  obtain md where md: "crun_metadata counted_profile = Some md"
    "md_syscall_counts md = [(''read'', 2), (''write'', 7)]"
    by (simp add: counted_profile_def)
  show ?thesis
    using compile_orders_by_frequency [OF c md(1)] c
    by (auto simp: md(2) names res observed_count_def syscall_name_0_1)
qed

end
