(* ===== verification/Generate.thy ===== *)
theory Generate
  imports Capture Compile
begin

text \<open>
  \<^verbatim>\<open>src/seccomp/generate.rs\<close>: from capture files to a profile. The clock reading
  (\<^verbatim>\<open>unix_timestamp\<close>) is an argument. The lemmas characterise the allowed names; the root theory
  composes them with the compiler.
\<close>

record generate_options =
  go_workload :: "string option"
  go_action :: seccomp_action
  go_include_compat :: bool
  go_merge_into :: "seccomp_profile option"

definition default_generate_options :: generate_options where
  "default_generate_options =
     \<lparr>go_workload = None, go_action = Act_Errno, go_include_compat = False, go_merge_into = None\<rparr>"

definition source_run_of :: "capture_file \<Rightarrow> source_run" where
  "source_run_of c =
     \<lparr>run_container_id = cf_id c, run_command = cf_command c, run_started_at_unix = cf_started_at_unix c,
      run_duration_ms = cf_duration_ms c, run_events = cf_total_events c,
      run_unique_syscalls = length (cf_syscalls c)\<rparr>"

text \<open>\<^verbatim>\<open>counts.entry(name).or_insert(0)\<close> for every name.\<close>

definition or_insert_zero :: "string \<Rightarrow> (string, u64) btree_map \<Rightarrow> (string, u64) btree_map" where
  "or_insert_zero s m = (case map_of m s of None \<Rightarrow> bt_insert s 0 m | Some _ \<Rightarrow> m)"

text \<open>The counts, runs and totals the existing profile contributes.\<close>

record generate_acc =
  ga_counts :: "(string, u64) btree_map"
  ga_source_runs :: "source_run list"
  ga_total_events :: u64
  ga_duration_ms :: u64

definition merge_metadata :: "crun_metadata \<Rightarrow> generate_acc \<Rightarrow> generate_acc" where
  "merge_metadata md acc =
     acc\<lparr>ga_counts := fold (\<lambda>(s, n). bt_add s n) (md_syscall_counts md) (ga_counts acc),
         ga_source_runs := ga_source_runs acc @ md_source_runs md,
         ga_total_events := ga_total_events acc + md_total_events md,
         ga_duration_ms := ga_duration_ms acc + md_capture_duration_ms md\<rparr>"

definition merge_existing :: "seccomp_profile option \<Rightarrow> generate_acc \<Rightarrow> generate_acc" where
  "merge_existing existing acc =
     (case existing of
        None \<Rightarrow> acc
      | Some p \<Rightarrow>
          let acc = (case crun_metadata p of None \<Rightarrow> acc | Some md \<Rightarrow> merge_metadata md acc)
          in acc\<lparr>ga_counts := fold or_insert_zero (allowed_names p) (ga_counts acc)\<rparr>)"

text \<open>The loops over the fixed sets: insert what the architecture defines, count what was new.\<close>

definition add_known :: "target_arch \<Rightarrow> string \<Rightarrow> string btree_set \<times> nat \<Rightarrow> string btree_set \<times> nat" where
  "add_known a s = (\<lambda>(allowed, added).
     if syscall_number a s \<noteq> None \<and> \<not> bts_contains allowed s then (bts_insert s allowed, added + 1)
     else (allowed, added))"

definition generate_metadata ::
    "target_arch \<Rightarrow> u64 \<Rightarrow> generate_options \<Rightarrow> merged_capture \<Rightarrow> generate_acc \<Rightarrow> string btree_set \<Rightarrow>
     string btree_set \<Rightarrow> nat \<Rightarrow> crun_metadata" where
  "generate_metadata a now opts merged acc observed allowed baseline_added =
     \<lparr>md_schema_version = METADATA_SCHEMA_VERSION, md_generator = ''crun-rs'',
      md_runtime_version = CARGO_PKG_VERSION, md_workload = go_workload opts,
      md_arch = NATIVE_ARCH_NAME a, md_audit_arch = mc_audit_arch merged,
      md_generated_at_unix = now, md_observed_syscall_count = length observed,
      md_baseline_syscall_count = baseline_added, md_total_syscall_count = length allowed,
      md_capture_duration_ms = ga_duration_ms acc, md_total_events = ga_total_events acc,
      md_source_runs = ga_source_runs acc,
      md_unresolved = snd (resolve_all a (bt_keys (ga_counts acc))),
      md_foreign_arch = mc_foreign_arch merged, md_syscall_counts = ga_counts acc\<rparr>"

definition generate ::
    "target_arch \<Rightarrow> u64 \<Rightarrow> capture_file list \<Rightarrow> generate_options \<Rightarrow> (seccomp_error, seccomp_profile) result" where
  "generate a now captures opts =
     and_then (merge captures) (\<lambda>merged.
       if mc_audit_arch merged \<noteq> AUDIT_ARCH_NATIVE a
         then Err (ArchMismatch (AUDIT_ARCH_NATIVE a) (mc_audit_arch merged))
       else
         let acc = merge_existing (go_merge_into opts)
               \<lparr>ga_counts = mc_syscalls merged, ga_source_runs = map source_run_of (mc_sources merged),
                ga_total_events = mc_total_events merged, ga_duration_ms = mc_total_duration_ms merged\<rparr>;
             observed = filter (\<lambda>s. syscall_number a s \<noteq> None) (bt_keys (ga_counts acc));
             (allowed, baseline_added) = fold (add_known a) mandatory_baseline (observed, 0);
             (allowed, baseline_added) =
               (if go_include_compat opts then fold (add_known a) glibc_compat_set (allowed, baseline_added)
                else (allowed, baseline_added))
         in build_profile a allowed (to_oci (go_action opts)) (action_errno (go_action opts))
              (Some (generate_metadata a now opts merged acc observed allowed baseline_added)))"

subsection \<open>What the loops leave\<close>

lemma fold_add_known:
  assumes "ascending allowed"
  shows "fold (add_known a) ss (allowed, n) = (allowed', n') \<Longrightarrow>
    ascending allowed' \<and> set allowed' = set allowed \<union> {s \<in> set ss. syscall_number a s \<noteq> None} \<and>
    n' + length allowed = n + length allowed'"
  using assms
proof (induction ss arbitrary: allowed n)
  case (Cons s ss)
  show ?case
  proof (cases "syscall_number a s \<noteq> None \<and> s \<notin> set allowed")
    case True
    have "card (set (bts_insert s allowed)) = length (bts_insert s allowed)"
      using Cons.prems(2) by (intro bts.card_elements bts.invar_insert)
    moreover have "card (set (bts_insert s allowed)) = Suc (length allowed)"
      using True Cons.prems(2) by (simp add: btree_simps distinct_card ascending_distinct)
    ultimately have len: "length (bts_insert s allowed) = Suc (length allowed)" by simp
    show ?thesis
      using True Cons.IH [of "bts_insert s allowed" "n + 1"] Cons.prems
      by (auto simp: add_known_def btree_simps len)
  next
    case False
    then show ?thesis using Cons.IH [of allowed n] Cons.prems by (auto simp: add_known_def btree_simps)
  qed
qed auto

lemma fold_or_insert_zero:
  assumes "bt_invar m"
  shows "bt_invar (fold or_insert_zero ss m)"
    and "dom (map_of (fold or_insert_zero ss m)) = dom (map_of m) \<union> set ss"
    and "count_of (fold or_insert_zero ss m) k = count_of m k"
proof -
  have step: "bt_invar (or_insert_zero s m)" "dom (map_of (or_insert_zero s m)) = insert s (dom (map_of m))"
    "count_of (or_insert_zero s m) k = count_of m k" if "bt_invar m" for s m
    using that by (auto simp: or_insert_zero_def btree_simps count_of_def split: option.split)
  show "bt_invar (fold or_insert_zero ss m)"
    "dom (map_of (fold or_insert_zero ss m)) = dom (map_of m) \<union> set ss"
    "count_of (fold or_insert_zero ss m) k = count_of m k"
    using assms by (induction ss arbitrary: m) (auto simp: step)
qed

text \<open>Everything an existing profile contributes to the counts.\<close>

definition profile_wf :: "seccomp_profile \<Rightarrow> bool" where
  "profile_wf p \<longleftrightarrow> (\<forall>md. crun_metadata p = Some md \<longrightarrow> bt_invar (md_syscall_counts md))"

definition recorded_counts :: "seccomp_profile \<Rightarrow> (string, u64) btree_map" where
  "recorded_counts p = (case crun_metadata p of None \<Rightarrow> [] | Some md \<Rightarrow> md_syscall_counts md)"

definition known_to :: "seccomp_profile \<Rightarrow> string set" where
  "known_to p = dom (map_of (recorded_counts p)) \<union> set (allowed_names p)"

lemma merge_existing_counts:
  assumes "bt_invar (ga_counts acc)" "\<And>p. existing = Some p \<Longrightarrow> profile_wf p"
  shows "bt_invar (ga_counts (merge_existing existing acc))"
    and "dom (map_of (ga_counts (merge_existing existing acc))) =
      dom (map_of (ga_counts acc)) \<union> (case existing of None \<Rightarrow> {} | Some p \<Rightarrow> known_to p)"
    and "count_of (ga_counts (merge_existing existing acc)) s = count_of (ga_counts acc) s +
      (case existing of None \<Rightarrow> 0 | Some p \<Rightarrow> count_of (recorded_counts p) s)"
proof -
  have "fold (\<lambda>(s, n). bt_add s n) [] m = m" for m :: "(string, u64) btree_map" by simp
  note loop = fold_or_insert_zero [OF fold_bt_add_invar [OF assms(1)]]
    fold_or_insert_zero [OF assms(1)] fold_bt_add_dom [OF assms(1)]
    count_fold_bt_add [OF assms(1) bt_invar_distinct]
  show "bt_invar (ga_counts (merge_existing existing acc))"
    using assms(1) by (auto simp: merge_existing_def merge_metadata_def Let_def loop split: option.split)
  show "dom (map_of (ga_counts (merge_existing existing acc))) =
      dom (map_of (ga_counts acc)) \<union> (case existing of None \<Rightarrow> {} | Some p \<Rightarrow> known_to p)"
    using assms(1)
    by (auto simp: merge_existing_def merge_metadata_def Let_def loop known_to_def recorded_counts_def
        dom_map_of_conv_image_fst [symmetric] split: option.split)
  show "count_of (ga_counts (merge_existing existing acc)) s = count_of (ga_counts acc) s +
      (case existing of None \<Rightarrow> 0 | Some p \<Rightarrow> count_of (recorded_counts p) s)"
    using assms
    by (auto simp: merge_existing_def merge_metadata_def Let_def loop recorded_counts_def profile_wf_def
        count_of_def [of "[]"] split: option.split)
qed

subsection \<open>What is generated\<close>

text \<open>The fixed names every profile gets, and the compatibility names on request.\<close>

definition fixed_names :: "generate_options \<Rightarrow> string set" where
  "fixed_names opts =
     set mandatory_baseline \<union> (if go_include_compat opts then set glibc_compat_set else {})"

definition existing_names :: "generate_options \<Rightarrow> string set" where
  "existing_names opts = (case go_merge_into opts of None \<Rightarrow> {} | Some p \<Rightarrow> known_to p)"

definition options_wf :: "generate_options \<Rightarrow> bool" where
  "options_wf opts \<longleftrightarrow> (case go_merge_into opts of None \<Rightarrow> True | Some p \<Rightarrow> profile_wf p)"

lemma fixed_loops:
  assumes "ascending observed" "fold (add_known a) mandatory_baseline (observed, 0) = (allowed1, n1)"
    "(if go_include_compat opts then fold (add_known a) glibc_compat_set (allowed1, n1) else (allowed1, n1))
      = (allowed, n)"
  shows "ascending allowed"
    and "set allowed = set observed \<union> {s \<in> fixed_names opts. syscall_number a s \<noteq> None}"
    and "n + length observed = length allowed"
  using fold_add_known [OF assms(1,2)] fold_add_known [of allowed1 a glibc_compat_set n1 allowed n] assms(3)
  by (auto simp: fixed_names_def split: if_splits)

lemma generate_Ok:
  assumes merged: "merge files = Ok m" "mc_audit_arch m = AUDIT_ARCH_NATIVE a" "bt_invar (mc_syscalls m)"
    and "options_wf opts"
    and seen: "seen = dom (map_of (mc_syscalls m)) \<union> existing_names opts"
  shows "\<exists>p md. generate a now files opts = Ok p \<and> crun_metadata p = Some md \<and>
    validate_supported p = Ok () \<and> default_action p = to_oci (go_action opts) \<and>
    set (allowed_names p) = {s \<in> seen \<union> fixed_names opts. syscall_number a s \<noteq> None} \<and>
    md_observed_syscall_count md = card {s \<in> seen. syscall_number a s \<noteq> None} \<and>
    md_total_syscall_count md = length (allowed_names p) \<and>
    md_observed_syscall_count md + md_baseline_syscall_count md = md_total_syscall_count md \<and>
    set (md_unresolved md) = {s \<in> seen. syscall_number a s = None} \<and>
    bt_invar (md_syscall_counts md) \<and>
    (\<forall>s. count_of (md_syscall_counts md) s = count_of (mc_syscalls m) s +
      (case go_merge_into opts of None \<Rightarrow> 0 | Some p \<Rightarrow> count_of (recorded_counts p) s))"
proof -
  define acc where "acc = merge_existing (go_merge_into opts)
     \<lparr>ga_counts = mc_syscalls m, ga_source_runs = map source_run_of (mc_sources m),
      ga_total_events = mc_total_events m, ga_duration_ms = mc_total_duration_ms m\<rparr>"
  have inv: "bt_invar (ga_counts acc)" and dom: "set (bt_keys (ga_counts acc)) = seen"
    and cnt: "\<And>s. count_of (ga_counts acc) s = count_of (mc_syscalls m) s +
      (case go_merge_into opts of None \<Rightarrow> 0 | Some p \<Rightarrow> count_of (recorded_counts p) s)"
    unfolding acc_def seen existing_names_def set_bt_keys using merged(3) \<open>options_wf opts\<close>
    by (subst merge_existing_counts; auto simp: options_wf_def)+
  define observed where "observed = filter (\<lambda>s. syscall_number a s \<noteq> None) (bt_keys (ga_counts acc))"
  have asc: "ascending observed" and obs: "set observed = {s \<in> seen. syscall_number a s \<noteq> None}"
    using ascending_bt_keys [OF inv] dom
    by (auto simp: observed_def ascending_sorted_wrt sorted_wrt_filter)
  have len: "length observed = card {s \<in> seen. syscall_number a s \<noteq> None}"
    using bts.card_elements [OF asc] by (simp add: obs)
  obtain allowed1 n1 where step1: "fold (add_known a) mandatory_baseline (observed, 0) = (allowed1, n1)"
    by force
  obtain allowed n where step2:
    "(if go_include_compat opts then fold (add_known a) glibc_compat_set (allowed1, n1) else (allowed1, n1))
      = (allowed, n)" by force
  note loops = fixed_loops [OF asc step1 step2]
  have unres: "set (snd (resolve_all a (bt_keys (ga_counts acc)))) = {s \<in> seen. syscall_number a s = None}"
    by (auto simp: snd_resolve_all dom)
  define md where "md = generate_metadata a now opts m acc observed allowed n"
  have "generate a now files opts =
      build_profile a allowed (to_oci (go_action opts)) (action_errno (go_action opts)) (Some md)"
    by (simp only: generate_def merged and_then.simps Let_def acc_def [symmetric] observed_def [symmetric]
        step1 step2 md_def prod.case simp_thms if_False)
  then obtain p where p: "generate a now files opts = Ok p" "validate_supported p = Ok ()"
      "allowed_names p = allowed" "default_action p = to_oci (go_action opts)" "crun_metadata p = Some md"
    using build_profile_Ok loops(1) by metis
  have "set (allowed_names p) = {s \<in> seen \<union> fixed_names opts. syscall_number a s \<noteq> None}"
    by (auto simp: p loops(2) obs)
  then show ?thesis
    using p len loops(3) unres inv cnt
    by (intro exI [of _ p] exI [of _ md]) (simp add: md_def generate_metadata_def)
qed

lemma merge_wf:
  assumes "\<forall>c \<in> set files. capture_file_wf c" "merge files = Ok m"
  shows "bt_invar (mc_syscalls m)"
    and "dom (map_of (mc_syscalls m)) = (\<Union>c\<in>set files. dom (map_of (cf_syscalls c)))"
    and "count_of (mc_syscalls m) s = (\<Sum>c\<leftarrow>files. count_of (cf_syscalls c) s)"
    and "mc_audit_arch m = cf_audit_arch (hd files)"
proof -
  let ?m0 = "\<lparr>mc_audit_arch = cf_audit_arch (hd files), mc_syscalls = [], mc_first_seen_ms = [],
        mc_foreign_arch = [], mc_total_events = 0, mc_total_duration_ms = 0, mc_sources = []\<rparr>"
  have m: "m = fold merge_one files ?m0" using assms(2) unfolding merge_Ok by blast
  have wf: "merged_wf ?m0" by (simp add: merged_wf_def btree_simps)
  note l = fold_merge_one [OF wf assms(1)] fold_merge_one_totals
  show "bt_invar (mc_syscalls m)" using l(5) by (simp add: m merged_wf_def)
  show "dom (map_of (mc_syscalls m)) = (\<Union>c\<in>set files. dom (map_of (cf_syscalls c)))"
    by (simp add: m l(4))
  show "count_of (mc_syscalls m) s = (\<Sum>c\<leftarrow>files. count_of (cf_syscalls c) s)"
    unfolding m l(1) by (simp add: count_of_def)
  show "mc_audit_arch m = cf_audit_arch (hd files)" unfolding m l(9) by simp
qed

lemma generate_native:
  assumes "files \<noteq> []" "\<forall>c \<in> set files. capture_file_wf c \<and> cf_audit_arch c = AUDIT_ARCH_NATIVE a"
  obtains m where "merge files = Ok m" "mc_audit_arch m = AUDIT_ARCH_NATIVE a" "bt_invar (mc_syscalls m)"
proof -
  have "\<forall>c \<in> set files. cf_audit_arch c = cf_audit_arch (hd files)" "cf_audit_arch (hd files) = AUDIT_ARCH_NATIVE a"
    using assms by auto
  then obtain m where m: "merge files = Ok m"
    using assms(1) unfolding merge_Ok by blast
  show ?thesis
    using m merge_wf [OF _ m] assms by (intro that [of m]) auto
qed

lemma syscall_number_exit_group: "syscall_number X86_64 ''exit_group'' = Some 231"
  by (simp add: syscall_number_Some x86_64_table_defs)

subsection \<open>Properties\<close>

text \<open>
  From captures of the native architecture generation always succeeds, and the profile allows
  exactly the names the architecture defines among those seen in a capture, those the profile
  being grown already knows, and the fixed names; the metadata counts agree with the sets, the
  names the architecture does not define are reported, and the recorded call counts add up.
\<close>

lemma generate_allows_exactly:
  assumes "files \<noteq> []" "\<forall>c \<in> set files. capture_file_wf c \<and> cf_audit_arch c = AUDIT_ARCH_NATIVE a"
    and "options_wf opts"
  shows "\<exists>p md. generate a now files opts = Ok p \<and> crun_metadata p = Some md \<and>
    (let seen = (\<Union>c\<in>set files. dom (map_of (cf_syscalls c))) \<union> existing_names opts in
      set (allowed_names p) = {s \<in> seen \<union> fixed_names opts. syscall_number a s \<noteq> None} \<and>
      set (md_unresolved md) = {s \<in> seen. syscall_number a s = None} \<and>
      md_observed_syscall_count md = card {s \<in> seen. syscall_number a s \<noteq> None} \<and>
      md_observed_syscall_count md + md_baseline_syscall_count md = md_total_syscall_count md \<and>
      md_total_syscall_count md = length (allowed_names p) \<and>
      (\<forall>s. count_of (md_syscall_counts md) s = (\<Sum>c\<leftarrow>files. count_of (cf_syscalls c) s) +
        (case go_merge_into opts of None \<Rightarrow> 0 | Some q \<Rightarrow> count_of (recorded_counts q) s)))"
proof -
  have wf: "\<forall>c \<in> set files. capture_file_wf c" using assms(2) by blast
  obtain m where m: "merge files = Ok m" "mc_audit_arch m = AUDIT_ARCH_NATIVE a" "bt_invar (mc_syscalls m)"
    using generate_native [OF assms(1,2)] by blast
  show ?thesis
    using generate_Ok [OF m assms(3) refl, of now]
    unfolding merge_wf(2,3) [OF wf m(1)] Let_def by metis
qed

lemma generate_allows_exactly_example:
  "\<exists>p. generate X86_64 0 [sample_file ''read'' 2 7, sample_file ''unknown_999'' 1 9] default_generate_options = Ok p \<and>
     ''read'' \<in> set (allowed_names p) \<and> ''exit_group'' \<in> set (allowed_names p) \<and>
     ''write'' \<notin> set (allowed_names p)"
proof -
  let ?fs = "[sample_file ''read'' 2 7, sample_file ''unknown_999'' 1 9]"
  have "?fs \<noteq> []" "\<forall>c \<in> set ?fs. capture_file_wf c \<and> cf_audit_arch c = AUDIT_ARCH_NATIVE X86_64"
    by (simp_all add: sample_file_def capture_file_wf_def from_capture_def default_capture_def bt_invar_def)
  moreover have "options_wf default_generate_options"
    by (simp add: options_wf_def default_generate_options_def)
  note generate_allows_exactly [OF calculation this, of 0]
  then
  obtain p where p: "generate X86_64 0 ?fs default_generate_options = Ok p"
    and names: "set (allowed_names p) = {s \<in> (\<Union>c\<in>set ?fs. dom (map_of (cf_syscalls c))) \<union>
      existing_names default_generate_options \<union> fixed_names default_generate_options.
      syscall_number X86_64 s \<noteq> None}"
    unfolding Let_def by metis
  have "dom (map_of (cf_syscalls (sample_file s m n))) = {s}" for s m n
    by (simp add: sample_file_def)
  then show ?thesis
    using p by (intro exI [of _ p]) (simp add: names default_generate_options_def existing_names_def fixed_names_def
        mandatory_baseline_def syscall_number_read_write syscall_number_exit_group)
qed

text \<open>
  Generation fails exactly when merging fails, with merging's error, or when the captures are
  for another architecture than the one the runtime is built for.
\<close>

lemma generate_errors:
  "generate a now files opts = Err e \<longleftrightarrow> merge files = Err e \<or>
     (\<exists>m. merge files = Ok m \<and> mc_audit_arch m \<noteq> AUDIT_ARCH_NATIVE a \<and>
        e = ArchMismatch (AUDIT_ARCH_NATIVE a) (mc_audit_arch m))"
proof -
  have "build_profile a names act er md \<noteq> Err e" for names act er md
    using build_profile_Ok [of a names act er md] by auto
  then show ?thesis
    by (auto simp: generate_def and_then_Err Let_def split: prod.splits)
qed

end
