(* ===== verification/Security.thy ===== *)
theory Security
  imports Generate
begin

text \<open>
  \<^verbatim>\<open>src/security/mod.rs\<close> and the plans and options of \<^verbatim>\<open>src/seccomp/mod.rs\<close>: the fixed denylist, the
  learning filter, and the sequence of system calls that confines the container's process before
  \<^verbatim>\<open>execvp\<close>. Loading a profile file is an argument of \<open>prepare\<close>.
\<close>

subsection \<open>Modes, plans and options (seccomp/mod.rs)\<close>

datatype seccomp_mode = Off | Learn | Enforce

fun mode_as_str :: "seccomp_mode \<Rightarrow> string" where
  "mode_as_str Off = ''off''"
| "mode_as_str Learn = ''learn''"
| "mode_as_str Enforce = ''enforce''"

datatype seccomp_plan = Plan_None | Plan_Learn | Plan_Enforce program u64

fun is_none_plan :: "seccomp_plan \<Rightarrow> bool" where
  "is_none_plan Plan_None = True"
| "is_none_plan _ = False"

fun is_learn_plan :: "seccomp_plan \<Rightarrow> bool" where
  "is_learn_plan Plan_Learn = True"
| "is_learn_plan _ = False"

definition learn_filter :: "target_arch \<Rightarrow> (seccomp_error, program) result" where
  "learn_filter a = and_then (ensure_supported a) (\<lambda>_. build (ret SECCOMP_RET_TRACE (load_arch new_builder)))"

record seccomp_options =
  so_mode :: seccomp_mode
  so_profile_path :: "string option"
  so_capture_path :: "string option"
  so_action :: seccomp_action
  so_order :: syscall_order
  so_log :: bool

definition default_seccomp_options :: seccomp_options where
  "default_seccomp_options =
     \<lparr>so_mode = Off, so_profile_path = None, so_capture_path = None, so_action = Act_Errno,
      so_order = ByFrequency, so_log = False\<rparr>"

definition SECCOMP_FILTER_FLAG_LOG :: u64 where "SECCOMP_FILTER_FLAG_LOG = 2"

definition filter_flags :: "seccomp_options \<Rightarrow> u64" where
  "filter_flags opts = (if so_log opts then SECCOMP_FILTER_FLAG_LOG else 0)"

definition resolve_options ::
    "seccomp_mode \<Rightarrow> string option \<Rightarrow> string option \<Rightarrow> seccomp_action \<Rightarrow> syscall_order \<Rightarrow> bool \<Rightarrow> string \<Rightarrow>
     (seccomp_error, seccomp_options) result" where
  "resolve_options mode profile_path capture_path action order log default_capture_path =
     (if mode = Enforce \<and> profile_path = None then Err MissingProfilePath
      else if mode \<noteq> Enforce \<and> profile_path \<noteq> None then Err ProfileWithoutEnforce
      else if mode \<noteq> Learn \<and> capture_path \<noteq> None then Err CaptureWithoutLearn
      else Ok \<lparr>so_mode = mode, so_profile_path = profile_path,
               so_capture_path =
                 (case mode of
                    Learn \<Rightarrow> Some (case capture_path of Some p \<Rightarrow> p | None \<Rightarrow> default_capture_path)
                  | _ \<Rightarrow> None),
               so_action = action, so_order = order, so_log = log\<rparr>)"

datatype prepare_error = Prepare_seccomp seccomp_error | Prepare_load string

definition prepare ::
    "target_arch \<Rightarrow> (string \<Rightarrow> (string, seccomp_profile) result) \<Rightarrow> seccomp_options \<Rightarrow>
     (prepare_error, compiled_profile option) result" where
  "prepare a load_profile opts =
     (case so_mode opts of
        Enforce \<Rightarrow>
          and_then (ok_or (so_profile_path opts) (Prepare_seccomp MissingProfilePath)) (\<lambda>path.
          and_then (map_err Prepare_load (load_profile path)) (\<lambda>p.
          map_ok Some (map_err Prepare_seccomp
            (compile a p \<lparr>co_default_action = so_action opts, co_order = so_order opts\<rparr>))))
      | _ \<Rightarrow> Ok None)"

definition parse_mode :: "string \<Rightarrow> (seccomp_error, seccomp_mode) result" where
  "parse_mode v =
     (if v = ''off'' then Ok Off else if v = ''learn'' then Ok Learn
      else if v = ''enforce'' then Ok Enforce else Err (InvalidMode v))"

definition parse_action :: "string \<Rightarrow> (seccomp_error, seccomp_action) result" where
  "parse_action v =
     (if v = ''errno'' then Ok Act_Errno else if v = ''enosys'' then Ok Act_Enosys
      else if v = ''kill'' then Ok Act_Kill else if v = ''log'' then Ok Act_Log else Err (InvalidAction v))"

definition parse_order :: "string \<Rightarrow> (seccomp_error, syscall_order) result" where
  "parse_order v =
     (if v = ''as-listed'' then Ok AsListed else if v = ''by-number'' then Ok ByNumber
      else if v = ''by-frequency'' then Ok ByFrequency else Err (InvalidOrder v))"

subsection \<open>The denylist (security/mod.rs)\<close>

datatype security_profile = Denylist | Unconfined

fun security_as_str :: "security_profile \<Rightarrow> string" where
  "security_as_str Denylist = ''denylist''"
| "security_as_str Unconfined = ''unconfined''"

record cap_user_data =
  cap_effective :: u32
  cap_permitted :: u32
  cap_inheritable :: u32

definition CAPABILITY_U32S :: nat where "CAPABILITY_U32S = 2"

definition empty_capability_data :: "cap_user_data list" where
  "empty_capability_data =
     replicate CAPABILITY_U32S \<lparr>cap_effective = 0, cap_permitted = 0, cap_inheritable = 0\<rparr>"

text \<open>The kernel's numbers for \<^verbatim>\<open>libc::SYS_mount\<close>, \<open>...\<close>, \<^verbatim>\<open>libc::SYS_setns\<close>.\<close>

fun denied_syscalls :: "target_arch \<Rightarrow> int list" where
  "denied_syscalls X86_64 =
     [165, 166, 155, 167, 168, 169, 175, 313, 176, 246, 101, 321, 250, 304, 272, 308]"
| "denied_syscalls Aarch64 =
     [40, 39, 41, 224, 225, 142, 105, 273, 106, 104, 117, 280, 219, 265, 97, 268]"

definition seccomp_denylist_filter :: "target_arch \<Rightarrow> (seccomp_error, program) result" where
  "seccomp_denylist_filter a =
     and_then (ensure_supported a) (\<lambda>_.
       let deny = SECCOMP_RET_ERRNO OR EPERM;
           b = load_syscall_nr (jne_then_ret (AUDIT_ARCH_NATIVE a) deny (load_arch new_builder));
           b = fold (\<lambda>n. jeq_then_ret (word_of_int n) deny) (denied_syscalls a) b
       in build (ret SECCOMP_RET_ALLOW b))"

subsection \<open>Confining the process\<close>

datatype security_call =
    Set_no_new_privs
  | Capset "cap_user_data list"
  | Filter filter_call
  | Traceme
  | Raise_SIGSTOP

datatype apply_error =
    Apply_no_new_privs errno
  | Apply_capset errno
  | Apply_seccomp seccomp_error
  | Apply_install_denylist install_error
  | Apply_traceme errno
  | Apply_raise errno
  | Apply_install_learn install_error
  | Apply_install_allowlist install_error

type_synonym security_world = "(security_call, (errno, unit) result) world"

definition drop_capabilities :: "security_world \<Rightarrow> (security_call, apply_error, unit) io" where
  "drop_capabilities os = io_map_err Apply_capset (io_call os (Capset empty_capability_data))"

definition install_seccomp_filter :: "security_world \<Rightarrow> target_arch \<Rightarrow> (security_call, apply_error, unit) io" where
  "install_seccomp_filter os a =
     io_bind (io_lift (map_err Apply_seccomp (seccomp_denylist_filter a)))
       (\<lambda>p. io_map_err Apply_install_denylist (install os Filter p 0))"

definition apply_security_plan ::
    "security_world \<Rightarrow> target_arch \<Rightarrow> security_profile \<Rightarrow> seccomp_plan \<Rightarrow> (security_call, apply_error, unit) io" where
  "apply_security_plan os a profile plan =
     io_bind (io_when (profile = Denylist \<or> \<not> is_none_plan plan)
       (io_map_err Apply_no_new_privs (io_call os Set_no_new_privs))) (\<lambda>_.
     io_bind (io_when (profile = Denylist)
       (io_bind (drop_capabilities os) (\<lambda>_. install_seccomp_filter os a))) (\<lambda>_.
     case plan of
       Plan_None \<Rightarrow> io_return ()
     | Plan_Learn \<Rightarrow>
         io_bind (io_map_err Apply_traceme (io_call os Traceme)) (\<lambda>_.
         io_bind (io_map_err Apply_raise (io_call os Raise_SIGSTOP)) (\<lambda>_.
         io_bind (io_lift (map_err Apply_seccomp (learn_filter a))) (\<lambda>p.
           io_map_err Apply_install_learn (install os Filter p 0))))
     | Plan_Enforce p flags \<Rightarrow> io_map_err Apply_install_allowlist (install os Filter p flags)))"

subsection \<open>The denylist program\<close>

definition denylist_insns :: "target_arch \<Rightarrow> sock_filter list" where
  "denylist_insns a =
     [stmt (BPF_LD OR BPF_W OR BPF_ABS) SECCOMP_DATA_ARCH_OFFSET,
      jump (BPF_JMP OR BPF_JEQ OR BPF_K) (AUDIT_ARCH_NATIVE a) 1 0,
      stmt (BPF_RET OR BPF_K) (SECCOMP_RET_ERRNO OR EPERM),
      stmt (BPF_LD OR BPF_W OR BPF_ABS) SECCOMP_DATA_NR_OFFSET] @
     concat (map (jeq_pair (SECCOMP_RET_ERRNO OR EPERM)) (map word_of_int (denied_syscalls a))) @
     [stmt (BPF_RET OR BPF_K) SECCOMP_RET_ALLOW]"

lemma length_denied_syscalls [simp]: "length (denied_syscalls a) = 16"
  by (cases a) simp_all

lemma length_denylist_insns [simp]: "length (denylist_insns a) = 37"
  by (simp add: denylist_insns_def del: map_map)

lemma validate_denylist: "validate \<lparr>insns = denylist_insns a\<rparr> = Ok ()"
proof -
  have "validate_jumps 37 4 (concat (map (jeq_pair (SECCOMP_RET_ERRNO OR EPERM)) (map word_of_int (denied_syscalls a)))) = Ok ()"
    by (rule validate_jumps_pairs) auto
  then have "validate_jumps 37 0 (denylist_insns a) = Ok ()"
    by (simp add: denylist_insns_def validate_jumps_append validate_jumps.simps(1) numeral_eq_Suc
        del: map_map)
  moreover have "denylist_insns a ! 36 = stmt (BPF_RET OR BPF_K) SECCOMP_RET_ALLOW"
    by (simp add: denylist_insns_def nth_append del: map_map)
  moreover have "denylist_insns a \<noteq> []" by (simp add: denylist_insns_def)
  ultimately show ?thesis
    by (simp add: validate_def MAX_BPF_INSNS_def) (simp add: stmt_def libc_constants)
qed

lemma seccomp_denylist_filter_eq: "seccomp_denylist_filter a = Ok \<lparr>insns = denylist_insns a\<rparr>"
proof -
  have "fold (\<lambda>n. jeq_then_ret (word_of_int n) deny) ns b = fold (\<lambda>k. jeq_then_ret k deny) (map word_of_int ns) b"
    for ns deny b
    by (simp add: fold_map comp_def)
  moreover have "ensure_supported a = Ok ()" by (cases a) simp_all
  ultimately show ?thesis
    using validate_denylist [of a]
    by (simp add: seccomp_denylist_filter_def build_def Let_def denylist_insns_def ret_def push_insn_def
        load_arch_def load_syscall_nr_def jne_then_ret_def new_builder_def del: map_map)
qed

context seccomp_vm
begin

lemma run_denylist:
  "exec (denylist_insns a) d 0 A =
     Some (if sd_arch d \<noteq> AUDIT_ARCH_NATIVE a \<or> sd_nr d \<in> word_of_int ` set (denied_syscalls a)
           then SECCOMP_RET_ERRNO OR EPERM else SECCOMP_RET_ALLOW)"
proof -
  let ?p = "denylist_insns a" and ?deny = "SECCOMP_RET_ERRNO OR EPERM"
  have start: "exec ?p d 0 A = exec ?p d 1 (sd_arch d)"
    by (rule trans, rule run_load_arch) (auto simp: denylist_insns_def)
  have arch: "exec ?p d 1 (sd_arch d) =
      (if sd_arch d = AUDIT_ARCH_NATIVE a then exec ?p d 3 (sd_arch d) else Some ?deny)"
    by (rule trans, rule run_jne_then_ret) (auto simp: denylist_insns_def eval_nat_numeral)
  have nr: "exec ?p d 3 (sd_arch d) = exec ?p d 4 (sd_nr d)"
    by (rule trans, rule run_load_nr) (auto simp: denylist_insns_def eval_nat_numeral)
  have "exec ?p d 4 (sd_nr d) =
      Some (if sd_nr d \<in> set (map word_of_int (denied_syscalls a)) then ?deny else SECCOMP_RET_ALLOW)"
    by (intro run_chain [where rest = "[]"]) (simp add: denylist_insns_def eval_nat_numeral)
  then show ?thesis using start arch nr by auto
qed

end

lemma learn_filter_Ok: "\<exists>p. learn_filter a = Ok p \<and>
    insns p = [stmt (BPF_LD OR BPF_W OR BPF_ABS) SECCOMP_DATA_ARCH_OFFSET, stmt (BPF_RET OR BPF_K) SECCOMP_RET_TRACE]"
proof -
  have "ensure_supported a = Ok ()" by (cases a) simp_all
  moreover have "(ucast (sf_code (stmt (BPF_RET OR BPF_K) k)) :: u32) AND (BPF_RET OR BPF_K) = BPF_RET OR BPF_K" for k
    by (simp add: stmt_def libc_constants)
  ultimately show ?thesis
    by (simp add: learn_filter_def build_def Let_def builder_defs validate_def MAX_BPF_INSNS_def
        validate_jumps.simps(1))
qed

subsection \<open>The calls that confine\<close>

text \<open>Both ways of installing a filter count as the same protection.\<close>

fun protection :: "security_call \<Rightarrow> security_call" where
  "protection (Filter (Prctl_set_seccomp p)) = Filter (Seccomp_set_mode_filter 0 p)"
| "protection c = c"

definition protections :: "target_arch \<Rightarrow> security_profile \<Rightarrow> seccomp_plan \<Rightarrow> security_call list" where
  "protections a profile plan =
     (if profile = Denylist \<or> plan \<noteq> Plan_None then [Set_no_new_privs] else []) @
     (if profile = Denylist
      then [Capset empty_capability_data, Filter (Seccomp_set_mode_filter 0 \<lparr>insns = denylist_insns a\<rparr>)]
      else []) @
     (case plan of
        Plan_None \<Rightarrow> []
      | Plan_Learn \<Rightarrow> [Traceme, Raise_SIGSTOP, Filter (Seccomp_set_mode_filter 0 (the (ok_value (learn_filter a))))]
      | Plan_Enforce p flags \<Rightarrow> [Filter (Seccomp_set_mode_filter flags p)])"

lemma install_Ok:
  "install os Filter p flags w = (w', Ok ()) \<Longrightarrow>
   map protection (accepted os w') = map protection (accepted os w) @ [Filter (Seccomp_set_mode_filter flags p)]"
  by (auto simp: install_def io_defs split: if_splits result.splits prod.splits)

lemma is_none_plan_iff: "is_none_plan plan \<longleftrightarrow> plan = Plan_None"
  by (cases plan) auto

lemma compile_Err:
  "compile a p opts = Err e \<longleftrightarrow> validate_supported p = Err e"
proof (cases "validate_supported p")
  case (Ok u)
  then show ?thesis using compile_Ok [of p a opts] by auto
next
  case (Err e')
  moreover have "ensure_supported a = Ok ()" by (cases a) simp_all
  ultimately show ?thesis by (simp add: compile_def)
qed

lemma compile_not_missing: "compile a p opts \<noteq> Err MissingProfilePath"
  using validate_supported_Err by (auto simp: compile_Err)

subsection \<open>Properties\<close>

text \<open>
  C20: the denylist filter is always built, and on any machine with the documented instruction
  meaning it refuses (with EPERM) exactly the calls from another architecture and the sixteen
  listed numbers, letting everything else through.
\<close>

theorem denylist_decides:
  assumes "seccomp_vm exec"
  shows "\<exists>p. seccomp_denylist_filter a = Ok p \<and>
    (\<forall>d. exec (insns p) d 0 0 =
      Some (if sd_arch d \<noteq> AUDIT_ARCH_NATIVE a \<or> sd_nr d \<in> word_of_int ` set (denied_syscalls a)
            then SECCOMP_RET_ERRNO OR EPERM else SECCOMP_RET_ALLOW))"
  using seccomp_vm.run_denylist [OF assms] by (simp add: seccomp_denylist_filter_eq)

theorem denylist_decides_witness:
  "\<exists>p. seccomp_denylist_filter Aarch64 = Ok p \<and>
     bpf_exec (insns p) \<lparr>sd_nr = 117, sd_arch = AUDIT_ARCH_NATIVE Aarch64\<rparr> 0 0 = Some (SECCOMP_RET_ERRNO OR EPERM) \<and>
     bpf_exec (insns p) \<lparr>sd_nr = 63, sd_arch = AUDIT_ARCH_NATIVE Aarch64\<rparr> 0 0 = Some SECCOMP_RET_ALLOW"
  using denylist_decides [OF kernel.seccomp_vm_axioms, of Aarch64] by auto

text \<open>
  C39: on x86_64 the denylist does not cover the x32 view of the same calls: every denied number
  with the x32 bit set passes the filter, although the architecture value is the native one.
\<close>

theorem denylist_lets_x32_through:
  assumes "seccomp_vm exec" and "n \<in> set (denied_syscalls X86_64)"
  shows "\<exists>p. seccomp_denylist_filter X86_64 = Ok p \<and>
    exec (insns p) \<lparr>sd_nr = word_of_int n OR X32_SYSCALL_BIT, sd_arch = AUDIT_ARCH_NATIVE X86_64\<rparr> 0 0
      = Some SECCOMP_RET_ALLOW"
proof -
  have "(word_of_int n OR X32_SYSCALL_BIT :: u32) \<notin> word_of_int ` set (denied_syscalls X86_64)"
    using assms(2) by (auto simp: X32_SYSCALL_BIT_def)
  then show ?thesis
    using seccomp_vm.run_denylist [OF assms(1)] by (simp add: seccomp_denylist_filter_eq)
qed

theorem denylist_lets_x32_through_witness:
  "\<exists>p. seccomp_denylist_filter X86_64 = Ok p \<and>
    bpf_exec (insns p) \<lparr>sd_nr = 0x40000065, sd_arch = 0xC000003E\<rparr> 0 0 = Some SECCOMP_RET_ALLOW"
  using denylist_lets_x32_through [OF kernel.seccomp_vm_axioms, of 101] by (simp add: X32_SYSCALL_BIT_def)

text \<open>
  The denied numbers are the numbers the system-call table of the architecture gives the
  sixteen host-impacting calls, in order.
\<close>

lemma denied_syscalls_by_name:
  "map (syscall_number a)
     [''mount'', ''umount2'', ''pivot_root'', ''swapon'', ''swapoff'', ''reboot'', ''init_module'',
      ''finit_module'', ''delete_module'', ''kexec_load'', ''ptrace'', ''bpf'', ''keyctl'',
      ''open_by_handle_at'', ''unshare'', ''setns''] = map Some (denied_syscalls a)"
  by (cases a) (simp_all add: syscall_number_Some x86_64_table_defs aarch64_table_defs)

text \<open>
  When confinement reports success, the calls the kernel accepted are exactly the promised
  protections, in the promised order: no-new-privileges first, then (for the denylist profile) the
  empty capability sets and the denylist, then the tracer's set-up and the trace filter or the
  compiled allowlist. A kernel without \<^verbatim>\<open>seccomp(2)\<close> changes only which call installs a filter.
\<close>

lemma confinement_complete:
  assumes "apply_security_plan os a profile plan [] = (w, Ok ())"
  shows "map protection (accepted os w) = protections a profile plan"
  using assms learn_filter_Ok [of a]
  by (cases profile; cases plan)
    (auto simp: apply_security_plan_def drop_capabilities_def install_seccomp_filter_def io_when_def
      seccomp_denylist_filter_eq protections_def is_none_plan_iff dest!: install_Ok)

text \<open>
  The flag combination is accepted exactly when a profile path is given for enforce mode and
  only then, and a capture path is given for learn mode only; what is accepted always has the
  path its mode needs, so that preparing an enforce-mode profile never lacks one.
\<close>

lemma resolve_options_consistent:
  "(\<exists>opts. resolve_options mode prof cap act ord log dflt = Ok opts \<and>
      (so_profile_path opts \<noteq> None \<longleftrightarrow> so_mode opts = Enforce) \<and>
      (so_capture_path opts \<noteq> None \<longleftrightarrow> so_mode opts = Learn) \<and>
      prepare a load opts \<noteq> Err (Prepare_seccomp MissingProfilePath)) \<longleftrightarrow>
   (prof \<noteq> None \<longleftrightarrow> mode = Enforce) \<and> (cap = None \<or> mode = Learn)"
  using compile_not_missing
  by (cases mode; cases prof; cases cap)
    (auto simp: resolve_options_def prepare_def and_then_Err map_err_Err map_ok_Err)

text \<open>The names of modes, actions and orders are read back as what they name, and nothing else is.\<close>

lemma seccomp_names_round_trip:
  "(parse_mode s = Ok m \<longleftrightarrow> s = mode_as_str m) \<and> (parse_action s = Ok act \<longleftrightarrow> s = action_as_str act) \<and>
   (parse_order s = Ok ord \<longleftrightarrow> s = order_as_str ord)"
  by (cases m; cases act; cases ord) (auto simp: parse_mode_def parse_action_def parse_order_def)

end
