(* ===== verification/Policy.thy ===== *)
theory Policy
  imports Cgroup Security
begin

unbundle bit_operations_syntax

text \<open>
  \<^verbatim>\<open>src/modes.rs\<close>, \<^verbatim>\<open>src/policy.rs\<close>, \<^verbatim>\<open>src/namespace/mod.rs\<close> and \<^verbatim>\<open>src/userns/mod.rs\<close>: which protections,
  limits and namespaces a container gets from its configuration and the command line.
\<close>

subsection \<open>Modes\<close>

datatype log_mode = Log_Auto | Log_On | Log_Off

fun log_as_str :: "log_mode \<Rightarrow> string" where
  "log_as_str Log_Auto = ''auto''"
| "log_as_str Log_On = ''on''"
| "log_as_str Log_Off = ''off''"

definition parse_network_mode :: "string \<Rightarrow> (mode_error, network_mode) result" where
  "parse_network_mode v =
     (if v = ''host'' then Ok Net_Host else if v = ''none'' then Ok Net_None
      else if v = ''bridge'' then Ok Net_Bridge else Err (InvalidNetworkMode v))"

definition parse_security_profile :: "string \<Rightarrow> (mode_error, security_profile) result" where
  "parse_security_profile v =
     (if v = ''denylist'' \<or> v = ''default'' then Ok Denylist
      else if v = ''unconfined'' then Ok Unconfined else Err (InvalidSecurityProfile v))"

definition parse_log_mode :: "string \<Rightarrow> (mode_error, log_mode) result" where
  "parse_log_mode v =
     (if v = ''auto'' then Ok Log_Auto else if v = ''on'' then Ok Log_On
      else if v = ''off'' then Ok Log_Off else Err (InvalidLogMode v))"

subsection \<open>User namespaces\<close>

datatype user_namespace_mode = Userns_Host | Userns_Private user_namespace_map

fun userns_as_str :: "user_namespace_mode \<Rightarrow> string" where
  "userns_as_str Userns_Host = ''host''"
| "userns_as_str (Userns_Private _) = ''private''"

fun userns_is_private :: "user_namespace_mode \<Rightarrow> bool" where
  "userns_is_private Userns_Host = False"
| "userns_is_private (Userns_Private _) = True"

text \<open>The only error has a fixed message.\<close>

datatype userns_error = Unmapped_process_user

definition validate_process_user ::
    "user_namespace_mode \<Rightarrow> process_user option \<Rightarrow> (userns_error, unit) result" where
  "validate_process_user mode u =
     (case mode of
        Userns_Host \<Rightarrow> Ok ()
      | Userns_Private _ \<Rightarrow>
          (case u of
             None \<Rightarrow> Ok ()
           | Some user \<Rightarrow>
               if pu_uid user \<noteq> 0 \<or> pu_gid user \<noteq> 0 \<or> pu_additional_gids user \<noteq> [] then Err Unmapped_process_user
               else Ok ()))"

text \<open>The files are written through the world of \<^verbatim>\<open>cgroup\<close>, which has the file system's reads and writes.\<close>

definition write_uid_gid_maps :: "cg_world \<Rightarrow> int \<Rightarrow> user_namespace_map \<Rightarrow> unit cg_io" where
  "write_uid_gid_maps os child_pid m =
     (let proc_dir = path_join ''/proc'' (int_dec child_pid) in
      io_bind (cg_do os (Cg_write (path_join proc_dir ''setgroups'') (''deny'' @ newline))) (\<lambda>_.
      io_bind (cg_do os (Cg_write (path_join proc_dir ''uid_map'') (''0 '' @ nat_dec (unat (host_uid m)) @ '' 1'' @ newline))) (\<lambda>_.
      cg_do os (Cg_write (path_join proc_dir ''gid_map'') (''0 '' @ nat_dec (unat (host_gid m)) @ '' 1'' @ newline)))))"

subsection \<open>Namespaces\<close>

definition CLONE_NEWNS :: u32 where "CLONE_NEWNS = push_bit 17 1"
definition CLONE_NEWUTS :: u32 where "CLONE_NEWUTS = push_bit 26 1"
definition CLONE_NEWIPC :: u32 where "CLONE_NEWIPC = push_bit 27 1"
definition CLONE_NEWUSER :: u32 where "CLONE_NEWUSER = push_bit 28 1"
definition CLONE_NEWPID :: u32 where "CLONE_NEWPID = push_bit 29 1"
definition CLONE_NEWNET :: u32 where "CLONE_NEWNET = push_bit 30 1"

definition clone_flag :: "string \<Rightarrow> u32 option" where
  "clone_flag = map_of
     [(''pid'', CLONE_NEWPID), (''mount'', CLONE_NEWNS), (''uts'', CLONE_NEWUTS), (''ipc'', CLONE_NEWIPC),
      (''network'', CLONE_NEWNET), (''user'', CLONE_NEWUSER)]"

datatype namespace_error = Unsupported_namespace_type string

fun namespace_flags_from :: "u32 \<Rightarrow> string list \<Rightarrow> (namespace_error, u32) result" where
  "namespace_flags_from flags [] = Ok flags"
| "namespace_flags_from flags (n # ns) =
     (case clone_flag n of
        Some f \<Rightarrow> namespace_flags_from (flags OR f) ns
      | None \<Rightarrow> Err (Unsupported_namespace_type n))"

definition namespace_flags :: "string list \<Rightarrow> (namespace_error, u32) result" where
  "namespace_flags ns = namespace_flags_from 0 ns"

definition apply_network_mode :: "u32 \<Rightarrow> network_mode \<Rightarrow> u32" where
  "apply_network_mode flags mode =
     (case mode of Net_Host \<Rightarrow> flags AND NOT CLONE_NEWNET | _ \<Rightarrow> flags OR CLONE_NEWNET)"

definition apply_userns_mode :: "u32 \<Rightarrow> user_namespace_mode \<Rightarrow> u32" where
  "apply_userns_mode flags mode =
     (case mode of Userns_Host \<Rightarrow> flags AND NOT CLONE_NEWUSER | Userns_Private _ \<Rightarrow> flags OR CLONE_NEWUSER)"

definition effective_namespace_flags ::
    "string list \<Rightarrow> network_mode \<Rightarrow> user_namespace_mode \<Rightarrow> (namespace_error, u32) result" where
  "effective_namespace_flags ns net userns =
     map_ok (\<lambda>flags. apply_userns_mode (apply_network_mode flags net) userns) (namespace_flags ns)"

subsection \<open>Policy\<close>

datatype policy_profile = Policy_None | Policy_Restricted | Policy_Debug

fun policy_as_str :: "policy_profile \<Rightarrow> string" where
  "policy_as_str Policy_None = ''none''"
| "policy_as_str Policy_Restricted = ''restricted''"
| "policy_as_str Policy_Debug = ''debug''"

definition policy_from_config :: "string option \<Rightarrow> (policy_error, policy_profile) result" where
  "policy_from_config v =
     (case v of
        None \<Rightarrow> Ok Policy_None
      | Some s \<Rightarrow> if s = ''restricted'' then Ok Policy_Restricted
          else if s = ''debug'' then Ok Policy_Debug else Err (UnsupportedProfile s))"

record effective_policy =
  ep_profile :: policy_profile
  ep_security_profile :: security_profile
  ep_log_mode :: log_mode
  ep_cgroup_config :: "cgroup_config option"

definition apply_security :: "security_profile \<Rightarrow> policy_profile \<Rightarrow> security_profile" where
  "apply_security sec pol =
     (case pol of
        Policy_Restricted \<Rightarrow> Denylist
      | Policy_Debug \<Rightarrow> if sec = Denylist then Unconfined else sec
      | Policy_None \<Rightarrow> sec)"

definition apply_log_mode :: "log_mode \<Rightarrow> policy_profile \<Rightarrow> log_mode" where
  "apply_log_mode mode pol = (if pol = Policy_Debug \<and> mode = Log_Auto then Log_On else mode)"

definition option_or :: "'a option \<Rightarrow> 'a option \<Rightarrow> 'a option" where
  "option_or a b = (case a of Some x \<Rightarrow> Some x | None \<Rightarrow> b)"

definition apply_cgroup :: "cgroup_config option \<Rightarrow> policy_profile \<Rightarrow> cgroup_config option" where
  "apply_cgroup explicit pol =
     (let defaults = (if pol = Policy_Restricted
            then \<lparr>cg_memory_limit = Some (256 * 1024 * 1024), cg_cpu_quota = None, cg_cpu_period = None, cg_pids_limit = Some 64\<rparr>
            else \<lparr>cg_memory_limit = None, cg_cpu_quota = None, cg_cpu_period = None, cg_pids_limit = None\<rparr>);
          merged = (case explicit of
              Some e \<Rightarrow> \<lparr>cg_memory_limit = option_or (cg_memory_limit e) (cg_memory_limit defaults),
                cg_cpu_quota = option_or (cg_cpu_quota e) (cg_cpu_quota defaults),
                cg_cpu_period = option_or (cg_cpu_period e) (cg_cpu_period defaults),
                cg_pids_limit = option_or (cg_pids_limit e) (cg_pids_limit defaults)\<rparr>
            | None \<Rightarrow> defaults)
      in if cg_memory_limit merged \<noteq> None \<or> cg_cpu_quota merged \<noteq> None \<or> cg_cpu_period merged \<noteq> None \<or>
            cg_pids_limit merged \<noteq> None then Some merged else None)"

definition cgroup_config_from_resources :: "linux_resources \<Rightarrow> cgroup_config" where
  "cgroup_config_from_resources r =
     \<lparr>cg_memory_limit = Option.bind (res_memory r) mem_limit, cg_cpu_quota = Option.bind (res_cpu r) cpu_quota,
      cg_cpu_period = Option.bind (res_cpu r) cpu_period, cg_pids_limit = Option.bind (res_pids r) pids_limit\<rparr>"

definition resolve_effective_policy ::
    "crun_config option \<Rightarrow> linux_resources option \<Rightarrow> security_profile \<Rightarrow> log_mode \<Rightarrow>
     (policy_error, effective_policy) result" where
  "resolve_effective_policy crun resources sec mode =
     map_ok (\<lambda>profile.
       \<lparr>ep_profile = profile, ep_security_profile = apply_security sec profile,
        ep_log_mode = apply_log_mode mode profile,
        ep_cgroup_config = apply_cgroup (map_option cgroup_config_from_resources resources) profile\<rparr>)
       (policy_from_config (Option.bind crun crun_profile))"

subsection \<open>Properties\<close>

lemma bit_flag: "n < 32 \<Longrightarrow> bit (push_bit n 1 :: u32) k \<longleftrightarrow> k = n"
  unfolding push_bit_of_1 bit_exp_iff by (auto simp: possible_bit_def)

lemma clone_bits [simp]:
  "bit CLONE_NEWNS k \<longleftrightarrow> k = 17" "bit CLONE_NEWUTS k \<longleftrightarrow> k = 26" "bit CLONE_NEWIPC k \<longleftrightarrow> k = 27"
  "bit CLONE_NEWUSER k \<longleftrightarrow> k = 28" "bit CLONE_NEWPID k \<longleftrightarrow> k = 29" "bit CLONE_NEWNET k \<longleftrightarrow> k = 30"
  unfolding CLONE_NEWNS_def CLONE_NEWUTS_def CLONE_NEWIPC_def CLONE_NEWUSER_def CLONE_NEWPID_def CLONE_NEWNET_def
  by (rule bit_flag, simp)+

lemma namespace_flags_from_bits:
  "case namespace_flags_from flags ns of
     Ok r \<Rightarrow> set ns \<subseteq> dom clone_flag \<and>
       (\<forall>k. bit r k \<longleftrightarrow> bit flags k \<or> (\<exists>n \<in> set ns. \<exists>f. clone_flag n = Some f \<and> bit f k))
   | Err (Unsupported_namespace_type n) \<Rightarrow> n \<in> set ns \<and> clone_flag n = None"
proof (induction flags ns rule: namespace_flags_from.induct)
  case (2 flags n ns)
  show ?case
  proof (cases "clone_flag n")
    case (Some f)
    show ?thesis
      using "2.IH" [OF Some] by (auto simp: Some bit_or_iff domIff split: result.splits namespace_error.splits)
  qed simp
qed simp

text \<open>
  The namespaces a container is created in: every listed one, except that the network and user
  namespaces follow the modes: a host network never gets a namespace of its own and a container with a
  private or no network always does, and likewise for the user namespace.
\<close>

lemma namespaces_follow_modes:
  assumes "effective_namespace_flags ns net userns = Ok flags"
  shows "(bit flags k \<longleftrightarrow>
      (if k = 30 then net \<noteq> Net_Host
       else if k = 28 then userns_is_private userns
       else \<exists>n f. n \<in> set ns \<and> clone_flag n = Some f \<and> bit f k)) \<and>
    set ns \<subseteq> {''pid'', ''mount'', ''uts'', ''ipc'', ''network'', ''user''}"
proof -
  obtain r where r: "namespace_flags_from 0 ns = Ok r"
    "flags = apply_userns_mode (apply_network_mode r net) userns"
    using assms by (auto simp: effective_namespace_flags_def namespace_flags_def)
  have r': "set ns \<subseteq> dom clone_flag" "bit r k \<longleftrightarrow> (\<exists>n \<in> set ns. \<exists>f. clone_flag n = Some f \<and> bit f k)"
    using namespace_flags_from_bits [of ns 0] by (simp_all add: r(1))
  have "dom clone_flag = {''pid'', ''mount'', ''uts'', ''ipc'', ''network'', ''user''}"
    unfolding clone_flag_def dom_map_of_conv_image_fst by simp
  moreover have "k < 32" if "bit r k" using bit_imp_le_length [OF that] by simp
  ultimately show ?thesis
    using r' by (cases net; cases userns)
      (auto simp: r(2) apply_network_mode_def apply_userns_mode_def bit_or_iff bit_and_iff bit_not_iff possible_bit_def)
qed

lemma namespaces_follow_modes_example:
  "\<exists>flags. effective_namespace_flags [''pid'', ''network''] Net_Host Userns_Host = Ok flags \<and> \<not> bit flags 30"
proof -
  obtain flags where f: "effective_namespace_flags [''pid'', ''network''] Net_Host Userns_Host = Ok flags"
    by (simp add: effective_namespace_flags_def namespace_flags_def clone_flag_def)
  then show ?thesis using namespaces_follow_modes [OF f, of 30] by simp
qed

text \<open>
  What the restricted policy guarantees: the container runs confined by the denylist, and its memory and
  number of processes are limited, by the configured limits if it has any and by the defaults otherwise;
  limits it configures are never overridden by any policy; and only the debug policy ever loosens the
  confinement asked for.
\<close>

lemma policy_guarantees:
  "case resolve_effective_policy crun resources sec mode of
     Err (UnsupportedProfile p) \<Rightarrow> Option.bind crun crun_profile = Some p \<and> p \<notin> {''restricted'', ''debug''}
   | Ok p \<Rightarrow>
       (let limits = (case ep_cgroup_config p of None \<Rightarrow> (None, None, None, None)
              | Some c \<Rightarrow> (cg_memory_limit c, cg_cpu_quota c, cg_cpu_period c, cg_pids_limit c));
            asked = (case resources of None \<Rightarrow> (None, None, None, None)
              | Some r \<Rightarrow> (Option.bind (res_memory r) mem_limit, Option.bind (res_cpu r) cpu_quota,
                  Option.bind (res_cpu r) cpu_period, Option.bind (res_pids r) pids_limit))
        in if ep_profile p = Policy_Restricted
           then ep_security_profile p = Denylist \<and>
             limits = (option_or (fst asked) (Some 268435456), fst (snd asked), fst (snd (snd asked)),
               option_or (snd (snd (snd asked))) (Some 64))
           else limits = asked \<and>
             (ep_security_profile p = sec \<or> ep_profile p = Policy_Debug \<and> ep_log_mode p \<noteq> Log_Auto))"
proof (cases "policy_from_config (Option.bind crun crun_profile)")
  case (Err e)
  then show ?thesis
    by (auto simp: resolve_effective_policy_def policy_from_config_def split: option.splits if_splits)
next
  case (Ok profile)
  then show ?thesis
    by (cases profile; cases resources)
      (auto simp: resolve_effective_policy_def apply_security_def apply_log_mode_def apply_cgroup_def Let_def
        cgroup_config_from_resources_def option_or_def split: option.split)
qed

end
