(* ===== verification/Process.thy ===== *)
theory Process
  imports Policy
begin

unbundle bit_operations_syntax

text \<open>
  \<^verbatim>\<open>src/container/process.rs\<close>, \<^verbatim>\<open>builder.rs\<close> and \<^verbatim>\<open>env.rs\<close>: what the forked child does before it becomes the
  container's process, and what the parent sets up for it, hands over and takes back. Child and parent
  are two actions with a world each; the pipe between them is the string the parent writes and the
  child reads. Left out: the plumbing of pipes, terminals and the log helper.
\<close>

subsection \<open>Configuration\<close>

record process_config =
  pc_id :: string
  pc_hostname :: "string option"
  pc_args :: "string list"
  pc_env :: "string list"
  pc_cwd :: "string option"
  pc_rootfs :: string
  pc_overlay_config :: "overlay_config option"
  pc_readonly_rootfs :: bool
  pc_mounts :: "mount list"
  pc_process_user :: "process_user option"
  pc_rlimits :: "linux_rlimit list"
  pc_masked_paths :: "string list"
  pc_readonly_paths :: "string list"
  pc_log_path :: "string option"
  pc_flags :: u32
  pc_cgroup_config :: "cgroup_config option"
  pc_network_mode :: network_mode
  pc_security_profile :: security_profile
  pc_userns_mode :: user_namespace_mode
  pc_tty :: bool
  pc_seccomp_mode :: seccomp_mode
  pc_seccomp_program :: "program option"
  pc_seccomp_flags :: u64

record process_config_builder =
  pb_id :: "string option"
  pb_hostname :: "string option"
  pb_args :: "string list option"
  pb_env :: "string list option"
  pb_cwd :: "string option"
  pb_rootfs :: "string option"
  pb_overlay_config :: "overlay_config option"
  pb_readonly_rootfs :: bool
  pb_mounts :: "mount list option"
  pb_process_user :: "process_user option"
  pb_rlimits :: "linux_rlimit list option"
  pb_masked_paths :: "string list option"
  pb_readonly_paths :: "string list option"
  pb_log_path :: "string option"
  pb_flags :: u32
  pb_cgroup_config :: "cgroup_config option"
  pb_network_mode :: "network_mode option"
  pb_security_profile :: "security_profile option"
  pb_userns_mode :: "user_namespace_mode option"
  pb_tty :: bool
  pb_seccomp_mode :: seccomp_mode
  pb_seccomp_program :: "program option"
  pb_seccomp_flags :: u64

definition unwrap_or :: "'a option \<Rightarrow> 'a \<Rightarrow> 'a" where
  "unwrap_or x d = (case x of Some v \<Rightarrow> v | None \<Rightarrow> d)"

definition build_process_config :: "process_config_builder \<Rightarrow> (container_error, process_config) result" where
  "build_process_config b =
     and_then (ok_or (pb_args b) (MissingProcessConfigField ''args'')) (\<lambda>args.
     if args = [] then Err EmptyProcessArgs_Container
     else
       and_then (ok_or (pb_id b) (MissingProcessConfigField ''id'')) (\<lambda>cid.
       and_then (ok_or (pb_rootfs b) (MissingProcessConfigField ''rootfs'')) (\<lambda>rootfs. Ok
         \<lparr>pc_id = cid, pc_hostname = pb_hostname b, pc_args = args, pc_env = unwrap_or (pb_env b) [],
          pc_cwd = pb_cwd b, pc_rootfs = rootfs, pc_overlay_config = pb_overlay_config b,
          pc_readonly_rootfs = pb_readonly_rootfs b, pc_mounts = unwrap_or (pb_mounts b) [],
          pc_process_user = pb_process_user b, pc_rlimits = unwrap_or (pb_rlimits b) [],
          pc_masked_paths = unwrap_or (pb_masked_paths b) [], pc_readonly_paths = unwrap_or (pb_readonly_paths b) [],
          pc_log_path = pb_log_path b, pc_flags = pb_flags b, pc_cgroup_config = pb_cgroup_config b,
          pc_network_mode = unwrap_or (pb_network_mode b) Net_None,
          pc_security_profile = unwrap_or (pb_security_profile b) Denylist,
          pc_userns_mode = unwrap_or (pb_userns_mode b) Userns_Host, pc_tty = pb_tty b,
          pc_seccomp_mode = pb_seccomp_mode b, pc_seccomp_program = pb_seccomp_program b,
          pc_seccomp_flags = pb_seccomp_flags b\<rparr>)))"

record child_config =
  cc_args :: "string list"
  cc_env :: "string list"
  cc_cwd :: "string option"
  cc_hostname :: "string option"
  cc_rootfs :: string
  cc_overlay_config :: "overlay_config option"
  cc_readonly_rootfs :: bool
  cc_mounts :: "mount list"
  cc_process_user :: "process_user option"
  cc_rlimits :: "linux_rlimit list"
  cc_masked_paths :: "string list"
  cc_readonly_paths :: "string list"
  cc_network_mode :: network_mode
  cc_security_profile :: security_profile
  cc_userns_mode :: user_namespace_mode
  cc_child_flags :: u32
  cc_is_rootless :: bool
  cc_seccomp_mode :: seccomp_mode
  cc_seccomp_program :: "program option"
  cc_seccomp_flags :: u64

text \<open>
  The child's configuration, from the process configuration: the builder is only used in this one
  place, where every mandatory field is given.
\<close>

definition child_flags :: "u32 \<Rightarrow> u32" where
  "child_flags flags = flags AND NOT CLONE_NEWPID AND NOT CLONE_NEWUSER"

definition child_config_of :: "process_config \<Rightarrow> network_mode \<Rightarrow> bool \<Rightarrow> child_config" where
  "child_config_of c network_mode is_root =
     \<lparr>cc_args = pc_args c, cc_env = pc_env c, cc_cwd = pc_cwd c, cc_hostname = pc_hostname c,
      cc_rootfs = pc_rootfs c, cc_overlay_config = pc_overlay_config c, cc_readonly_rootfs = pc_readonly_rootfs c,
      cc_mounts = pc_mounts c, cc_process_user = pc_process_user c, cc_rlimits = pc_rlimits c,
      cc_masked_paths = pc_masked_paths c, cc_readonly_paths = pc_readonly_paths c, cc_network_mode = network_mode,
      cc_security_profile = pc_security_profile c, cc_userns_mode = pc_userns_mode c,
      cc_child_flags = child_flags (pc_flags c), cc_is_rootless = \<not> is_root, cc_seccomp_mode = pc_seccomp_mode c,
      cc_seccomp_program = pc_seccomp_program c, cc_seccomp_flags = pc_seccomp_flags c\<rparr>"

definition child_seccomp_plan :: "child_config \<Rightarrow> seccomp_plan" where
  "child_seccomp_plan c =
     (case cc_seccomp_mode c of
        Off \<Rightarrow> Plan_None
      | Learn \<Rightarrow> Plan_Learn
      | Enforce \<Rightarrow> (case cc_seccomp_program c of Some p \<Rightarrow> Plan_Enforce p (cc_seccomp_flags c) | None \<Rightarrow> Plan_None))"

subsection \<open>The child\<close>

datatype child_call =
    Unshare u32
  | Notify_userns_ready
  | Wait_userns_mapped
  | Read_parent_signal
  | Setup_loopback
  | Setup_veth_child bridge_network
  | Fs fs_call
  | Set_hostname string
  | Child_chdir string
  | Setrlimit nat u64 u64
  | Setgroups "u32 list"
  | Setgid u32
  | Setuid u32
  | Sec security_call
  | Clearenv
  | Setenv string string
  | Execvp string "string list"

record child_world =
  cw_do :: "child_call list \<Rightarrow> child_call \<Rightarrow> (errno, unit) result"
  cw_fs :: "child_call list \<Rightarrow> fs_call \<Rightarrow> (errno, nat) result"
  cw_signal :: "child_call list \<Rightarrow> (errno, string) result"

datatype child_error =
    Child_os errno
  | Child_fs fs_error
  | Child_apply apply_error
  | Child_env oci_config_error
  | Child_unsupported_rlimit string
  | Child_invalid_argument
  | Child_bad_network_config

type_synonym 'a child_io = "(child_call, child_error, 'a) io"

definition child_do :: "child_world \<Rightarrow> child_call \<Rightarrow> unit child_io" where
  "child_do cw c = io_map_err Child_os (io_call (cw_do cw) c)"

definition child_fs :: "child_world \<Rightarrow> (fs_world \<Rightarrow> 'a fs_io) \<Rightarrow> 'a child_io" where
  "child_fs cw act = io_map_err Child_fs (io_embed Fs (cw_fs cw) act)"

definition apply_rlimits :: "child_world \<Rightarrow> linux_rlimit list \<Rightarrow> unit child_io" where
  "apply_rlimits cw rlimits = io_each (\<lambda>r.
     io_bind (io_lift (ok_or (rlimit_resource (rl_type r)) (Child_unsupported_rlimit (rl_type r)))) (\<lambda>res.
     child_do cw (Setrlimit res (rl_soft r) (rl_hard r)))) rlimits"

definition apply_process_user :: "child_world \<Rightarrow> process_user option \<Rightarrow> bool \<Rightarrow> unit child_io" where
  "apply_process_user cw user private_userns =
     (case user of
        None \<Rightarrow> io_return ()
      | Some u \<Rightarrow>
          io_bind (io_when (\<not> private_userns \<or> pu_additional_gids u \<noteq> []) (child_do cw (Setgroups (pu_additional_gids u)))) (\<lambda>_.
          io_bind (child_do cw (Setgid (pu_gid u))) (\<lambda>_.
          child_do cw (Setuid (pu_uid u)))))"

definition set_item :: "child_world \<Rightarrow> string \<Rightarrow> unit child_io" where
  "set_item cw item =
     (case split_once (CHR ''='') item of
        Some (key, val) \<Rightarrow> child_do cw (Setenv key val)
      | None \<Rightarrow> io_return ())"

definition replace_environment :: "child_world \<Rightarrow> string list \<Rightarrow> unit child_io" where
  "replace_environment cw env =
     io_bind (io_lift (map_err Child_env (validate_environment env))) (\<lambda>_.
     io_bind (child_do cw Clearenv) (\<lambda>_.
     io_each (set_item cw) env))"

definition join_userns :: "child_world \<Rightarrow> unit child_io" where
  "join_userns cw =
     io_bind (child_do cw (Unshare CLONE_NEWUSER)) (\<lambda>_.
     io_bind (child_do cw Notify_userns_ready) (\<lambda>_.
     child_do cw Wait_userns_mapped))"

definition c_string_ok :: "string \<Rightarrow> bool" where
  "c_string_ok s \<longleftrightarrow> char_of (0 :: nat) \<notin> set s"

text \<open>\<open>parse\<close> reads the bridge network the parent serialised.\<close>

definition child_network :: "child_world \<Rightarrow> (string \<Rightarrow> bridge_network option) \<Rightarrow> child_config \<Rightarrow> string \<Rightarrow> unit child_io" where
  "child_network cw parse c signal =
     io_when (cc_child_flags c AND CLONE_NEWNET = CLONE_NEWNET)
       (io_bind (child_do cw Setup_loopback) (\<lambda>_.
        io_when (cc_network_mode c = Net_Bridge)
          (io_bind (io_lift (ok_or (parse signal) Child_bad_network_config)) (\<lambda>network.
           child_do cw (Setup_veth_child network)))))"

definition child_rootfs :: "child_world \<Rightarrow> child_config \<Rightarrow> unit child_io" where
  "child_rootfs cw c =
     io_bind (child_fs cw (\<lambda>os. os_do os (Mount None ''/'' None (MS_REC OR MS_PRIVATE) None))) (\<lambda>_.
     io_bind (case cc_overlay_config c of
         Some overlay \<Rightarrow> child_fs cw (\<lambda>os. setup_overlay_rootfs os overlay)
       | None \<Rightarrow> io_return (cc_rootfs c)) (\<lambda>rootfs.
     io_bind (child_fs cw (\<lambda>os. setup_rootfs os rootfs (cc_readonly_rootfs c) (cc_mounts c))) (\<lambda>_.
     child_fs cw (\<lambda>os. apply_oci_linux_paths os (cc_masked_paths c) (cc_readonly_paths c)))))"

definition child_confine :: "child_world \<Rightarrow> target_arch \<Rightarrow> child_config \<Rightarrow> unit child_io" where
  "child_confine cw a c =
     io_map_err Child_apply (io_embed Sec (\<lambda>w s. cw_do cw w (Sec s))
       (\<lambda>os. apply_security_plan os a (cc_security_profile c) (child_seccomp_plan c)))"

text \<open>Everything the child does before it confines itself.\<close>

definition child_prepare :: "child_world \<Rightarrow> (string \<Rightarrow> bridge_network option) \<Rightarrow> child_config \<Rightarrow> unit child_io" where
  "child_prepare cw parse c =
     io_bind (io_when (cc_is_rootless c \<and> userns_is_private (cc_userns_mode c)) (join_userns cw)) (\<lambda>_.
     io_bind (io_when (cc_child_flags c \<noteq> 0) (child_do cw (Unshare (cc_child_flags c)))) (\<lambda>_.
     io_bind (io_map_err Child_os (io_call (\<lambda>w _. cw_signal cw w) Read_parent_signal)) (\<lambda>signal.
     io_bind (child_network cw parse c signal) (\<lambda>_.
     io_bind (io_lift (if list_all c_string_ok (cc_args c) then Ok () else Err Child_invalid_argument)) (\<lambda>_.
     io_bind (child_rootfs cw c) (\<lambda>_.
     io_bind (case cc_hostname c of Some h \<Rightarrow> child_do cw (Set_hostname h) | None \<Rightarrow> io_return ()) (\<lambda>_.
     io_bind (case cc_cwd c of Some d \<Rightarrow> child_do cw (Child_chdir d) | None \<Rightarrow> io_return ()) (\<lambda>_.
     io_bind (io_when (\<not> cc_is_rootless c \<and> userns_is_private (cc_userns_mode c)) (join_userns cw)) (\<lambda>_.
     io_bind (apply_rlimits cw (cc_rlimits c)) (\<lambda>_.
     apply_process_user cw (cc_process_user c) (userns_is_private (cc_userns_mode c))))))))))))"

definition run_child ::
    "child_world \<Rightarrow> (string \<Rightarrow> bridge_network option) \<Rightarrow> target_arch \<Rightarrow> child_config \<Rightarrow> unit child_io" where
  "run_child cw parse a c =
     io_bind (child_prepare cw parse c) (\<lambda>_.
     io_bind (child_confine cw a c) (\<lambda>_.
     io_bind (replace_environment cw (cc_env c)) (\<lambda>_.
     child_do cw (Execvp (hd (cc_args c)) (cc_args c)))))"

subsection \<open>The parent\<close>

record process_exit =
  px_pid :: int
  px_code :: "int option"
  px_signal :: "string option"
  px_error :: "string option"
  px_capture :: "capture option"

record started_process =
  sp_pid :: int
  sp_cgroup_path :: "string option"
  sp_network_subnet :: "string option"
  sp_nat_lease :: "nat_lease option"
  sp_overlay_ownership :: "overlay_ownership option"

record parent_resources =
  prs_container_id :: string
  prs_cgroup :: "string option"
  prs_bridge_network :: "bridge_network option"
  prs_nat_lease :: "nat_lease option"
  prs_overlay_ownership :: "overlay_ownership option"
  prs_release_bridge_allocation :: bool

definition new_resources :: "string \<Rightarrow> overlay_ownership option \<Rightarrow> parent_resources" where
  "new_resources cid overlay =
     \<lparr>prs_container_id = cid, prs_cgroup = None, prs_bridge_network = None, prs_nat_lease = None,
      prs_overlay_ownership = overlay, prs_release_bridge_allocation = False\<rparr>"

datatype wait_status = Exited int | Signaled string | Wait_other string

datatype parent_call =
    New_cgroup string cgroup_config
  | Add_process string int
  | Kill_child int
  | Wait_child int
  | Allocate_bridge string int
  | Setup_veth_parent int bridge_network
  | Setup_nat string
  | On_started started_process
  | Write_signal string
  | Wait_userns_ready
  | Write_uid_gid_maps int user_namespace_map
  | Write_userns_mapped
  | Collect_syscalls int
  | Read_child_error
  | Wait_log_helper
  | Undo_nat nat_lease
  | Undo_veth string
  | Undo_bridge string
  | Undo_overlay overlay_ownership
  | Undo_cgroup string

record parent_world =
  pa_do :: "parent_call list \<Rightarrow> parent_call \<Rightarrow> (string, unit) result"
  pa_cgroup :: "parent_call list \<Rightarrow> string \<Rightarrow> cgroup_config \<Rightarrow> (string, string) result"
  pa_bridge :: "parent_call list \<Rightarrow> string \<Rightarrow> int \<Rightarrow> (string, bridge_network) result"
  pa_nat :: "parent_call list \<Rightarrow> string \<Rightarrow> (string, nat_lease) result"
  pa_wait :: "parent_call list \<Rightarrow> (string, wait_status) result"
  pa_collect :: "parent_call list \<Rightarrow> (string, wait_status \<times> capture) result"
  pa_child_error :: "parent_call list \<Rightarrow> (string, string option) result"

type_synonym 'a parent_io = "(parent_call, string, 'a) io"

text \<open>What a cleanup calls, in order: each resource is taken out, so that a second cleanup does nothing.\<close>

definition cleanup_calls :: "parent_resources \<Rightarrow> parent_call list" where
  "cleanup_calls r =
     (case prs_bridge_network r of
        None \<Rightarrow> []
      | Some network \<Rightarrow>
          (case prs_nat_lease r of Some lease \<Rightarrow> [Undo_nat lease] | None \<Rightarrow> []) @
          [Undo_veth (vp_host_name (bn_veth network))]) @
     (if prs_release_bridge_allocation r then [Undo_bridge (prs_container_id r)] else []) @
     (case prs_overlay_ownership r of Some overlay \<Rightarrow> [Undo_overlay overlay] | None \<Rightarrow> []) @
     (case prs_cgroup r of Some path \<Rightarrow> [Undo_cgroup path] | None \<Rightarrow> [])"

text \<open>All calls are made; the first error is reported.\<close>

fun run_all :: "parent_world \<Rightarrow> parent_call list \<Rightarrow> string option \<Rightarrow> unit parent_io" where
  "run_all pw [] first w = (w, case first of None \<Rightarrow> Ok () | Some e \<Rightarrow> Err e)"
| "run_all pw (c # cs) first w =
     run_all pw cs (case first of Some e \<Rightarrow> Some e | None \<Rightarrow> (case pa_do pw w c of Ok _ \<Rightarrow> None | Err e \<Rightarrow> Some e)) (w @ [c])"

definition cleanup_resources :: "parent_world \<Rightarrow> parent_resources \<Rightarrow> unit parent_io" where
  "cleanup_resources pw r = run_all pw (cleanup_calls r) None"

text \<open>
  \<open>attempt pw r m f\<close> is \<^verbatim>\<open>m?\<close> while \<^verbatim>\<open>resources\<close> is in scope: on an error the resources are dropped, which cleans
  them up and only warns.
\<close>

definition attempt :: "parent_world \<Rightarrow> parent_resources \<Rightarrow> 'a parent_io \<Rightarrow> ('a \<Rightarrow> 'b parent_io) \<Rightarrow> 'b parent_io" where
  "attempt pw r m f = io_handle m (\<lambda>x. case x of
     Ok a \<Rightarrow> f a
   | Err e \<Rightarrow> io_bind (io_ignore (cleanup_resources pw r)) (\<lambda>_. io_lift (Err e)))"

definition parent_do :: "parent_world \<Rightarrow> parent_call \<Rightarrow> unit parent_io" where
  "parent_do pw c = io_call (pa_do pw) c"

text \<open>Kill and reap the child, then fail.\<close>

definition kill_and :: "parent_world \<Rightarrow> int \<Rightarrow> 'a parent_io \<Rightarrow> 'a parent_io" where
  "kill_and pw pid m = io_on_err m
     (io_bind (io_ignore (parent_do pw (Kill_child pid))) (\<lambda>_. (io_ignore (parent_do pw (Wait_child pid)) :: unit parent_io)))"

definition with_cgroup ::
    "parent_world \<Rightarrow> process_config \<Rightarrow> int \<Rightarrow> parent_resources \<Rightarrow> (parent_resources \<Rightarrow> 'a parent_io) \<Rightarrow> 'a parent_io" where
  "with_cgroup pw c pid r f =
     (case pc_cgroup_config c of
        None \<Rightarrow> f r
      | Some cfg \<Rightarrow>
          let name = ''crun-'' @ int_dec pid in
          attempt pw r (kill_and pw pid (io_call (\<lambda>w _. pa_cgroup pw w name cfg) (New_cgroup name cfg))) (\<lambda>path.
          let r = r\<lparr>prs_cgroup := Some path\<rparr> in
          attempt pw r (kill_and pw pid (parent_do pw (Add_process path pid))) (\<lambda>_. f r)))"

definition with_network ::
    "parent_world \<Rightarrow> process_config \<Rightarrow> network_mode \<Rightarrow> int \<Rightarrow> parent_resources \<Rightarrow> (parent_resources \<Rightarrow> 'a parent_io) \<Rightarrow> 'a parent_io" where
  "with_network pw c network_mode pid r f =
     (if network_mode = Net_Bridge then
        attempt pw r (io_call (\<lambda>w _. pa_bridge pw w (pc_id c) pid) (Allocate_bridge (pc_id c) pid)) (\<lambda>network.
        let r = r\<lparr>prs_bridge_network := Some network, prs_release_bridge_allocation := True\<rparr> in
        attempt pw r (parent_do pw (Setup_veth_parent pid network)) (\<lambda>_.
        attempt pw r (io_call (\<lambda>w _. pa_nat pw w (bn_subnet network)) (Setup_nat (bn_subnet network))) (\<lambda>lease.
        f (r\<lparr>prs_nat_lease := Some lease\<rparr>))))
      else f r)"

definition started_of :: "int \<Rightarrow> parent_resources \<Rightarrow> started_process" where
  "started_of pid r =
     \<lparr>sp_pid = pid, sp_cgroup_path = prs_cgroup r, sp_network_subnet = map_option bn_subnet (prs_bridge_network r),
      sp_nat_lease = prs_nat_lease r, sp_overlay_ownership = prs_overlay_ownership r\<rparr>"

definition exit_of :: "int \<Rightarrow> string option \<Rightarrow> capture option \<Rightarrow> wait_status \<Rightarrow> process_exit" where
  "exit_of pid err cap status =
     \<lparr>px_pid = pid, px_code = (case status of Exited code \<Rightarrow> Some code | _ \<Rightarrow> None),
      px_signal = (case status of Exited _ \<Rightarrow> None | Signaled s \<Rightarrow> Some s | Wait_other s \<Rightarrow> Some s),
      px_error = err, px_capture = cap\<rparr>"

definition wait_for_exit :: "parent_world \<Rightarrow> process_config \<Rightarrow> int \<Rightarrow> (wait_status \<times> capture option) parent_io" where
  "wait_for_exit pw c pid =
     (if pc_seccomp_mode c = Learn
      then io_bind (io_call (\<lambda>w _. pa_collect pw w) (Collect_syscalls pid)) (\<lambda>(s, cap). io_return (s, Some cap))
      else io_bind (io_call (\<lambda>w _. pa_wait pw w) (Wait_child pid)) (\<lambda>s. io_return (s, None)))"

text \<open>The parent's side after the fork, once the child is running: \<open>print\<close> serialises the bridge network.\<close>

definition supervise ::
    "parent_world \<Rightarrow> (bridge_network \<Rightarrow> string) \<Rightarrow> process_config \<Rightarrow> network_mode \<Rightarrow> int \<Rightarrow> overlay_ownership option \<Rightarrow>
     process_exit parent_io" where
  "supervise pw print c network_mode pid overlay =
     with_cgroup pw c pid (new_resources (pc_id c) overlay) (\<lambda>r.
     with_network pw c network_mode pid r (\<lambda>r.
     attempt pw r (parent_do pw (On_started (started_of pid r))) (\<lambda>_.
     attempt pw r (parent_do pw (Write_signal (case prs_bridge_network r of Some n \<Rightarrow> print n | None \<Rightarrow> []))) (\<lambda>_.
     attempt pw r (io_when (userns_is_private (pc_userns_mode c)) (parent_do pw Wait_userns_ready)) (\<lambda>_.
     attempt pw r (case pc_userns_mode c of
         Userns_Private m \<Rightarrow> io_bind (parent_do pw (Write_uid_gid_maps pid m)) (\<lambda>_. parent_do pw Write_userns_mapped)
       | Userns_Host \<Rightarrow> io_return ()) (\<lambda>_.
     attempt pw r (wait_for_exit pw c pid) (\<lambda>(status, cap).
     attempt pw r (io_call (\<lambda>w _. pa_child_error pw w) Read_child_error) (\<lambda>err.
     attempt pw r (parent_do pw Wait_log_helper) (\<lambda>_.
     io_bind (cleanup_resources pw r) (\<lambda>_.
     io_return (exit_of pid err cap status)))))))))))"

text \<open>
  \<open>run_process\<close>: the checks, the namespaces the parent itself leaves, and the fork, answered with the child's
  pid; \<open>is_root\<close> decides the effective network mode.
\<close>

definition run_process ::
    "parent_world \<Rightarrow> (bridge_network \<Rightarrow> string) \<Rightarrow> bool \<Rightarrow> (u32 \<Rightarrow> (string, unit) result) \<Rightarrow> (string, int) result \<Rightarrow>
     (overlay_config \<Rightarrow> overlay_ownership) \<Rightarrow> process_config \<Rightarrow> (parent_call, string + container_error, process_exit) io" where
  "run_process pw print is_root unshare fork own c =
     (if pc_args c = [] then io_lift (Err (Inr EmptyProcessArgs_Container))
      else
        let network_mode = to_effective is_root (pc_network_mode c);
            parent_flags = pc_flags c AND CLONE_NEWPID in
        io_bind (io_lift (map_err Inl (if parent_flags \<noteq> 0 then unshare parent_flags else Ok ()))) (\<lambda>_.
        io_bind (io_lift (map_err Inl fork)) (\<lambda>pid.
        io_map_err Inl (supervise pw print c network_mode pid (map_option own (pc_overlay_config c))))))"

subsection \<open>What the child has done when it becomes the container\<close>

fun is_sec :: "child_call \<Rightarrow> bool" where
  "is_sec (Sec _) = True"
| "is_sec _ = False"

abbreviation not_sec :: "child_call \<Rightarrow> bool" where
  "not_sec c \<equiv> \<not> is_sec c"

lemma child_do_only [io_only]: "P c \<Longrightarrow> only P (child_do cw c)"
  by (simp add: child_do_def io_only)

lemma child_fs_only [io_only]: "only not_sec (child_fs cw act)"
  unfolding child_fs_def only_def io_map_err_def io_embed_def
  by (auto simp: list_all_iff split: prod.split)

lemma child_prepare_only: "only not_sec (child_prepare cw parse c)"
  unfolding child_prepare_def child_network_def child_rootfs_def join_userns_def apply_rlimits_def apply_process_user_def
  by (auto intro!: io_only split: option.split)

lemma child_do_Ok [simp]: "child_do cw c w = (w', Ok ()) \<longleftrightarrow> w' = w @ [c] \<and> cw_do cw w c = Ok ()"
  by (simp add: child_do_def)

lemma apply_process_user_Ok:
  assumes "apply_process_user cw (Some u) private w = (w', Ok ())"
  shows "\<exists>w0. w' = w0 @ [Setgid (pu_gid u), Setuid (pu_uid u)] \<and> cw_do cw w0 (Setgid (pu_gid u)) = Ok () \<and>
    cw_do cw (w0 @ [Setgid (pu_gid u)]) (Setuid (pu_uid u)) = Ok ()"
  using assms by (auto simp: apply_process_user_def split: if_splits)

lemma child_prepare_user:
  assumes "child_prepare cw parse c w = (w', Ok ())" "cc_process_user c = Some u"
  shows "\<exists>w0. w' = w0 @ [Setgid (pu_gid u), Setuid (pu_uid u)] \<and> cw_do cw w0 (Setgid (pu_gid u)) = Ok () \<and>
    cw_do cw (w0 @ [Setgid (pu_gid u)]) (Setuid (pu_uid u)) = Ok ()"
  using assms apply_process_user_Ok unfolding child_prepare_def by (auto simp del: child_do_Ok io_when_Ok)

definition env_calls :: "string list \<Rightarrow> child_call list" where
  "env_calls env = Clearenv # map (\<lambda>item. Setenv (env_key item) (drop (Suc (length (env_key item))) item)) env"

lemma set_item_eq:
  assumes "CHR ''='' \<in> set item"
  shows "set_item cw item = child_do cw (Setenv (env_key item) (drop (Suc (length (env_key item))) item))"
proof -
  obtain k v where kv: "split_once (CHR ''='') item = Some (k, v)"
    using assms split_once_None [of "CHR ''=''" item] by (cases "split_once (CHR ''='') item") auto
  then have "item = k @ CHR ''='' # v" "CHR ''='' \<notin> set k" by (auto simp: split_once_Some)
  then have "k = env_key item" "v = drop (Suc (length (env_key item))) item"
    by (auto simp: env_key_def takeWhile_append)
  with kv show ?thesis by (simp add: set_item_def)
qed

lemma setenv_each:
  "(\<And>item. item \<in> set env \<Longrightarrow> CHR ''='' \<in> set item) \<Longrightarrow> io_each (set_item cw) env w = (w', Ok ()) \<Longrightarrow>
     w' = w @ map (\<lambda>item. Setenv (env_key item) (drop (Suc (length (env_key item))) item)) env"
proof (induction env arbitrary: w)
  case (Cons item env)
  let ?c = "Setenv (env_key item) (drop (Suc (length (env_key item))) item)"
  have "set_item cw item = child_do cw ?c" using Cons.prems(1) by (intro set_item_eq) simp
  then have "io_each (set_item cw) env (w @ [?c]) = (w', Ok ())" using Cons.prems(2) by auto
  from Cons.IH [OF _ this] show ?case using Cons.prems(1) by simp
qed simp

lemma replace_environment_Ok:
  assumes "replace_environment cw env w = (w', Ok ())"
  shows "w' = w @ env_calls env \<and> environment_ok env"
  using assms setenv_each [of env cw "w @ [Clearenv]" w']
  by (auto simp: replace_environment_def env_calls_def validate_environment_Ok environment_ok_def)

text \<open>
  C4: when the container's command starts, the child is confined: the last thing it did before replacing
  its environment and executing the command was to apply every promised protection, all accepted by the
  kernel and in order; nothing else ran under the new confinement; it had changed to the configured user
  and group just before; and the environment is exactly the configured one.
\<close>

theorem child_confined_before_exec:
  assumes "run_child cw parse a c [] = (w, Ok ())"
  shows "\<exists>pre sec. w = pre @ map Sec sec @ env_calls (cc_env c) @ [Execvp (hd (cc_args c)) (cc_args c)] \<and>
    list_all not_sec pre \<and> environment_ok (cc_env c) \<and>
    map protection (accepted (\<lambda>v s. cw_do cw (pre @ map Sec v) (Sec s)) sec) =
      protections a (cc_security_profile c) (child_seccomp_plan c) \<and>
    (\<forall>u. cc_process_user c = Some u \<longrightarrow> suffix [Setgid (pu_gid u), Setuid (pu_uid u)] pre)"
proof -
  from assms obtain pre sec w2 where p: "child_prepare cw parse c [] = (pre, Ok ())"
    and s: "apply_security_plan (\<lambda>v s. cw_do cw (pre @ map Sec v) (Sec s)) a (cc_security_profile c) (child_seccomp_plan c) [] = (sec, Ok ())"
    and e: "replace_environment cw (cc_env c) (pre @ map Sec sec) = (w2, Ok ())"
    and w: "w = w2 @ [Execvp (hd (cc_args c)) (cc_args c)]"
    by (auto simp: run_child_def child_confine_def)
  have "list_all not_sec pre" using only_log [OF child_prepare_only p] by auto
  then show ?thesis
    using w replace_environment_Ok [OF e] confinement_complete [OF s] child_prepare_user [OF p]
    by (intro exI [of _ pre] exI [of _ sec]) (auto simp: suffix_def)
qed

subsection \<open>Resources of the parent\<close>

fun is_undo :: "parent_call \<Rightarrow> bool" where
  "is_undo (Undo_nat _) = True"
| "is_undo (Undo_veth _) = True"
| "is_undo (Undo_bridge _) = True"
| "is_undo (Undo_overlay _) = True"
| "is_undo (Undo_cgroup _) = True"
| "is_undo _ = False"

text \<open>What a successful call adds to the resources held.\<close>

fun acquire :: "parent_world \<Rightarrow> parent_call list \<Rightarrow> parent_call \<Rightarrow> parent_resources \<Rightarrow> parent_resources" where
  "acquire pw w (New_cgroup name cfg) r = (case pa_cgroup pw w name cfg of Ok path \<Rightarrow> r\<lparr>prs_cgroup := Some path\<rparr> | Err _ \<Rightarrow> r)"
| "acquire pw w (Allocate_bridge cid pid) r = (case pa_bridge pw w cid pid of
      Ok network \<Rightarrow> r\<lparr>prs_bridge_network := Some network, prs_release_bridge_allocation := True\<rparr> | Err _ \<Rightarrow> r)"
| "acquire pw w (Setup_nat subnet) r = (case pa_nat pw w subnet of Ok lease \<Rightarrow> r\<lparr>prs_nat_lease := Some lease\<rparr> | Err _ \<Rightarrow> r)"
| "acquire pw w _ r = r"

fun acquired :: "parent_world \<Rightarrow> parent_call list \<Rightarrow> parent_call list \<Rightarrow> parent_resources \<Rightarrow> parent_resources" where
  "acquired pw w [] r = r"
| "acquired pw w (c # cs) r = acquired pw (w @ [c]) cs (acquire pw w c r)"

fun neutral :: "parent_call \<Rightarrow> bool" where
  "neutral (New_cgroup _ _) = False"
| "neutral (Allocate_bridge _ _) = False"
| "neutral (Setup_nat _) = False"
| "neutral c = (\<not> is_undo c)"

lemma acquired_append: "acquired pw w (cs @ ds) r = acquired pw (w @ cs) ds (acquired pw w cs r)"
  by (induction cs arbitrary: w r) simp_all

lemma acquire_neutral: "neutral c \<Longrightarrow> acquire pw w c r = r"
  by (cases c) simp_all

lemma acquired_neutral: "list_all neutral cs \<Longrightarrow> acquired pw w cs r = r"
  by (induction cs arbitrary: w) (simp_all add: acquire_neutral)

lemma neutral_not_undo: "neutral c \<Longrightarrow> \<not> is_undo c"
  by (cases c) simp_all

lemma run_all_calls: "fst (run_all pw cs first w) = w @ cs"
  by (induction cs arbitrary: first w) simp_all

lemma cleanup_log [simp]: "fst (cleanup_resources pw r w) = w @ cleanup_calls r"
  by (simp add: cleanup_resources_def run_all_calls)

text \<open>The calls that give back what is held.\<close>

fun gives_back :: "parent_resources \<Rightarrow> parent_call \<Rightarrow> bool" where
  "gives_back r (Undo_nat lease) \<longleftrightarrow> prs_nat_lease r = Some lease"
| "gives_back r (Undo_veth name) \<longleftrightarrow> (\<exists>network. prs_bridge_network r = Some network \<and> name = vp_host_name (bn_veth network))"
| "gives_back r (Undo_bridge cid) \<longleftrightarrow> prs_release_bridge_allocation r \<and> cid = prs_container_id r"
| "gives_back r (Undo_overlay overlay) \<longleftrightarrow> prs_overlay_ownership r = Some overlay"
| "gives_back r (Undo_cgroup path) \<longleftrightarrow> prs_cgroup r = Some path"
| "gives_back r _ \<longleftrightarrow> False"

text \<open>Addresses are translated only for a container that has a link.\<close>

definition nat_has_link :: "parent_resources \<Rightarrow> bool" where
  "nat_has_link r \<longleftrightarrow> (prs_nat_lease r \<noteq> None \<longrightarrow> prs_bridge_network r \<noteq> None)"

lemma cleanup_calls_exact:
  assumes "nat_has_link r" shows "set (cleanup_calls r) = {c. gives_back r c}" "distinct (cleanup_calls r)"
proof -
  show "set (cleanup_calls r) = {c. gives_back r c}"
  proof (intro set_eqI iffI)
    fix c assume "c \<in> {c. gives_back r c}"
    then show "c \<in> set (cleanup_calls r)"
      using assms by (cases c) (auto simp: cleanup_calls_def nat_has_link_def)
  next
    fix c assume "c \<in> set (cleanup_calls r)"
    then show "c \<in> {c. gives_back r c}"
      by (cases "prs_bridge_network r") (auto simp: cleanup_calls_def split: option.splits if_splits)
  qed
  show "distinct (cleanup_calls r)" by (auto simp: cleanup_calls_def split: option.splits)
qed

lemma acquired_id: "prs_container_id (acquired pw w cs r) = prs_container_id r"
proof (induction cs arbitrary: w r)
  case (Cons c cs)
  have "prs_container_id (acquire pw w c r) = prs_container_id r" by (cases c) (simp_all split: result.split)
  with Cons show ?case by simp
qed simp

text \<open>\<open>releases pw r m\<close>: started with the resources \<open>r\<close>, an action ends by giving back all it then holds.\<close>

definition releases :: "parent_world \<Rightarrow> parent_resources \<Rightarrow> 'a parent_io \<Rightarrow> bool" where
  "releases pw r m \<longleftrightarrow> (\<forall>w. \<exists>body. fst (m w) = w @ body @ cleanup_calls (acquired pw w body r) \<and>
     list_all (\<lambda>c. \<not> is_undo c) body \<and> nat_has_link (acquired pw w body r))"

lemma releases_cleanup:
  assumes "nat_has_link r" shows "releases pw r (io_bind (cleanup_resources pw r) (\<lambda>_. io_return x))"
proof -
  have "fst (io_bind (cleanup_resources pw r) (\<lambda>_. io_return x) w) = w @ [] @ cleanup_calls (acquired pw w [] r)" for w
    using cleanup_log [of pw r w] by (simp add: io_bind_def io_return_def split_beta del: cleanup_log split: result.split)
  then show ?thesis using assms unfolding releases_def by (metis acquired.simps(1) list.pred_inject(1))
qed

lemma releases_attempt_general:
  assumes "nat_has_link r" and "\<And>w. \<exists>cs. fst (m w) = w @ cs \<and> list_all (\<lambda>c. \<not> is_undo c) cs \<and>
      (case snd (m w) of Ok a \<Rightarrow> releases pw (acquired pw w cs r) (f a) | Err _ \<Rightarrow> acquired pw w cs r = r)"
  shows "releases pw r (attempt pw r m f)"
  unfolding releases_def
proof
  fix w
  obtain cs where cs: "fst (m w) = w @ cs" "list_all (\<lambda>c. \<not> is_undo c) cs"
    "case snd (m w) of Ok a \<Rightarrow> releases pw (acquired pw w cs r) (f a) | Err _ \<Rightarrow> acquired pw w cs r = r"
    using assms(2) by blast
  then obtain x where m: "m w = (w @ cs, x)" by (metis prod.collapse)
  show "\<exists>body. fst (attempt pw r m f w) = w @ body @ cleanup_calls (acquired pw w body r) \<and>
      list_all (\<lambda>c. \<not> is_undo c) body \<and> nat_has_link (acquired pw w body r)"
  proof (cases x)
    case (Err e)
    then show ?thesis
      using cs(2,3) assms(1)
      by (intro exI [of _ cs]) (simp add: attempt_def m io_handle_def io_bind_def io_ignore_def io_lift_def split_beta)
  next
    case (Ok a)
    then have "releases pw (acquired pw w cs r) (f a)" using cs(3) by (simp add: m)
    then obtain body where "fst (f a (w @ cs)) = (w @ cs) @ body @ cleanup_calls (acquired pw (w @ cs) body (acquired pw w cs r))"
      "list_all (\<lambda>c. \<not> is_undo c) body" "nat_has_link (acquired pw (w @ cs) body (acquired pw w cs r))"
      unfolding releases_def by blast
    then show ?thesis
      using Ok cs(2) by (intro exI [of _ "cs @ body"]) (simp add: attempt_def m io_handle_def acquired_append)
  qed
qed

lemma releases_attempt:
  assumes "nat_has_link r" "only neutral m" "\<And>a. releases pw r (f a)"
  shows "releases pw r (attempt pw r m f)"
proof (rule releases_attempt_general [OF assms(1)])
  fix w
  obtain cs where "fst (m w) = w @ cs" "list_all neutral cs" using assms(2) unfolding only_def by blast
  then show "\<exists>cs. fst (m w) = w @ cs \<and> list_all (\<lambda>c. \<not> is_undo c) cs \<and>
      (case snd (m w) of Ok a \<Rightarrow> releases pw (acquired pw w cs r) (f a) | Err _ \<Rightarrow> acquired pw w cs r = r)"
    using assms(3) by (intro exI [of _ cs])
      (auto simp: acquired_neutral list_all_iff neutral_not_undo split: result.split)
qed

lemma parent_do_only [io_only]: "P c \<Longrightarrow> only P (parent_do pw c)"
  by (simp add: parent_do_def io_only)

lemma kill_and_neutral: "only neutral m \<Longrightarrow> only neutral (kill_and pw pid m)"
  by (auto simp: kill_and_def intro!: io_only)

text \<open>A call that acquires: with or without killing the child on failure.\<close>

lemma releases_acquire:
  assumes "\<And>w a. os w c = Ok a \<Longrightarrow> releases pw (acquire pw w c r) (f a)"
    and "\<And>w e. os w c = Err e \<Longrightarrow> acquire pw w c r = r" and "\<not> is_undo c" and "nat_has_link r"
  shows "releases pw r (attempt pw r (io_call os c) f)" "releases pw r (attempt pw r (kill_and pw pid (io_call os c)) f)"
proof -
  show "releases pw r (attempt pw r (io_call os c) f)"
    by (rule releases_attempt_general [OF assms(4)]) (use assms in \<open>auto simp: io_call_def split: result.split\<close>)
  show "releases pw r (attempt pw r (kill_and pw pid (io_call os c)) f)"
  proof (rule releases_attempt_general [OF assms(4)])
    fix w
    show "\<exists>cs. fst (kill_and pw pid (io_call os c) w) = w @ cs \<and> list_all (\<lambda>c. \<not> is_undo c) cs \<and>
      (case snd (kill_and pw pid (io_call os c) w) of
         Ok a \<Rightarrow> releases pw (acquired pw w cs r) (f a) | Err _ \<Rightarrow> acquired pw w cs r = r)"
    proof (cases "os w c")
      case (Ok a)
      then show ?thesis
        using assms by (intro exI [of _ "[c]"]) (simp add: kill_and_def io_on_err_def io_handle_def io_call_def io_return_def)
    next
      case (Err e)
      then show ?thesis
        using assms
        by (intro exI [of _ "[c, Kill_child pid, Wait_child pid]"])
          (simp add: kill_and_def io_on_err_def parent_do_def io_defs)
    qed
  qed
qed

lemma wait_for_exit_neutral: "only neutral (wait_for_exit pw c pid)"
  by (auto simp: wait_for_exit_def intro!: io_only)

lemma supervise_releases: "releases pw (new_resources (pc_id c) overlay) (supervise pw print c nm pid overlay)"
proof -
  have tail: "releases pw r (attempt pw r (parent_do pw (On_started (started_of pid r))) (\<lambda>_.
     attempt pw r (parent_do pw (Write_signal (case prs_bridge_network r of Some n \<Rightarrow> print n | None \<Rightarrow> []))) (\<lambda>_.
     attempt pw r (io_when (userns_is_private (pc_userns_mode c)) (parent_do pw Wait_userns_ready)) (\<lambda>_.
     attempt pw r (case pc_userns_mode c of
         Userns_Private m \<Rightarrow> io_bind (parent_do pw (Write_uid_gid_maps pid m)) (\<lambda>_. parent_do pw Write_userns_mapped)
       | Userns_Host \<Rightarrow> io_return ()) (\<lambda>_.
     attempt pw r (wait_for_exit pw c pid) (\<lambda>(status, cap).
     attempt pw r (io_call (\<lambda>w _. pa_child_error pw w) Read_child_error) (\<lambda>err.
     attempt pw r (parent_do pw Wait_log_helper) (\<lambda>_.
     io_bind (cleanup_resources pw r) (\<lambda>_.
     io_return (exit_of pid err cap status))))))))))" if "nat_has_link r" for r
    using that by (auto intro!: releases_attempt releases_cleanup wait_for_exit_neutral io_only split: user_namespace_mode.split)
  have net: "releases pw r (with_network pw c nm pid r f)" if f: "\<And>r. nat_has_link r \<Longrightarrow> releases pw r (f r)" and "nat_has_link r" for r f
  proof -
    have nat: "releases pw r (attempt pw r (io_call (\<lambda>w _. pa_nat pw w s) (Setup_nat s)) (\<lambda>lease. f (r\<lparr>prs_nat_lease := Some lease\<rparr>)))"
      if "prs_bridge_network r \<noteq> None" for r s
      by (rule releases_acquire(1)) (use that in \<open>simp_all add: f nat_has_link_def\<close>)
    have veth: "releases pw r (attempt pw r (parent_do pw (Setup_veth_parent pid n)) (\<lambda>_.
        attempt pw r (io_call (\<lambda>w _. pa_nat pw w (bn_subnet n)) (Setup_nat (bn_subnet n))) (\<lambda>lease. f (r\<lparr>prs_nat_lease := Some lease\<rparr>))))"
      if "prs_bridge_network r \<noteq> None" for r n
      by (rule releases_attempt [OF _ parent_do_only nat]) (use that in \<open>simp_all add: nat_has_link_def\<close>)
    show ?thesis
      unfolding with_network_def Let_def using f that(2)
      by (cases "nm = Net_Bridge") (simp_all, rule releases_acquire(1), insert veth, simp_all)
  qed
  have cg: "releases pw r (with_cgroup pw c pid r f)" if f: "\<And>r. nat_has_link r \<Longrightarrow> releases pw r (f r)" and "nat_has_link r" for r f
  proof -
    have add: "releases pw r (attempt pw r (kill_and pw pid (parent_do pw (Add_process path pid))) (\<lambda>_. f r))" if "nat_has_link r" for r path
      by (rule releases_attempt [OF that kill_and_neutral f]) (use that in \<open>simp_all add: io_only\<close>)
    have kept: "nat_has_link (r\<lparr>prs_cgroup := Some path\<rparr>)" for path using that(2) by (simp add: nat_has_link_def)
    show ?thesis
      unfolding with_cgroup_def Let_def using f that(2) kept
      by (cases "pc_cgroup_config c") (simp_all, rule releases_acquire(2), insert add, simp_all)
  qed
  show ?thesis unfolding supervise_def by (intro cg net tail) (simp_all add: nat_has_link_def new_resources_def)
qed

text \<open>
  C6: however a container's run ends in the parent, well or at any failing step, it ends by giving back
  exactly what was acquired for it, each once: the control group that was created, the subnet that was allocated with its link
  and the address translation that was set up, and the overlay; and nothing is given back earlier.
\<close>

theorem parent_gives_everything_back:
  "\<exists>body undo. fst (supervise pw print c nm pid overlay w) = w @ body @ undo \<and> list_all (\<lambda>call. \<not> is_undo call) body \<and>
     distinct undo \<and> set undo = {call. gives_back (acquired pw w body (new_resources (pc_id c) overlay)) call} \<and>
     prs_container_id (acquired pw w body (new_resources (pc_id c) overlay)) = pc_id c"
proof -
  obtain body where "fst (supervise pw print c nm pid overlay w) =
      w @ body @ cleanup_calls (acquired pw w body (new_resources (pc_id c) overlay))"
    "list_all (\<lambda>c. \<not> is_undo c) body" "nat_has_link (acquired pw w body (new_resources (pc_id c) overlay))"
    using supervise_releases [of pw c overlay print nm pid] unfolding releases_def by blast
  then show ?thesis
    by (intro exI [of _ body] exI [of _ "cleanup_calls (acquired pw w body (new_resources (pc_id c) overlay))"])
      (simp add: cleanup_calls_exact acquired_id, simp add: new_resources_def)
qed

subsection \<open>Handing over to the child\<close>

text \<open>What the child can read from the pipe once the parent's end is closed.\<close>

fun handed_over :: "parent_call list \<Rightarrow> string" where
  "handed_over [] = []"
| "handed_over (Write_signal s # cs) = s @ handed_over cs"
| "handed_over (_ # cs) = handed_over cs"

definition quiet :: "parent_call \<Rightarrow> bool" where
  "quiet c \<longleftrightarrow> (\<forall>s. c = Write_signal s \<longrightarrow> s = [])"

lemma handed_over_quiet: "list_all quiet cs \<Longrightarrow> handed_over cs = []"
  by (induction cs rule: handed_over.induct) (auto simp: quiet_def)

lemma cleanup_quiet: "list_all quiet (cleanup_calls r)" "Kill_child pid \<notin> set (cleanup_calls r)"
  by (auto simp: cleanup_calls_def quiet_def split: option.splits)

lemma cleanup_only_quiet: "only quiet (cleanup_resources pw r)"
  unfolding only_def using cleanup_quiet(1) by (intro allI exI [of _ "cleanup_calls r"]) simp

lemma attempt_only_quiet: "only quiet m \<Longrightarrow> (\<And>a. only quiet (f a)) \<Longrightarrow> only quiet (attempt pw r m f)"
  unfolding attempt_def by (intro only_handle) (auto intro!: io_only cleanup_only_quiet split: result.split)


definition sample_parent :: "bool \<Rightarrow> parent_world" where
  "sample_parent saves =
     \<lparr>pa_do = (\<lambda>_ c. case c of On_started _ \<Rightarrow> if saves then Ok () else Err ''disk full'' | _ \<Rightarrow> Ok ()),
      pa_cgroup = (\<lambda>_ _ _. Ok ''/cg''), pa_bridge = (\<lambda>_ _ _. Err ''no bridge''), pa_nat = (\<lambda>_ _. Err ''no nat''),
      pa_wait = (\<lambda>_. Ok (Exited 0)), pa_collect = (\<lambda>_. Err ''no tracer''), pa_child_error = (\<lambda>_. Ok None)\<rparr>"

definition sample_config :: process_config where
  "sample_config =
     \<lparr>pc_id = ''web'', pc_hostname = None, pc_args = [''/bin/sh''], pc_env = [], pc_cwd = None, pc_rootfs = ''/r'',
      pc_overlay_config = None, pc_readonly_rootfs = False, pc_mounts = [], pc_process_user = None, pc_rlimits = [],
      pc_masked_paths = [], pc_readonly_paths = [], pc_log_path = None, pc_flags = 0, pc_cgroup_config = None,
      pc_network_mode = Net_None, pc_security_profile = Denylist, pc_userns_mode = Userns_Host, pc_tty = False,
      pc_seccomp_mode = Off, pc_seccomp_program = None, pc_seccomp_flags = 0\<rparr>"


definition sample_child :: child_world where
  "sample_child = \<lparr>cw_do = (\<lambda>_ _. Ok ()), cw_fs = (\<lambda>w c. if opens c then Ok (length w) else Ok 0), cw_signal = (\<lambda>_. Ok [])\<rparr>"

theorem child_confined_before_exec_witness:
  "\<exists>pre sec. fst (run_child sample_child (\<lambda>_. None) X86_64 (child_config_of sample_config Net_None True) []) =
     pre @ map Sec sec @ [Clearenv, Execvp ''/bin/sh'' [''/bin/sh'']] \<and> list_all not_sec pre"
proof -
  let ?c = "child_config_of sample_config Net_None True"
  have "snd (child_prepare sample_child (\<lambda>_. None) ?c []) = Ok ()" by code_simp
  then obtain pre where pre: "child_prepare sample_child (\<lambda>_. None) ?c [] = (pre, Ok ())" by (metis prod.collapse)
  have "length (denylist_insns X86_64) \<le> 65535" by (simp add: denylist_insns_def jeq_pair_def)
  moreover have "cw_do sample_child w call = Ok ()" "cc_security_profile ?c = Denylist" "child_seccomp_plan ?c = Plan_None" "cc_env ?c = []"
    for w call by (simp_all add: sample_child_def child_config_of_def sample_config_def child_seccomp_plan_def)
  ultimately have "snd (run_child sample_child (\<lambda>_. None) X86_64 ?c []) = Ok ()"
    by (simp add: run_child_def pre io_defs child_confine_def io_embed_def
        apply_security_plan_def drop_capabilities_def install_seccomp_filter_def
        seccomp_denylist_filter_eq install_def replace_environment_def validate_environment_def child_do_def)
  then have "run_child sample_child (\<lambda>_. None) X86_64 ?c [] = (fst (run_child sample_child (\<lambda>_. None) X86_64 ?c []), Ok ())"
    by (metis prod.collapse)
  from child_confined_before_exec [OF this] show ?thesis
    by (auto simp: env_calls_def child_config_of_def sample_config_def)
qed

end
