(* ===== verification/Identity.thy ===== *)
theory Identity
  imports State
begin

text \<open>
  \<^verbatim>\<open>src/signal.rs\<close> and \<^verbatim>\<open>src/process_identity.rs\<close>: naming signals, and signalling the recorded process and no
  other. Between any two accesses the world may change, so each one happens at its own instant: \<open>pw_env t\<close>
  is what \<^verbatim>\<open>/proc\<close> shows at instant \<open>t\<close>, and the two system calls on process descriptors are answered per
  instant. Marking the descriptor close-on-exec is part of the answer to \<^verbatim>\<open>pidfd_open\<close>.
\<close>

subsection \<open>Signals\<close>

definition to_ascii_uppercase :: "string \<Rightarrow> string" where
  "to_ascii_uppercase s = map (\<lambda>c. if 97 \<le> (of_char c :: nat) \<and> (of_char c :: nat) \<le> 122
     then char_of (of_char c - 32 :: nat) else c) s"

definition DEFAULT_SIGNAL :: string where "DEFAULT_SIGNAL = ''SIGTERM''"

definition signal_numbers :: "(string \<times> int) list" where
  "signal_numbers = [(''HUP'', 1), (''INT'', 2), (''QUIT'', 3), (''KILL'', 9), (''TERM'', 15), (''USR1'', 10),
     (''USR2'', 12), (''STOP'', 19), (''CONT'', 18)]"

definition parse_signal :: "string \<Rightarrow> (signal_error, int) result" where
  "parse_signal value =
     (let normalized = to_ascii_uppercase (trim value);
          name = (case strip_prefix ''SIG'' normalized of Some n \<Rightarrow> n | None \<Rightarrow> normalized)
      in case parse_i32 name of
           Some signal \<Rightarrow> if 0 < signal then Ok signal else Err (NonPositiveSignal value)
         | None \<Rightarrow> ok_or (map_of signal_numbers name) (UnsupportedSignal value))"

subsection \<open>Process identity\<close>

record process_world =
  pw_env :: "nat \<Rightarrow> environment"
  pw_pidfd_open :: "nat \<Rightarrow> int \<Rightarrow> (string, nat) result"
  pw_pidfd_send :: "nat \<Rightarrow> nat \<Rightarrow> int \<Rightarrow> (string, unit) result"

record process_identity =
  pi_pid :: int
  pi_starttime :: u64
  pi_pidfd :: nat

datatype identity_error = Identity_error process_identity_error | Identity_starttime starttime_error

definition verify_identity :: "process_world \<Rightarrow> nat \<Rightarrow> process_identity \<Rightarrow> (identity_error, unit) result" where
  "verify_identity pw t p =
     and_then (map_err Identity_starttime (process_starttime (pw_env pw t) (pi_pid p))) (\<lambda>actual.
     if actual \<noteq> pi_starttime p then Err (Identity_error (Reused (pi_pid p))) else Ok ())"

definition open_identity ::
    "process_world \<Rightarrow> nat \<Rightarrow> int \<Rightarrow> u64 option \<Rightarrow> (identity_error, process_identity) result" where
  "open_identity pw t pid expected_starttime =
     and_then (ok_or expected_starttime (Identity_error (MissingToken pid))) (\<lambda>expected.
     and_then (map_err Identity_starttime (process_starttime (pw_env pw t) pid)) (\<lambda>actual.
     if actual \<noteq> expected then Err (Identity_error (Reused pid))
     else
       and_then (map_err (\<lambda>e. Identity_error (PidfdOpen pid e)) (pw_pidfd_open pw (t + 1) pid)) (\<lambda>fd.
       let identity = \<lparr>pi_pid = pid, pi_starttime = expected, pi_pidfd = fd\<rparr> in
       and_then (verify_identity pw (t + 2) identity) (\<lambda>_. Ok identity))))"

definition identity_send_signal :: "process_world \<Rightarrow> nat \<Rightarrow> process_identity \<Rightarrow> int \<Rightarrow> (identity_error, unit) result" where
  "identity_send_signal pw t p signal =
     and_then (verify_identity pw t p) (\<lambda>_.
     map_err (\<lambda>e. Identity_error (PidfdSignal (pi_pid p) e)) (pw_pidfd_send pw (t + 1) (pi_pidfd p) signal))"

text \<open>Open and signal, as its callers do: the accesses fall at five successive instants.\<close>

definition signal_process :: "process_world \<Rightarrow> nat \<Rightarrow> int \<Rightarrow> u64 option \<Rightarrow> int \<Rightarrow> (identity_error, unit) result" where
  "signal_process pw t pid starttime signal =
     and_then (open_identity pw t pid starttime) (\<lambda>p. identity_send_signal pw (t + 3) p signal)"

subsection \<open>Who receives a signal\<close>

text \<open>
  What the kernel documents of processes, given which process has a pid at each instant (\<open>who\<close>), the start time of a process
  in clock ticks (\<open>start\<close>) and the process for which a descriptor stands at an instant (\<open>target\<close>): a process has one pid; of two
  processes that have a pid one after the other, the later one did not start before the earlier one, though it may have
  started in the same tick; \<^verbatim>\<open>/proc\<close> shows the start time of the process that has the pid; a new descriptor stands for the process
  that has the pid when it is opened; and a signal is accepted only while the process of the descriptor still has a pid.
\<close>

definition kernel_processes ::
    "process_world \<Rightarrow> (nat \<Rightarrow> int \<Rightarrow> 'p option) \<Rightarrow> ('p \<Rightarrow> u64) \<Rightarrow> (nat \<Rightarrow> nat \<Rightarrow> 'p option) \<Rightarrow> bool" where
  "kernel_processes pw who start target \<longleftrightarrow>
     (\<forall>a b pid pid' p. who a pid = Some p \<and> who b pid' = Some p \<longrightarrow> pid = pid') \<and>
     (\<forall>a b pid p q. a \<le> b \<and> who a pid = Some p \<and> who b pid = Some q \<longrightarrow> start p \<le> start q) \<and>
     (\<forall>t pid s. process_starttime (pw_env pw t) pid = Ok s \<longrightarrow> (\<exists>p. who t pid = Some p \<and> start p = s)) \<and>
     (\<forall>t pid fd. pw_pidfd_open pw t pid = Ok fd \<longrightarrow> (\<exists>p. who t pid = Some p \<and> target t fd = Some p)) \<and>
     (\<forall>t fd sig. pw_pidfd_send pw t fd sig = Ok () \<longrightarrow> (\<exists>p pid. target t fd = Some p \<and> who t pid = Some p))"

lemma open_identity_Ok:
  assumes "open_identity pw t pid st = Ok p"
  shows "st = Some (pi_starttime p)" "pi_pid p = pid" "process_starttime (pw_env pw t) pid = Ok (pi_starttime p)"
    "pw_pidfd_open pw (t + 1) pid = Ok (pi_pidfd p)" "process_starttime (pw_env pw (t + 2)) pid = Ok (pi_starttime p)"
  using assms by (auto simp: open_identity_def verify_identity_def Let_def split: if_splits)

lemma kernel_processesD:
  assumes "kernel_processes pw who start target"
  shows "who a pid = Some p \<Longrightarrow> who b pid' = Some p \<Longrightarrow> pid = pid'"
    and "a \<le> b \<Longrightarrow> who a pid = Some p \<Longrightarrow> who b pid = Some q \<Longrightarrow> start p \<le> start q"
    and "process_starttime (pw_env pw t) pid = Ok s \<Longrightarrow> \<exists>p. who t pid = Some p \<and> start p = s"
    and "pw_pidfd_open pw t pid = Ok fd \<Longrightarrow> \<exists>p. who t pid = Some p \<and> target t fd = Some p"
    and "pw_pidfd_send pw t fd sig = Ok () \<Longrightarrow> \<exists>p pid. target t fd = Some p \<and> who t pid = Some p"
  using assms unfolding kernel_processes_def by blast+

text \<open>The two readings of the start time enclose the opening, so the process opened started in the tick that was asked for.\<close>

lemma open_identity_target:
  assumes k: "kernel_processes pw who start target" and o: "open_identity pw t pid (Some s) = Ok p"
  shows "\<exists>q. who (t + 1) pid = Some q \<and> target (t + 1) (pi_pidfd p) = Some q \<and> start q = s"
proof -
  note id = open_identity_Ok [OF o]
  obtain before opened after where
    before: "who t pid = Some before" "start before = s" and
    opened: "who (t + 1) pid = Some opened" "target (t + 1) (pi_pidfd p) = Some opened" and
    after: "who (t + 2) pid = Some after" "start after = s"
    using kernel_processesD(3) [OF k id(3)] kernel_processesD(4) [OF k id(4)] kernel_processesD(3) [OF k id(5)] id(1)
    by auto
  have "start before \<le> start opened" "start opened \<le> start after"
    using kernel_processesD(2) [OF k _ before(1) opened(1)] kernel_processesD(2) [OF k _ opened(1) after(1)] by simp_all
  then show ?thesis using before(2) opened after(2) by auto
qed

lemma signal_process_Ok:
  assumes "signal_process pw t pid st sig = Ok ()"
  shows "\<exists>p. open_identity pw t pid st = Ok p \<and> pw_pidfd_send pw (t + 4) (pi_pidfd p) sig = Ok ()"
  using assms by (auto simp: signal_process_def identity_send_signal_def numeral_eq_Suc)

subsection \<open>Properties\<close>

text \<open>
  C14: a signal sent to a container reaches no process but one that has the recorded pid and started in the recorded tick:
  although the pid may be freed and reused at any instant between looking, opening and sending, the descriptor that the
  signal goes to, which stays open until then, was opened between two readings of the recorded start time, so when the signal is accepted, its process
  still has the recorded pid and has the recorded start time. It is the recorded process itself unless that pid
  was given twice within one clock tick, which the code cannot tell apart.
\<close>

theorem signal_only_recorded_process:
  assumes "kernel_processes pw who start target" "who t0 pid = Some recorded"
    and kept: "\<forall>fd. pw_pidfd_open pw (t + 1) pid = Ok fd \<longrightarrow> target (t + 4) fd = target (t + 1) fd"
    and "signal_process pw t pid (Some (start recorded)) sig = Ok ()"
  shows "\<exists>fd q. pw_pidfd_open pw (t + 1) pid = Ok fd \<and> pw_pidfd_send pw (t + 4) fd sig = Ok () \<and>
    target (t + 4) fd = Some q \<and> who (t + 4) pid = Some q \<and> start q = start recorded \<and>
    ((\<forall>u r. who u pid = Some r \<and> start r = start recorded \<longrightarrow> r = recorded) \<longrightarrow> q = recorded)"
proof -
  obtain p where p: "open_identity pw t pid (Some (start recorded)) = Ok p"
    and sent: "pw_pidfd_send pw (t + 4) (pi_pidfd p) sig = Ok ()"
    using signal_process_Ok [OF assms(4)] by blast
  have fd: "pw_pidfd_open pw (t + 1) pid = Ok (pi_pidfd p)" using open_identity_Ok(4) [OF p] .
  obtain q where q: "who (t + 1) pid = Some q" "target (t + 1) (pi_pidfd p) = Some q" "start q = start recorded"
    using open_identity_target [OF assms(1) p] by blast
  have to: "target (t + 4) (pi_pidfd p) = Some q" using kept fd q(2) by simp
  then obtain pid' where pid': "who (t + 4) pid' = Some q" using kernel_processesD(5) [OF assms(1) sent] by auto
  then have "pid' = pid" using kernel_processesD(1) [OF assms(1)] q(1) by blast
  then show ?thesis using fd sent to pid' q by blast
qed

definition sample_pw :: process_world where
  "sample_pw = \<lparr>pw_env = (\<lambda>_. sample_env), pw_pidfd_open = (\<lambda>_ pid. if pid = 42 then Ok 7 else Err ''ESRCH''),
     pw_pidfd_send = (\<lambda>_ _ _. Ok ())\<rparr>"

text \<open>
  A host where pid 42 belongs to the recorded process until instant 8 and is given to another process at instant 9. Each
  instant's descriptor has its own number.
\<close>

definition later_env :: environment where
  "later_env = sample_env\<lparr>env_proc_stat := \<lambda>pid. if pid = 42 then Some (''42 (next) S'' @ '') '' @ join '' '' (replicate 19 ''0'' @ [''888''])) else None\<rparr>"

definition reusing_pw :: process_world where
  "reusing_pw = \<lparr>pw_env = (\<lambda>t. if t < 9 then sample_env else later_env),
     pw_pidfd_open = (\<lambda>t pid. if pid = 42 then Ok t else Err ''ESRCH''),
     pw_pidfd_send = (\<lambda>t fd _. if fd < 9 \<longleftrightarrow> t < 9 then Ok () else Err ''ESRCH'')\<rparr>"

definition reusing_who :: "nat \<Rightarrow> int \<Rightarrow> string option" where
  "reusing_who t pid = (if pid = 42 then Some (if t < 9 then ''init'' else ''next'') else None)"

lemma later_starttime: "process_starttime later_env 42 = Ok 888"
  using process_starttime_field [of later_env 42 "''42 (next) S''" "replicate 19 ''0'' @ [''888'']" 888]
  by (auto simp: later_env_def nat_dec_888 is_space_def nth_append)

lemma reusing_starttime:
  "process_starttime (pw_env reusing_pw t) pid = Ok s \<longleftrightarrow> pid = 42 \<and> s = (if t < 9 then 777 else 888)"
proof (cases "pid = 42")
  case True
  then show ?thesis by (auto simp: reusing_pw_def sample_starttime later_starttime)
next
  case False
  then have "env_proc_stat (pw_env reusing_pw t) pid = None"
    by (simp add: reusing_pw_def sample_env_def later_env_def)
  with False show ?thesis by (simp add: process_starttime_def)
qed

definition reusing_start :: "string \<Rightarrow> u64" where
  "reusing_start p = (if p = ''init'' then 777 else 888)"

lemma reusing_kernel:
  "kernel_processes reusing_pw reusing_who reusing_start (\<lambda>_ fd. Some (if fd < 9 then ''init'' else ''next''))"
  unfolding kernel_processes_def reusing_starttime
  by (auto simp: reusing_who_def reusing_pw_def reusing_start_def split: if_splits)

lemma reusing_signals:
  "signal_process reusing_pw 2 42 (Some 777) 15 = Ok ()"
  "signal_process reusing_pw 4 42 (Some 777) 15 = Ok ()"
  "signal_process reusing_pw 5 42 (Some 777) 15 = Err (Identity_error (PidfdSignal 42 ''ESRCH''))"
  "signal_process reusing_pw 6 42 (Some 777) 15 = Err (Identity_error (Reused 42))"
  "signal_process reusing_pw 8 42 (Some 777) 15 = Err (Identity_error (Reused 42))"
  by (simp_all add: signal_process_def open_identity_def verify_identity_def identity_send_signal_def
      reusing_pw_def sample_starttime later_starttime Let_def)

theorem signal_only_recorded_process_witness:
  "reusing_who 9 42 = Some ''next'' \<and> signal_process reusing_pw 8 42 (Some 777) 15 = Err (Identity_error (Reused 42)) \<and>
   (\<exists>fd. pw_pidfd_open reusing_pw 5 42 = Ok fd \<and> pw_pidfd_send reusing_pw 8 fd 15 = Ok () \<and> reusing_who 8 42 = Some ''init'')"
proof -
  have start: "reusing_start ''init'' = 777" by (simp add: reusing_start_def)
  obtain fd q where "pw_pidfd_open reusing_pw (4 + 1) 42 = Ok fd" "pw_pidfd_send reusing_pw (4 + 4) fd 15 = Ok ()"
      "reusing_who (4 + 4) 42 = Some q"
    using signal_only_recorded_process [OF reusing_kernel, of 0 42 "''init''" 4 15] reusing_signals(2)
    by (auto simp: reusing_who_def start)
  then show ?thesis by (simp add: reusing_signals) (simp add: reusing_who_def)
qed

end
