(* ===== verification/Audit_Log.thy ===== *)
theory Audit_Log
  imports State
begin

text \<open>
  \<^verbatim>\<open>src/audit_log.rs\<close>: the runtime log of a container, one serialised event per line, in a current file and one
  rotated file. The files themselves and the lock around every access are taken to work; sizes are bytes.
  \<^verbatim>\<open>serde_json\<close> is the parameter \<open>to_json\<close> (and \<open>from_json\<close> for reading back).
\<close>

definition MAX_RUNTIME_LOG_BYTES :: nat where "MAX_RUNTIME_LOG_BYTES = 1024 * 1024"
definition ROTATED_RUNTIME_LOG_SUFFIX :: string where "ROTATED_RUNTIME_LOG_SUFFIX = ''.1''"

record audit_event =
  ae_timestamp_unix :: u64
  ae_id :: string
  ae_source :: string
  ae_name :: string
  ae_value :: "u64 option"
  ae_delta :: "u64 option"
  ae_fields :: "(string, u64) btree_map option"
  ae_status :: "string option"

definition new_event :: "u64 \<Rightarrow> string \<Rightarrow> string \<Rightarrow> string \<Rightarrow> audit_event" where
  "new_event now cid source name =
     \<lparr>ae_timestamp_unix = now, ae_id = cid, ae_source = source, ae_name = name, ae_value = None, ae_delta = None,
      ae_fields = None, ae_status = None\<rparr>"

definition with_status :: "string \<Rightarrow> audit_event \<Rightarrow> audit_event" where
  "with_status status e = e\<lparr>ae_status := Some status\<rparr>"

definition with_value :: "u64 \<Rightarrow> audit_event \<Rightarrow> audit_event" where
  "with_value v e = e\<lparr>ae_value := Some v\<rparr>"

definition with_delta :: "u64 \<Rightarrow> audit_event \<Rightarrow> audit_event" where
  "with_delta v e = e\<lparr>ae_delta := Some v\<rparr>"

definition with_fields :: "(string, u64) btree_map \<Rightarrow> audit_event \<Rightarrow> audit_event" where
  "with_fields fs e = e\<lparr>ae_fields := Some fs\<rparr>"

text \<open>The two files of a log, \<open>None\<close> when missing.\<close>

record log_files =
  lf_rotated :: "string option"
  lf_current :: "string option"

definition no_log_files :: log_files where
  "no_log_files = \<lparr>lf_rotated = None, lf_current = None\<rparr>"

datatype audit_error = Audit_error audit_log_error | Audit_state state_error | Log_missing string | Event_unparsable

definition rotated_path :: "string \<Rightarrow> string" where
  "rotated_path path = path @ ROTATED_RUNTIME_LOG_SUFFIX"

definition audit_lock_path :: "string \<Rightarrow> string" where
  "audit_lock_path path = path @ ''.lock''"

definition reset_log :: "log_files \<Rightarrow> log_files" where
  "reset_log lf = \<lparr>lf_rotated = None, lf_current = Some []\<rparr>"

definition rotate_if_needed :: "nat \<Rightarrow> log_files \<Rightarrow> log_files" where
  "rotate_if_needed incoming lf =
     (let current_size = (case lf_current lf of Some s \<Rightarrow> length s | None \<Rightarrow> 0) in
      if current_size + incoming \<le> MAX_RUNTIME_LOG_BYTES then lf
      else \<lparr>lf_rotated = lf_current lf, lf_current = None\<rparr>)"

definition append_at_path :: "(audit_event \<Rightarrow> string) \<Rightarrow> audit_event \<Rightarrow> log_files \<Rightarrow> log_files \<times> (audit_error, unit) result" where
  "append_at_path to_json event lf =
     (let line = to_json event in
      if MAX_RUNTIME_LOG_BYTES < length line + 1
      then (lf, Err (Audit_error (RecordTooLarge (length line + 1) MAX_RUNTIME_LOG_BYTES)))
      else let lf = rotate_if_needed (length line + 1) lf;
               current = (case lf_current lf of Some s \<Rightarrow> s | None \<Rightarrow> [])
           in (lf\<lparr>lf_current := Some (current @ line @ newline)\<rparr>, Ok ()))"

definition read_raw_at_path :: "string \<Rightarrow> log_files \<Rightarrow> (audit_error, string) result" where
  "read_raw_at_path path lf =
     (case (lf_rotated lf, lf_current lf) of
        (Some r, Some c) \<Rightarrow> Ok (r @ c)
      | (Some r, None) \<Rightarrow> Ok r
      | (None, Some c) \<Rightarrow> Ok c
      | (None, None) \<Rightarrow> Err (Log_missing path))"

definition retain_tail :: "string \<Rightarrow> string" where
  "retain_tail content =
     (if length content \<le> MAX_RUNTIME_LOG_BYTES then content
      else let start = length content - MAX_RUNTIME_LOG_BYTES; tail = drop start content in
        case split_once (char_of (10 :: nat)) tail of
          Some (_, rest) \<Rightarrow> rest
        | None \<Rightarrow> tail)"

definition write_raw_log :: "string \<Rightarrow> log_files \<Rightarrow> log_files" where
  "write_raw_log content lf = \<lparr>lf_rotated = None, lf_current = Some (retain_tail content)\<rparr>"

fun parse_lines :: "(string \<Rightarrow> audit_event option) \<Rightarrow> string list \<Rightarrow> (audit_error, audit_event list) result" where
  "parse_lines from_json [] = Ok []"
| "parse_lines from_json (l # ls) =
     and_then (ok_or (from_json l) Event_unparsable) (\<lambda>e. map_ok ((#) e) (parse_lines from_json ls))"

definition parse_history :: "(string \<Rightarrow> audit_event option) \<Rightarrow> string \<Rightarrow> (audit_error, audit_event list) result" where
  "parse_history from_json raw = parse_lines from_json (filter (\<lambda>l. trim l \<noteq> []) (lines raw))"

text \<open>The logs of all containers.\<close>

type_synonym audit_logs = "string \<Rightarrow> log_files"

definition audit_reset :: "string \<Rightarrow> audit_logs \<Rightarrow> audit_logs \<times> (audit_error, unit) result" where
  "audit_reset cid logs =
     (case runtime_log_path cid of
        Err e \<Rightarrow> (logs, Err (Audit_state e))
      | Ok _ \<Rightarrow> (logs(cid := reset_log (logs cid)), Ok ()))"

definition audit_append ::
    "(audit_event \<Rightarrow> string) \<Rightarrow> audit_event \<Rightarrow> audit_logs \<Rightarrow> audit_logs \<times> (audit_error, unit) result" where
  "audit_append to_json event logs =
     (case runtime_log_path (ae_id event) of
        Err e \<Rightarrow> (logs, Err (Audit_state e))
      | Ok _ \<Rightarrow>
          (case append_at_path to_json event (logs (ae_id event)) of
             (lf, r) \<Rightarrow> (logs(ae_id event := lf), r)))"

definition append_simple ::
    "(audit_event \<Rightarrow> string) \<Rightarrow> u64 \<Rightarrow> string \<Rightarrow> string \<Rightarrow> string \<Rightarrow> string option \<Rightarrow> audit_logs \<Rightarrow>
     audit_logs \<times> (audit_error, unit) result" where
  "append_simple to_json now cid source name status =
     audit_append to_json (case status of
         Some s \<Rightarrow> with_status s (new_event now cid source name)
       | None \<Rightarrow> new_event now cid source name)"

definition read_raw :: "string \<Rightarrow> audit_logs \<Rightarrow> (audit_error, string) result" where
  "read_raw cid logs =
     and_then (map_err Audit_state (runtime_log_path cid)) (\<lambda>path. read_raw_at_path path (logs cid))"

definition read_history ::
    "(string \<Rightarrow> audit_event option) \<Rightarrow> string \<Rightarrow> audit_logs \<Rightarrow> (audit_error, audit_event list) result" where
  "read_history from_json cid logs = and_then (read_raw cid logs) (parse_history from_json)"

definition write_raw :: "string \<Rightarrow> string \<Rightarrow> audit_logs \<Rightarrow> audit_logs \<times> (audit_error, unit) result" where
  "write_raw cid content logs =
     (case runtime_log_path cid of
        Err e \<Rightarrow> (logs, Err (Audit_state e))
      | Ok _ \<Rightarrow> (logs(cid := write_raw_log content (logs cid)), Ok ()))"

subsection \<open>Sizes\<close>

definition log_bounded :: "log_files \<Rightarrow> bool" where
  "log_bounded lf \<longleftrightarrow> (\<forall>s. lf_rotated lf = Some s \<or> lf_current lf = Some s \<longrightarrow> length s \<le> MAX_RUNTIME_LOG_BYTES)"

lemma retain_tail_suffix: "\<exists>pre. content = pre @ retain_tail content"
proof (cases "length content \<le> MAX_RUNTIME_LOG_BYTES")
  case False
  let ?n = "length content - MAX_RUNTIME_LOG_BYTES"
  have content: "content = take ?n content @ drop ?n content" by simp
  show ?thesis
  proof (cases "split_once (char_of (10 :: nat)) (drop ?n content)")
    case None
    then show ?thesis using False content by (intro exI [of _ "take ?n content"]) (simp add: retain_tail_def)
  next
    case (Some kv)
    obtain k v where kv: "kv = (k, v)" by force
    then have "drop ?n content = (k @ newline) @ v" using Some by (simp add: split_once_Some newline_def)
    then show ?thesis
      using False Some content kv by (intro exI [of _ "take ?n content @ k @ newline"]) (simp add: retain_tail_def)
  qed
qed (simp add: retain_tail_def)

lemma retain_tail_bound: "length (retain_tail content) \<le> MAX_RUNTIME_LOG_BYTES"
proof (cases "length content \<le> MAX_RUNTIME_LOG_BYTES")
  case False
  let ?t = "drop (length content - MAX_RUNTIME_LOG_BYTES) content"
  have t: "length ?t \<le> MAX_RUNTIME_LOG_BYTES" by simp
  show ?thesis
  proof (cases "split_once (char_of (10 :: nat)) ?t")
    case None
    then have "retain_tail content = ?t" using False by (simp only: retain_tail_def Let_def if_False option.case)
    then show ?thesis using t by (simp only:)
  next
    case (Some kv)
    obtain k v where kv: "kv = (k, v)" by force
    have "retain_tail content = v" using False Some by (simp only: kv retain_tail_def Let_def if_False option.case prod.case)
    then show ?thesis using split_once_shorter [OF Some [unfolded kv]] t by (simp only: order_trans)
  qed
qed (simp add: retain_tail_def)

lemma append_bounded:
  "log_bounded lf \<Longrightarrow> log_bounded (fst (append_at_path to_json e lf))"
  by (auto simp: log_bounded_def append_at_path_def rotate_if_needed_def Let_def newline_def split: option.splits)

text \<open>The files a log can have.\<close>

inductive log_reachable :: "(audit_event \<Rightarrow> string) \<Rightarrow> log_files \<Rightarrow> bool" for to_json where
  "log_reachable to_json no_log_files"
| "log_reachable to_json lf \<Longrightarrow> log_reachable to_json (reset_log lf)"
| "log_reachable to_json lf \<Longrightarrow> log_reachable to_json (fst (append_at_path to_json e lf))"
| "log_reachable to_json lf \<Longrightarrow> log_reachable to_json (write_raw_log content lf)"

subsection \<open>History\<close>

definition log_lines :: "(audit_event \<Rightarrow> string) \<Rightarrow> audit_event list \<Rightarrow> string" where
  "log_lines to_json es = concat (map (\<lambda>e. to_json e @ newline) es)"

definition file_content :: "string option \<Rightarrow> string" where
  "file_content f = (case f of Some s \<Rightarrow> s | None \<Rightarrow> [])"

text \<open>\<open>holds es\<close>: the rotated file holds a run of the appended events and the current one those after it.\<close>

definition holds :: "(audit_event \<Rightarrow> string) \<Rightarrow> audit_event list \<Rightarrow> log_files \<Rightarrow> bool" where
  "holds to_json es lf \<longleftrightarrow> (\<exists>es1 es2 es3. es = es1 @ es2 @ es3 \<and> (es \<noteq> [] \<longrightarrow> es3 \<noteq> []) \<and> lf_current lf \<noteq> None \<and>
     file_content (lf_rotated lf) = log_lines to_json es2 \<and> file_content (lf_current lf) = log_lines to_json es3)"

lemma log_lines_simps [simp]:
  "log_lines to_json [] = []" "log_lines to_json (es @ fs) = log_lines to_json es @ log_lines to_json fs"
  "log_lines to_json (e # es) = to_json e @ newline @ log_lines to_json es"
  by (simp_all add: log_lines_def)

lemma holds_append:
  assumes "holds to_json es lf" "append_at_path to_json e lf = (lf', Ok ())"
  shows "holds to_json (es @ [e]) lf'"
proof -
  from assms(1) obtain es1 es2 es3 where h: "es = es1 @ es2 @ es3" "lf_current lf \<noteq> None"
    "file_content (lf_rotated lf) = log_lines to_json es2" "file_content (lf_current lf) = log_lines to_json es3"
    by (auto simp: holds_def)
  show ?thesis
  proof (cases "length (file_content (lf_current lf)) + (length (to_json e) + 1) \<le> MAX_RUNTIME_LOG_BYTES")
    case True
    then have "lf' = lf\<lparr>lf_current := Some (file_content (lf_current lf) @ to_json e @ newline)\<rparr>"
      using assms(2) by (auto simp: append_at_path_def rotate_if_needed_def file_content_def Let_def split: if_splits option.splits)
    then show ?thesis
      unfolding holds_def using h
      by (intro exI [of _ es1] exI [of _ es2] exI [of _ "es3 @ [e]"]) (simp add: file_content_def)
  next
    case False
    then have "lf' = \<lparr>lf_rotated = lf_current lf, lf_current = Some (to_json e @ newline)\<rparr>"
      using assms(2) by (auto simp: append_at_path_def rotate_if_needed_def file_content_def Let_def split: if_splits option.splits)
    then show ?thesis
      unfolding holds_def using h
      by (intro exI [of _ "es1 @ es2"] exI [of _ es3] exI [of _ "[e]"]) (simp add: file_content_def)
  qed
qed

lemma lines_line: "char_of (10 :: nat) \<notin> set l \<Longrightarrow> (l = [] \<or> last l \<noteq> char_of (13 :: nat)) \<Longrightarrow> lines (l @ newline @ s) = l # lines s"
  using split_char_append [of "char_of (10 :: nat)" l s]
  by (auto simp: lines_def newline_def split_char_none strip_cr_def Let_def)

text \<open>What the log relies on of the serialiser: an event is one line, not blank, and is read back as it was.\<close>

definition json_round_trip ::
    "(audit_event \<Rightarrow> string) \<Rightarrow> (string \<Rightarrow> audit_event option) \<Rightarrow> audit_event list \<Rightarrow> bool" where
  "json_round_trip to_json from_json es \<longleftrightarrow> (\<forall>e \<in> set es. from_json (to_json e) = Some e \<and>
     char_of (10 :: nat) \<notin> set (to_json e) \<and> trim (to_json e) \<noteq> [] \<and> last (to_json e) \<noteq> char_of (13 :: nat))"

lemma parse_history_lines:
  "json_round_trip to_json from_json es \<Longrightarrow> parse_history from_json (log_lines to_json es) = Ok es"
proof (induction es)
  case Nil
  show ?case by (simp add: parse_history_def lines_def)
next
  case (Cons e es)
  have j: "from_json (to_json e) = Some e" "char_of (10 :: nat) \<notin> set (to_json e)"
    "trim (to_json e) \<noteq> []" "last (to_json e) \<noteq> char_of (13 :: nat)"
    "json_round_trip to_json from_json es"
    using Cons.prems by (auto simp: json_round_trip_def)
  from j(2,4) have "lines (to_json e @ newline @ log_lines to_json es) = to_json e # lines (log_lines to_json es)"
    by (intro lines_line) auto
  then show ?case using Cons.IH j by (simp add: parse_history_def)
qed

text \<open>Appending one event after the other.\<close>

fun append_all :: "(audit_event \<Rightarrow> string) \<Rightarrow> audit_event list \<Rightarrow> log_files \<Rightarrow> log_files \<times> (audit_error, unit) result" where
  "append_all to_json [] lf = (lf, Ok ())"
| "append_all to_json (e # es) lf =
     (case append_at_path to_json e lf of
        (lf, Err x) \<Rightarrow> (lf, Err x)
      | (lf, Ok _) \<Rightarrow> append_all to_json es lf)"

definition record_fits :: "(audit_event \<Rightarrow> string) \<Rightarrow> audit_event \<Rightarrow> bool" where
  "record_fits to_json e \<longleftrightarrow> length (to_json e) < MAX_RUNTIME_LOG_BYTES"

lemma append_Ok: "snd (append_at_path to_json e lf) = Ok () \<longleftrightarrow> record_fits to_json e"
  by (auto simp: append_at_path_def record_fits_def Let_def)

lemma append_all_holds:
  "holds to_json es lf \<Longrightarrow> list_all (record_fits to_json) fs \<Longrightarrow>
     \<exists>lf'. append_all to_json fs lf = (lf', Ok ()) \<and> holds to_json (es @ fs) lf'"
proof (induction fs arbitrary: es lf)
  case (Cons f fs)
  obtain lf1 where 1: "append_at_path to_json f lf = (lf1, Ok ())"
    using append_Ok [of to_json f lf] Cons.prems(2) by (metis list.pred_inject(2) prod.collapse)
  show ?case using Cons.IH [OF holds_append [OF Cons.prems(1) 1]] Cons.prems(2) by (simp add: 1)
qed simp

lemma append_all_fits:
  "lf_current lf = Some c \<Longrightarrow> length c + length (log_lines to_json es) \<le> MAX_RUNTIME_LOG_BYTES \<Longrightarrow>
     append_all to_json es lf = (lf\<lparr>lf_current := Some (c @ log_lines to_json es)\<rparr>, Ok ())"
proof (induction es arbitrary: lf c)
  case (Cons e es)
  have "append_at_path to_json e lf = (lf\<lparr>lf_current := Some (c @ to_json e @ newline)\<rparr>, Ok ())"
    using Cons.prems by (simp add: append_at_path_def rotate_if_needed_def Let_def newline_def)
  then show ?case using Cons.prems Cons.IH [of "lf\<lparr>lf_current := Some (c @ to_json e @ newline)\<rparr>" "c @ to_json e @ newline"]
    by simp
qed simp

definition history_of :: "(string \<Rightarrow> audit_event option) \<Rightarrow> log_files \<Rightarrow> (audit_error, audit_event list) result" where
  "history_of from_json lf = and_then (read_raw_at_path [] lf) (parse_history from_json)"

lemma history_of_holds:
  assumes "holds to_json es lf" "json_round_trip to_json from_json es"
  shows "\<exists>es1 es2. es = es1 @ es2 \<and> (es \<noteq> [] \<longrightarrow> es2 \<noteq> []) \<and> history_of from_json lf = Ok es2"
proof -
  from assms(1) obtain es1 es2 es3 where h: "es = es1 @ es2 @ es3" "es \<noteq> [] \<longrightarrow> es3 \<noteq> []" "lf_current lf \<noteq> None"
    "file_content (lf_rotated lf) = log_lines to_json es2" "file_content (lf_current lf) = log_lines to_json es3"
    by (auto simp: holds_def)
  then have "read_raw_at_path [] lf = Ok (log_lines to_json (es2 @ es3))"
    by (auto simp: read_raw_at_path_def file_content_def split: option.splits)
  moreover have "json_round_trip to_json from_json (es2 @ es3)"
    using assms(2) by (auto simp: json_round_trip_def h(1))
  ultimately have "history_of from_json lf = Ok (es2 @ es3)"
    by (simp add: history_of_def parse_history_lines del: log_lines_simps)
  with h show ?thesis by (metis append_is_Nil_conv)
qed

subsection \<open>Properties\<close>

text \<open>
  No sequence of resets, appends and rewrites lets a runtime log file grow beyond its limit.
\<close>

lemma audit_log_bounded: "log_reachable to_json lf \<Longrightarrow> log_bounded lf"
proof (induction rule: log_reachable.induct)
  case (3 lf e)
  then show ?case by (simp add: append_bounded)
qed (auto simp: log_bounded_def no_log_files_def reset_log_def write_raw_log_def retain_tail_bound)

lemma audit_log_bounded_example: "log_bounded (write_raw_log ''event'' no_log_files)"
  by (rule audit_log_bounded [where to_json = "\<lambda>_. []"]) (intro log_reachable.intros)

text \<open>
  C21: events that fit are always recorded, and the history read back is a suffix of the events appended,
  in order, that contains at least the latest one; nothing is lost as long as they fit in one file.
\<close>

theorem audit_history_round_trip:
  assumes "json_round_trip to_json from_json es" "list_all (record_fits to_json) es"
  shows "\<exists>lf es1 es2. append_all to_json es (reset_log lf0) = (lf, Ok ()) \<and> es = es1 @ es2 \<and>
    history_of from_json lf = Ok es2 \<and> (es \<noteq> [] \<longrightarrow> es2 \<noteq> []) \<and>
    (length (log_lines to_json es) \<le> MAX_RUNTIME_LOG_BYTES \<longrightarrow> es2 = es)"
proof -
  have "holds to_json [] (reset_log lf0)" by (simp add: holds_def reset_log_def file_content_def)
  from append_all_holds [OF this assms(2)] obtain lf where
    lf: "append_all to_json es (reset_log lf0) = (lf, Ok ())" "holds to_json es lf" by auto
  obtain es1 es2 where h: "es = es1 @ es2" "es \<noteq> [] \<longrightarrow> es2 \<noteq> []" "history_of from_json lf = Ok es2"
    using history_of_holds [OF lf(2) assms(1)] by blast
  have "es2 = es" if "length (log_lines to_json es) \<le> MAX_RUNTIME_LOG_BYTES"
  proof -
    have "lf = \<lparr>lf_rotated = None, lf_current = Some (log_lines to_json es)\<rparr>"
      using append_all_fits [of "reset_log lf0" "[]" to_json es] that lf(1) by (simp add: reset_log_def)
    then show ?thesis using h(3) parse_history_lines [OF assms(1)] by (simp add: history_of_def read_raw_at_path_def)
  qed
  with lf h show ?thesis by blast
qed

theorem audit_history_round_trip_witness:
  "\<exists>lf. append_all ae_name [new_event 1 ''web'' ''lifecycle'' ''created'', new_event 2 ''web'' ''lifecycle'' ''stopped'']
      (reset_log no_log_files) = (lf, Ok ()) \<and>
    history_of (\<lambda>s. Some (new_event (if s = ''created'' then 1 else 2) ''web'' ''lifecycle'' s)) lf =
      Ok [new_event 1 ''web'' ''lifecycle'' ''created'', new_event 2 ''web'' ''lifecycle'' ''stopped'']"
proof -
  let ?es = "[new_event 1 ''web'' ''lifecycle'' ''created'', new_event 2 ''web'' ''lifecycle'' ''stopped'']"
  have "json_round_trip ae_name (\<lambda>s. Some (new_event (if s = ''created'' then 1 else 2) ''web'' ''lifecycle'' s)) ?es"
    by code_simp
  moreover have "list_all (record_fits ae_name) ?es"
    by (simp add: record_fits_def new_event_def MAX_RUNTIME_LOG_BYTES_def)
  moreover have "length (log_lines ae_name ?es) \<le> MAX_RUNTIME_LOG_BYTES"
    by (simp add: new_event_def MAX_RUNTIME_LOG_BYTES_def newline_def)
  ultimately show ?thesis using audit_history_round_trip [of ae_name _ ?es no_log_files] by blast
qed

end
