(* ===== verification/Lifecycle.thy ===== *)
theory Lifecycle
  imports Process Identity Audit_Log Capture
begin

text \<open>
  \<^verbatim>\<open>src/lifecycle.rs\<close>: creating, running, signalling, stopping and deleting containers, and running a
  program in one, on top of the store of states, the runtime logs and the processes. The runtime state is a
  record of the store with the cleanup calls made, the runtime logs and the capture files written. \<open>lw\<close>
  holds what an operation takes from outside at its instant: \<^verbatim>\<open>/proc\<close> and the clock, the cleanup world,
  the parser and reader of bundles, the reader of profiles, whether a capture file can be written, and the
  serialiser of events.
\<close>

record runtime =
  rt_store :: state_store
  rt_calls :: "cleanup_call list"
  rt_logs :: audit_logs
  rt_captures :: "string \<rightharpoonup> capture_file"

record lifecycle_world =
  lw_cleanup :: cleanup_world
  lw_env :: environment
  lw_parse :: "string \<Rightarrow> oci_config option"
  lw_read :: "string \<Rightarrow> string option"
  lw_to_json :: "audit_event \<Rightarrow> string"
  lw_arch :: target_arch
  lw_load_profile :: "string \<Rightarrow> (string, seccomp_profile) result"
  lw_save_capture :: "string \<Rightarrow> (string, unit) result"

datatype lc_error =
    Lc_error lifecycle_error
  | Lc_store store_error
  | Lc_state state_error
  | Lc_config load_error
  | Lc_userns userns_error
  | Lc_policy policy_error
  | Lc_audit audit_error
  | Lc_signal signal_error
  | Lc_identity identity_error
  | Lc_starttime starttime_error
  | Lc_namespace namespace_error
  | Lc_container container_error
  | Lc_run string
  | Lc_seccomp prepare_error
  | Lc_mode mode_error
  | Lc_health health_run_error
  | Lc_healthcheck healthcheck_error
  | Lc_exec string
  | Lc_capture string
  | Lc_logs string
  | Lc_parse_userns string
  | Lc_schema u32

type_synonym 'a lc_op = "runtime \<Rightarrow> runtime \<times> (lc_error, 'a) result"

definition lc_return :: "'a \<Rightarrow> 'a lc_op" where
  "lc_return a rt = (rt, Ok a)"

definition lc_lift :: "(lc_error, 'a) result \<Rightarrow> 'a lc_op" where
  "lc_lift r rt = (rt, r)"

definition lc_bind :: "'a lc_op \<Rightarrow> ('a \<Rightarrow> 'b lc_op) \<Rightarrow> 'b lc_op" where
  "lc_bind m f rt = (case m rt of (rt', Ok a) \<Rightarrow> f a rt' | (rt', Err e) \<Rightarrow> (rt', Err e))"

text \<open>The operations of the store and of the logs.\<close>

definition lc_load_current :: "lifecycle_world \<Rightarrow> string \<Rightarrow> container_state lc_op" where
  "lc_load_current lw cid rt =
     (case load_current_from (lw_cleanup lw) (lw_env lw) cid (rt_store rt, rt_calls rt) of
        ((st, w), r) \<Rightarrow> (rt\<lparr>rt_store := st, rt_calls := w\<rparr>, map_err Lc_store r))"

definition lc_exists :: "string \<Rightarrow> bool lc_op" where
  "lc_exists cid rt = (rt, map_err Lc_store (exists_state cid (rt_store rt)))"

definition lc_save :: "container_state \<Rightarrow> unit lc_op" where
  "lc_save s rt = (case save_to s (rt_store rt) of (st, r) \<Rightarrow> (rt\<lparr>rt_store := st\<rparr>, map_err Lc_store r))"

text \<open>Deleting a state removes the container's directory, the runtime logs with it.\<close>

definition lc_delete_state :: "lifecycle_world \<Rightarrow> string \<Rightarrow> unit lc_op" where
  "lc_delete_state lw cid rt =
     (case delete_from (lw_cleanup lw) (lw_env lw) cid (rt_store rt, rt_calls rt) of
        ((st, w), Ok u) \<Rightarrow> (rt\<lparr>rt_store := st, rt_calls := w, rt_logs := (rt_logs rt)(cid := no_log_files)\<rparr>, Ok u)
      | ((st, w), Err e) \<Rightarrow> (rt\<lparr>rt_store := st, rt_calls := w\<rparr>, Err (Lc_store e)))"

definition lc_audit :: "(audit_logs \<Rightarrow> audit_logs \<times> (audit_error, unit) result) \<Rightarrow> unit lc_op" where
  "lc_audit op rt = (case op (rt_logs rt) of (logs, r) \<Rightarrow> (rt\<lparr>rt_logs := logs\<rparr>, map_err Lc_audit r))"

definition lc_append :: "lifecycle_world \<Rightarrow> string \<Rightarrow> string \<Rightarrow> string \<Rightarrow> string option \<Rightarrow> unit lc_op" where
  "lc_append lw cid source name status =
     lc_audit (append_simple (lw_to_json lw) (env_now (lw_env lw)) cid source name status)"

subsection \<open>Create, delete\<close>

record create_options =
  cro_id :: string
  cro_bundle :: string
  cro_network_mode :: network_mode
  cro_security_profile :: security_profile
  cro_log_mode :: log_mode
  cro_userns_mode :: user_namespace_mode
  cro_tty :: bool
  cro_seccomp :: seccomp_options

definition ensure_container_absent :: "string \<Rightarrow> unit lc_op" where
  "ensure_container_absent cid =
     lc_bind (lc_exists cid) (\<lambda>there.
     if there then lc_lift (Err (Lc_error (ContainerAlreadyExists cid))) else lc_return ())"

definition record_created_event :: "lifecycle_world \<Rightarrow> string \<Rightarrow> unit lc_op" where
  "record_created_event lw cid =
     lc_bind (lc_audit (audit_reset cid)) (\<lambda>_. lc_append lw cid ''lifecycle'' ''created'' (Some ''created''))"

definition record_run_created :: "lifecycle_world \<Rightarrow> string \<Rightarrow> unit lc_op" where
  "record_run_created lw cid = lc_bind (ensure_container_absent cid) (\<lambda>_. record_created_event lw cid)"

definition load_bundle_config :: "lifecycle_world \<Rightarrow> string \<Rightarrow> (lc_error, oci_config) result" where
  "load_bundle_config lw bundle =
     (let path = path_join bundle ''config.json'' in map_err Lc_config (load_config (lw_parse lw) path (lw_read lw path)))"

definition userns_map_of :: "user_namespace_mode \<Rightarrow> user_namespace_map option" where
  "userns_map_of mode = (case mode of Userns_Host \<Rightarrow> None | Userns_Private m \<Rightarrow> Some m)"

definition metadata_of ::
    "network_mode \<Rightarrow> effective_policy \<Rightarrow> user_namespace_mode \<Rightarrow> rootfs_mode \<Rightarrow> bool \<Rightarrow> seccomp_options \<Rightarrow> runtime_metadata" where
  "metadata_of net pol userns rootfs tty sec =
     \<lparr>rm_network_mode = network_as_str net, rm_security_profile = security_as_str (ep_security_profile pol),
      rm_log_mode = log_as_str (ep_log_mode pol), rm_userns_mode = userns_as_str userns,
      rm_userns_map = userns_map_of userns, rm_rootfs_mode = rootfs_as_str rootfs,
      rm_policy_profile = policy_as_str (ep_profile pol), rm_tty = tty,
      rm_seccomp_mode = mode_as_str (so_mode sec), rm_seccomp_profile = so_profile_path sec,
      rm_seccomp_action = Some (action_as_str (so_action sec)), rm_seccomp_order = order_as_str (so_order sec),
      rm_seccomp_log = so_log sec\<rparr>"

definition resolve_policy :: "oci_config \<Rightarrow> security_profile \<Rightarrow> log_mode \<Rightarrow> (lc_error, effective_policy) result" where
  "resolve_policy config sec mode =
     map_err Lc_policy (resolve_effective_policy (cfg_crun config)
       (Option.bind (cfg_linux config) lx_resources) sec mode)"

definition create :: "lifecycle_world \<Rightarrow> create_options \<Rightarrow> container_state lc_op" where
  "create lw opts =
     lc_bind (ensure_container_absent (cro_id opts)) (\<lambda>_.
     lc_bind (lc_lift (load_bundle_config lw (cro_bundle opts))) (\<lambda>config.
     lc_bind (lc_lift (map_err Lc_userns (validate_process_user (cro_userns_mode opts) (pr_user (cfg_process config))))) (\<lambda>_.
     lc_bind (lc_lift (resolve_policy config (cro_security_profile opts) (cro_log_mode opts))) (\<lambda>pol.
     let rootfs_mode = rr_mode (resolve_rootfs (cro_bundle opts) (root_path (cfg_root config)) (cfg_crun config)) in
     lc_bind (lc_lift (map_err Lc_state (created (env_now (lw_env lw)) (cro_id opts) (cro_bundle opts)
       (metadata_of (cro_network_mode opts) pol (cro_userns_mode opts) rootfs_mode (cro_tty opts) (cro_seccomp opts))))) (\<lambda>s.
     lc_bind (lc_save s) (\<lambda>_.
     lc_bind (record_created_event lw (cro_id opts)) (\<lambda>_.
     lc_return s)))))))"

definition load_created :: "lifecycle_world \<Rightarrow> string \<Rightarrow> container_state lc_op" where
  "load_created lw cid =
     lc_bind (lc_load_current lw cid) (\<lambda>s.
     if cs_status s \<noteq> Created then lc_lift (Err (Lc_error (ContainerNotCreated cid))) else lc_return s)"

definition delete :: "lifecycle_world \<Rightarrow> string \<Rightarrow> unit lc_op" where
  "delete lw cid =
     lc_bind (lc_append lw cid ''lifecycle'' ''deleted'' (Some ''deleted'')) (\<lambda>_.
     \<lambda>rt. let runtime_log = ok_value (read_raw cid (rt_logs rt)) in
       lc_bind (lc_delete_state lw cid) (\<lambda>_.
         case runtime_log of Some log \<Rightarrow> lc_audit (write_raw cid log) | None \<Rightarrow> lc_return ()) rt)"

definition log_path_of :: "lifecycle_world \<Rightarrow> string \<Rightarrow> string lc_op" where
  "log_path_of lw cid =
     lc_bind (lc_load_current lw cid) (\<lambda>s.
     case cs_log_path s of Some p \<Rightarrow> lc_return p | None \<Rightarrow> lc_lift (map_err Lc_state (log_path cid)))"

subsection \<open>Signals and stopping\<close>

record kill_report =
  kr_id :: string
  kr_pid :: int
  kr_signal :: string
  kr_signal_number :: int

datatype stop_outcome = StoppedViaSigterm | StoppedViaSigkill

definition send_container_signal ::
    "lifecycle_world \<Rightarrow> process_world \<Rightarrow> nat \<Rightarrow> string \<Rightarrow> string \<Rightarrow> kill_report lc_op" where
  "send_container_signal lw pw t cid signal =
     lc_bind (lc_load_current lw cid) (\<lambda>s.
     if cs_status s \<noteq> Running then lc_lift (Err (Lc_error (ContainerNotRunning_Lifecycle cid)))
     else
       lc_bind (lc_lift (ok_or (cs_pid s) (Lc_error (ContainerHasNoPid_Lifecycle cid)))) (\<lambda>pid.
       lc_bind (lc_lift (map_err Lc_signal (parse_signal signal))) (\<lambda>number.
       lc_bind (lc_lift (map_err Lc_identity (signal_process pw t pid (cs_process_starttime s) number))) (\<lambda>_.
       lc_return \<lparr>kr_id = cid, kr_pid = pid, kr_signal = signal, kr_signal_number = number\<rparr>))))"

text \<open>
  The polling loop of \<^verbatim>\<open>wait_for_stopped\<close>: \<open>lws i\<close> is the outside world at the \<open>i\<close>-th look, the deadline is reached
  after \<open>n\<close> further looks.
\<close>

fun wait_for_stopped :: "(nat \<Rightarrow> lifecycle_world) \<Rightarrow> nat \<Rightarrow> nat \<Rightarrow> string \<Rightarrow> bool lc_op" where
  "wait_for_stopped lws i n cid rt =
     lc_bind (lc_load_current (lws i) cid) (\<lambda>s.
       if cs_status s = Stopped then lc_return True
       else case n of
         0 \<Rightarrow> lc_return False
       | Suc n \<Rightarrow> wait_for_stopped lws (Suc i) n cid) rt"

declare wait_for_stopped.simps [simp del]

text \<open>
  \<open>stop\<close>: the first look of a wait comes right after its signal. \<open>n\<close> and \<open>m\<close> are the looks the two
  time limits leave; the signals go out at the instants \<open>i\<close> and \<open>i + n + 2\<close> of the outside world, \<open>tick\<close> relates these to the instants of
  the process world.
\<close>

definition stop ::
    "(nat \<Rightarrow> lifecycle_world) \<Rightarrow> process_world \<Rightarrow> (nat \<Rightarrow> nat) \<Rightarrow> nat \<Rightarrow> nat \<Rightarrow> nat \<Rightarrow> string \<Rightarrow> stop_outcome lc_op" where
  "stop lws pw tick i n m cid =
     lc_bind (send_container_signal (lws i) pw (tick i) cid ''SIGTERM'') (\<lambda>_.
     lc_bind (wait_for_stopped lws (i + 1) n cid) (\<lambda>stopped.
     if stopped then lc_return StoppedViaSigterm
     else
       lc_bind (send_container_signal (lws (i + n + 2)) pw (tick (i + n + 2)) cid ''SIGKILL'') (\<lambda>_.
       lc_bind (wait_for_stopped lws (i + n + 3) m cid) (\<lambda>stopped.
       if stopped then lc_return StoppedViaSigkill
       else lc_lift (Err (Lc_error (StopDidNotComplete cid)))))))"

subsection \<open>Running\<close>

record container_run_options =
  ro_id :: string
  ro_bundle :: string
  ro_network_mode :: network_mode
  ro_security_profile :: security_profile
  ro_log_mode :: log_mode
  ro_userns_mode :: user_namespace_mode
  ro_tty :: bool
  ro_capture_logs :: bool
  ro_seccomp :: seccomp_options

record container_run_report =
  rep_exit_code :: "int option"
  rep_exit_signal :: "string option"
  rep_child_error :: "string option"
  rep_warnings :: "string list"

text \<open>\<^verbatim>\<open>save_started_state\<close>: the callback that records a started container.\<close>

definition started_resources_of :: "container_run_options \<Rightarrow> started_process \<Rightarrow> started_resources" where
  "started_resources_of opts sp =
     \<lparr>sr_cgroup_path = sp_cgroup_path sp, sr_network_subnet = sp_network_subnet sp, sr_nat_lease = sp_nat_lease sp,
      sr_overlay_ownership = sp_overlay_ownership sp,
      sr_log_path = (if ro_capture_logs opts then Some (log_file (ro_id opts)) else None)\<rparr>"

definition save_started_state ::
    "lifecycle_world \<Rightarrow> container_run_options \<Rightarrow> runtime_metadata \<Rightarrow> container_state option \<Rightarrow> started_process \<Rightarrow> container_state lc_op" where
  "save_started_state lw opts md existing sp =
     lc_bind (lc_lift (case existing of
         Some s \<Rightarrow> map_err Lc_starttime (mark_running (lw_env lw) (sp_pid sp) (started_resources_of opts sp) (rm_log_mode md) s)
       | None \<Rightarrow> map_err Lc_state (running (lw_env lw) (ro_id opts) (ro_bundle opts) (sp_pid sp) (started_resources_of opts sp) md))) (\<lambda>s.
     lc_bind (lc_save s) (\<lambda>_.
     lc_bind (lc_append lw (ro_id opts) ''lifecycle'' ''started'' (Some ''running'')) (\<lambda>_.
     lc_return s)))"

text \<open>
  How \<^verbatim>\<open>run_process\<close> goes on: it fails before the process is started, or starts it, reports it to the
  callback, and (if the callback succeeds) waits for it and ends with an exit or an error.
\<close>

datatype run_outcome =
    Fails_to_start string
  | Starts started_process "(string, process_exit) result"

definition value_of_code :: "int option \<Rightarrow> u64 option" where
  "value_of_code code = (case code of Some c \<Rightarrow> if 0 \<le> c then Some (word_of_int c) else None | None \<Rightarrow> None)"

definition with_code :: "int option \<Rightarrow> audit_event \<Rightarrow> audit_event" where
  "with_code code e = (case value_of_code code of Some v \<Rightarrow> with_value v e | None \<Rightarrow> e)"

definition stopped_event :: "u64 \<Rightarrow> string \<Rightarrow> int option \<Rightarrow> audit_event" where
  "stopped_event now cid code = with_code code (with_status ''stopped'' (new_event now cid ''lifecycle'' ''stopped''))"

definition captured_event :: "u64 \<Rightarrow> string \<Rightarrow> capture_file \<Rightarrow> audit_event" where
  "captured_event now cid f =
     with_value (word_of_nat (length (cf_syscalls f))) (with_status ''captured'' (new_event now cid ''seccomp'' ''captured''))"

text \<open>
  \<^verbatim>\<open>run_container_process\<close> in two parts: up to the callback's return, when the process has been released,
  and from the end of the process on. The first part gives the arguments of the container's process, the
  state the callback recorded and how the process ends.
\<close>

definition process_config_of ::
    "container_run_options \<Rightarrow> oci_config \<Rightarrow> network_mode \<Rightarrow> effective_policy \<Rightarrow> resolved_rootfs \<Rightarrow> u32 \<Rightarrow>
     compiled_profile option \<Rightarrow> string \<Rightarrow> (container_error, process_config) result" where
  "process_config_of opts config network_mode pol rootfs flags compiled log =
     build_process_config
       \<lparr>pb_id = Some (ro_id opts), pb_hostname = cfg_hostname config, pb_args = Some (pr_args (cfg_process config)),
        pb_env = Some (pr_env (cfg_process config)), pb_cwd = pr_cwd (cfg_process config), pb_rootfs = Some (rr_path rootfs),
        pb_overlay_config = rr_overlay_config rootfs, pb_readonly_rootfs = root_readonly (cfg_root config),
        pb_mounts = Some (cfg_mounts config), pb_process_user = pr_user (cfg_process config),
        pb_rlimits = Some (pr_rlimits (cfg_process config)),
        pb_masked_paths = Some (case cfg_linux config of Some lx \<Rightarrow> lx_masked_paths lx | None \<Rightarrow> []),
        pb_readonly_paths = Some (case cfg_linux config of Some lx \<Rightarrow> lx_readonly_paths lx | None \<Rightarrow> []),
        pb_log_path = (if ro_capture_logs opts then Some log else None), pb_flags = flags,
        pb_cgroup_config = ep_cgroup_config pol, pb_network_mode = Some network_mode,
        pb_security_profile = Some (ep_security_profile pol), pb_userns_mode = Some (ro_userns_mode opts),
        pb_tty = ro_tty opts, pb_seccomp_mode = so_mode (ro_seccomp opts),
        pb_seccomp_program = map_option cp_program compiled, pb_seccomp_flags = filter_flags (ro_seccomp opts)\<rparr>"

text \<open>What a run is decided by before anything happens: the bundle's configuration, what will be recorded of it and the process to start.\<close>

definition launch_plan ::
    "lifecycle_world \<Rightarrow> bool \<Rightarrow> container_run_options \<Rightarrow> (lc_error, oci_config \<times> runtime_metadata \<times> process_config) result" where
  "launch_plan lw is_root opts =
     (let network_mode = to_effective is_root (ro_network_mode opts) in
     and_then (load_bundle_config lw (ro_bundle opts)) (\<lambda>config.
     and_then (map_err Lc_userns (validate_process_user (ro_userns_mode opts) (pr_user (cfg_process config)))) (\<lambda>_.
     and_then (resolve_policy config (ro_security_profile opts) (ro_log_mode opts)) (\<lambda>pol.
     let rootfs = resolve_rootfs (ro_bundle opts) (root_path (cfg_root config)) (cfg_crun config);
         namespaces = (case cfg_linux config of Some lx \<Rightarrow> map namespace_type (lx_namespaces lx) | None \<Rightarrow> []);
         md = metadata_of network_mode pol (ro_userns_mode opts) (rr_mode rootfs) (ro_tty opts) (ro_seccomp opts) in
     and_then (map_err Lc_namespace (effective_namespace_flags namespaces network_mode (ro_userns_mode opts))) (\<lambda>flags.
     and_then (map_err Lc_seccomp (prepare (lw_arch lw) (lw_load_profile lw) (ro_seccomp opts))) (\<lambda>compiled.
     and_then (map_err Lc_state (log_path (ro_id opts))) (\<lambda>log.
     and_then (map_err Lc_container
       (process_config_of opts config network_mode pol rootfs flags compiled log)) (\<lambda>pc.
     Ok (config, md, pc)))))))))"

definition launch ::
    "lifecycle_world \<Rightarrow> bool \<Rightarrow> (process_config \<Rightarrow> run_outcome) \<Rightarrow> container_run_options \<Rightarrow> container_state option \<Rightarrow>
     (string list \<times> container_state \<times> (string, process_exit) result) lc_op" where
  "launch lw is_root run opts existing =
     lc_bind (lc_lift (launch_plan lw is_root opts)) (\<lambda>(config, md, pc).
     case run pc of
       Fails_to_start e \<Rightarrow> lc_lift (Err (Lc_run e))
     | Starts sp ended \<Rightarrow>
         lc_bind (save_started_state lw opts md existing sp) (\<lambda>s.
         lc_return (pr_args (cfg_process config), s, ended)))"

definition save_capture :: "lifecycle_world \<Rightarrow> string \<Rightarrow> capture_file \<Rightarrow> unit lc_op" where
  "save_capture lw path f rt =
     (case lw_save_capture lw path of
        Ok u \<Rightarrow> (rt\<lparr>rt_captures := (rt_captures rt)(path \<mapsto> f)\<rparr>, Ok u)
      | Err e \<Rightarrow> (rt, Err (Lc_capture e)))"

definition record_capture :: "lifecycle_world \<Rightarrow> container_run_options \<Rightarrow> string list \<Rightarrow> capture option \<Rightarrow> unit lc_op" where
  "record_capture lw opts args cap =
     (case cap of
        None \<Rightarrow> lc_return ()
      | Some c \<Rightarrow>
          lc_bind (lc_lift (map_err Lc_state (capture_path (ro_id opts)))) (\<lambda>dflt.
          let path = (case so_capture_path (ro_seccomp opts) of Some p \<Rightarrow> p | None \<Rightarrow> dflt);
              f = from_capture (lw_arch lw) (ro_id opts) args c in
          lc_bind (save_capture lw path f) (\<lambda>_.
          lc_audit (audit_append (lw_to_json lw) (captured_event (env_now (lw_env lw)) (ro_id opts) f)))))"

definition finish ::
    "lifecycle_world \<Rightarrow> container_run_options \<Rightarrow> string list \<times> container_state \<times> (string, process_exit) result \<Rightarrow>
     container_run_report lc_op" where
  "finish lw opts = (\<lambda>(args, s, ended).
     lc_bind (lc_lift (map_err Lc_run ended)) (\<lambda>px.
     lc_bind (record_capture lw opts args (px_capture px)) (\<lambda>_.
     lc_bind (lc_save (mark_stopped (env_now (lw_env lw)) (px_code px) (px_signal px) s)) (\<lambda>_.
     lc_bind (lc_audit (audit_append (lw_to_json lw) (stopped_event (env_now (lw_env lw)) (ro_id opts) (px_code px)))) (\<lambda>_.
     lc_return \<lparr>rep_exit_code = px_code px, rep_exit_signal = px_signal px, rep_child_error = px_error px,
       rep_warnings = []\<rparr>)))))"

text \<open>\<open>lw'\<close> is the outside world when the process has ended.\<close>

definition run_container_process ::
    "lifecycle_world \<Rightarrow> lifecycle_world \<Rightarrow> bool \<Rightarrow> (process_config \<Rightarrow> run_outcome) \<Rightarrow> container_run_options \<Rightarrow>
     container_state option \<Rightarrow> container_run_report lc_op" where
  "run_container_process lw lw' is_root run opts existing = lc_bind (launch lw is_root run opts existing) (finish lw' opts)"

subsection \<open>Running a program in a container\<close>

record exec_config =
  ec_target_pid :: int
  ec_target_starttime :: "u64 option"
  ec_args :: "string list"
  ec_env :: "string list"
  ec_cwd :: "string option"
  ec_process_user :: "process_user option"
  ec_private_userns :: bool
  ec_security_profile :: security_profile
  ec_cgroup_path :: "string option"
  ec_tty :: bool
  ec_seccomp_program :: "program option"
  ec_seccomp_flags :: u64
  ec_timeout :: "nat option"

record exec_report =
  er_code :: "int option"
  er_signal :: "string option"

definition exec_seccomp_program ::
    "lifecycle_world \<Rightarrow> container_state \<Rightarrow> (prepare_error, compiled_profile option) result" where
  "exec_seccomp_program lw s =
     (case cs_seccomp_profile s of
        None \<Rightarrow> Ok None
      | Some path \<Rightarrow>
          if cs_seccomp_mode s \<noteq> ''enforce'' then Ok None
          else
            and_then (map_err Prepare_seccomp (case cs_seccomp_action s of Some v \<Rightarrow> parse_action v | None \<Rightarrow> Ok Act_Errno)) (\<lambda>action.
            and_then (map_err Prepare_load (lw_load_profile lw path)) (\<lambda>p.
            and_then (map_err Prepare_seccomp (parse_order (cs_seccomp_order s))) (\<lambda>order.
            map_ok Some (map_err Prepare_seccomp
              (compile (lw_arch lw) p \<lparr>co_default_action = action, co_order = order\<rparr>))))))"

definition audit_exec :: "lifecycle_world \<Rightarrow> string \<Rightarrow> exec_report \<Rightarrow> unit lc_op" where
  "audit_exec lw cid r =
     lc_audit (audit_append (lw_to_json lw)
       (with_status (if er_signal r \<noteq> None then ''signaled'' else ''exited'')
         (with_code (er_code r) (new_event (env_now (lw_env lw)) cid ''exec'' ''exec''))))"

text \<open>What a program is run with in a container, from the recorded state and the bundle.\<close>

definition exec_config_of ::
    "lifecycle_world \<Rightarrow> string \<Rightarrow> container_state \<Rightarrow> string list \<Rightarrow> bool \<Rightarrow> (lc_error, exec_config) result" where
  "exec_config_of lw cid s args tty =
     and_then (ok_or (cs_pid s) (Lc_error (ContainerHasNoPid_Lifecycle cid))) (\<lambda>pid.
     and_then (load_bundle_config lw (cs_bundle s)) (\<lambda>config.
     and_then (map_err Lc_seccomp (exec_seccomp_program lw s)) (\<lambda>compiled.
     and_then (map_err Lc_mode (parse_security_profile (cs_security_profile s))) (\<lambda>sec. Ok
       \<lparr>ec_target_pid = pid, ec_target_starttime = cs_process_starttime s, ec_args = args,
        ec_env = pr_env (cfg_process config), ec_cwd = pr_cwd (cfg_process config),
        ec_process_user = pr_user (cfg_process config), ec_private_userns = (cs_userns_mode s = ''private''),
        ec_security_profile = sec, ec_cgroup_path = cs_cgroup_path s, ec_tty = tty,
        ec_seccomp_program = map_option cp_program compiled,
        ec_seccomp_flags = (if cs_seccomp_log s then SECCOMP_FILTER_FLAG_LOG else 0), ec_timeout = None\<rparr>))))"

text \<open>\<open>exec_in\<close> is \<^verbatim>\<open>exec_in_container\<close> of \<^verbatim>\<open>container_exec.rs\<close>.\<close>

definition exec_container ::
    "lifecycle_world \<Rightarrow> (exec_config \<Rightarrow> (string, exec_report) result) \<Rightarrow> string \<Rightarrow> string list \<Rightarrow> bool \<Rightarrow> exec_report lc_op" where
  "exec_container lw exec_in cid args tty =
     lc_bind (lc_load_current lw cid) (\<lambda>s.
     if cs_status s \<noteq> Running then lc_lift (Err (Lc_error (ContainerNotRunning_Lifecycle cid)))
     else
       lc_bind (lc_lift (exec_config_of lw cid s args tty)) (\<lambda>c.
       lc_bind (lc_lift (map_err Lc_exec (exec_in c))) (\<lambda>report.
       lc_bind (audit_exec lw cid report) (\<lambda>_.
       lc_return report))))"

subsection \<open>Triples\<close>

text \<open>
  \<open>lc_triple P m Q E\<close>: from a runtime with \<open>P\<close>, \<open>m\<close> ends with a result \<open>a\<close> and \<open>Q a\<close>, or fails with \<open>E\<close>.
\<close>

definition lc_triple :: "(runtime \<Rightarrow> bool) \<Rightarrow> 'a lc_op \<Rightarrow> ('a \<Rightarrow> runtime \<Rightarrow> bool) \<Rightarrow> (runtime \<Rightarrow> bool) \<Rightarrow> bool" where
  "lc_triple P m Q E \<longleftrightarrow> (\<forall>rt. P rt \<longrightarrow> (case m rt of (rt', Ok a) \<Rightarrow> Q a rt' | (rt', Err _) \<Rightarrow> E rt'))"

named_theorems lc_rules \<open>rules for triples\<close>

lemma lc_bind_Ok [simp]:
  "lc_bind m f rt = (rt2, Ok b) \<longleftrightarrow> (\<exists>rt1 a. m rt = (rt1, Ok a) \<and> f a rt1 = (rt2, Ok b))"
  by (auto simp: lc_bind_def split: prod.splits result.splits)

lemma lc_basic_Ok [simp]:
  "lc_return a rt = (rt2, Ok b) \<longleftrightarrow> rt2 = rt \<and> b = a" "lc_lift r rt = (rt2, Ok b) \<longleftrightarrow> rt2 = rt \<and> r = Ok b"
  by (auto simp: lc_return_def lc_lift_def)

lemma lc_bind_assoc: "lc_bind (lc_bind m f) g = lc_bind m (\<lambda>a. lc_bind (f a) g)"
  by (rule ext) (simp add: lc_bind_def split: prod.split result.split)

lemma lc_triple_return: "(\<And>rt. P rt \<Longrightarrow> Q a rt) \<Longrightarrow> lc_triple P (lc_return a) Q E"
  by (simp add: lc_triple_def lc_return_def)

lemma lc_triple_lift:
  "(\<And>a rt. r = Ok a \<Longrightarrow> P rt \<Longrightarrow> Q a rt) \<Longrightarrow> (\<And>rt. P rt \<Longrightarrow> E rt) \<Longrightarrow> lc_triple P (lc_lift r) Q E"
  by (cases r) (auto simp: lc_triple_def lc_lift_def)

lemma lc_triple_bind:
  "lc_triple P m Q E \<Longrightarrow> (\<And>a. lc_triple (Q a) (f a) R E) \<Longrightarrow> lc_triple P (lc_bind m f) R E"
  unfolding lc_triple_def lc_bind_def
proof (intro allI impI)
  fix rt
  assume m: "\<forall>rt. P rt \<longrightarrow> (case m rt of (rt', Ok a) \<Rightarrow> Q a rt' | (rt', Err _) \<Rightarrow> E rt')" "P rt"
    and f: "\<And>a. \<forall>rt. Q a rt \<longrightarrow> (case f a rt of (rt', Ok a) \<Rightarrow> R a rt' | (rt', Err _) \<Rightarrow> E rt')"
  obtain rt' r where "m rt = (rt', r)" by force
  with m f show "case (case m rt of (rt', Ok a) \<Rightarrow> f a rt' | (rt', Err e) \<Rightarrow> (rt', Err e)) of
      (rt', Ok a) \<Rightarrow> R a rt' | (rt', Err _) \<Rightarrow> E rt'"
    by (cases r) force+
qed

lemma lc_triple_if:
  "(b \<Longrightarrow> lc_triple P m Q E) \<Longrightarrow> (\<not> b \<Longrightarrow> lc_triple P m' Q E) \<Longrightarrow> lc_triple P (if b then m else m') Q E"
  by simp

lemma lc_triple_weaken:
  "lc_triple P' m Q' E' \<Longrightarrow> (\<And>rt. P rt \<Longrightarrow> P' rt) \<Longrightarrow> (\<And>a rt. Q' a rt \<Longrightarrow> Q a rt) \<Longrightarrow> (\<And>rt. E' rt \<Longrightarrow> E rt) \<Longrightarrow>
   lc_triple P m Q E"
  unfolding lc_triple_def by (fastforce split: prod.splits result.splits)

lemma lc_tripleD:
  assumes "lc_triple P m Q E" "P rt" "m rt = (rt', r)"
  shows "r = Ok a \<Longrightarrow> Q a rt'" "r = Err e \<Longrightarrow> E rt'" "(\<exists>a. Q a rt') \<or> E rt'"
  using assms by (cases r; force simp: lc_triple_def)+

lemma lc_triple_lift_bind:
  "(\<And>a. r = Ok a \<Longrightarrow> lc_triple P (f a) R E) \<Longrightarrow> (\<And>rt. P rt \<Longrightarrow> E rt) \<Longrightarrow> lc_triple P (lc_bind (lc_lift r) f) R E"
  by (cases r) (auto simp: lc_triple_def lc_bind_def lc_lift_def)

subsection \<open>The runtime's invariant and the statuses it displays\<close>

definition runtime_wf :: "runtime \<Rightarrow> bool" where
  "runtime_wf rt \<longleftrightarrow> store_wf (rt_store rt) \<and> (\<forall>cid. log_bounded (rt_logs rt cid))"

definition statuses :: "state_store \<Rightarrow> string \<Rightarrow> container_status option" where
  "statuses st cid = (case map_of st cid of Some (Some s) \<Rightarrow> Some (cs_status s) | _ \<Rightarrow> None)"

text \<open>The runtime is in order and displays the statuses \<open>A\<close>.\<close>

definition displays :: "(string \<Rightarrow> container_status option) \<Rightarrow> runtime \<Rightarrow> bool" where
  "displays A rt \<longleftrightarrow> runtime_wf rt \<and> statuses (rt_store rt) = A"

text \<open>Operations on the logs and the capture files.\<close>

lemma log_bounded_append: "\<forall>cid. log_bounded (logs cid) \<Longrightarrow> log_bounded (fst (audit_append to_json e logs) cid)"
  using append_bounded [of "logs (ae_id e)" to_json e] by (auto simp: audit_append_def split: result.split prod.split)

lemma displays_append [lc_rules]: "lc_triple (displays A) (lc_audit (audit_append to_json e)) (\<lambda>_. displays A) (displays A)"
  using log_bounded_append [of _ to_json e]
  by (auto simp: lc_triple_def lc_audit_def displays_def runtime_wf_def split: prod.splits result.splits; metis fst_conv)

lemma displays_append_simple [lc_rules]: "lc_triple (displays A) (lc_append lw cid source name status) (\<lambda>_. displays A) (displays A)"
  unfolding lc_append_def append_simple_def by (rule displays_append)

lemma displays_reset [lc_rules]: "lc_triple (displays A) (lc_audit (audit_reset cid)) (\<lambda>_. displays A) (displays A)"
  by (auto simp: lc_triple_def lc_audit_def audit_reset_def displays_def runtime_wf_def reset_log_def log_bounded_def
      split: prod.splits result.splits)

lemma displays_write_raw [lc_rules]: "lc_triple (displays A) (lc_audit (write_raw cid c)) (\<lambda>_. displays A) (displays A)"
  by (auto simp: lc_triple_def lc_audit_def write_raw_def displays_def runtime_wf_def write_raw_log_def log_bounded_def
      retain_tail_bound split: prod.splits result.splits)

lemma displays_save_capture [lc_rules]: "lc_triple (displays A) (save_capture lw path f) (\<lambda>_. displays A) (displays A)"
  by (auto simp: lc_triple_def save_capture_def displays_def runtime_wf_def split: result.splits)

text \<open>Operations on the store.\<close>

lemma lc_exists_triple:
  "lc_triple (displays A) (lc_exists cid) (\<lambda>b rt. displays A rt \<and> validate_id cid = Ok () \<and> (b \<longleftrightarrow> A cid \<noteq> None)) (displays A)"
  by (auto simp: lc_triple_def lc_exists_def exists_state_def displays_def statuses_def
      split: prod.splits result.splits option.splits)

lemma lc_save_triple:
  assumes "state_wf s"
  shows "lc_triple (displays A) (lc_save s) (\<lambda>_. displays (A(cs_id s \<mapsto> cs_status s))) E"
  unfolding lc_triple_def
proof (intro allI impI)
  fix rt assume rt: "displays A rt"
  then have wf: "store_wf (rt_store rt)" by (simp add: displays_def runtime_wf_def)
  obtain st r where st: "save_to s (rt_store rt) = (st, r)" by force
  then have "r = Ok ()" "map_of st c = (if c = cs_id s then Some (Some s) else map_of (rt_store rt) c)" "store_wf st" for c
    using save_to_Ok [OF wf assms] save_to_wf [OF wf assms] by (metis fst_conv snd_conv)+
  then show "case lc_save s rt of (rt', Ok a) \<Rightarrow> displays (A(cs_id s \<mapsto> cs_status s)) rt' | (rt', Err _) \<Rightarrow> E rt'"
    using rt by (auto simp: lc_save_def st displays_def runtime_wf_def statuses_def fun_eq_iff)
qed

text \<open>
  What a command finds when it looks at a container: a status of running is out of date when the recorded process is no longer
  there. \<open>meets\<close>: the statuses displayed, and whether the process of one container lives.
\<close>

definition live_in :: "lifecycle_world \<Rightarrow> runtime \<Rightarrow> string \<Rightarrow> bool" where
  "live_in lw rt cid \<longleftrightarrow> (\<exists>s. map_of (rt_store rt) cid = Some (Some s) \<and> live (lw_env lw) s)"

definition found :: "bool \<Rightarrow> container_status option \<Rightarrow> container_status option" where
  "found alive status = (if status = Some Running \<and> \<not> alive then Some Stopped else status)"

definition seen :: "string \<Rightarrow> bool \<Rightarrow> (string \<Rightarrow> container_status option) \<Rightarrow> string \<Rightarrow> container_status option" where
  "seen cid alive A = A(cid := found alive (A cid))"

definition meets :: "lifecycle_world \<Rightarrow> string \<Rightarrow> bool \<Rightarrow> (string \<Rightarrow> container_status option) \<Rightarrow> runtime \<Rightarrow> bool" where
  "meets lw cid alive A rt \<longleftrightarrow> displays A rt \<and> (live_in lw rt cid \<longleftrightarrow> alive)"

lemma refresh_status:
  assumes "state_wf s" "refresh_liveness os env s w = (w', s', changed)"
  shows "Some (cs_status s') = found (live env s) (Some (cs_status s))"
proof (cases "live env s")
  case True
  then show ?thesis using assms(2) by (simp add: refresh_live found_def)
next
  case False
  then have "ok_value (process_starttime env pid) \<noteq> Some t"
    if "cs_status s = Running" "cs_pid s = Some pid" "pid_is_alive env pid" "cs_process_starttime s = Some t" for pid t
    using that by (cases "process_starttime env pid") (auto simp: live_def)
  with assms False show ?thesis
    by (auto simp: refresh_liveness_def found_def mark_stopped_def state_wf_def split: if_splits option.splits prod.splits)
qed

lemma meets_append_simple:
  "lc_triple (meets lw c alive A) (lc_append lw cid source name status) (\<lambda>_. meets lw c alive A) (displays A)"
  unfolding lc_triple_def
proof (intro allI impI)
  fix rt assume m: "meets lw c alive A rt"
  obtain rt' r where r: "lc_append lw cid source name status rt = (rt', r)" by (rule prod.exhaust)
  have "displays A rt'" using lc_tripleD(3) [OF displays_append_simple _ r] m by (auto simp: meets_def)
  moreover have "rt_store rt' = rt_store rt" using r by (auto simp: lc_append_def lc_audit_def split: prod.splits)
  ultimately show "case lc_append lw cid source name status rt of (rt', Ok a) \<Rightarrow> meets lw c alive A rt' | (rt', Err _) \<Rightarrow> displays A rt'"
    using m by (auto simp: r meets_def live_in_def split: result.split)
qed

lemma load_current_Err:
  assumes "store_wf st" "load_current_from os env cid (st, w) = ((st', w'), Err e)"
  shows "store_wf st' \<and> (\<forall>c s. map_of st' c = Some (Some s) \<longleftrightarrow> map_of st c = Some (Some s))"
proof -
  have inv: "bt_invar st" using assms(1) by (simp add: store_wf_def)
  have "st' = st \<or> st' = ensure_dir cid st"
  proof (cases "\<exists>s. validate_id cid = Ok () \<and> map_of st cid = Some (Some s)")
    case True
    then obtain s where s: "validate_id cid = Ok ()" "map_of st cid = Some (Some s)" by blast
    obtain v s' ch where r: "refresh_liveness os env s w = (v, s', ch)" by (metis prod.exhaust)
    have "validate_id (cs_id s') = Ok ()"
      using refresh_wf(1) [OF r] assms(1) s(2) by (auto simp: store_wf_def state_wf_def)
    then show ?thesis
      using assms(2) s r
      by (auto simp: load_current_from_def lock_state_def load_from_def map_of_ensure_dir [OF inv] write_state_atomic_def
          split: if_splits)
  next
    case False
    then show ?thesis
      using assms(2)
      by (auto simp: load_current_from_def lock_state_def load_from_def map_of_ensure_dir [OF inv]
          split: result.splits option.splits if_splits)
  qed
  then show ?thesis
    using assms(1) store_wf_ensure_dir [OF assms(1)] map_of_ensure_dir [OF inv, of cid] by (auto split: if_splits)
qed

lemma statuses_cong:
  assumes "\<forall>c s. map_of st c = Some (Some s) \<longleftrightarrow> map_of st' c = Some (Some s)"
  shows "statuses st = statuses st'"
proof
  fix c
  show "statuses st c = statuses st' c"
    using spec [OF assms, of c]
    by (cases "\<exists>s. map_of st c = Some (Some s)") (auto simp: statuses_def split: option.splits)
qed

lemma lc_load_triple:
  "lc_triple (meets lw cid alive A) (lc_load_current lw cid)
     (\<lambda>s rt. state_wf s \<and> cs_id s = cid \<and> seen cid alive A cid = Some (cs_status s) \<and> displays (seen cid alive A) rt)
     (displays A)"
  unfolding lc_triple_def
proof (intro allI impI)
  fix rt assume "meets lw cid alive A rt"
  then have rt: "displays A rt" and alive: "live_in lw rt cid \<longleftrightarrow> alive" by (simp_all add: meets_def)
  then have wf: "store_wf (rt_store rt)" by (simp add: displays_def runtime_wf_def)
  obtain st w r where l: "load_current_from (lw_cleanup lw) (lw_env lw) cid (rt_store rt, rt_calls rt) = ((st, w), r)"
    by (metis prod.exhaust)
  let ?rt = "rt\<lparr>rt_store := st, rt_calls := w\<rparr>"
  show "case lc_load_current lw cid rt of (rt', Ok s) \<Rightarrow> state_wf s \<and> cs_id s = cid \<and>
      seen cid alive A cid = Some (cs_status s) \<and> displays (seen cid alive A) rt' | (rt', Err _) \<Rightarrow> displays A rt'"
  proof (cases r)
    case (Err e)
    then show ?thesis
      using load_current_Err [OF wf l [unfolded Err]] statuses_cong [of st "rt_store rt"] rt
      by (auto simp: lc_load_current_def l displays_def runtime_wf_def)
  next
    case (Ok s')
    from load_current_Ok [OF wf l [unfolded Ok]] obtain s where s: "map_of (rt_store rt) cid = Some (Some s)"
      "refresh_liveness (lw_cleanup lw) (lw_env lw) s (rt_calls rt) = (w, s', s' \<noteq> s)"
      "map_of st = (map_of (rt_store rt))(cid \<mapsto> Some s')" "store_wf st" by blast
    have "map_of st cid = Some (Some s')" by (simp add: s(3))
    then have "state_wf s'" "cs_id s' = cid" using s(4) unfolding store_wf_def by blast+
    moreover have "displays (A(cid \<mapsto> cs_status s')) ?rt"
      using rt s(3,4) by (auto simp: displays_def runtime_wf_def statuses_def fun_eq_iff)
    moreover have "A cid = Some (cs_status s)" using rt s(1) by (auto simp: displays_def statuses_def)
    then have "seen cid alive A = A(cid \<mapsto> cs_status s')"
      using refresh_status [OF _ s(2)] wf s(1) alive by (auto simp: seen_def live_in_def store_wf_def)
    ultimately show ?thesis by (simp add: lc_load_current_def l Ok)
  qed
qed

lemma bt_remove_statuses: "statuses (bt_remove cid st) = (statuses st)(cid := None)"
  by (auto simp: statuses_def map_of_bt_remove fun_eq_iff)

lemma lc_delete_triple:
  "lc_triple (meets lw cid alive A) (lc_delete_state lw cid)
     (\<lambda>_ rt. seen cid alive A cid \<in> {Some Created, Some Stopped} \<and> displays (A(cid := None)) rt)
     (\<lambda>rt. displays A rt \<or> displays (seen cid alive A) rt)"
  unfolding lc_triple_def
proof (intro allI impI)
  fix rt assume rt: "meets lw cid alive A rt"
  obtain st w r where l: "load_current_from (lw_cleanup lw) (lw_env lw) cid (rt_store rt, rt_calls rt) = ((st, w), r)"
    by (metis prod.exhaust)
  let ?rt = "rt\<lparr>rt_store := st, rt_calls := w\<rparr>"
  have load: "lc_load_current lw cid rt = (?rt, map_err Lc_store r)" by (simp add: lc_load_current_def l)
  show "case lc_delete_state lw cid rt of
      (rt', Ok _) \<Rightarrow> seen cid alive A cid \<in> {Some Created, Some Stopped} \<and> displays (A(cid := None)) rt'
    | (rt', Err _) \<Rightarrow> displays A rt' \<or> displays (seen cid alive A) rt'"
  proof (cases r)
    case (Err e)
    then show ?thesis
      using lc_tripleD(2) [OF lc_load_triple rt load, of "Lc_store e"]
      by (auto simp: lc_delete_state_def delete_from_def l)
  next
    case (Ok s)
    let ?B = "seen cid alive A"
    have B: "?B cid = Some (cs_status s)" "displays ?B ?rt"
      using lc_tripleD(1) [OF lc_load_triple rt load, of s] Ok by auto
    obtain v x where rel: "release_state_network_allocation (lw_cleanup lw) s w = (v, x)" by force
    show ?thesis
    proof (cases "cs_status s = Running \<or> \<not> is_ok x")
      case True
      have "displays ?B (?rt\<lparr>rt_calls := v\<rparr>)" using B(2) by (auto simp: displays_def runtime_wf_def)
      with True B show ?thesis
        by (cases x) (auto simp: lc_delete_state_def delete_from_def l Ok rel)
    next
      case False
      have "store_wf (fst (fst (delete_from (lw_cleanup lw) (lw_env lw) cid (rt_store rt, rt_calls rt))))"
        using rt delete_wf [of "(rt_store rt, rt_calls rt)"] by (simp add: meets_def displays_def runtime_wf_def)
      then have wf: "store_wf (bt_remove cid st)" using False by (cases x) (auto simp: delete_from_def l Ok rel)
      have "displays (A(cid := None)) (rt\<lparr>rt_store := bt_remove cid st, rt_calls := v,
          rt_logs := (rt_logs rt)(cid := no_log_files)\<rparr>)"
        using B(2) wf by (auto simp: displays_def runtime_wf_def bt_remove_statuses no_log_files_def log_bounded_def seen_def)
      then show ?thesis
        using False B by (cases x; cases "cs_status s") (auto simp: lc_delete_state_def delete_from_def l Ok rel)
    qed
  qed
qed

subsection \<open>Stopping\<close>

text \<open>The container's state is recorded as running, and \<open>/proc\<close> shows the recorded process.\<close>

definition recorded_running :: "runtime \<Rightarrow> string \<Rightarrow> int \<Rightarrow> u64 \<Rightarrow> bool" where
  "recorded_running rt cid pid starttime \<longleftrightarrow> (\<exists>s. map_of (rt_store rt) cid = Some (Some s) \<and> cs_status s = Running \<and>
     cs_pid s = Some pid \<and> cs_process_starttime s = Some starttime)"

definition same_process :: "environment \<Rightarrow> int \<Rightarrow> u64 \<Rightarrow> bool" where
  "same_process env pid starttime \<longleftrightarrow> pid_is_alive env pid \<and> ok_value (process_starttime env pid) = Some starttime"

lemma look_at_same:
  assumes "runtime_wf rt" "map_of (rt_store rt) cid = Some (Some s)" "cs_status s = Running" "cs_pid s = Some pid"
    "cs_process_starttime s = Some st" "same_process (lw_env lw) pid st"
  shows "lc_load_current lw cid rt = (rt, Ok s)"
proof -
  have "validate_id cid = Ok ()" using assms(1,2) by (auto simp: runtime_wf_def store_wf_def state_wf_def)
  then show ?thesis
    using assms
    by (simp add: lc_load_current_def load_current_from_def lock_state_def ensure_dir_def load_from_def refresh_liveness_def
        same_process_def)
qed

lemma look_at_gone:
  assumes wf: "runtime_wf rt" and s: "map_of (rt_store rt) cid = Some (Some s)" "cs_status s = Running" "cs_pid s = Some pid"
    "cs_process_starttime s = Some st" and gone: "\<not> same_process (lw_env lw) pid st"
  shows "\<exists>rt' s'. lc_load_current lw cid rt = (rt', Ok s') \<and> cs_status s' = Stopped \<and> statuses (rt_store rt') cid = Some Stopped"
proof -
  have v: "validate_id cid = Ok ()" "cs_id s = cid" using wf s(1) by (auto simp: runtime_wf_def store_wf_def state_wf_def)
  have "snd (snd (refresh_liveness (lw_cleanup lw) (lw_env lw) s (rt_calls rt)))"
    using gone s by (simp add: refresh_liveness_def same_process_def split_beta)
  then obtain w s' where l: "refresh_liveness (lw_cleanup lw) (lw_env lw) s (rt_calls rt) = (w, s', True)"
    by (metis (full_types) prod.collapse)
  have r: "refresh_liveness (lw_cleanup lw) (lw_env lw) s (rt_calls rt) = (w, s', True)" "cs_status s' = Stopped" "cs_id s' = cid"
    using l refresh_wf(2,3) [OF l] v(2) by simp_all
  then have "lc_load_current lw cid rt = (rt\<lparr>rt_store := bt_insert cid (Some s') (rt_store rt), rt_calls := w\<rparr>, Ok s')"
    using s v by (simp add: lc_load_current_def load_current_from_def lock_state_def ensure_dir_def load_from_def write_state_atomic_def)
  moreover have "statuses (bt_insert cid (Some s') (rt_store rt)) cid = Some Stopped"
    using wf r(2) by (simp add: statuses_def runtime_wf_def store_wf_def btree_simps)
  ultimately show ?thesis using r(2) by auto
qed

text \<open>
  What sending a signal does when \<open>/proc\<close> shows the recorded process, and when it does not: in the first case the answer of the kernel is
  the answer of the command, in the second the container is recorded as stopped and no signal is sent.
\<close>

lemma send_signal_running:
  assumes "runtime_wf rt" "recorded_running rt cid pid st" "parse_signal sig = Ok n"
  shows "same_process (lw_env lw) pid st \<Longrightarrow> send_container_signal lw pw t cid sig rt =
      (rt, map_ok (\<lambda>_. \<lparr>kr_id = cid, kr_pid = pid, kr_signal = sig, kr_signal_number = n\<rparr>)
             (map_err Lc_identity (signal_process pw t pid (Some st) n)))"
    and "\<not> same_process (lw_env lw) pid st \<Longrightarrow> \<exists>rt'. send_container_signal lw pw t cid sig rt =
      (rt', Err (Lc_error (ContainerNotRunning_Lifecycle cid))) \<and> statuses (rt_store rt') cid = Some Stopped"
proof -
  obtain s where s: "map_of (rt_store rt) cid = Some (Some s)" "cs_status s = Running" "cs_pid s = Some pid"
    "cs_process_starttime s = Some st" using assms(2) by (auto simp: recorded_running_def)
  show "send_container_signal lw pw t cid sig rt =
      (rt, map_ok (\<lambda>_. \<lparr>kr_id = cid, kr_pid = pid, kr_signal = sig, kr_signal_number = n\<rparr>)
             (map_err Lc_identity (signal_process pw t pid (Some st) n)))" if "same_process (lw_env lw) pid st"
    using look_at_same [OF assms(1) s that] s assms(3)
    by (cases "signal_process pw t pid (Some st) n") (simp_all add: send_container_signal_def lc_bind_def lc_lift_def lc_return_def)
  show "\<exists>rt'. send_container_signal lw pw t cid sig rt =
      (rt', Err (Lc_error (ContainerNotRunning_Lifecycle cid))) \<and> statuses (rt_store rt') cid = Some Stopped"
    if "\<not> same_process (lw_env lw) pid st"
    using look_at_gone [OF assms(1) s that] by (auto simp: send_container_signal_def lc_bind_def lc_lift_def)
qed

lemma wait_for_stopped_result:
  assumes "runtime_wf rt" "recorded_running rt cid pid st"
  shows "if \<forall>j \<le> n. same_process (lw_env (lws (i + j))) pid st then wait_for_stopped lws i n cid rt = (rt, Ok False)
    else \<exists>rt'. wait_for_stopped lws i n cid rt = (rt', Ok True) \<and> statuses (rt_store rt') cid = Some Stopped"
proof (induction n arbitrary: i)
  case 0
  obtain s where s: "map_of (rt_store rt) cid = Some (Some s)" "cs_status s = Running" "cs_pid s = Some pid"
    "cs_process_starttime s = Some st" using assms(2) by (auto simp: recorded_running_def)
  show ?case
    using look_at_same [OF assms(1) s, of "lws i"] look_at_gone [OF assms(1) s, of "lws i"] s(2)
    by (auto simp: wait_for_stopped.simps [of lws i 0] lc_bind_def lc_return_def)
next
  case (Suc n)
  obtain s where s: "map_of (rt_store rt) cid = Some (Some s)" "cs_status s = Running" "cs_pid s = Some pid"
    "cs_process_starttime s = Some st" using assms(2) by (auto simp: recorded_running_def)
  have all: "(\<forall>j \<le> Suc n. P (i + j)) \<longleftrightarrow> P i \<and> (\<forall>j \<le> n. P (Suc i + j))" for P
    by (metis Suc_le_mono add.right_neutral add_Suc_shift le0 not0_implies_Suc)
  show ?case
  proof (cases "same_process (lw_env (lws i)) pid st")
    case True
    then have "wait_for_stopped lws i (Suc n) cid rt = wait_for_stopped lws (Suc i) n cid rt"
      using look_at_same [OF assms(1) s True] s(2) by (simp add: wait_for_stopped.simps [of lws i "Suc n"] lc_bind_def)
    then show ?thesis using Suc.IH [of "Suc i"] True unfolding all [of "\<lambda>k. same_process (lw_env (lws k)) pid st"] by simp
  next
    case False
    then show ?thesis
      using look_at_gone [OF assms(1) s False] unfolding all [of "\<lambda>k. same_process (lw_env (lws k)) pid st"]
      by (auto simp: wait_for_stopped.simps [of lws i "Suc n"] lc_bind_def lc_return_def)
  qed
qed

lemma wait_for_stopped_gone:
  assumes "runtime_wf rt" "recorded_running rt cid pid st" "\<not> (\<forall>j \<le> n. same_process (lw_env (lws (i + j))) pid st)"
  shows "\<exists>rt'. wait_for_stopped lws i n cid rt = (rt', Ok True) \<and> statuses (rt_store rt') cid = Some Stopped"
  using wait_for_stopped_result [OF assms(1,2), of n lws i] unfolding if_not_P [OF assms(3)] .

lemma stop_signals: "parse_signal ''SIGTERM'' = Ok 15" "parse_signal ''SIGKILL'' = Ok 9"
  by code_simp+

text \<open>One of the two rounds of \<open>stop\<close>: a signal and the wait after it; \<open>go_on\<close> is what follows a wait in vain.\<close>

lemma stop_round_result:
  assumes wf: "runtime_wf rt" "recorded_running rt cid pid st" and "parse_signal sig = Ok number"
    and run: "lc_bind (send_container_signal (lws k) pw t cid sig) (\<lambda>_.
      lc_bind (wait_for_stopped lws k' n cid) (\<lambda>stopped. if stopped then lc_return out else go_on)) rt = (rt', r)"
  shows "if \<not> same_process (lw_env (lws k)) pid st
      then r = Err (Lc_error (ContainerNotRunning_Lifecycle cid)) \<and> statuses (rt_store rt') cid = Some Stopped
    else case signal_process pw t pid (Some st) number of
      Err e \<Rightarrow> r = Err (Lc_identity e) \<and> rt' = rt
    | Ok _ \<Rightarrow> if \<forall>j \<le> n. same_process (lw_env (lws (k' + j))) pid st then go_on rt = (rt', r)
        else r = Ok out \<and> statuses (rt_store rt') cid = Some Stopped"
proof (cases "same_process (lw_env (lws k)) pid st")
  case False
  then obtain rt1 where "send_container_signal (lws k) pw t cid sig rt = (rt1, Err (Lc_error (ContainerNotRunning_Lifecycle cid)))"
      "statuses (rt_store rt1) cid = Some Stopped"
    using send_signal_running(2) [OF wf assms(3)] by blast
  with run False show ?thesis by (simp add: lc_bind_def)
next
  case True
  note sent = send_signal_running(1) [OF wf assms(3) True, of pw t]
  show ?thesis
  proof (cases "signal_process pw t pid (Some st) number")
    case (Err e)
    with True run show ?thesis by (simp add: lc_bind_def sent)
  next
    case (Ok u)
    have wait: "lc_bind (wait_for_stopped lws k' n cid) (\<lambda>stopped. if stopped then lc_return out else go_on) rt = (rt', r)"
      using run by (subst (asm) lc_bind_def) (simp add: sent Ok)
    show ?thesis
    proof (cases "\<forall>j \<le> n. same_process (lw_env (lws (k' + j))) pid st")
      case stays: True
      then have "wait_for_stopped lws k' n cid rt = (rt, Ok False)" using wait_for_stopped_result [OF wf, of n lws k'] by simp
      with wait True Ok stays show ?thesis by (simp add: lc_bind_def)
    next
      case goes: False
      then obtain rt1 where "wait_for_stopped lws k' n cid rt = (rt1, Ok True)" "statuses (rt_store rt1) cid = Some Stopped"
        using wait_for_stopped_gone [OF wf goes] by blast
      with wait True Ok goes show ?thesis by (auto simp: lc_bind_def lc_return_def)
    qed
  qed
qed


definition sample_bundle :: oci_config where
  "sample_bundle =
     \<lparr>cfg_hostname = None,
      cfg_process = \<lparr>pr_args = [''/bin/sh''], pr_env = [''PATH=/bin''], pr_cwd = None, pr_user = None, pr_capabilities = None, pr_rlimits = []\<rparr>,
      cfg_root = \<lparr>root_path = ''rootfs'', root_readonly = False\<rparr>, cfg_mounts = [],
      cfg_healthcheck = Some \<lparr>hc_test = [''CMD'', ''/bin/true''], hc_interval = None, hc_timeout = Some ''5s'', hc_retries = Some 2\<rparr>,
      cfg_linux = None, cfg_crun = Some \<lparr>crun_profile = Some ''debug'', crun_overlay = None\<rparr>\<rparr>"

definition sample_lw :: lifecycle_world where
  "sample_lw = \<lparr>lw_cleanup = (\<lambda>_ _. Ok ()), lw_env = sample_env, lw_parse = (\<lambda>_. Some sample_bundle), lw_read = (\<lambda>_. Some []),
     lw_to_json = ae_name, lw_arch = X86_64, lw_load_profile = (\<lambda>_. Err ''missing''), lw_save_capture = (\<lambda>_. Ok ())\<rparr>"

definition empty_runtime :: runtime where
  "empty_runtime = \<lparr>rt_store = [], rt_calls = [], rt_logs = (\<lambda>_. no_log_files), rt_captures = (\<lambda>_. None)\<rparr>"

lemma empty_runtime_wf: "runtime_wf empty_runtime"
  by (simp add: runtime_wf_def empty_runtime_def store_wf_def bt_invar_def no_log_files_def log_bounded_def)

lemma sample_id: "validate_id ''web'' = Ok ()"
  by code_simp

lemma load_sample_bundle: "load_bundle_config sample_lw bundle = Ok sample_bundle"
proof -
  have "validate_config sample_bundle = Ok ()" by code_simp
  then show ?thesis by (simp add: load_bundle_config_def load_config_def sample_lw_def)
qed

definition sample_running :: runtime where
  "sample_running = empty_runtime\<lparr>rt_store := [(''web'', Some (sample_state 42 (Some 777)))]\<rparr>"

lemma sample_running_wf: "runtime_wf sample_running" "recorded_running sample_running ''web'' 42 777"
proof -
  have "state_wf (sample_state 42 (Some 777))" using sample_id by (simp add: state_wf_def sample_state_def)
  then show "runtime_wf sample_running"
    using empty_runtime_wf
    by (auto simp: sample_running_def runtime_wf_def store_wf_def bt_invar_def empty_runtime_def sample_state_def split: if_splits)
  show "recorded_running sample_running ''web'' 42 777"
    by (simp add: recorded_running_def sample_running_def sample_state_def)
qed

text \<open>An environment in which no process is left.\<close>

definition gone_lw :: lifecycle_world where
  "gone_lw = sample_lw\<lparr>lw_env := \<lparr>env_proc_exists = (\<lambda>_. False), env_proc_stat = (\<lambda>_. None), env_now = 2000\<rparr>\<rparr>"

lemma sample_same_process: "same_process (lw_env sample_lw) 42 777" "\<not> same_process (lw_env gone_lw) 42 777"
proof -
  have "pid_is_alive sample_env 42" by code_simp
  then show "same_process (lw_env sample_lw) 42 777" by (simp add: same_process_def sample_lw_def sample_starttime)
  show "\<not> same_process (lw_env gone_lw) 42 777" by (simp add: same_process_def gone_lw_def pid_is_alive_def)
qed


end
