(* ===== verification/Health.thy ===== *)
theory Health
  imports Lifecycle
begin

text \<open>
  \<^verbatim>\<open>src/health.rs\<close>: health checks. The check itself is a program run in the container; \<open>run i\<close> is the
  outcome of the \<open>i\<close>-th attempt. Durations are numbers of nanoseconds. \<open>run_once\<close> is given in two parts, split
  at the point where the check has run: other commands work on the same container meanwhile.
\<close>

record health_result =
  hr_id :: string
  hr_checked_at_unix :: u64
  hr_status :: string
  hr_attempts :: u32
  hr_exit_code :: "int option"
  hr_signal :: "string option"
  hr_command :: "string list"

definition command_args :: "healthcheck \<Rightarrow> (healthcheck_error, string list) result" where
  "command_args hc =
     (case hc_test hc of
        [] \<Rightarrow> Err EmptyTest
      | kind # rest \<Rightarrow>
          if kind = ''NONE'' then Err Disabled
          else if kind = ''CMD'' then (if rest = [] then Err (MissingCommand ''CMD'') else Ok rest)
          else if kind = ''CMD-SHELL''
          then (if rest = [] then Err (MissingCommand ''CMD-SHELL'') else Ok [''/bin/sh'', ''-c'', join '' '' rest])
          else Ok (hc_test hc))"

definition saturating_add_u32 :: "u32 \<Rightarrow> u32 \<Rightarrow> u32" where
  "saturating_add_u32 x y = (if unat x + unat y < 2 ^ 32 then x + y else 2 ^ 32 - 1)"

definition attempts :: "healthcheck \<Rightarrow> u32" where
  "attempts hc = saturating_add_u32 (case hc_retries hc of Some n \<Rightarrow> n | None \<Rightarrow> 0) 1"

definition micro_sign_s :: string where
  "micro_sign_s = [char_of (0xC2 :: nat), char_of (0xB5 :: nat), CHR ''s'']"

definition unit_multiplier :: "string \<Rightarrow> nat option" where
  "unit_multiplier unit =
     (if unit = ''ns'' then Some 1
      else if unit = ''us'' \<or> unit = micro_sign_s then Some 1000
      else if unit = ''ms'' then Some 1000000
      else if unit = ''s'' then Some 1000000000
      else if unit = ''m'' then Some (60 * 1000000000)
      else if unit = ''h'' then Some (60 * 60 * 1000000000)
      else None)"

definition duration_from_config :: "string option \<Rightarrow> (healthcheck_error, nat) result" where
  "duration_from_config given =
     (case given of
        None \<Rightarrow> Ok (30 * 1000000000)
      | Some raw \<Rightarrow>
          let raw = trim raw;
              number = takeWhile is_digit raw;
              unit = dropWhile is_digit raw in
          if unit = [] then Err (InvalidTimeout raw)
          else
            and_then (ok_or (parse_unsigned 64 number) (InvalidTimeout raw)) (\<lambda>n.
            and_then (ok_or (unit_multiplier unit) (InvalidTimeout raw)) (\<lambda>multiplier.
            let nanos = n * multiplier in
            if nanos < 2 ^ 64 \<and> 0 < nanos then Ok nanos else Err (InvalidTimeout raw))))"

definition timeout_duration :: "healthcheck \<Rightarrow> (healthcheck_error, nat) result" where
  "timeout_duration hc = duration_from_config (hc_timeout hc)"

definition interval_duration :: "healthcheck \<Rightarrow> (healthcheck_error, nat) result" where
  "interval_duration hc = duration_from_config (hc_interval hc)"

subsection \<open>One check\<close>

definition is_healthy :: "exec_report \<Rightarrow> bool" where
  "is_healthy x \<longleftrightarrow> er_code x = Some 0 \<and> er_signal x = None"

text \<open>The retry loop: the attempts made so far and the last outcome are its state.\<close>

function check_loop ::
    "(nat \<Rightarrow> (string, exec_report) result) \<Rightarrow> u32 \<Rightarrow> u32 \<Rightarrow> exec_report option \<Rightarrow> (string, u32 \<times> exec_report option) result" where
  "check_loop run max_attempts n latest =
     (if n < max_attempts then
        (case run (unat n) of
           Err e \<Rightarrow> Err e
         | Ok x \<Rightarrow> if is_healthy x then Ok (n + 1, Some x) else check_loop run max_attempts (n + 1) (Some x))
      else Ok (n, latest))"
  by pat_completeness auto

lemma unat_Suc_less:
  fixes n m :: u32
  assumes "n < m"
  shows "unat (n + 1) = Suc (unat n)"
proof -
  have "Suc (unat n) < 2 ^ 32"
    using assms unsigned_less [of m, where ?'a = nat] by (simp add: word_less_nat_alt)
  then show ?thesis by (simp add: unat_word_ariths)
qed

termination check_loop
  by (relation "measure (\<lambda>(_, max_attempts, n, _). unat max_attempts - unat n)")
    (auto simp: unat_Suc_less word_less_nat_alt)

declare check_loop.simps [simp del]

record health_check =
  hk_state :: container_state
  hk_args :: "string list"
  hk_timeout :: nat
  hk_max_attempts :: u32
  hk_exec :: exec_config

text \<open>Up to the first attempt.\<close>

definition run_once_begin :: "lifecycle_world \<Rightarrow> string \<Rightarrow> health_check lc_op" where
  "run_once_begin lw cid =
     lc_bind (lc_load_current lw cid) (\<lambda>s.
     if cs_status s \<noteq> Running then lc_lift (Err (Lc_health (ContainerNotRunning_HealthRun cid)))
     else
       lc_bind (lc_lift (ok_or (cs_pid s) (Lc_health (ContainerHasNoPid_HealthRun cid)))) (\<lambda>pid.
       lc_bind (lc_lift (load_bundle_config lw (cs_bundle s))) (\<lambda>config.
       lc_bind (lc_lift (ok_or (cfg_healthcheck config) (Lc_health NoHealthcheckConfigured))) (\<lambda>hc.
       lc_bind (lc_lift (map_err Lc_healthcheck (command_args hc))) (\<lambda>args.
       lc_bind (lc_lift (map_err Lc_mode (parse_security_profile (cs_security_profile s)))) (\<lambda>sec.
       lc_bind (lc_lift (map_err Lc_healthcheck (timeout_duration hc))) (\<lambda>timeout.
       lc_return \<lparr>hk_state = s, hk_args = args, hk_timeout = timeout, hk_max_attempts = attempts hc,
         hk_exec =
           \<lparr>ec_target_pid = pid, ec_target_starttime = cs_process_starttime s, ec_args = args,
            ec_env = pr_env (cfg_process config), ec_cwd = pr_cwd (cfg_process config),
            ec_process_user = pr_user (cfg_process config), ec_private_userns = (cs_userns_mode s = ''private''),
            ec_security_profile = sec, ec_cgroup_path = cs_cgroup_path s, ec_tty = False,
            ec_seccomp_program = None, ec_seccomp_flags = 0, ec_timeout = Some timeout\<rparr>\<rparr>)))))))"

definition health_status :: "exec_report \<Rightarrow> string" where
  "health_status x = (if is_healthy x then ''healthy'' else ''unhealthy'')"

text \<open>From the attempts on: \<open>exec_in i\<close> is \<^verbatim>\<open>exec_in_container\<close> at the \<open>i\<close>-th attempt.\<close>

definition run_once_end ::
    "lifecycle_world \<Rightarrow> (nat \<Rightarrow> exec_config \<Rightarrow> (string, exec_report) result) \<Rightarrow> string \<Rightarrow> health_check \<Rightarrow> health_result lc_op" where
  "run_once_end lw exec_in cid hk =
     lc_bind (lc_lift (map_err Lc_exec (check_loop (\<lambda>i. exec_in i (hk_exec hk)) (hk_max_attempts hk) 0 None))) (\<lambda>(n, latest).
     lc_bind (lc_lift (ok_or latest (Lc_health HealthcheckDidNotRun))) (\<lambda>x.
     let now = env_now (lw_env lw);
         h = \<lparr>hs_status = health_status x, hs_exit_code = er_code x, hs_signal = er_signal x,
              hs_command = hk_args hk, hs_checked_at_unix = now\<rparr> in
     lc_bind (lc_save (mark_health now h (hk_state hk))) (\<lambda>_.
     lc_bind (lc_audit (audit_append (lw_to_json lw)
       (with_code (hs_exit_code h) (with_status (hs_status h) (new_event now cid ''health'' (hs_status h)))))) (\<lambda>_.
     lc_return \<lparr>hr_id = cid, hr_checked_at_unix = now, hr_status = hs_status h, hr_attempts = n,
       hr_exit_code = hs_exit_code h, hr_signal = hs_signal h, hr_command = hs_command h\<rparr>))))"

definition run_once ::
    "lifecycle_world \<Rightarrow> lifecycle_world \<Rightarrow> (nat \<Rightarrow> exec_config \<Rightarrow> (string, exec_report) result) \<Rightarrow> string \<Rightarrow> health_result lc_op" where
  "run_once lw lw' exec_in cid = lc_bind (run_once_begin lw cid) (run_once_end lw' exec_in cid)"

subsection \<open>Watching\<close>

definition configured_interval :: "lifecycle_world \<Rightarrow> string \<Rightarrow> nat lc_op" where
  "configured_interval lw cid =
     lc_bind (lc_load_current lw cid) (\<lambda>s.
     lc_bind (lc_lift (load_bundle_config lw (cs_bundle s))) (\<lambda>config.
     lc_bind (lc_lift (ok_or (cfg_healthcheck config) (Lc_health NoHealthcheckConfigured))) (\<lambda>hc.
     lc_lift (map_err Lc_healthcheck (interval_duration hc)))))"

text \<open>
  The watch loop gives the results in order. \<open>lws k\<close> is the outside world of the \<open>k\<close>-th access, each round making
  three; it may run for ever, so it is given a number of rounds and has no result when they do not suffice.
\<close>

fun watch_loop ::
    "(nat \<Rightarrow> lifecycle_world) \<Rightarrow> (nat \<Rightarrow> nat \<Rightarrow> exec_config \<Rightarrow> (string, exec_report) result) \<Rightarrow> string \<Rightarrow> nat \<Rightarrow> nat \<Rightarrow>
     runtime \<Rightarrow> health_result list \<Rightarrow> (runtime \<times> (lc_error, unit) result \<times> health_result list) option" where
  "watch_loop lws exec_in cid k 0 rt emitted = None"
| "watch_loop lws exec_in cid k (Suc rounds) rt emitted =
     (case lc_load_current (lws (3 * k)) cid rt of
        (rt, Err e) \<Rightarrow> Some (rt, Err e, emitted)
      | (rt, Ok s) \<Rightarrow>
          if cs_status s \<noteq> Running then Some (rt, Ok (), emitted)
          else (case run_once (lws (3 * k + 1)) (lws (3 * k + 2)) (exec_in k) cid rt of
             (rt, Err e) \<Rightarrow> Some (rt, Err e, emitted)
           | (rt, Ok r) \<Rightarrow> watch_loop lws exec_in cid (Suc k) rounds rt (emitted @ [r])))"

definition run_health ::
    "(nat \<Rightarrow> lifecycle_world) \<Rightarrow> (nat \<Rightarrow> nat \<Rightarrow> exec_config \<Rightarrow> (string, exec_report) result) \<Rightarrow> string \<Rightarrow> bool \<Rightarrow> nat option \<Rightarrow>
     nat \<Rightarrow> runtime \<Rightarrow> (runtime \<times> (lc_error, unit) result \<times> health_result list) option" where
  "run_health lws exec_in cid watch interval_override rounds rt =
     (if interval_override = Some 0 then Some (rt, Err (Lc_health InvalidInterval_HealthRun), [])
      else if watch then
        (case (case interval_override of Some i \<Rightarrow> lc_return i | None \<Rightarrow> configured_interval (lws 0) cid) rt of
           (rt, Err e) \<Rightarrow> Some (rt, Err e, [])
         | (rt, Ok interval) \<Rightarrow>
             if interval = 0 then Some (rt, Err (Lc_health InvalidInterval_HealthRun), [])
             else watch_loop lws exec_in cid 1 rounds rt [])
      else (case run_once (lws 0) (lws 1) (exec_in 0) cid rt of
          (rt, Err e) \<Rightarrow> Some (rt, Err e, [])
        | (rt, Ok r) \<Rightarrow> Some (rt, Ok (), [r])))"

subsection \<open>Attempts\<close>

lemma check_loop_result:
  assumes "n \<le> max_attempts" "\<forall>i < unat n. \<exists>y. run i = Ok y \<and> \<not> is_healthy y"
    and "if n = 0 then latest = None else \<exists>x. latest = Some x \<and> run (unat n - 1) = Ok x"
    and "0 < max_attempts"
  shows "case check_loop run max_attempts n latest of
      Ok (m, res) \<Rightarrow> \<exists>x. res = Some x \<and> 0 < m \<and> m \<le> max_attempts \<and> run (unat m - 1) = Ok x \<and>
        (\<forall>i < unat m - 1. \<exists>y. run i = Ok y \<and> \<not> is_healthy y) \<and> (is_healthy x \<or> m = max_attempts)
    | Err e \<Rightarrow> \<exists>k < unat max_attempts. run k = Err e \<and> (\<forall>i < k. \<exists>y. run i = Ok y \<and> \<not> is_healthy y)"
  using assms
proof (induction run max_attempts n latest rule: check_loop.induct)
  case (1 run max_attempts n latest)
  show ?case
  proof (cases "n < max_attempts")
    case False
    then have n: "n = max_attempts" using "1.prems"(1) by simp
    moreover have "n \<noteq> 0" using n "1.prems"(4) by simp
    ultimately show ?thesis using "1.prems"(2,3,4) by (subst check_loop.simps) auto
  next
    case True
    note u = unat_Suc_less [OF True]
    have le: "n + 1 \<le> max_attempts" using True by (simp add: word_le_nat_alt word_less_nat_alt u)
    have pos: "0 < n + 1" "n + 1 \<noteq> 0" using u by (metis unat_eq_zero word_gt_0 nat.distinct(1))+
    show ?thesis
    proof (cases "run (unat n)")
      case (Err e)
      then show ?thesis
        using True "1.prems"(2) by (subst check_loop.simps) (auto simp: word_less_nat_alt)
    next
      case (Ok x)
      show ?thesis
      proof (cases "is_healthy x")
        case healthy: True
        then show ?thesis
          using True Ok "1.prems"(2) le pos by (subst check_loop.simps) (auto simp: u)
      next
        case False
        have "\<forall>i < unat (n + 1). \<exists>y. run i = Ok y \<and> \<not> is_healthy y"
          using "1.prems"(2) Ok False by (auto simp: u less_Suc_eq)
        moreover have "check_loop run max_attempts n latest = check_loop run max_attempts (n + 1) (Some x)"
          using True Ok False by (subst check_loop.simps) simp
        ultimately show ?thesis
          using "1.IH" [OF True Ok False le] Ok pos "1.prems"(4) by (simp add: u)
      qed
    qed
  qed
qed

definition retries :: "healthcheck \<Rightarrow> nat" where
  "retries hc = (case hc_retries hc of Some n \<Rightarrow> unat n | None \<Rightarrow> 0)"

lemma attempts_range: "unat (attempts hc) = min (Suc (retries hc)) (2 ^ 32 - 1)"
proof -
  have "unat (case hc_retries hc of Some n \<Rightarrow> n | None \<Rightarrow> 0) = retries hc"
    by (simp add: retries_def split: option.split)
  moreover have "unat (saturating_add_u32 x 1) = min (Suc (unat x)) (2 ^ 32 - 1)" for x
    using unsigned_less [of x, where ?'a = nat] by (auto simp: saturating_add_u32_def unat_word_ariths)
  ultimately show ?thesis by (simp only: attempts_def)
qed

text \<open>
  C31: a health check always ends: it makes at least one attempt and at most one more than the configured retries
  (never overflowing, even for the largest number of retries), stops at the first attempt that
  succeeds, reports the last attempt made, and fails only when an attempt could not be made at all.
\<close>

theorem health_check_attempts:
  "case check_loop run (attempts hc) 0 None of
     Ok (m, res) \<Rightarrow> \<exists>x. res = Some x \<and> 1 \<le> unat m \<and>
       unat m \<le> Suc (retries hc) \<and> run (unat m - 1) = Ok x \<and>
       (\<forall>i < unat m - 1. \<exists>y. run i = Ok y \<and> \<not> is_healthy y) \<and>
       (is_healthy x \<or> unat m = min (Suc (retries hc)) (2 ^ 32 - 1))
   | Err e \<Rightarrow> \<exists>k \<le> retries hc. run k = Err e \<and>
       (\<forall>i < k. \<exists>y. run i = Ok y \<and> \<not> is_healthy y)"
proof -
  have "0 < attempts hc" using attempts_range [of hc] by (simp add: word_less_nat_alt)
  then have "case check_loop run (attempts hc) 0 None of
      Ok (m, res) \<Rightarrow> \<exists>x. res = Some x \<and> 0 < m \<and> m \<le> attempts hc \<and> run (unat m - 1) = Ok x \<and>
        (\<forall>i < unat m - 1. \<exists>y. run i = Ok y \<and> \<not> is_healthy y) \<and> (is_healthy x \<or> m = attempts hc)
    | Err e \<Rightarrow> \<exists>k < unat (attempts hc). run k = Err e \<and> (\<forall>i < k. \<exists>y. run i = Ok y \<and> \<not> is_healthy y)"
    by (intro check_loop_result) auto
  then show ?thesis
    using attempts_range [of hc]
    by (cases "check_loop run (attempts hc) 0 None")
      (auto simp: word_less_nat_alt word_le_nat_alt less_Suc_eq_le intro: exI)
qed

definition sample_check :: healthcheck where
  "sample_check = \<lparr>hc_test = [''CMD'', ''/bin/true''], hc_interval = None, hc_timeout = Some ''5s'', hc_retries = Some 2\<rparr>"

theorem health_check_attempts_witness:
  "case check_loop (\<lambda>i. Ok \<lparr>er_code = Some (if i = 1 then 0 else 7), er_signal = None\<rparr>) (attempts sample_check) 0 None of
     Ok (m, res) \<Rightarrow> unat m = 2 | Err e \<Rightarrow> False"
proof -
  let ?run = "\<lambda>i :: nat. Ok \<lparr>er_code = Some (if i = 1 then 0 else 7), er_signal = None\<rparr> :: (string, exec_report) result"
  have a: "retries sample_check = 2" by (simp add: sample_check_def retries_def)
  note t = health_check_attempts [where run = ?run and hc = sample_check, unfolded a]
  show ?thesis
  proof (cases "check_loop ?run (attempts sample_check) 0 None")
    case (Ok p)
    obtain m res where p: "p = (m, res)" by force
    from t Ok p have m: "1 \<le> unat m" "unat m \<le> 3" "\<forall>i < unat m - 1. i \<noteq> 1"
      "unat m = 2 \<or> unat m = 3"
      by (auto simp: is_healthy_def split: if_splits)
    then have "unat m \<noteq> 3" using m(3) [rule_format, of 1] by auto
    with m(4) show ?thesis using Ok p by simp
  next
    case (Err e)
    with t show ?thesis by simp
  qed
qed

subsection \<open>Durations\<close>

text \<open>
  A duration is read as its number times its unit, and refused exactly when that is zero or does not fit
  in 64 bits.
\<close>

lemma is_digit_not_unit: "unit_multiplier unit = Some m \<Longrightarrow> unit \<noteq> [] \<and> \<not> is_digit (hd unit) \<and> \<not> is_space (last unit)"
  by (auto simp: unit_multiplier_def micro_sign_s_def is_digit_def is_space_def split: if_splits)

lemma trim_id: "s \<noteq> [] \<Longrightarrow> \<not> is_space (hd s) \<Longrightarrow> \<not> is_space (last s) \<Longrightarrow> trim s = s"
proof -
  assume s: "s \<noteq> []" "\<not> is_space (hd s)" "\<not> is_space (last s)"
  have self: "t \<noteq> [] \<Longrightarrow> \<not> is_space (hd t) \<Longrightarrow> dropWhile is_space t = t" for t by (cases t) simp_all
  show ?thesis using self [of s] self [of "rev s"] s by (simp add: trim_def trim_start_def trim_end_def hd_rev)
qed

lemma duration_read:
  assumes "unit_multiplier unit = Some m"
  shows "duration_from_config (Some (nat_dec n @ unit)) =
    (if 0 < n \<and> n * m < 2 ^ 64 then Ok (n * m) else Err (InvalidTimeout (nat_dec n @ unit)))"
proof -
  have u: "unit \<noteq> []" "\<not> is_digit (hd unit)" "\<not> is_space (last unit)" using is_digit_not_unit [OF assms] by auto
  obtain c s where cs: "nat_dec n = c # s" "is_digit c" using hd_nat_dec by blast
  have "\<not> is_space c" using cs(2) by (auto simp: is_digit_def is_space_def)
  then have trim: "trim (nat_dec n @ unit) = nat_dec n @ unit"
    using u by (intro trim_id) (simp_all add: cs)
  have split: "takeWhile is_digit (nat_dec n @ unit) = nat_dec n" "dropWhile is_digit (nat_dec n @ unit) = unit"
    using nat_dec_digits [of n] u
    by (cases unit; simp add: takeWhile_append2 dropWhile_append2 list_all_iff)+
  let ?bad = "InvalidTimeout (nat_dec n @ unit)"
  have eq: "duration_from_config (Some (nat_dec n @ unit)) = and_then (ok_or (parse_unsigned 64 (nat_dec n)) ?bad)
      (\<lambda>k. if k * m < 2 ^ 64 \<and> 0 < k * m then Ok (k * m) else Err ?bad)"
    unfolding duration_from_config_def option.case Let_def trim split by (simp add: u assms)
  have m: "1 \<le> m" using assms by (auto simp: unit_multiplier_def split: if_splits)
  show ?thesis
  proof (cases "n < 2 ^ 64")
    case True
    then show ?thesis unfolding eq parse_unsigned_nat_dec [OF True] using m by simp
  next
    case False
    then have "\<not> n * m < 2 ^ 64" using m by (metis le_trans mult_le_mono2 mult.right_neutral not_less)
    moreover have "parse_unsigned 64 (nat_dec n) = None"
      using False cs digits_value_nat_dec [of n] by (auto simp: parse_unsigned_def is_digit_def)
    ultimately show ?thesis unfolding eq by simp
  qed
qed

end
