(* ===== verification/Commands.thy ===== *)
theory Commands
  imports Health
begin

text \<open>
  \<^verbatim>\<open>src/main.rs\<close>: the commands that create, run and start containers, on top of the lifecycle operations,
  and the exit status of \<^verbatim>\<open>minicrun\<close> itself (\<^verbatim>\<open>src/cli_runtime.rs\<close>). Argument parsing, printing and the dispatch of the
  remaining commands to one library function each are not modelled.
\<close>

definition process_exit_status :: "int option \<Rightarrow> string option \<Rightarrow> int" where
  "process_exit_status code signal =
     (case (code, signal) of
        (Some c, _) \<Rightarrow> if 0 \<le> c \<and> c \<le> 255 then c else if c < 0 then 1 else 255
      | (None, Some _) \<Rightarrow> 128
      | (None, None) \<Rightarrow> 1)"

definition should_capture_logs :: "log_mode \<Rightarrow> bool \<Rightarrow> bool" where
  "should_capture_logs mode stdin_is_terminal =
     (case mode of Log_Auto \<Rightarrow> \<not> stdin_is_terminal | Log_On \<Rightarrow> True | Log_Off \<Rightarrow> False)"

record run_options =
  rn_id :: string
  rn_bundle :: string
  rn_network_mode :: network_mode
  rn_security_profile :: security_profile
  rn_log_mode :: log_mode
  rn_userns_mode :: user_namespace_mode
  rn_tty :: bool
  rn_seccomp :: seccomp_options

record seccomp_args =
  sa_mode :: seccomp_mode
  sa_profile :: "string option"
  sa_out :: "string option"
  sa_action :: seccomp_action
  sa_order :: syscall_order
  sa_log :: bool

definition resolve_args :: "seccomp_args \<Rightarrow> string \<Rightarrow> (lc_error, seccomp_options) result" where
  "resolve_args args cid =
     and_then (map_err Lc_state (capture_path cid)) (\<lambda>default_capture.
     map_err (\<lambda>e. Lc_seccomp (Prepare_seccomp e))
       (resolve_options (sa_mode args) (sa_profile args) (sa_out args) (sa_action args) (sa_order args) (sa_log args) default_capture))"

subsection \<open>User namespaces from the command line and from a state\<close>

text \<open>\<open>env\<close> are the variables of the invoking environment.\<close>

definition env_uid :: "(string \<Rightarrow> string option) \<Rightarrow> string \<Rightarrow> (lc_error, u32 option) result" where
  "env_uid env key =
     (case env key of
        None \<Rightarrow> Ok None
      | Some v \<Rightarrow> (case parse_unsigned 32 v of Some n \<Rightarrow> Ok (Some (word_of_nat n)) | None \<Rightarrow> Err (Lc_parse_userns v)))"

definition invoking_user_map ::
    "u32 \<Rightarrow> u32 \<Rightarrow> (string \<Rightarrow> string option) \<Rightarrow> (lc_error, user_namespace_map) result" where
  "invoking_user_map current_uid current_gid env =
     (if current_uid = 0 then Ok \<lparr>host_uid = 0, host_gid = current_gid\<rparr>
      else
        and_then (env_uid env ''SUDO_UID'') (\<lambda>uid.
        and_then (env_uid env ''SUDO_GID'') (\<lambda>gid.
        Ok \<lparr>host_uid = unwrap_or uid current_uid, host_gid = unwrap_or gid current_gid\<rparr>)))"

definition parse_userns_mode :: "string \<Rightarrow> user_namespace_map option \<Rightarrow> (lc_error, user_namespace_mode) result" where
  "parse_userns_mode v persisted_map =
     (if v = ''host'' then Ok Userns_Host
      else if v = ''private'' then map_ok Userns_Private (ok_or persisted_map (Lc_parse_userns v))
      else Err (Lc_parse_userns v))"

definition seccomp_options_from_state :: "container_state \<Rightarrow> (lc_error, seccomp_options) result" where
  "seccomp_options_from_state s =
     and_then (map_err (\<lambda>e. Lc_seccomp (Prepare_seccomp e)) (parse_mode (cs_seccomp_mode s))) (\<lambda>mode.
     and_then (map_err (\<lambda>e. Lc_seccomp (Prepare_seccomp e))
       (case cs_seccomp_action s of Some v \<Rightarrow> parse_action v | None \<Rightarrow> Ok Act_Errno)) (\<lambda>action.
     and_then (map_err Lc_state (capture_path (cs_id s))) (\<lambda>default_capture.
     and_then (map_err (\<lambda>e. Lc_seccomp (Prepare_seccomp e)) (parse_order (cs_seccomp_order s))) (\<lambda>order.
     map_err (\<lambda>e. Lc_seccomp (Prepare_seccomp e))
       (resolve_options mode (cs_seccomp_profile s) None action order (cs_seccomp_log s) default_capture)))))"

subsection \<open>Create, run, start\<close>

definition create_container :: "lifecycle_world \<Rightarrow> run_options \<Rightarrow> container_state lc_op" where
  "create_container lw opts = create lw
     \<lparr>cro_id = rn_id opts, cro_bundle = rn_bundle opts, cro_network_mode = rn_network_mode opts,
      cro_security_profile = rn_security_profile opts, cro_log_mode = rn_log_mode opts,
      cro_userns_mode = rn_userns_mode opts, cro_tty = rn_tty opts, cro_seccomp = rn_seccomp opts\<rparr>"

text \<open>The options handed to the lifecycle: the log is captured unless a terminal is attached.\<close>

definition container_options :: "lifecycle_world \<Rightarrow> bool \<Rightarrow> run_options \<Rightarrow> (lc_error, container_run_options) result" where
  "container_options lw stdin_is_terminal opts =
     and_then (load_bundle_config lw (rn_bundle opts)) (\<lambda>config.
     and_then (resolve_policy config (rn_security_profile opts) (rn_log_mode opts)) (\<lambda>pol. Ok
       \<lparr>ro_id = rn_id opts, ro_bundle = rn_bundle opts, ro_network_mode = rn_network_mode opts,
        ro_security_profile = rn_security_profile opts, ro_log_mode = rn_log_mode opts,
        ro_userns_mode = rn_userns_mode opts, ro_tty = rn_tty opts,
        ro_capture_logs = (\<not> rn_tty opts \<and> should_capture_logs (ep_log_mode pol) stdin_is_terminal),
        ro_seccomp = rn_seccomp opts\<rparr>))"

definition exit_of_report :: "container_run_report \<Rightarrow> (lc_error, int) result" where
  "exit_of_report rep =
     (case rep_child_error rep of
        Some e \<Rightarrow> Err (Lc_error (ChildFailed e))
      | None \<Rightarrow> Ok (process_exit_status (rep_exit_code rep) (rep_exit_signal rep)))"

text \<open>
  What a command takes from outside besides the world: whether it runs as root, whether its input is a terminal,
  and how the process goes.
\<close>

record invocation =
  inv_is_root :: bool
  inv_stdin_is_terminal :: bool
  inv_run :: "process_config \<Rightarrow> run_outcome"

definition execute_container ::
    "lifecycle_world \<Rightarrow> lifecycle_world \<Rightarrow> invocation \<Rightarrow> run_options \<Rightarrow> container_state option \<Rightarrow> int lc_op" where
  "execute_container lw lw' iv opts existing =
     lc_bind (lc_lift (container_options lw (inv_stdin_is_terminal iv) opts)) (\<lambda>ro.
     lc_bind (run_container_process lw lw' (inv_is_root iv) (inv_run iv) ro existing) (\<lambda>rep.
     lc_lift (exit_of_report rep)))"

definition run_container :: "lifecycle_world \<Rightarrow> lifecycle_world \<Rightarrow> invocation \<Rightarrow> run_options \<Rightarrow> int lc_op" where
  "run_container lw lw' iv opts =
     lc_bind (record_run_created lw (rn_id opts)) (\<lambda>_. execute_container lw lw' iv opts None)"

definition start_options :: "container_state \<Rightarrow> (lc_error, run_options) result" where
  "start_options s =
     (if cs_schema_version s \<noteq> STATE_SCHEMA_VERSION then Err (Lc_schema (cs_schema_version s))
      else
        and_then (seccomp_options_from_state s) (\<lambda>sec.
        and_then (map_err Lc_mode (parse_network_mode (cs_network_mode s))) (\<lambda>net.
        and_then (map_err Lc_mode (parse_security_profile (cs_security_profile s))) (\<lambda>profile.
        and_then (map_err Lc_mode (parse_log_mode (cs_log_mode s))) (\<lambda>log.
        and_then (parse_userns_mode (cs_userns_mode s) (cs_userns_map s)) (\<lambda>userns. Ok
          \<lparr>rn_id = cs_id s, rn_bundle = cs_bundle s, rn_network_mode = net, rn_security_profile = profile,
           rn_log_mode = log, rn_userns_mode = userns, rn_tty = cs_tty s, rn_seccomp = sec\<rparr>))))))"

definition start_container :: "lifecycle_world \<Rightarrow> lifecycle_world \<Rightarrow> invocation \<Rightarrow> string \<Rightarrow> int lc_op" where
  "start_container lw lw' iv cid =
     lc_bind (load_created lw cid) (\<lambda>s.
     lc_bind (lc_lift (start_options s)) (\<lambda>opts.
     execute_container lw lw' iv opts (Some s)))"

subsection \<open>Starting what was created\<close>

lemma parse_as_str [simp]:
  "parse_network_mode (network_as_str net) = Ok net" "parse_security_profile (security_as_str sec) = Ok sec"
  "parse_log_mode (log_as_str mode) = Ok mode" "parse_mode (mode_as_str m) = Ok m"
  "parse_action (action_as_str act) = Ok act" "parse_order (order_as_str ord) = Ok ord"
proof -
  show "parse_network_mode (network_as_str net) = Ok net" by (cases net) (simp_all add: parse_network_mode_def)
  show "parse_security_profile (security_as_str sec) = Ok sec" by (cases sec) (simp_all add: parse_security_profile_def)
  show "parse_log_mode (log_as_str mode) = Ok mode" by (cases mode) (simp_all add: parse_log_mode_def)
  show "parse_mode (mode_as_str m) = Ok m" by (cases m) (simp_all add: parse_mode_def)
  show "parse_action (action_as_str act) = Ok act" by (cases act) (simp_all add: parse_action_def)
  show "parse_order (order_as_str ord) = Ok ord" by (cases ord) (simp_all add: parse_order_def)
qed

lemma parse_userns_as_str [simp]: "parse_userns_mode (userns_as_str u) (userns_map_of u) = Ok u"
  by (cases u) (simp_all add: parse_userns_mode_def userns_map_of_def)

lemma resolve_policy_idem:
  "resolve_policy config sec mode = Ok pol \<Longrightarrow> resolve_policy config (ep_security_profile pol) (ep_log_mode pol) = Ok pol"
proof -
  let ?profile = "policy_from_config (Option.bind (cfg_crun config) crun_profile)"
  let ?res = "Option.bind (cfg_linux config) lx_resources"
  assume "resolve_policy config sec mode = Ok pol"
  then obtain p where p: "?profile = Ok p"
    and pol: "pol = \<lparr>ep_profile = p, ep_security_profile = apply_security sec p, ep_log_mode = apply_log_mode mode p,
      ep_cgroup_config = apply_cgroup (map_option cgroup_config_from_resources ?res) p\<rparr>"
    by (cases ?profile) (simp_all add: resolve_policy_def resolve_effective_policy_def)
  have "apply_security (apply_security sec p) p = apply_security sec p" "apply_log_mode (apply_log_mode mode p) p = apply_log_mode mode p"
    by (cases p; simp add: apply_security_def apply_log_mode_def)+
  then show ?thesis by (simp add: resolve_policy_def resolve_effective_policy_def p pol)
qed

lemma lc_audit_store:
  "lc_audit op rt = (rt', r) \<Longrightarrow> rt_store rt' = rt_store rt \<and> rt_calls rt' = rt_calls rt"
  by (auto simp: lc_audit_def split: prod.splits)

lemma record_created_event_store:
  "record_created_event lw cid rt = (rt', Ok u) \<Longrightarrow> rt_store rt' = rt_store rt \<and> rt_calls rt' = rt_calls rt"
  by (auto simp: record_created_event_def lc_append_def dest!: lc_audit_store)

lemma create_Ok:
  assumes "create lw opts rt = (rt', Ok s)" "store_wf (rt_store rt)"
  shows "map_of (rt_store rt') (cro_id opts) = Some (Some s)"
    and "\<exists>config pol. load_bundle_config lw (cro_bundle opts) = Ok config \<and>
      resolve_policy config (cro_security_profile opts) (cro_log_mode opts) = Ok pol \<and>
      created (env_now (lw_env lw)) (cro_id opts) (cro_bundle opts)
        (metadata_of (cro_network_mode opts) pol (cro_userns_mode opts)
          (rr_mode (resolve_rootfs (cro_bundle opts) (root_path (cfg_root config)) (cfg_crun config)))
          (cro_tty opts) (cro_seccomp opts)) = Ok s"
proof -
  from assms(1) obtain config pol rt1 where c: "load_bundle_config lw (cro_bundle opts) = Ok config"
      "resolve_policy config (cro_security_profile opts) (cro_log_mode opts) = Ok pol"
      "created (env_now (lw_env lw)) (cro_id opts) (cro_bundle opts)
        (metadata_of (cro_network_mode opts) pol (cro_userns_mode opts)
          (rr_mode (resolve_rootfs (cro_bundle opts) (root_path (cfg_root config)) (cfg_crun config)))
          (cro_tty opts) (cro_seccomp opts)) = Ok s"
    and save: "lc_save s rt = (rt1, Ok ())" and ev: "record_created_event lw (cro_id opts) rt1 = (rt', Ok ())"
    by (auto simp: create_def Let_def ensure_container_absent_def lc_exists_def split: if_splits)
  have s: "state_wf s" "cs_id s = cro_id opts" using created_wf [OF c(3)] by simp_all
  show "map_of (rt_store rt') (cro_id opts) = Some (Some s)"
    using save_to_Ok(2) [OF assms(2) s(1), of "cro_id opts"] save record_created_event_store [OF ev] s(2)
    by (auto simp: lc_save_def split: prod.splits)
  show "\<exists>config pol. load_bundle_config lw (cro_bundle opts) = Ok config \<and>
      resolve_policy config (cro_security_profile opts) (cro_log_mode opts) = Ok pol \<and>
      created (env_now (lw_env lw)) (cro_id opts) (cro_bundle opts)
        (metadata_of (cro_network_mode opts) pol (cro_userns_mode opts)
          (rr_mode (resolve_rootfs (cro_bundle opts) (root_path (cfg_root config)) (cfg_crun config)))
          (cro_tty opts) (cro_seccomp opts)) = Ok s"
    using c by blast
qed

lemma load_created_state:
  assumes "map_of (rt_store rt) cid = Some (Some s)" "cs_status s = Created" "validate_id cid = Ok ()"
  shows "load_created lw cid rt = (rt, Ok s)"
  using assms
  by (simp add: load_created_def lc_bind_def lc_load_current_def load_current_from_def lock_state_def ensure_dir_def
      load_from_def refresh_liveness_def lc_return_def)

text \<open>The options the command line gives for a create, and what a later start makes of the state.\<close>

definition as_started :: "run_options \<Rightarrow> effective_policy \<Rightarrow> run_options" where
  "as_started opts pol = opts\<lparr>rn_security_profile := ep_security_profile pol, rn_log_mode := ep_log_mode pol,
     rn_seccomp := (rn_seccomp opts)\<lparr>so_capture_path :=
       (if so_mode (rn_seccomp opts) = Learn then Some (state_capture_file (rn_id opts)) else None)\<rparr>\<rparr>"

lemma resolve_options_again:
  "resolve_options m p c act ord lg d = Ok sec \<Longrightarrow>
   resolve_options (so_mode sec) (so_profile_path sec) None (so_action sec) (so_order sec) (so_log sec) d' =
     Ok (sec\<lparr>so_capture_path := (if so_mode sec = Learn then Some d' else None)\<rparr>)"
  by (cases m; cases p; cases c) (auto simp: resolve_options_def)

lemma start_options_created:
  assumes "created now (rn_id opts) (rn_bundle opts)
      (metadata_of (rn_network_mode opts) pol (rn_userns_mode opts) rootfs (rn_tty opts) (rn_seccomp opts)) = Ok s"
    and "resolve_args args (rn_id opts) = Ok (rn_seccomp opts)"
  shows "start_options s = Ok (as_started opts pol)"
proof -
  let ?sec = "rn_seccomp opts"
  have v: "validate_id (rn_id opts) = Ok ()" using assms(1) by (auto simp: created_def)
  define sec' where "sec' = ?sec\<lparr>so_capture_path := (if so_mode ?sec = Learn then Some (state_capture_file (rn_id opts)) else None)\<rparr>"
  have sec: "resolve_options (so_mode ?sec) (so_profile_path ?sec) None (so_action ?sec) (so_order ?sec) (so_log ?sec)
      (state_capture_file (rn_id opts)) = Ok sec'"
    using assms(2) v unfolding sec'_def by (auto simp: resolve_args_def capture_path_def dest: resolve_options_again)
  have "start_options s = Ok (opts\<lparr>rn_security_profile := ep_security_profile pol, rn_log_mode := ep_log_mode pol, rn_seccomp := sec'\<rparr>)"
    using assms(1) v sec
    by (cases opts) (auto simp: created_def start_options_def seccomp_options_from_state_def metadata_of_def capture_path_def)
  then show ?thesis by (simp add: as_started_def sec'_def)
qed

text \<open>
  C17: starting a created container runs it as it was created: the bundle, the network and user namespace modes, the
  terminal and the seccomp settings are read back from the state as they were given, and the policy is
  resolved as it was then, although it is resolved a second time on top of the recorded result. Only the place of the capture file is
  not kept: it is the default one whatever \<^verbatim>\<open>--seccomp-out\<close> said.
\<close>

theorem start_runs_what_was_created:
  assumes "runtime_wf rt" "resolve_args args (rn_id opts) = Ok (rn_seccomp opts)"
    and "create_container lw opts rt = (rt', Ok s)"
  shows "\<exists>config pol. load_bundle_config lw (rn_bundle opts) = Ok config \<and>
    resolve_policy config (rn_security_profile opts) (rn_log_mode opts) = Ok pol \<and>
    resolve_policy config (rn_security_profile (as_started opts pol)) (rn_log_mode (as_started opts pol)) = Ok pol \<and>
    start_container lw1 lw2 iv (rn_id opts) rt' = execute_container lw1 lw2 iv (as_started opts pol) (Some s) rt'"
proof -
  let ?o = "\<lparr>cro_id = rn_id opts, cro_bundle = rn_bundle opts, cro_network_mode = rn_network_mode opts,
      cro_security_profile = rn_security_profile opts, cro_log_mode = rn_log_mode opts,
      cro_userns_mode = rn_userns_mode opts, cro_tty = rn_tty opts, cro_seccomp = rn_seccomp opts\<rparr>"
  have c: "create lw ?o rt = (rt', Ok s)" using assms(3) by (simp add: create_container_def)
  have wf: "store_wf (rt_store rt)" using assms(1) by (simp add: runtime_wf_def)
  obtain config pol where cp: "load_bundle_config lw (rn_bundle opts) = Ok config"
      "resolve_policy config (rn_security_profile opts) (rn_log_mode opts) = Ok pol"
    and s: "created (env_now (lw_env lw)) (rn_id opts) (rn_bundle opts)
        (metadata_of (rn_network_mode opts) pol (rn_userns_mode opts)
          (rr_mode (resolve_rootfs (rn_bundle opts) (root_path (cfg_root config)) (cfg_crun config)))
          (rn_tty opts) (rn_seccomp opts)) = Ok s"
    using create_Ok(2) [OF c wf] by auto
  have "cs_status s = Created" "validate_id (rn_id opts) = Ok ()" using s created_wf [OF s] by (auto simp: created_def)
  then have "load_created lw1 (rn_id opts) rt' = (rt', Ok s)"
    using create_Ok(1) [OF c wf] by (intro load_created_state) simp_all
  then have "start_container lw1 lw2 iv (rn_id opts) rt' = execute_container lw1 lw2 iv (as_started opts pol) (Some s) rt'"
    by (simp add: start_container_def lc_bind_def lc_lift_def start_options_created [OF s assms(2)])
  moreover have "resolve_policy config (rn_security_profile (as_started opts pol)) (rn_log_mode (as_started opts pol)) = Ok pol"
    using resolve_policy_idem [OF cp(2)] by (simp add: as_started_def)
  ultimately show ?thesis using cp by blast
qed

lemma record_created_event_Ok:
  assumes "validate_id cid = Ok ()"
    and "length (lw_to_json lw (with_status ''created'' (new_event (env_now (lw_env lw)) cid ''lifecycle'' ''created''))) < MAX_RUNTIME_LOG_BYTES"
  shows "\<exists>rt'. record_created_event lw cid rt = (rt', Ok ())"
  using assms
  by (simp add: record_created_event_def lc_bind_def lc_audit_def audit_reset_def runtime_log_path_def lc_append_def
      append_simple_def audit_append_def append_at_path_def Let_def with_status_def new_event_def split: prod.split)

lemma create_succeeds:
  assumes "store_wf (rt_store rt)" "exists_state (cro_id opts) (rt_store rt) = Ok False"
    and "load_bundle_config lw (cro_bundle opts) = Ok config"
    and "validate_process_user (cro_userns_mode opts) (pr_user (cfg_process config)) = Ok ()"
    and "\<exists>pol. resolve_policy config (cro_security_profile opts) (cro_log_mode opts) = Ok pol"
    and "length (lw_to_json lw (with_status ''created'' (new_event (env_now (lw_env lw)) (cro_id opts) ''lifecycle'' ''created'')))
      < MAX_RUNTIME_LOG_BYTES"
  shows "\<exists>rt' s. create lw opts rt = (rt', Ok s)"
proof -
  obtain pol where pol: "resolve_policy config (cro_security_profile opts) (cro_log_mode opts) = Ok pol"
    using assms(5) by blast
  have v: "validate_id (cro_id opts) = Ok ()" using assms(2) by (auto simp: exists_state_def)
  obtain s where s: "created (env_now (lw_env lw)) (cro_id opts) (cro_bundle opts)
      (metadata_of (cro_network_mode opts) pol (cro_userns_mode opts)
        (rr_mode (resolve_rootfs (cro_bundle opts) (root_path (cfg_root config)) (cfg_crun config)))
        (cro_tty opts) (cro_seccomp opts)) = Ok s"
    using v by (simp add: created_def)
  obtain rt1 where save: "lc_save s rt = (rt1, Ok ())"
    using save_to_Ok(1) [OF assms(1), of s] created_wf [OF s]
    by (cases "save_to s (rt_store rt)") (auto simp: lc_save_def)
  obtain rt2 where "record_created_event lw (cro_id opts) rt1 = (rt2, Ok ())"
    using record_created_event_Ok [OF v assms(6)] by blast
  then have "create lw opts rt = (rt2, Ok s)"
    using assms(2-4) pol s save
    by (auto simp: create_def Let_def ensure_container_absent_def lc_exists_def)
  then show ?thesis by blast
qed

definition sample_run :: run_options where
  "sample_run = \<lparr>rn_id = ''web'', rn_bundle = ''/b'', rn_network_mode = Net_Bridge, rn_security_profile = Denylist,
     rn_log_mode = Log_Auto, rn_userns_mode = Userns_Host, rn_tty = False,
     rn_seccomp = \<lparr>so_mode = Learn, so_profile_path = None, so_capture_path = Some ''/tmp/out.json'', so_action = Act_Kill,
       so_order = ByNumber, so_log = True\<rparr>\<rparr>"

definition sample_args :: seccomp_args where
  "sample_args = \<lparr>sa_mode = Learn, sa_profile = None, sa_out = Some ''/tmp/out.json'', sa_action = Act_Kill,
     sa_order = ByNumber, sa_log = True\<rparr>"

lemma create_sample: "\<exists>rt s. create_container sample_lw sample_run empty_runtime = (rt, Ok s)"
proof -
  have pol: "\<exists>pol. resolve_policy sample_bundle sec mode = Ok pol" for sec mode
    by (simp add: resolve_policy_def resolve_effective_policy_def policy_from_config_def sample_bundle_def)
  have small: "length (lw_to_json sample_lw (with_status ''created'' (new_event (env_now (lw_env sample_lw)) ''web'' ''lifecycle'' ''created'')))
      < MAX_RUNTIME_LOG_BYTES"
    by (simp add: sample_lw_def new_event_def with_status_def MAX_RUNTIME_LOG_BYTES_def)
  show ?thesis
    unfolding create_container_def
    by (rule create_succeeds)
      (use pol small in \<open>simp_all add: sample_run_def sample_id load_sample_bundle empty_runtime_def store_wf_def bt_invar_def
        exists_state_def validate_process_user_def\<close>)
qed

theorem start_runs_what_was_created_witness:
  "\<forall>iv. \<exists>rt s pol. create_container sample_lw sample_run empty_runtime = (rt, Ok s) \<and>
     rn_security_profile (as_started sample_run pol) = Unconfined \<and>
     start_container sample_lw sample_lw iv ''web'' rt = execute_container sample_lw sample_lw iv (as_started sample_run pol) (Some s) rt"
proof
  fix iv
  obtain rt s where c: "create_container sample_lw sample_run empty_runtime = (rt, Ok s)" using create_sample by blast
  have a: "resolve_args sample_args (rn_id sample_run) = Ok (rn_seccomp sample_run)"
    by (simp add: resolve_args_def sample_args_def sample_run_def capture_path_def sample_id resolve_options_def)
  obtain pol where "resolve_policy sample_bundle (rn_security_profile sample_run) (rn_log_mode sample_run) = Ok pol"
    and "start_container sample_lw sample_lw iv ''web'' rt = execute_container sample_lw sample_lw iv (as_started sample_run pol) (Some s) rt"
    using start_runs_what_was_created [OF empty_runtime_wf a c, of sample_lw sample_lw iv]
    by (auto simp: load_sample_bundle sample_run_def)
  with c show "\<exists>rt s pol. create_container sample_lw sample_run empty_runtime = (rt, Ok s) \<and>
     rn_security_profile (as_started sample_run pol) = Unconfined \<and>
     start_container sample_lw sample_lw iv ''web'' rt = execute_container sample_lw sample_lw iv (as_started sample_run pol) (Some s) rt"
    by (intro exI [of _ rt] exI [of _ s] exI [of _ pol])
      (auto simp: resolve_policy_def resolve_effective_policy_def policy_from_config_def sample_bundle_def as_started_def
        apply_security_def sample_run_def)
qed

end
