(* ===== verification/Runtime.thy ===== *)
theory Runtime
  imports Commands
begin

text \<open>
  The runtime as a system: the commands of \<^verbatim>\<open>Commands\<close>, \<^verbatim>\<open>Lifecycle\<close> and \<^verbatim>\<open>Health\<close> as steps on one shared state
  directory. A run and a health check last as long as their process, and other commands work on the state
  meanwhile; both are therefore two steps, and what they remember in between is part of the system. The other commands are
  single steps. The system refines an abstract machine that keeps, for each container, only its status
  and how many runs and checks are under way.
\<close>

subsection \<open>Runs in two parts\<close>

type_synonym pending_run = "container_run_options \<times> string list \<times> container_state \<times> (string, process_exit) result"

definition begin_execute :: "lifecycle_world \<Rightarrow> invocation \<Rightarrow> run_options \<Rightarrow> container_state option \<Rightarrow> pending_run lc_op" where
  "begin_execute lw iv opts existing =
     lc_bind (lc_lift (container_options lw (inv_stdin_is_terminal iv) opts)) (\<lambda>ro.
     lc_bind (launch lw (inv_is_root iv) (inv_run iv) ro existing) (\<lambda>x. lc_return (ro, x)))"

definition begin_run :: "lifecycle_world \<Rightarrow> invocation \<Rightarrow> run_options \<Rightarrow> pending_run lc_op" where
  "begin_run lw iv opts = lc_bind (record_run_created lw (rn_id opts)) (\<lambda>_. begin_execute lw iv opts None)"

definition begin_start :: "lifecycle_world \<Rightarrow> invocation \<Rightarrow> string \<Rightarrow> pending_run lc_op" where
  "begin_start lw iv cid =
     lc_bind (load_created lw cid) (\<lambda>s.
     lc_bind (lc_lift (start_options s)) (\<lambda>opts. begin_execute lw iv opts (Some s)))"

definition end_run :: "lifecycle_world \<Rightarrow> pending_run \<Rightarrow> int lc_op" where
  "end_run lw = (\<lambda>(ro, x). lc_bind (finish lw ro x) (\<lambda>rep. lc_lift (exit_of_report rep)))"

lemma lc_bind_return: "lc_bind (lc_return a) f = f a"
  by (rule ext) (simp add: lc_bind_def lc_return_def)

lemma execute_container_split: "execute_container lw lw' iv opts existing = lc_bind (begin_execute lw iv opts existing) (end_run lw')"
  by (simp add: execute_container_def begin_execute_def end_run_def run_container_process_def lc_bind_assoc lc_bind_return)

lemma run_container_split: "run_container lw lw' iv opts = lc_bind (begin_run lw iv opts) (end_run lw')"
  by (simp add: run_container_def begin_run_def execute_container_split lc_bind_assoc)

lemma start_container_split: "start_container lw lw' iv cid = lc_bind (begin_start lw iv cid) (end_run lw')"
  by (simp add: start_container_def begin_start_def execute_container_split lc_bind_assoc)

subsection \<open>What each command does to the statuses\<close>

lemma lc_triple_seq:
  assumes "lc_triple P m Q E'" "\<And>rt. E' rt \<Longrightarrow> E rt" "\<And>a. lc_triple (Q a) (f a) R E"
  shows "lc_triple P (lc_bind m f) R E"
  by (rule lc_triple_bind [where Q = Q, OF lc_triple_weaken [OF assms(1)] assms(3)]) (auto intro: assms(2))

lemma lc_triple_keep:
  "lc_triple P m (\<lambda>_. P) P \<Longrightarrow> (\<And>a. lc_triple P (f a) R E) \<Longrightarrow> (\<And>rt. P rt \<Longrightarrow> E rt) \<Longrightarrow> lc_triple P (lc_bind m f) R E"
  by (rule lc_triple_seq)

lemma lc_triple_pure: "(p \<Longrightarrow> lc_triple P m Q E) \<Longrightarrow> lc_triple (\<lambda>rt. p \<and> P rt) m Q E"
  by (auto simp: lc_triple_def)

lemma displays_record_created:
  "lc_triple (displays A) (record_created_event lw cid) (\<lambda>_. displays A) (displays A)"
  unfolding record_created_event_def by (rule lc_triple_keep [OF displays_reset displays_append_simple])

lemma ensure_container_absent_triple:
  "lc_triple (displays A) (ensure_container_absent cid) (\<lambda>_ rt. A cid = None \<and> displays A rt) (displays A)"
  unfolding ensure_container_absent_def
  by (rule lc_triple_seq [OF lc_exists_triple]) (auto intro!: lc_triple_if lc_triple_lift lc_triple_return)

lemma create_triple:
  "lc_triple (displays A) (create lw opts)
     (\<lambda>_ rt. A (cro_id opts) = None \<and> displays (A(cro_id opts \<mapsto> Created)) rt)
     (\<lambda>rt. displays A rt \<or> A (cro_id opts) = None \<and> displays (A(cro_id opts \<mapsto> Created)) rt)"
proof -
  let ?Q = "\<lambda>_ rt. A (cro_id opts) = None \<and> displays (A(cro_id opts \<mapsto> Created)) rt"
  let ?E = "\<lambda>rt. displays A rt \<or> A (cro_id opts) = None \<and> displays (A(cro_id opts \<mapsto> Created)) rt"
  have save: "lc_triple (displays A) (lc_bind (lc_save s) (\<lambda>_. lc_bind (record_created_event lw (cro_id opts)) (\<lambda>_. lc_return s))) ?Q ?E"
    if a: "A (cro_id opts) = None" and s: "state_wf s \<and> cs_id s = cro_id opts \<and> cs_status s = Created" for s
  proof (rule lc_triple_bind)
    show "lc_triple (displays A) (lc_save s) (\<lambda>_. displays (A(cro_id opts \<mapsto> Created))) ?E"
      using lc_save_triple [of s A] s by simp
    show "lc_triple (displays (A(cro_id opts \<mapsto> Created))) (lc_bind (record_created_event lw (cro_id opts)) (\<lambda>_. lc_return s)) ?Q ?E" for u
      by (rule lc_triple_keep [OF displays_record_created]) (auto intro: lc_triple_return simp: a)
  qed
  show ?thesis
    unfolding create_def Let_def
    by (rule lc_triple_seq [OF ensure_container_absent_triple])
      (auto intro!: lc_triple_pure lc_triple_lift_bind save dest!: created_wf)
qed

lemma created_container_triple:
  "lc_triple (displays A) (create_container lw opts)
     (\<lambda>_ rt. A (rn_id opts) = None \<and> displays (A(rn_id opts \<mapsto> Created)) rt)
     (\<lambda>rt. displays A rt \<or> A (rn_id opts) = None \<and> displays (A(rn_id opts \<mapsto> Created)) rt)"
  using create_triple [of A lw "\<lparr>cro_id = rn_id opts, cro_bundle = rn_bundle opts, cro_network_mode = rn_network_mode opts,
      cro_security_profile = rn_security_profile opts, cro_log_mode = rn_log_mode opts,
      cro_userns_mode = rn_userns_mode opts, cro_tty = rn_tty opts, cro_seccomp = rn_seccomp opts\<rparr>"]
  by (simp add: create_container_def)

text \<open>Commands that only look at a container first.\<close>

definition after_look :: "string \<Rightarrow> bool \<Rightarrow> (string \<Rightarrow> container_status option) \<Rightarrow> runtime \<Rightarrow> bool" where
  "after_look cid alive A rt \<longleftrightarrow> displays A rt \<or> displays (seen cid alive A) rt"

lemma load_after_look:
  "lc_triple (meets lw cid alive A) (lc_load_current lw cid) (\<lambda>_. displays (seen cid alive A)) (after_look cid alive A)"
  by (rule lc_triple_weaken [OF lc_load_triple]) (auto simp: after_look_def)

lemma send_signal_triple:
  "lc_triple (meets lw cid alive A) (send_container_signal lw pw t cid sig) (\<lambda>_. displays (seen cid alive A)) (after_look cid alive A)"
  unfolding send_container_signal_def
  by (rule lc_triple_bind [OF load_after_look])
    (auto intro!: lc_triple_lift lc_triple_lift_bind lc_triple_return simp: after_look_def)

lemma exec_triple:
  "lc_triple (meets lw cid alive A) (exec_container lw exec_in cid args tty) (\<lambda>_. displays (seen cid alive A)) (after_look cid alive A)"
proof -
  have audit: "lc_triple (displays B) (lc_bind (audit_exec lw cid r) (\<lambda>_. lc_return r)) (\<lambda>_. displays B) (displays B)" for B r
    unfolding audit_exec_def
    by (rule lc_triple_bind [OF displays_append]) (auto intro: lc_triple_return)
  show ?thesis
    unfolding exec_container_def
    by (rule lc_triple_bind [OF load_after_look])
      (auto intro!: lc_triple_lift lc_triple_lift_bind lc_triple_weaken [OF audit] simp: after_look_def)
qed

lemma delete_triple:
  "lc_triple (meets lw cid alive A) (delete lw cid)
     (\<lambda>_ rt. seen cid alive A cid \<in> {Some Created, Some Stopped} \<and> displays (A(cid := None)) rt)
     (\<lambda>rt. after_look cid alive A rt \<or> seen cid alive A cid \<in> {Some Created, Some Stopped} \<and> displays (A(cid := None)) rt)"
proof -
  let ?p = "seen cid alive A cid \<in> {Some Created, Some Stopped}"
  have del: "lc_triple (meets lw cid alive A) (lc_bind (lc_delete_state lw cid) (\<lambda>_.
      case l of Some log \<Rightarrow> lc_audit (write_raw cid log) | None \<Rightarrow> lc_return ()))
      (\<lambda>_ rt. ?p \<and> displays (A(cid := None)) rt) (\<lambda>rt. after_look cid alive A rt \<or> ?p \<and> displays (A(cid := None)) rt)" for l
  proof (rule lc_triple_seq [OF lc_delete_triple])
    show "lc_triple (\<lambda>rt. ?p \<and> displays (A(cid := None)) rt)
        (case l of Some log \<Rightarrow> lc_audit (write_raw cid log) | None \<Rightarrow> lc_return ())
        (\<lambda>_ rt. ?p \<and> displays (A(cid := None)) rt) (\<lambda>rt. after_look cid alive A rt \<or> ?p \<and> displays (A(cid := None)) rt)" for u
      by (rule lc_triple_pure, cases l) (auto intro: lc_triple_return lc_triple_weaken [OF displays_write_raw])
  qed (auto simp: after_look_def)
  then have "lc_triple (meets lw cid alive A) (\<lambda>rt. let runtime_log = ok_value (read_raw cid (rt_logs rt)) in
       lc_bind (lc_delete_state lw cid) (\<lambda>_.
         case runtime_log of Some log \<Rightarrow> lc_audit (write_raw cid log) | None \<Rightarrow> lc_return ()) rt)
      (\<lambda>_ rt. ?p \<and> displays (A(cid := None)) rt) (\<lambda>rt. after_look cid alive A rt \<or> ?p \<and> displays (A(cid := None)) rt)"
    unfolding lc_triple_def Let_def by simp
  then show ?thesis
    unfolding delete_def by (rule lc_triple_seq [OF meets_append_simple, rotated]) (simp add: after_look_def)
qed

text \<open>Running and finishing.\<close>

definition pending_ok :: "string \<Rightarrow> container_state \<Rightarrow> bool" where
  "pending_ok cid s \<longleftrightarrow> state_wf s \<and> cs_id s = cid \<and> cs_status s = Running"

lemma save_started_triple:
  assumes "\<And>s0. existing = Some s0 \<Longrightarrow> state_wf s0 \<and> cs_id s0 = ro_id ro"
  shows "lc_triple (displays A) (save_started_state lw ro md existing sp)
     (\<lambda>s rt. pending_ok (ro_id ro) s \<and> displays (A(ro_id ro \<mapsto> Running)) rt)
     (\<lambda>rt. displays A rt \<or> displays (A(ro_id ro \<mapsto> Running)) rt)"
  unfolding save_started_state_def
proof (rule lc_triple_lift_bind)
  fix s
  assume "(case existing of
         Some s \<Rightarrow> map_err Lc_starttime (mark_running (lw_env lw) (sp_pid sp) (started_resources_of ro sp) (rm_log_mode md) s)
       | None \<Rightarrow> map_err Lc_state (running (lw_env lw) (ro_id ro) (ro_bundle ro) (sp_pid sp) (started_resources_of ro sp) md)) = Ok s"
  then have s: "pending_ok (ro_id ro) s"
    using assms by (cases existing) (auto simp: pending_ok_def dest: running_wf mark_running_wf)
  then have "lc_triple (displays A) (lc_save s) (\<lambda>_. displays (A(ro_id ro \<mapsto> Running))) (displays A)"
    using lc_save_triple [of s A] by (simp add: pending_ok_def)
  then show "lc_triple (displays A) (lc_bind (lc_save s) (\<lambda>_. lc_bind (lc_append lw (ro_id ro) ''lifecycle'' ''started'' (Some ''running''))
      (\<lambda>_. lc_return s))) (\<lambda>s rt. pending_ok (ro_id ro) s \<and> displays (A(ro_id ro \<mapsto> Running)) rt)
      (\<lambda>rt. displays A rt \<or> displays (A(ro_id ro \<mapsto> Running)) rt)"
    by (rule lc_triple_seq) (auto intro!: lc_triple_keep [OF displays_append_simple] lc_triple_return simp: s)
qed simp

lemma launch_triple:
  assumes "\<And>s0. existing = Some s0 \<Longrightarrow> state_wf s0 \<and> cs_id s0 = ro_id ro"
  shows "lc_triple (displays A) (launch lw is_root run ro existing)
     (\<lambda>(args, s, ended) rt. pending_ok (ro_id ro) s \<and> displays (A(ro_id ro \<mapsto> Running)) rt)
     (\<lambda>rt. displays A rt \<or> displays (A(ro_id ro \<mapsto> Running)) rt)"
  unfolding launch_def
  by (intro lc_triple_lift_bind)
    (auto intro!: lc_triple_lift lc_triple_seq [OF save_started_triple [OF assms]] lc_triple_return split: run_outcome.split)

lemma begin_execute_triple:
  assumes "\<And>s0. existing = Some s0 \<Longrightarrow> state_wf s0 \<and> cs_id s0 = rn_id opts"
  shows "lc_triple (displays A) (begin_execute lw iv opts existing)
     (\<lambda>(ro, args, s, ended) rt. ro_id ro = rn_id opts \<and> pending_ok (rn_id opts) s \<and> displays (A(rn_id opts \<mapsto> Running)) rt)
     (\<lambda>rt. displays A rt \<or> displays (A(rn_id opts \<mapsto> Running)) rt)"
  unfolding begin_execute_def
proof (rule lc_triple_lift_bind)
  fix ro assume "container_options lw (inv_stdin_is_terminal iv) opts = Ok ro"
  then have ro: "ro_id ro = rn_id opts" by (auto simp: container_options_def)
  with assms show "lc_triple (displays A) (lc_bind (launch lw (inv_is_root iv) (inv_run iv) ro existing) (\<lambda>x. lc_return (ro, x)))
     (\<lambda>(ro, args, s, ended) rt. ro_id ro = rn_id opts \<and> pending_ok (rn_id opts) s \<and> displays (A(rn_id opts \<mapsto> Running)) rt)
     (\<lambda>rt. displays A rt \<or> displays (A(rn_id opts \<mapsto> Running)) rt)"
    by (intro lc_triple_seq [OF launch_triple]) (auto intro!: lc_triple_return)
qed simp

lemma begin_run_triple:
  "lc_triple (displays A) (begin_run lw iv opts)
     (\<lambda>(ro, args, s, ended) rt. ro_id ro = rn_id opts \<and> A (rn_id opts) = None \<and> pending_ok (rn_id opts) s \<and>
        displays (A(rn_id opts \<mapsto> Running)) rt)
     (\<lambda>rt. displays A rt \<or> A (rn_id opts) = None \<and> displays (A(rn_id opts \<mapsto> Running)) rt)"
  unfolding begin_run_def record_run_created_def lc_bind_assoc
  by (rule lc_triple_seq [OF ensure_container_absent_triple], simp, rule lc_triple_pure, rule lc_triple_keep [OF displays_record_created])
    (auto intro!: lc_triple_weaken [OF begin_execute_triple])

lemma start_options_id: "start_options s = Ok opts \<Longrightarrow> rn_id opts = cs_id s"
  by (auto simp: start_options_def split: if_splits)

lemma load_created_triple:
  "lc_triple (meets lw cid alive A) (load_created lw cid)
     (\<lambda>s rt. (state_wf s \<and> cs_id s = cid \<and> A cid = Some Created) \<and> displays A rt) (after_look cid alive A)"
  unfolding load_created_def
  by (rule lc_triple_seq [OF lc_load_triple])
    (auto intro!: lc_triple_lift lc_triple_return simp: after_look_def seen_def found_def split: if_splits)

lemma begin_start_triple:
  "lc_triple (meets lw cid alive A) (begin_start lw iv cid)
     (\<lambda>(ro, args, s, ended) rt. ro_id ro = cid \<and> A cid = Some Created \<and> pending_ok cid s \<and> displays (A(cid \<mapsto> Running)) rt)
     (\<lambda>rt. after_look cid alive A rt \<or> A cid = Some Created \<and> displays (A(cid \<mapsto> Running)) rt)"
  unfolding begin_start_def
proof (rule lc_triple_seq [OF load_created_triple], blast, rule lc_triple_pure, rule lc_triple_lift_bind)
  fix s opts
  assume s: "state_wf s \<and> cs_id s = cid \<and> A cid = Some Created" and "start_options s = Ok opts"
  then have "rn_id opts = cid" by (simp add: start_options_id)
  with s show "lc_triple (displays A) (begin_execute lw iv opts (Some s))
     (\<lambda>(ro, args, s, ended) rt. ro_id ro = cid \<and> A cid = Some Created \<and> pending_ok cid s \<and> displays (A(cid \<mapsto> Running)) rt)
     (\<lambda>rt. after_look cid alive A rt \<or> A cid = Some Created \<and> displays (A(cid \<mapsto> Running)) rt)"
    by (intro lc_triple_weaken [OF begin_execute_triple]) (auto simp: after_look_def)
qed (simp add: after_look_def)

lemma record_capture_triple: "lc_triple (displays A) (record_capture lw ro args cap) (\<lambda>_. displays A) (displays A)"
  unfolding record_capture_def Let_def
  by (cases cap) (auto intro!: lc_triple_return lc_triple_lift_bind lc_triple_keep [OF displays_save_capture] displays_append)

lemma save_and_record:
  assumes "lc_triple (displays A) m (\<lambda>_. displays B) (\<lambda>rt. displays A rt \<or> displays B rt)"
  shows "lc_triple (displays A) (lc_bind m (\<lambda>_. lc_bind (lc_audit (audit_append to_json e)) (\<lambda>_. lc_return x)))
    (\<lambda>_. displays B) (\<lambda>rt. displays A rt \<or> displays B rt)"
  by (rule lc_triple_bind [OF assms]) (auto intro!: lc_triple_keep [OF displays_append] lc_triple_return)

lemma end_run_triple:
  assumes "pending_ok (ro_id ro) s"
  shows "lc_triple (displays A) (end_run lw (ro, args, s, ended))
    (\<lambda>_. displays (A(ro_id ro \<mapsto> Stopped))) (\<lambda>rt. displays A rt \<or> displays (A(ro_id ro \<mapsto> Stopped)) rt)"
proof -
  let ?E = "\<lambda>rt. displays A rt \<or> displays (A(ro_id ro \<mapsto> Stopped)) rt"
  have "lc_triple (displays A) (lc_save (mark_stopped now code sig s)) (\<lambda>_. displays (A(ro_id ro \<mapsto> Stopped))) ?E" for now code sig
    using lc_save_triple [of "mark_stopped now code sig s" A] assms by (simp add: pending_ok_def mark_stopped_wf)
  then have "lc_triple (displays A) (finish lw ro (args, s, ended)) (\<lambda>_. displays (A(ro_id ro \<mapsto> Stopped))) ?E"
    unfolding finish_def prod.case
    by (intro lc_triple_lift_bind lc_triple_keep [OF record_capture_triple] save_and_record) auto
  then show ?thesis
    unfolding end_run_def prod.case by (rule lc_triple_seq) (auto intro: lc_triple_lift)
qed

text \<open>Health checks.\<close>

lemma run_once_begin_triple:
  "lc_triple (meets lw cid alive A) (run_once_begin lw cid)
     (\<lambda>hk rt. pending_ok cid (hk_state hk) \<and> A cid = Some Running \<and> alive \<and> displays A rt) (after_look cid alive A)"
  unfolding run_once_begin_def
proof (rule lc_triple_seq [OF lc_load_triple])
  fix s
  let ?P = "\<lambda>rt. state_wf s \<and> cs_id s = cid \<and> seen cid alive A cid = Some (cs_status s) \<and> displays (seen cid alive A) rt"
  have run: "cs_status s = Running \<Longrightarrow> ?P rt \<Longrightarrow> pending_ok cid s \<and> A cid = Some Running \<and> alive \<and> displays A rt" for rt
    by (auto simp: pending_ok_def seen_def found_def fun_upd_idem split: if_splits)
  have err: "?P rt \<Longrightarrow> after_look cid alive A rt" for rt by (auto simp: after_look_def)
  show "lc_triple ?P
     (if cs_status s \<noteq> Running then lc_lift (Err (Lc_health (ContainerNotRunning_HealthRun cid)))
     else
       lc_bind (lc_lift (ok_or (cs_pid s) (Lc_health (ContainerHasNoPid_HealthRun cid)))) (\<lambda>pid.
       lc_bind (lc_lift (load_bundle_config lw (cs_bundle s))) (\<lambda>config.
       lc_bind (lc_lift (ok_or (cfg_healthcheck config) (Lc_health NoHealthcheckConfigured))) (\<lambda>hc.
       lc_bind (lc_lift (map_err Lc_healthcheck (command_args hc))) (\<lambda>args.
       lc_bind (lc_lift (map_err Lc_mode (parse_security_profile (cs_security_profile s)))) (\<lambda>sec.
       lc_bind (lc_lift (map_err Lc_healthcheck (timeout_duration hc))) (\<lambda>timeout.
       lc_return \<lparr>hk_state = s, hk_args = args, hk_timeout = timeout, hk_max_attempts = attempts hc,
         hk_exec =
           \<lparr>ec_target_pid = pid, ec_target_starttime = cs_process_starttime s, ec_args = args,
            ec_env = pr_env (cfg_process config), ec_cwd = pr_cwd (cfg_process config),
            ec_process_user = pr_user (cfg_process config), ec_private_userns = (cs_userns_mode s = ''private''),
            ec_security_profile = sec, ec_cgroup_path = cs_cgroup_path s, ec_tty = False,
            ec_seccomp_program = None, ec_seccomp_flags = 0, ec_timeout = Some timeout\<rparr>\<rparr>)))))))
     (\<lambda>hk rt. pending_ok cid (hk_state hk) \<and> A cid = Some Running \<and> alive \<and> displays A rt) (after_look cid alive A)"
    by (intro lc_triple_if lc_triple_lift lc_triple_lift_bind lc_triple_return) (use run err in auto)
qed (simp add: after_look_def)

lemma run_once_end_triple:
  assumes "pending_ok cid (hk_state hk)"
  shows "lc_triple (displays A) (run_once_end lw exec_in cid hk)
    (\<lambda>_. displays (A(cid \<mapsto> Running))) (\<lambda>rt. displays A rt \<or> displays (A(cid \<mapsto> Running)) rt)"
proof -
  let ?E = "\<lambda>rt. displays A rt \<or> displays (A(cid \<mapsto> Running)) rt"
  have "lc_triple (displays A) (lc_save (mark_health now h (hk_state hk))) (\<lambda>_. displays (A(cid \<mapsto> Running))) ?E" for now h
    using lc_save_triple [of "mark_health now h (hk_state hk)" A] assms mark_health_wf [of "hk_state hk" now h]
    by (simp add: pending_ok_def mark_health_def)
  then show ?thesis
    unfolding run_once_end_def Let_def
    by (auto intro!: lc_triple_lift_bind save_and_record split: prod.split)
qed

subsection \<open>The system\<close>

type_synonym system = "runtime \<times> pending_run list \<times> (string \<times> health_check) list"

text \<open>
  The commands, each with the world it meets, the container it is about and whether it succeeds. Signalling a container and running a program in it
  change of the state directory no more than looking does.
\<close>

datatype action = Creates | Looks | Deletes | Begins_run | Begins_start | Ends_run | Begins_check | Ends_check

inductive sys_does :: "lifecycle_world \<Rightarrow> action \<Rightarrow> string \<Rightarrow> bool \<Rightarrow> system \<Rightarrow> system \<Rightarrow> bool" where
  does_create: "create_container lw opts rt = (rt', r) \<Longrightarrow>
    sys_does lw Creates (rn_id opts) (is_ok r) (rt, runs, checks) (rt', runs, checks)"
| does_look: "lc_load_current lw cid rt = (rt', r) \<Longrightarrow> sys_does lw Looks cid (is_ok r) (rt, runs, checks) (rt', runs, checks)"
| does_kill: "send_container_signal lw pw t cid sig rt = (rt', r) \<Longrightarrow>
    sys_does lw Looks cid (is_ok r) (rt, runs, checks) (rt', runs, checks)"
| does_exec: "exec_container lw exec_in cid args tty rt = (rt', r) \<Longrightarrow>
    sys_does lw Looks cid (is_ok r) (rt, runs, checks) (rt', runs, checks)"
| does_delete: "delete lw cid rt = (rt', r) \<Longrightarrow> sys_does lw Deletes cid (is_ok r) (rt, runs, checks) (rt', runs, checks)"
| does_run: "begin_run lw iv opts rt = (rt', Ok run) \<Longrightarrow>
    sys_does lw Begins_run (rn_id opts) True (rt, runs, checks) (rt', run # runs, checks)"
| does_run_fails: "begin_run lw iv opts rt = (rt', Err e) \<Longrightarrow>
    sys_does lw Begins_run (rn_id opts) False (rt, runs, checks) (rt', runs, checks)"
| does_start: "begin_start lw iv cid rt = (rt', Ok run) \<Longrightarrow> sys_does lw Begins_start cid True (rt, runs, checks) (rt', run # runs, checks)"
| does_start_fails: "begin_start lw iv cid rt = (rt', Err e) \<Longrightarrow> sys_does lw Begins_start cid False (rt, runs, checks) (rt', runs, checks)"
| does_end_run: "run \<in> set runs \<Longrightarrow> end_run lw run rt = (rt', r) \<Longrightarrow>
    sys_does lw Ends_run (ro_id (fst run)) (is_ok r) (rt, runs, checks) (rt', remove1 run runs, checks)"
| does_check: "run_once_begin lw cid rt = (rt', Ok hk) \<Longrightarrow>
    sys_does lw Begins_check cid True (rt, runs, checks) (rt', runs, (cid, hk) # checks)"
| does_check_fails: "run_once_begin lw cid rt = (rt', Err e) \<Longrightarrow>
    sys_does lw Begins_check cid False (rt, runs, checks) (rt', runs, checks)"
| does_end_check: "(cid, hk) \<in> set checks \<Longrightarrow> run_once_end lw exec_in cid hk rt = (rt', r) \<Longrightarrow>
    sys_does lw Ends_check cid (is_ok r) (rt, runs, checks) (rt', runs, remove1 (cid, hk) checks)"

definition sys_step :: "system \<Rightarrow> system \<Rightarrow> bool" where
  "sys_step x y \<longleftrightarrow> (\<exists>lw a cid ok. sys_does lw a cid ok x y)"

definition initial_system :: system where
  "initial_system = (empty_runtime, [], [])"

text \<open>
  The life cycle of one container: its status, and how many runs and checks are under way. \<open>life_cycle a ok alive v v'\<close>: a command of kind \<open>a\<close> that
  succeeds or fails, and meets the container's process alive or not, may lead from \<open>v\<close> to \<open>v'\<close>.
\<close>

type_synonym container_view = "container_status option \<times> nat \<times> nat"

fun life_cycle :: "action \<Rightarrow> bool \<Rightarrow> bool \<Rightarrow> container_view \<Rightarrow> container_view \<Rightarrow> bool" where
  "life_cycle Creates ok alive (st, n, k) v \<longleftrightarrow> st = None \<and> v = (Some Created, n, k) \<or> \<not> ok \<and> v = (st, n, k)"
| "life_cycle Looks ok alive (st, n, k) v \<longleftrightarrow> v = (found alive st, n, k) \<or> \<not> ok \<and> v = (st, n, k)"
| "life_cycle Deletes ok alive (st, n, k) v \<longleftrightarrow>
     found alive st \<in> {Some Created, Some Stopped} \<and> v = (None, n, k) \<or> \<not> ok \<and> v \<in> {(st, n, k), (found alive st, n, k)}"
| "life_cycle Begins_run ok alive (st, n, k) v \<longleftrightarrow>
     st = None \<and> v = (Some Running, if ok then Suc n else n, k) \<or> \<not> ok \<and> v = (st, n, k)"
| "life_cycle Begins_start ok alive (st, n, k) v \<longleftrightarrow>
     st = Some Created \<and> v = (Some Running, if ok then Suc n else n, k) \<or> \<not> ok \<and> v \<in> {(st, n, k), (found alive st, n, k)}"
| "life_cycle Ends_run ok alive (st, n, k) v \<longleftrightarrow> 0 < n \<and> (v = (Some Stopped, n - 1, k) \<or> \<not> ok \<and> v = (st, n - 1, k))"
| "life_cycle Begins_check ok alive (st, n, k) v \<longleftrightarrow>
     (if ok then st = Some Running \<and> alive \<and> v = (st, n, Suc k) else v \<in> {(st, n, k), (found alive st, n, k)})"
| "life_cycle Ends_check ok alive (st, n, k) v \<longleftrightarrow> 0 < k \<and> (v = (Some Running, n, k - 1) \<or> \<not> ok \<and> v = (st, n, k - 1))"

definition view :: "system \<Rightarrow> string \<Rightarrow> container_view" where
  "view = (\<lambda>(rt, runs, checks) cid. (statuses (rt_store rt) cid, length (filter (\<lambda>run. ro_id (fst run) = cid) runs),
     length (filter (\<lambda>c. fst c = cid) checks)))"

definition system_wf :: "system \<Rightarrow> bool" where
  "system_wf = (\<lambda>(rt, runs, checks). runtime_wf rt \<and> (\<forall>run \<in> set runs. pending_ok (ro_id (fst run)) (fst (snd (snd run)))) \<and>
     (\<forall>c \<in> set checks. pending_ok (fst c) (hk_state (snd c))))"

subsection \<open>Simulation\<close>

text \<open>One command: the system stays in order, the container makes one move of its life cycle, and no other container changes.\<close>

definition sim :: "lifecycle_world \<Rightarrow> action \<Rightarrow> string \<Rightarrow> bool \<Rightarrow> system \<Rightarrow> system \<Rightarrow> bool" where
  "sim lw a cid ok x y \<longleftrightarrow> system_wf y \<and> life_cycle a ok (live_in lw (fst x) cid) (view x cid) (view y cid) \<and>
     (\<forall>c. c \<noteq> cid \<longrightarrow> view y c = view x c)"

lemma length_filter_remove1:
  "x \<in> set xs \<Longrightarrow> length (filter P xs) = (if P x then Suc (length (filter P (remove1 x xs))) else length (filter P (remove1 x xs)))"
  by (induction xs) auto

lemma system_wf_displays: "system_wf (rt, runs, checks) \<Longrightarrow> displays (statuses (rt_store rt)) rt"
  by (simp add: system_wf_def displays_def)

lemma system_wf_meets: "system_wf (rt, runs, checks) \<Longrightarrow> meets lw cid (live_in lw rt cid) (statuses (rt_store rt)) rt"
  by (simp add: system_wf_def displays_def meets_def)

text \<open>Commands that leave what is pending: the statuses afterwards differ at most for the container itself.\<close>

lemma sim_displays:
  assumes "system_wf (rt, runs, checks)" "displays B rt'" "\<And>c. c \<noteq> cid \<Longrightarrow> B c = statuses (rt_store rt) c"
    and "\<And>n k. life_cycle a ok (live_in lw rt cid) (statuses (rt_store rt) cid, n, k) (B cid, n, k)"
  shows "sim lw a cid ok (rt, runs, checks) (rt', runs, checks)"
  using assms by (auto simp: sim_def system_wf_def view_def displays_def)

lemma sim_after_look:
  assumes "system_wf (rt, runs, checks)" "after_look cid (live_in lw rt cid) (statuses (rt_store rt)) rt'"
    and "\<And>st n k. life_cycle a ok (live_in lw rt cid) (st, n, k) (st, n, k)"
    and "\<And>st n k. life_cycle a ok (live_in lw rt cid) (st, n, k) (found (live_in lw rt cid) st, n, k)"
  shows "sim lw a cid ok (rt, runs, checks) (rt', runs, checks)"
  using assms(2) unfolding after_look_def
proof
  assume "displays (statuses (rt_store rt)) rt'"
  then show ?thesis by (rule sim_displays [OF assms(1)]) (simp_all add: assms(3))
next
  assume "displays (seen cid (live_in lw rt cid) (statuses (rt_store rt))) rt'"
  then show ?thesis by (rule sim_displays [OF assms(1)]) (simp_all add: seen_def assms(4))
qed

text \<open>Looking, and what amounts to it.\<close>

lemma sim_look:
  assumes wf: "system_wf (rt, runs, checks)" and m: "m rt = (rt', r)"
    and t: "\<And>alive A. lc_triple (meets lw cid alive A) m (\<lambda>_. displays (seen cid alive A)) (after_look cid alive A)"
  shows "sim lw Looks cid (is_ok r) (rt, runs, checks) (rt', runs, checks)"
proof (cases r)
  case (Ok a)
  with lc_tripleD(1) [OF t system_wf_meets [OF wf] m] show ?thesis
    by (intro sim_displays [OF wf, where B = "seen cid (live_in lw rt cid) (statuses (rt_store rt))"]) (auto simp: seen_def)
next
  case (Err e)
  with lc_tripleD(2) [OF t system_wf_meets [OF wf] m] show ?thesis by (intro sim_after_look [OF wf]) auto
qed

lemma sim_create:
  assumes wf: "system_wf (rt, runs, checks)" and c: "create_container lw opts rt = (rt', r)"
  shows "sim lw Creates (rn_id opts) (is_ok r) (rt, runs, checks) (rt', runs, checks)"
proof -
  let ?A = "statuses (rt_store rt)"
  note t = lc_tripleD(1,2) [OF created_container_triple system_wf_displays [OF wf] c]
  have "sim lw Creates (rn_id opts) ok (rt, runs, checks) (rt', runs, checks)"
    if "?A (rn_id opts) = None \<and> displays (?A(rn_id opts \<mapsto> Created)) rt'" for ok
    using that by (intro sim_displays [OF wf, where B = "?A(rn_id opts \<mapsto> Created)"]) auto
  moreover have "sim lw Creates (rn_id opts) False (rt, runs, checks) (rt', runs, checks)" if "displays ?A rt'"
    using that by (intro sim_displays [OF wf, where B = ?A]) auto
  ultimately show ?thesis using t by (cases r) auto
qed

lemma sim_delete:
  assumes wf: "system_wf (rt, runs, checks)" and d: "delete lw cid rt = (rt', r)"
  shows "sim lw Deletes cid (is_ok r) (rt, runs, checks) (rt', runs, checks)"
proof -
  let ?A = "statuses (rt_store rt)" and ?l = "live_in lw rt cid"
  note t = lc_tripleD(1,2) [OF delete_triple system_wf_meets [OF wf] d]
  have gone: "sim lw Deletes cid ok (rt, runs, checks) (rt', runs, checks)"
    if "seen cid ?l ?A cid \<in> {Some Created, Some Stopped} \<and> displays (?A(cid := None)) rt'" for ok
    using that by (intro sim_displays [OF wf, where B = "?A(cid := None)"]) (auto simp: seen_def)
  have kept: "sim lw Deletes cid False (rt, runs, checks) (rt', runs, checks)" if "after_look cid ?l ?A rt'"
    using that by (intro sim_after_look [OF wf]) auto
  show ?thesis using t gone kept by (cases r) auto
qed

text \<open>A launch: the new run is pending, or the launch failed after the state had been saved.\<close>

lemma sim_launched:
  assumes wf: "system_wf (rt, runs, checks)" and r: "ro_id ro = cid" "pending_ok cid s"
    and rt': "displays ((statuses (rt_store rt))(cid \<mapsto> Running)) rt'"
    and "\<And>n k. life_cycle a True (live_in lw rt cid) (statuses (rt_store rt) cid, n, k) (Some Running, Suc n, k)"
  shows "sim lw a cid True (rt, runs, checks) (rt', (ro, args, s, ended) # runs, checks)"
  using assms by (auto simp: sim_def system_wf_def view_def displays_def)

lemma sim_launch_failed:
  assumes wf: "system_wf (rt, runs, checks)" and rt': "displays ((statuses (rt_store rt))(cid \<mapsto> Running)) rt'"
    and "\<And>n k. life_cycle a False (live_in lw rt cid) (statuses (rt_store rt) cid, n, k) (Some Running, n, k)"
  shows "sim lw a cid False (rt, runs, checks) (rt', runs, checks)"
  by (rule sim_displays [OF wf rt']) (use assms(3) in auto)

lemma sim_run:
  assumes wf: "system_wf (rt, runs, checks)" and b: "begin_run lw iv opts rt = (rt', r)"
  shows "r = Ok run \<Longrightarrow> sim lw Begins_run (rn_id opts) True (rt, runs, checks) (rt', run # runs, checks)"
    "r = Err e \<Longrightarrow> sim lw Begins_run (rn_id opts) False (rt, runs, checks) (rt', runs, checks)"
proof -
  note t = lc_tripleD(1,2) [OF begin_run_triple system_wf_displays [OF wf] b]
  show "sim lw Begins_run (rn_id opts) True (rt, runs, checks) (rt', run # runs, checks)" if "r = Ok run"
    using t(1) [OF that] by (cases run) (auto intro!: sim_launched [OF wf])
  show "sim lw Begins_run (rn_id opts) False (rt, runs, checks) (rt', runs, checks)" if "r = Err e"
    using t(2) [OF that] by (auto intro: sim_displays [OF wf] sim_launch_failed [OF wf])
qed

lemma sim_start:
  assumes wf: "system_wf (rt, runs, checks)" and b: "begin_start lw iv cid rt = (rt', r)"
  shows "r = Ok run \<Longrightarrow> sim lw Begins_start cid True (rt, runs, checks) (rt', run # runs, checks)"
    "r = Err e \<Longrightarrow> sim lw Begins_start cid False (rt, runs, checks) (rt', runs, checks)"
proof -
  note t = lc_tripleD(1,2) [OF begin_start_triple system_wf_meets [OF wf] b]
  show "sim lw Begins_start cid True (rt, runs, checks) (rt', run # runs, checks)" if "r = Ok run"
    using t(1) [OF that] by (cases run) (auto intro!: sim_launched [OF wf])
  show "sim lw Begins_start cid False (rt, runs, checks) (rt', runs, checks)" if "r = Err e"
    using t(2) [OF that] by (auto intro: sim_launch_failed [OF wf] sim_after_look [OF wf])
qed

lemma sim_end_run:
  assumes wf: "system_wf (rt, runs, checks)" and run: "run \<in> set runs" and e: "end_run lw run rt = (rt', r)"
  shows "sim lw Ends_run (ro_id (fst run)) (is_ok r) (rt, runs, checks) (rt', remove1 run runs, checks)"
proof -
  let ?A = "statuses (rt_store rt)"
  obtain ro args s ended where x: "run = (ro, args, s, ended)" by (metis prod.exhaust)
  have p: "pending_ok (ro_id ro) s" using wf run by (auto simp: system_wf_def x)
  note t = lc_tripleD [OF end_run_triple [OF p] system_wf_displays [OF wf] e [unfolded x]]
  have wf': "system_wf (rt', remove1 run runs, checks)"
    using wf t(3) set_remove1_subset [of run runs] unfolding system_wf_def displays_def by auto
  have "displays (?A(ro_id ro \<mapsto> Stopped)) rt' \<or> \<not> is_ok r \<and> displays ?A rt'" using t(1,2) by (cases r) auto
  then show ?thesis
    using wf' length_filter_remove1 [OF run, of "\<lambda>run. ro_id (fst run) = c" for c]
    by (auto simp: sim_def view_def displays_def x)
qed

lemma sim_check:
  assumes wf: "system_wf (rt, runs, checks)" and b: "run_once_begin lw cid rt = (rt', r)"
  shows "r = Ok hk \<Longrightarrow> sim lw Begins_check cid True (rt, runs, checks) (rt', runs, (cid, hk) # checks)"
    "r = Err e \<Longrightarrow> sim lw Begins_check cid False (rt, runs, checks) (rt', runs, checks)"
proof -
  note t = lc_tripleD(1,2) [OF run_once_begin_triple system_wf_meets [OF wf] b]
  show "sim lw Begins_check cid False (rt, runs, checks) (rt', runs, checks)" if "r = Err e"
    using t(2) [OF that] by (auto intro: sim_after_look [OF wf])
  show "sim lw Begins_check cid True (rt, runs, checks) (rt', runs, (cid, hk) # checks)" if "r = Ok hk"
    using t(1) [OF that] wf by (auto simp: sim_def system_wf_def view_def displays_def)
qed

lemma sim_end_check:
  assumes wf: "system_wf (rt, runs, checks)" and c: "(cid, hk) \<in> set checks" and e: "run_once_end lw exec_in cid hk rt = (rt', r)"
  shows "sim lw Ends_check cid (is_ok r) (rt, runs, checks) (rt', runs, remove1 (cid, hk) checks)"
proof -
  let ?A = "statuses (rt_store rt)"
  have p: "pending_ok cid (hk_state hk)" using wf c by (auto simp: system_wf_def)
  note t = lc_tripleD [OF run_once_end_triple [OF p] system_wf_displays [OF wf] e]
  have wf': "system_wf (rt', runs, remove1 (cid, hk) checks)"
    using wf t(3) set_remove1_subset [of "(cid, hk)" checks] unfolding system_wf_def displays_def by auto
  have "displays (?A(cid \<mapsto> Running)) rt' \<or> \<not> is_ok r \<and> displays ?A rt'" using t(1,2) by (cases r) auto
  then show ?thesis
    using wf' length_filter_remove1 [OF c, of "\<lambda>c. fst c = d" for d] by (auto simp: sim_def view_def displays_def)
qed

lemma sim_does: "sys_does lw a cid ok x y \<Longrightarrow> system_wf x \<Longrightarrow> sim lw a cid ok x y"
proof (induction rule: sys_does.induct)
  case does_look
  then show ?case by (intro sim_look [OF _ _ load_after_look])
next
  case does_kill
  then show ?case by (intro sim_look [OF _ _ send_signal_triple])
next
  case does_exec
  then show ?case by (intro sim_look [OF _ _ exec_triple])
qed (auto intro: sim_create sim_delete sim_run sim_start sim_end_run sim_check sim_end_check)

lemma initial_system_wf: "system_wf initial_system"
  by (simp add: initial_system_def system_wf_def empty_runtime_wf)

lemma reachable_wf: "sys_step\<^sup>*\<^sup>* initial_system x \<Longrightarrow> system_wf x"
  by (induction rule: rtranclp_induct) (auto simp: initial_system_wf sys_step_def sim_def dest: sim_does)

subsection \<open>Properties\<close>

text \<open>
  C2: whatever commands are run, in whatever order and however runs and health checks overlap with them: every state file
  is under its own, valid id, only a container recorded as running holds a process, a control group, a
  subnet, address translation or an overlay, and no runtime log grows beyond its limit.
\<close>

theorem runtime_always_in_order:
  assumes "sys_step\<^sup>*\<^sup>* initial_system (rt, runs, checks)"
  shows "(\<forall>cid s. map_of (rt_store rt) cid = Some (Some s) \<longrightarrow> cs_id s = cid \<and> validate_id cid = Ok () \<and>
      (if cs_status s = Running then cs_pid s \<noteq> None else holds_no_resources s)) \<and>
    (\<forall>cid. log_bounded (rt_logs rt cid))"
  using reachable_wf [OF assms] by (auto simp: system_wf_def runtime_wf_def store_wf_def state_wf_def)

text \<open>
  C1: every command is one move of the abstract life cycle of the container it is about, chosen by the kind of command, by whether it succeeds and by
  whether the container's process is alive, and touches no other container. In particular a delete only ever removes a container that is created,
  stopped, or recorded as running while its process is gone; a successful run finds no such container and a successful start a
  created one; a command that looks marks a container as stopped exactly when it is recorded as running and its process is gone; and only
  the end of a health check can bring a stopped container back to running.
\<close>

theorem commands_refine_life_cycle:
  assumes "sys_step\<^sup>*\<^sup>* initial_system x" "sys_does lw a cid ok x y"
  shows "life_cycle a ok (live_in lw (fst x) cid) (view x cid) (view y cid) \<and> (\<forall>c. c \<noteq> cid \<longrightarrow> view y c = view x c)"
  using sim_does [OF assms(2) reachable_wf [OF assms(1)]] by (simp add: sim_def)

lemma sample_create_step: "\<exists>rt. sys_step initial_system (rt, [], []) \<and> statuses (rt_store rt) ''web'' = Some Created"
proof -
  obtain rt s where c: "create_container sample_lw sample_run empty_runtime = (rt, Ok s)" using create_sample by blast
  have "displays (statuses (rt_store empty_runtime)) empty_runtime" by (simp add: displays_def empty_runtime_wf)
  from lc_tripleD(1) [OF created_container_triple this c] have "statuses (rt_store rt) ''web'' = Some Created"
    by (simp add: displays_def sample_run_def)
  then show ?thesis using does_create [OF c, of "[]" "[]"] unfolding initial_system_def sys_step_def by blast
qed

theorem runtime_always_in_order_witness:
  "\<exists>rt s. sys_step\<^sup>*\<^sup>* initial_system (rt, [], []) \<and> map_of (rt_store rt) ''web'' = Some (Some s) \<and> holds_no_resources s"
proof -
  obtain rt where rt: "sys_step initial_system (rt, [], [])" "statuses (rt_store rt) ''web'' = Some Created"
    using sample_create_step by blast
  then obtain s where s: "map_of (rt_store rt) ''web'' = Some (Some s)" "cs_status s = Created"
    by (auto simp: statuses_def split: option.splits)
  have reach: "sys_step\<^sup>*\<^sup>* initial_system (rt, [], [])" by (rule r_into_rtranclp [where r = sys_step, OF rt(1)])
  from runtime_always_in_order [OF reach] s have "holds_no_resources s" by force
  with reach s(1) show ?thesis by blast
qed

subsection \<open>A deleted container comes back\<close>

definition sample_iv :: invocation where
  "sample_iv = \<lparr>inv_is_root = True, inv_stdin_is_terminal = False,
     inv_run = (\<lambda>_. Starts \<lparr>sp_pid = 42, sp_cgroup_path = None, sp_network_subnet = None, sp_nat_lease = None, sp_overlay_ownership = None\<rparr>
       (Ok \<lparr>px_pid = 42, px_code = Some 0, px_signal = None, px_error = None, px_capture = None\<rparr>))\<rparr>"

definition plain_run :: run_options where
  "plain_run = sample_run\<lparr>rn_network_mode := Net_None,
     rn_seccomp := \<lparr>so_mode = Off, so_profile_path = None, so_capture_path = None, so_action = Act_Errno, so_order = ByNumber, so_log = False\<rparr>\<rparr>"

lemma lc_audit_append_Ok:
  assumes "validate_id (ae_id e) = Ok ()" "length (to_json e) < MAX_RUNTIME_LOG_BYTES"
  shows "\<exists>logs. lc_audit (audit_append to_json e) rt = (rt\<lparr>rt_logs := logs\<rparr>, Ok ())"
  using assms unfolding lc_audit_def audit_append_def runtime_log_path_def append_at_path_def Let_def by auto

lemma short_event: "length (lw_to_json sample_lw (with_status st (new_event now cid src name))) < MAX_RUNTIME_LOG_BYTES \<longleftrightarrow>
    length name < MAX_RUNTIME_LOG_BYTES"
  by (simp add: sample_lw_def with_status_def new_event_def)

lemma lc_save_Ok:
  "store_wf (rt_store rt) \<Longrightarrow> state_wf s \<Longrightarrow>
   \<exists>st. lc_save s rt = (rt\<lparr>rt_store := st\<rparr>, Ok ()) \<and> map_of st (cs_id s) = Some (Some s)"
  using save_to_Ok(1) [of "rt_store rt" s] save_to_Ok(2) [of "rt_store rt" s "cs_id s"] by (cases "save_to s (rt_store rt)") (auto simp: lc_save_def)

lemma save_started_sample:
  assumes "store_wf (rt_store rt)" "ro_id ro = ''web''" "sp_pid sp = 42"
  shows "\<exists>rt' s. save_started_state sample_lw ro md None sp rt = (rt', Ok s) \<and> cs_pid s = Some 42 \<and>
    cs_process_starttime s = Some 777 \<and> cs_network_mode s = rm_network_mode md \<and> map_of (rt_store rt') ''web'' = Some (Some s)"
proof -
  obtain s where s: "running (lw_env sample_lw) (ro_id ro) (ro_bundle ro) (sp_pid sp) (started_resources_of ro sp) md = Ok s"
    and s': "cs_pid s = Some 42" "cs_process_starttime s = Some 777" "cs_network_mode s = rm_network_mode md"
    using sample_id sample_starttime assms(2,3) by (simp add: running_def sample_lw_def)
  have "state_wf s" "cs_id s = ''web''" using running_wf [OF s] assms(2) by simp_all
  with lc_save_Ok [OF assms(1), of s] obtain st where "lc_save s rt = (rt\<lparr>rt_store := st\<rparr>, Ok ())"
    and st: "map_of st ''web'' = Some (Some s)" by auto
  moreover obtain logs where "lc_append sample_lw (ro_id ro) ''lifecycle'' ''started'' (Some ''running'') (rt\<lparr>rt_store := st\<rparr>) =
      (rt\<lparr>rt_store := st, rt_logs := logs\<rparr>, Ok ())"
    using lc_audit_append_Ok [of "with_status ''running'' (new_event (env_now (lw_env sample_lw)) (ro_id ro) ''lifecycle'' ''started'')"
        "lw_to_json sample_lw" "rt\<lparr>rt_store := st\<rparr>"] sample_id assms(2)
    by (auto simp: lc_append_def append_simple_def short_event MAX_RUNTIME_LOG_BYTES_def with_status_def new_event_def sample_lw_def)
  ultimately have "save_started_state sample_lw ro md None sp rt = (rt\<lparr>rt_store := st, rt_logs := logs\<rparr>, Ok s)"
    using s by (auto simp: save_started_state_def)
  with s' st show ?thesis by auto
qed

lemma launch_sample:
  assumes "ro_id ro = ''web''" "ro_network_mode ro = Net_None" "so_mode (ro_seccomp ro) = Off" "ro_userns_mode ro = Userns_Host"
    and "store_wf (rt_store rt)"
  shows "\<exists>rt' args s px. launch sample_lw True (inv_run sample_iv) ro None rt = (rt', Ok (args, s, Ok px)) \<and>
    cs_pid s = Some 42 \<and> cs_process_starttime s = Some 777 \<and> cs_network_mode s = ''none'' \<and> px_capture px = None \<and>
    px_code px = Some 0 \<and> px_error px = None \<and> map_of (rt_store rt') ''web'' = Some (Some s)"
proof -
  obtain pol where pol: "resolve_policy sample_bundle (ro_security_profile ro) (ro_log_mode ro) = Ok pol"
    by (simp add: resolve_policy_def resolve_effective_policy_def policy_from_config_def sample_bundle_def)
  define rootfs where "rootfs = resolve_rootfs (ro_bundle ro) (root_path (cfg_root sample_bundle)) (cfg_crun sample_bundle)"
  obtain flags where flags: "effective_namespace_flags [] Net_None Userns_Host = Ok flags"
    by (simp add: effective_namespace_flags_def namespace_flags_def)
  obtain log where log: "log_path (ro_id ro) = Ok log" using sample_id assms(1) by (simp add: log_path_def)
  obtain pc where pc: "process_config_of ro sample_bundle Net_None pol rootfs flags None log = Ok pc"
    by (simp add: process_config_of_def build_process_config_def sample_bundle_def)
  define md where "md = metadata_of Net_None pol Userns_Host (rr_mode rootfs) (ro_tty ro) (ro_seccomp ro)"
  have net: "to_effective True Net_None = Net_None" by (simp add: to_effective_def)
  define sp where "sp = \<lparr>sp_pid = 42, sp_cgroup_path = None, sp_network_subnet = None, sp_nat_lease = None, sp_overlay_ownership = None\<rparr>"
  obtain rt' s where save: "save_started_state sample_lw ro md None sp rt = (rt', Ok s)"
    and s: "cs_pid s = Some 42" "cs_process_starttime s = Some 777" "cs_network_mode s = ''none''" "map_of (rt_store rt') ''web'' = Some (Some s)"
    using save_started_sample [OF assms(5,1), of sp md] by (auto simp: sp_def md_def metadata_of_def)
  have "launch_plan sample_lw True ro = Ok (sample_bundle, md, pc)"
    using pol flags log pc assms unfolding launch_plan_def Let_def rootfs_def md_def
    by (auto simp: load_sample_bundle net validate_process_user_def prepare_def sample_bundle_def)
  then have "launch sample_lw True (inv_run sample_iv) ro None rt =
      (rt', Ok (pr_args (cfg_process sample_bundle), s, Ok \<lparr>px_pid = 42, px_code = Some 0, px_signal = None, px_error = None, px_capture = None\<rparr>))"
    using save unfolding launch_def sp_def by (auto simp: sample_iv_def)
  with s show ?thesis by auto
qed

lemma begin_run_sample:
  "\<exists>rt ro args s px. begin_run sample_lw sample_iv plain_run empty_runtime = (rt, Ok (ro, args, s, Ok px)) \<and> ro_id ro = ''web'' \<and>
    cs_pid s = Some 42 \<and> cs_process_starttime s = Some 777 \<and> cs_network_mode s = ''none'' \<and> px_capture px = None \<and>
    px_code px = Some 0 \<and> px_error px = None \<and> map_of (rt_store rt) ''web'' = Some (Some s)"
proof -
  obtain rt1 where rt1: "record_created_event sample_lw ''web'' empty_runtime = (rt1, Ok ())"
    using record_created_event_Ok [OF sample_id, of sample_lw empty_runtime]
    by (auto simp: sample_lw_def with_status_def new_event_def MAX_RUNTIME_LOG_BYTES_def)
  have "store_wf (rt_store rt1)"
    using record_created_event_store [OF rt1] empty_runtime_wf by (simp add: runtime_wf_def)
  moreover have "\<exists>pol. resolve_policy sample_bundle sec mode = Ok pol" for sec mode
    by (simp add: resolve_policy_def resolve_effective_policy_def policy_from_config_def sample_bundle_def)
  then obtain ro where ro: "container_options sample_lw False plain_run = Ok ro"
    by (auto simp: container_options_def load_sample_bundle plain_run_def sample_run_def) (metis and_then.simps(2))
  then have "ro_id ro = ''web''" "ro_network_mode ro = Net_None" "so_mode (ro_seccomp ro) = Off" "ro_userns_mode ro = Userns_Host"
    by (auto simp: container_options_def plain_run_def sample_run_def)
  moreover have "ensure_container_absent ''web'' empty_runtime = (empty_runtime, Ok ())"
    by (simp add: ensure_container_absent_def lc_bind_def lc_exists_def exists_state_def sample_id empty_runtime_def lc_return_def)
  moreover have "inv_is_root sample_iv" "\<not> inv_stdin_is_terminal sample_iv" "rn_id plain_run = ''web''"
    by (simp_all add: sample_iv_def plain_run_def sample_run_def)
  ultimately show ?thesis
    using launch_sample [of ro rt1] rt1 ro
    by (fastforce simp: begin_run_def record_run_created_def begin_execute_def)
qed

lemma refresh_network_mode: "refresh_liveness os env s w = (w', s', changed) \<Longrightarrow> cs_network_mode s' = cs_network_mode s"
  by (auto simp: refresh_liveness_def mark_stopped_def split: if_splits option.splits prod.splits)

lemma delete_gone:
  assumes wf: "runtime_wf rt" and s: "map_of (rt_store rt) cid = Some (Some s)" "cs_status s = Running" "cs_pid s = Some pid"
    "cs_process_starttime s = Some st" and gone: "\<not> same_process (lw_env lw) pid st" and net: "cs_network_mode s \<noteq> ''bridge''"
  shows "\<exists>rt'. lc_delete_state lw cid rt = (rt', Ok ())"
proof -
  obtain rt' s' where l: "lc_load_current lw cid rt = (rt', Ok s')" "cs_status s' = Stopped"
    using look_at_gone [OF wf s gone] by blast
  then obtain st w where ld: "load_current_from (lw_cleanup lw) (lw_env lw) cid (rt_store rt, rt_calls rt) = ((st, w), Ok s')"
    by (cases "load_current_from (lw_cleanup lw) (lw_env lw) cid (rt_store rt, rt_calls rt)") (auto simp: lc_load_current_def)
  have "store_wf (rt_store rt)" using wf by (simp add: runtime_wf_def)
  from load_current_Ok [OF this ld] s(1) have "cs_network_mode s' = cs_network_mode s" by (auto dest: refresh_network_mode)
  then show ?thesis
    using l(2) net by (simp add: lc_delete_state_def delete_from_def ld release_state_network_allocation_def io_return_def)
qed

lemma delete_sample:
  assumes "runtime_wf rt" "map_of (rt_store rt) ''web'' = Some (Some s)" "cs_status s = Running" "cs_pid s = Some 42"
    "cs_process_starttime s = Some 777" "cs_network_mode s \<noteq> ''bridge''"
  shows "\<exists>rt'. delete gone_lw ''web'' rt = (rt', Ok ())"
proof -
  have json: "lw_to_json gone_lw = lw_to_json sample_lw" by (simp add: gone_lw_def)
  obtain logs where logs: "lc_append gone_lw ''web'' ''lifecycle'' ''deleted'' (Some ''deleted'') rt = (rt\<lparr>rt_logs := logs\<rparr>, Ok ())"
    using lc_audit_append_Ok [of "with_status ''deleted'' (new_event (env_now (lw_env gone_lw)) ''web'' ''lifecycle'' ''deleted'')"
        "lw_to_json sample_lw" rt] sample_id
    by (auto simp: lc_append_def append_simple_def json short_event MAX_RUNTIME_LOG_BYTES_def with_status_def new_event_def sample_lw_def)
  have wf: "runtime_wf (rt\<lparr>rt_logs := logs\<rparr>)"
    using lc_tripleD(1) [OF displays_append_simple [of "statuses (rt_store rt)"] _ logs] assms(1) by (simp add: displays_def)
  obtain rt' where "lc_delete_state gone_lw ''web'' (rt\<lparr>rt_logs := logs\<rparr>) = (rt', Ok ())"
    using delete_gone [OF wf, of "''web''" s 42 777 gone_lw] assms sample_same_process by auto
  then show ?thesis
    using logs sample_id by (auto simp: delete_def Let_def lc_audit_def write_raw_def runtime_log_path_def split: option.split)
qed

lemma stopped_event_fields: "ae_id (stopped_event now cid code) = cid" "ae_name (stopped_event now cid code) = ''stopped''"
  by (simp_all add: stopped_event_def with_code_def with_value_def with_status_def new_event_def split: option.split)

lemma end_run_sample:
  assumes "runtime_wf rt" "pending_ok ''web'' s" "ro_id ro = ''web''" "px_capture px = None" "px_error px = None"
  shows "\<exists>rt' code. end_run sample_lw (ro, args, s, Ok px) rt = (rt', Ok code)"
proof -
  let ?s = "mark_stopped (env_now (lw_env sample_lw)) (px_code px) (px_signal px) s"
  have "state_wf ?s" using assms(2) by (simp add: pending_ok_def mark_stopped_wf)
  then obtain st where "lc_save ?s rt = (rt\<lparr>rt_store := st\<rparr>, Ok ())"
    using lc_save_Ok [of rt ?s] assms(1) by (auto simp: runtime_wf_def)
  moreover obtain logs where "lc_audit (audit_append (lw_to_json sample_lw) (stopped_event (env_now (lw_env sample_lw)) ''web'' (px_code px)))
      (rt\<lparr>rt_store := st\<rparr>) = (rt\<lparr>rt_store := st, rt_logs := logs\<rparr>, Ok ())"
    using lc_audit_append_Ok [of "stopped_event (env_now (lw_env sample_lw)) ''web'' (px_code px)" "lw_to_json sample_lw" "rt\<lparr>rt_store := st\<rparr>"]
    by (auto simp: stopped_event_fields sample_id sample_lw_def MAX_RUNTIME_LOG_BYTES_def)
  ultimately show ?thesis
    using assms(3-5) by (auto simp: end_run_def finish_def record_capture_def exit_of_report_def)
qed

text \<open>
  C37: a container can come back after it was deleted: when the container's process has ended, another command may find it dead and a
  delete may remove its state before the \<^verbatim>\<open>run\<close> that started it gets to record the end, which writes the state file anew.
\<close>

theorem deleted_container_comes_back:
  "\<exists>x y z. sys_step\<^sup>*\<^sup>* initial_system x \<and> view x ''web'' = (Some Running, 1, 0) \<and>
     sys_step x y \<and> view y ''web'' = (None, 1, 0) \<and> sys_step y z \<and> view z ''web'' = (Some Stopped, 0, 0)"
proof -
  obtain rt ro args s px where b: "begin_run sample_lw sample_iv plain_run empty_runtime = (rt, Ok (ro, args, s, Ok px))"
    and ro: "ro_id ro = ''web''" and s: "cs_pid s = Some 42" "cs_process_starttime s = Some 777" "cs_network_mode s = ''none''"
    and px: "px_capture px = None" "px_error px = None" and st: "map_of (rt_store rt) ''web'' = Some (Some s)"
    using begin_run_sample by blast
  let ?run = "(ro, args, s, Ok px)"
  have x: "sys_step initial_system (rt, [?run], [])" unfolding initial_system_def sys_step_def using does_run [OF b] by blast
  have wf: "system_wf (rt, [?run], [])" using reachable_wf [OF r_into_rtranclp [where r = sys_step, OF x]] .
  then have p: "pending_ok ''web'' s" "runtime_wf rt" using ro by (simp_all add: system_wf_def)
  then obtain rt2 where d: "delete gone_lw ''web'' rt = (rt2, Ok ())"
    using delete_sample [OF p(2) st] s by (auto simp: pending_ok_def)
  have y: "sys_step (rt, [?run], []) (rt2, [?run], [])" unfolding sys_step_def using does_delete [OF d] by blast
  have rt: "displays (statuses (rt_store rt)) rt" using p(2) by (simp add: displays_def)
  from lc_tripleD(1) [OF delete_triple system_wf_meets [OF wf] d, of "()"] have rt2: "statuses (rt_store rt2) ''web'' = None" "runtime_wf rt2"
    by (auto simp: displays_def)
  obtain rt3 code where e: "end_run sample_lw ?run rt2 = (rt3, Ok code)" using end_run_sample [OF rt2(2) p(1) ro px] by blast
  have z: "sys_step (rt2, [?run], []) (rt3, [], [])" using does_end_run [OF _ e, of "[?run]" "[]"] by (auto simp: sys_step_def)
  have "displays (statuses (rt_store rt2)) rt2" using rt2(2) by (simp add: displays_def)
  from lc_tripleD(1) [OF end_run_triple this e, of code] p(1) ro have "statuses (rt_store rt3) ''web'' = Some Stopped"
    by (simp add: displays_def)
  moreover have "statuses (rt_store rt) ''web'' = Some Running" using st p(1) by (simp add: statuses_def pending_ok_def)
  ultimately show ?thesis
    using x y z rt2 ro
    by (intro exI [of _ "(rt, [?run], [])"] exI [of _ "(rt2, [?run], [])"] exI [of _ "(rt3, [], [])"]) (auto simp: view_def)
qed

text \<open>A running container whose process is alive is not deleted; once the process is gone it is.\<close>

theorem commands_refine_life_cycle_witness:
  "\<exists>x y. sys_step\<^sup>*\<^sup>* initial_system x \<and> view x ''web'' = (Some Running, 1, 0) \<and> sys_does gone_lw Deletes ''web'' True x y \<and>
     \<not> live_in gone_lw (fst x) ''web'' \<and> view y ''web'' = (None, 1, 0) \<and> view y ''db'' = view x ''db''"
proof -
  obtain rt ro args s px where b: "begin_run sample_lw sample_iv plain_run empty_runtime = (rt, Ok (ro, args, s, Ok px))"
    and ro: "ro_id ro = ''web''" and s: "cs_pid s = Some 42" "cs_process_starttime s = Some 777" "cs_network_mode s = ''none''"
    and st: "map_of (rt_store rt) ''web'' = Some (Some s)"
    using begin_run_sample by blast
  let ?x = "(rt, [(ro, args, s, Ok px)], [])"
  have x: "sys_step\<^sup>*\<^sup>* initial_system ?x"
    using does_run [OF b, of "[]" "[]"] unfolding initial_system_def sys_step_def by blast
  have p: "pending_ok ''web'' s" "runtime_wf rt" using reachable_wf [OF x] ro by (simp_all add: system_wf_def)
  then obtain rt2 where "delete gone_lw ''web'' rt = (rt2, Ok ())"
    using delete_sample [OF p(2) st] s by (auto simp: pending_ok_def)
  then have y: "sys_does gone_lw Deletes ''web'' True ?x (rt2, [(ro, args, s, Ok px)], [])"
    using does_delete [of gone_lw "''web''" rt rt2 "Ok ()"] by simp
  have v: "view ?x ''web'' = (Some Running, 1, 0)" using st p(1) ro by (simp add: view_def statuses_def pending_ok_def)
  from commands_refine_life_cycle [OF x y] have "found (live_in gone_lw rt ''web'') (Some Running) \<in> {Some Created, Some Stopped}"
    "view (rt2, [(ro, args, s, Ok px)], []) ''web'' = (None, 1, 0)" "view (rt2, [(ro, args, s, Ok px)], []) ''db'' = view ?x ''db''"
    by (simp_all add: v)
  moreover from this(1) have "\<not> live_in gone_lw rt ''web''" by (auto simp: found_def)
  ultimately show ?thesis using x y v by (intro exI [of _ ?x] exI [of _ "(rt2, [(ro, args, s, Ok px)], [])"]) simp
qed

end
