(* ===== verification/Collector.thy ===== *)
theory Collector
  imports Capture Compile Effects
begin

text \<open>
  \<^verbatim>\<open>src/seccomp/collector.rs\<close>: the tracer that records which system calls a container makes. A \<open>wait_round\<close> is one
  turn of its loop: what \<^verbatim>\<open>waitpid\<close> returned and how the kernel answers the calls that turn may make about the stopped
  process. The loop is a function of the list of rounds; it has no result when the rounds run out before
  it ends. Processes are resumed by calls that are logged.
\<close>

datatype trace_status =
    T_Exited int int
  | T_Signaled int string
  | T_Stopped int nat
  | T_PtraceEvent int int
  | T_PtraceSyscall int
  | T_Continued int
  | T_StillAlive

fun status_pid :: "trace_status \<Rightarrow> int option" where
  "status_pid (T_Exited pid _) = Some pid"
| "status_pid (T_Signaled pid _) = Some pid"
| "status_pid (T_Stopped pid _) = Some pid"
| "status_pid (T_PtraceEvent pid _) = Some pid"
| "status_pid (T_PtraceSyscall pid) = Some pid"
| "status_pid (T_Continued pid) = Some pid"
| "status_pid T_StillAlive = None"

fun is_terminal :: "trace_status \<Rightarrow> bool" where
  "is_terminal (T_Exited _ _) = True"
| "is_terminal (T_Signaled _ _) = True"
| "is_terminal _ = False"

definition PTRACE_EVENT_FORK :: int where "PTRACE_EVENT_FORK = 1"
definition PTRACE_EVENT_VFORK :: int where "PTRACE_EVENT_VFORK = 2"
definition PTRACE_EVENT_CLONE :: int where "PTRACE_EVENT_CLONE = 3"
definition PTRACE_EVENT_SECCOMP :: int where "PTRACE_EVENT_SECCOMP = 7"
definition SIGSTOP :: nat where "SIGSTOP = 19"

record wait_round =
  wr_status :: "(errno, trace_status) result"
  wr_elapsed_ms :: u64
  wr_number :: "(errno, int) result"
  wr_child :: "(errno, int) result"
  wr_set_options :: "(errno, unit) result"
  wr_siginfo :: "(errno, unit) result"

record collector_options =
  clo_root_pid :: int
  clo_exclude_pids :: "int list"
  clo_max_events :: "u64 option"

datatype collector_call = Set_trace_options int | Cont int "nat option"

record collector =
  cl_capture :: capture
  cl_root_status :: trace_status
  cl_reaped_others :: "(int \<times> trace_status) list"
  cl_tracees :: "int set"
  cl_root_exited :: bool
  cl_options_set :: bool
  cl_calls :: "collector_call list"

definition see_process :: "capture \<Rightarrow> capture" where
  "see_process c = c\<lparr>cap_processes_seen := cap_processes_seen c + 1\<rparr>"

definition process_creation_syscall :: "target_arch \<Rightarrow> int \<Rightarrow> bool" where
  "process_creation_syscall a n \<longleftrightarrow> syscall_name a n \<in> Some ` {''fork'', ''vfork'', ''clone'', ''clone3''}"

definition handle_event :: "target_arch \<Rightarrow> wait_round \<Rightarrow> int \<Rightarrow> collector \<Rightarrow> (errno, collector) result" where
  "handle_event a r event st =
     (if event = PTRACE_EVENT_SECCOMP then
        (case wr_number r of
           Ok n \<Rightarrow>
             let c = record_syscall (cl_capture st) n (wr_elapsed_ms r) in
             Ok (st\<lparr>cl_capture := (if process_creation_syscall a n then see_process c else c)\<rparr>)
         | Err e \<Rightarrow> if e = Errno_ESRCH then Ok st else Err e)
      else if event \<in> {PTRACE_EVENT_FORK, PTRACE_EVENT_VFORK, PTRACE_EVENT_CLONE} then
        (case wr_child r of
           Ok child \<Rightarrow>
             if child \<in> cl_tracees st then Ok st
             else Ok (st\<lparr>cl_tracees := insert child (cl_tracees st), cl_capture := see_process (cl_capture st)\<rparr>)
         | Err e \<Rightarrow> if e = Errno_ESRCH then Ok st else Err e)
      else Ok st)"

text \<open>A failure to resume is only logged by the tracer.\<close>

definition resume :: "int \<Rightarrow> nat option \<Rightarrow> collector \<Rightarrow> collector" where
  "resume pid signal st = st\<lparr>cl_calls := cl_calls st @ [Cont pid signal]\<rparr>"

definition is_group_stop :: "wait_round \<Rightarrow> bool" where
  "is_group_stop r \<longleftrightarrow> wr_siginfo r = Err Errno_ESRCH"

definition note_limit :: "collector_options \<Rightarrow> collector \<Rightarrow> collector" where
  "note_limit opts st =
     (case clo_max_events opts of
        Some limit \<Rightarrow>
          if limit \<le> cap_events (cl_capture st) then st\<lparr>cl_capture := (cl_capture st)\<lparr>cap_truncated := True\<rparr>\<rparr> else st
      | None \<Rightarrow> st)"

datatype turn = Go_on collector | Finished collector | Fails errno

definition on_exit :: "collector_options \<Rightarrow> int \<Rightarrow> trace_status \<Rightarrow> collector \<Rightarrow> turn" where
  "on_exit opts pid status st =
     (let st = st\<lparr>cl_tracees := cl_tracees st - {pid}\<rparr>;
          st = (if pid = clo_root_pid opts then st\<lparr>cl_root_status := status, cl_root_exited := True\<rparr> else st)
      in if cl_root_exited st \<and> cl_tracees st = {} then Finished st else Go_on st)"

definition on_event :: "target_arch \<Rightarrow> collector_options \<Rightarrow> wait_round \<Rightarrow> int \<Rightarrow> int \<Rightarrow> collector \<Rightarrow> turn" where
  "on_event a opts r pid event st =
     (case handle_event a r event st of
        Err e \<Rightarrow> Fails e
      | Ok st \<Rightarrow> Go_on (resume pid None (note_limit opts st)))"

definition on_stop :: "collector_options \<Rightarrow> wait_round \<Rightarrow> int \<Rightarrow> nat \<Rightarrow> collector \<Rightarrow> turn" where
  "on_stop opts r pid signal st =
     (if pid = clo_root_pid opts \<and> \<not> cl_options_set st then
        let st = st\<lparr>cl_calls := cl_calls st @ [Set_trace_options pid]\<rparr> in
        (case wr_set_options r of
           Err e \<Rightarrow> Fails e
         | Ok _ \<Rightarrow> Go_on (resume pid None (st\<lparr>cl_options_set := True, cl_tracees := insert pid (cl_tracees st)\<rparr>)))
      else if signal = SIGSTOP \<and> pid \<notin> cl_tracees st then
        Go_on (resume pid None (st\<lparr>cl_tracees := insert pid (cl_tracees st), cl_capture := see_process (cl_capture st)\<rparr>))
      else if is_group_stop r then Go_on (resume pid None st)
      else Go_on (resume pid (Some signal) st))"

definition collector_turn :: "target_arch \<Rightarrow> collector_options \<Rightarrow> wait_round \<Rightarrow> collector \<Rightarrow> turn" where
  "collector_turn a opts r st =
     (case wr_status r of
        Err e \<Rightarrow> if e = Errno_ECHILD then Finished st else if e = Errno_EINTR then Go_on st else Fails e
      | Ok status \<Rightarrow>
          (case status_pid status of
             None \<Rightarrow> Go_on st
           | Some pid \<Rightarrow>
               if pid \<in> set (clo_exclude_pids opts)
               then Go_on (if is_terminal status then st\<lparr>cl_reaped_others := cl_reaped_others st @ [(pid, status)]\<rparr> else st)
               else (case status of
                  T_Exited _ _ \<Rightarrow> on_exit opts pid status st
                | T_Signaled _ _ \<Rightarrow> on_exit opts pid status st
                | T_PtraceEvent _ event \<Rightarrow> on_event a opts r pid event st
                | T_Stopped _ signal \<Rightarrow> on_stop opts r pid signal st
                | _ \<Rightarrow> Go_on st)))"

text \<open>The loop; the rounds it has not used are part of the result.\<close>

fun collect_loop ::
    "target_arch \<Rightarrow> collector_options \<Rightarrow> wait_round list \<Rightarrow> collector \<Rightarrow> ((errno, collector) result \<times> wait_round list) option" where
  "collect_loop a opts [] st = None"
| "collect_loop a opts (r # rs) st =
     (case collector_turn a opts r st of
        Fails e \<Rightarrow> Some (Err e, rs)
      | Finished st \<Rightarrow> Some (Ok st, rs)
      | Go_on st \<Rightarrow> collect_loop a opts rs st)"

definition collector_start :: "target_arch \<Rightarrow> u64 \<Rightarrow> collector" where
  "collector_start a now =
     \<lparr>cl_capture = default_capture\<lparr>cap_audit_arch := AUDIT_ARCH_NATIVE a, cap_started_at_unix := now\<rparr>,
      cl_root_status = T_StillAlive, cl_reaped_others = [], cl_tracees = {}, cl_root_exited = False,
      cl_options_set = False, cl_calls = []\<rparr>"

definition run_collector ::
    "target_arch \<Rightarrow> collector_options \<Rightarrow> u64 \<Rightarrow> u64 \<Rightarrow> wait_round list \<Rightarrow> ((errno, collector) result \<times> wait_round list) option" where
  "run_collector a opts now elapsed rounds =
     (case collect_loop a opts rounds (collector_start a now) of
        Some (Ok st, rest) \<Rightarrow>
          Some (Ok (st\<lparr>cl_capture := (cl_capture st)\<lparr>cap_processes_seen := max (cap_processes_seen (cl_capture st)) 1,
            cap_duration_ms := elapsed\<rparr>\<rparr>), rest)
      | x \<Rightarrow> x)"

subsection \<open>What the rounds show\<close>

definition traced_status :: "collector_options \<Rightarrow> wait_round \<Rightarrow> trace_status option" where
  "traced_status opts r =
     (case wr_status r of
        Ok status \<Rightarrow> (case status_pid status of Some pid \<Rightarrow> if pid \<in> set (clo_exclude_pids opts) then None else Some status | None \<Rightarrow> None)
      | Err _ \<Rightarrow> None)"

definition calls_seen :: "collector_options \<Rightarrow> wait_round list \<Rightarrow> (int \<times> u64) list" where
  "calls_seen opts rs = concat (map (\<lambda>r. case (traced_status opts r, wr_number r) of
     (Some (T_PtraceEvent pid event), Ok n) \<Rightarrow> if event = PTRACE_EVENT_SECCOMP then [(n, wr_elapsed_ms r)] else [] | _ \<Rightarrow> []) rs)"

definition others_ended :: "collector_options \<Rightarrow> wait_round list \<Rightarrow> (int \<times> trace_status) list" where
  "others_ended opts rs = concat (map (\<lambda>r. case wr_status r of
     Ok status \<Rightarrow> (case status_pid status of
         Some pid \<Rightarrow> if pid \<in> set (clo_exclude_pids opts) \<and> is_terminal status then [(pid, status)] else [] | None \<Rightarrow> [])
   | Err _ \<Rightarrow> []) rs)"

text \<open>
  What the history of rounds tells about processes, without the tracer's own bookkeeping: a process is there from the round that
  introduces it, a fork event naming it, an attach stop or the first stop of the container's own process, until a
  round reports its end.
\<close>

definition root_stopped :: "collector_options \<Rightarrow> wait_round list \<Rightarrow> bool" where
  "root_stopped opts rs \<longleftrightarrow> (\<exists>r \<in> set rs. \<exists>s. traced_status opts r = Some (T_Stopped (clo_root_pid opts) s))"

definition introduces :: "collector_options \<Rightarrow> wait_round list \<Rightarrow> wait_round \<Rightarrow> int \<Rightarrow> bool" where
  "introduces opts before r p \<longleftrightarrow>
     (\<exists>q event. traced_status opts r = Some (T_PtraceEvent q event) \<and>
        event \<in> {PTRACE_EVENT_FORK, PTRACE_EVENT_VFORK, PTRACE_EVENT_CLONE} \<and> wr_child r = Ok p) \<or>
     traced_status opts r = Some (T_Stopped p SIGSTOP) \<or>
     p = clo_root_pid opts \<and> (\<exists>s. traced_status opts r = Some (T_Stopped p s)) \<and> \<not> root_stopped opts before"

definition ends_process :: "collector_options \<Rightarrow> wait_round \<Rightarrow> int \<Rightarrow> bool" where
  "ends_process opts r p \<longleftrightarrow> (\<exists>status. traced_status opts r = Some status \<and> is_terminal status \<and> status_pid status = Some p)"

definition alive :: "collector_options \<Rightarrow> wait_round list \<Rightarrow> int \<Rightarrow> bool" where
  "alive opts rs p \<longleftrightarrow> (\<exists>before r after. rs = before @ r # after \<and> introduces opts before r p \<and> (\<forall>r' \<in> set after. \<not> ends_process opts r' p))"

text \<open>
  The calls that a stop demands: the options are set before the container's process first goes on; a traced event, the
  attach stop of a process that was not there before and a stop whose signal cannot be read are resumed without a signal, and any
  other stop with the signal that stopped the process.
\<close>

definition demanded :: "collector_options \<Rightarrow> wait_round list \<Rightarrow> wait_round \<Rightarrow> collector_call list" where
  "demanded opts before r =
     (case traced_status opts r of
        Some (T_PtraceEvent p _) \<Rightarrow> [Cont p None]
      | Some (T_Stopped p s) \<Rightarrow>
          if p = clo_root_pid opts \<and> \<not> root_stopped opts before then [Set_trace_options p, Cont p None]
          else [Cont p (if s = SIGSTOP \<and> \<not> alive opts before p \<or> wr_siginfo r = Err Errno_ESRCH then None else Some s)]
      | _ \<Rightarrow> [])"

definition calls_demanded :: "collector_options \<Rightarrow> wait_round list \<Rightarrow> collector_call list" where
  "calls_demanded opts rs = concat (map (\<lambda>i. demanded opts (take i rs) (rs ! i)) [0..<length rs])"

text \<open>A capture without the counters that are not counts of calls.\<close>

definition plain :: "capture \<Rightarrow> capture" where
  "plain c = c\<lparr>cap_processes_seen := 0, cap_truncated := False, cap_duration_ms := 0\<rparr>"

definition record_calls :: "(int \<times> u64) list \<Rightarrow> capture \<Rightarrow> capture" where
  "record_calls trace c = fold (\<lambda>(n, ms) c. record_syscall c n ms) trace c"

lemma plain_record: "plain (record_syscall c n ms) = record_syscall (plain c) n ms"
  by (simp add: plain_def record_syscall_def Let_def)

lemma plain_other [simp]:
  "plain (see_process c) = plain c" "plain (c\<lparr>cap_truncated := b\<rparr>) = plain c" "plain (plain c) = plain c"
  "plain (c\<lparr>cap_processes_seen := n\<rparr>) = plain c" "plain (c\<lparr>cap_duration_ms := m\<rparr>) = plain c"
  by (simp_all add: plain_def see_process_def)

lemma record_calls_plain: "plain (record_calls trace c) = record_calls trace (plain c)"
  by (induction trace arbitrary: c) (auto simp: record_calls_def plain_record)

lemma seen_Nil [simp]: "calls_seen opts [] = []" "others_ended opts [] = []"
  by (simp_all add: calls_seen_def others_ended_def)

lemma seen_Cons:
  "calls_seen opts (r # rs) = calls_seen opts [r] @ calls_seen opts rs"
  "others_ended opts (r # rs) = others_ended opts [r] @ others_ended opts rs"
  by (simp_all add: calls_seen_def others_ended_def)

text \<open>What one turn that does not fail adds.\<close>

definition advances :: "collector_options \<Rightarrow> wait_round list \<Rightarrow> collector \<Rightarrow> collector \<Rightarrow> bool" where
  "advances opts rs st st' \<longleftrightarrow>
     plain (cl_capture st') = record_calls (calls_seen opts rs) (plain (cl_capture st)) \<and>
     cl_reaped_others st' = cl_reaped_others st @ others_ended opts rs"

lemma advances_trans:
  assumes "advances opts [r] st st1" "advances opts rs st1 st2"
  shows "advances opts (r # rs) st st2"
proof -
  have "record_calls (calls_seen opts (r # rs)) c = record_calls (calls_seen opts rs) (record_calls (calls_seen opts [r]) c)" for c
    unfolding seen_Cons(1) [of opts r rs] by (simp add: record_calls_def)
  then show ?thesis
    using assms unfolding advances_def seen_Cons(2) [of opts r rs] by auto
qed

fun turn_state :: "turn \<Rightarrow> collector option" where
  "turn_state (Go_on st) = Some st"
| "turn_state (Finished st) = Some st"
| "turn_state (Fails _) = None"

lemma seen_single:
  "traced_status opts r = Some s \<Longrightarrow> others_ended opts [r] = []"
  by (auto simp: traced_status_def others_ended_def split: result.splits option.splits if_splits)

lemma handle_event_adv:
  assumes "handle_event a r event st = Ok st'" "traced_status opts r = Some (T_PtraceEvent pid event)"
  shows "plain (cl_capture st') = record_calls (calls_seen opts [r]) (plain (cl_capture st))"
    "cl_reaped_others st' = cl_reaped_others st" "cl_calls st' = cl_calls st"
  using assms
  by (auto simp: handle_event_def calls_seen_def record_calls_def plain_record Let_def PTRACE_EVENT_SECCOMP_def
      PTRACE_EVENT_FORK_def PTRACE_EVENT_VFORK_def PTRACE_EVENT_CLONE_def
      split: if_splits result.splits)

lemma note_limit_adv:
  "plain (cl_capture (note_limit opts st)) = plain (cl_capture st)" "cl_reaped_others (note_limit opts st) = cl_reaped_others st"
  "cl_calls (note_limit opts st) = cl_calls st"
  by (simp_all add: note_limit_def split: option.split)

lemma on_event_advances:
  assumes "on_event a opts r pid event st = Go_on st'" "traced_status opts r = Some (T_PtraceEvent pid event)"
  shows "advances opts [r] st st'"
proof -
  obtain st1 where h: "handle_event a r event st = Ok st1" and st': "st' = resume pid None (note_limit opts st1)"
    using assms(1) by (auto simp: on_event_def split: result.splits)
  have "others_ended opts [r] = []" using seen_single [OF assms(2)] .
  then show ?thesis
    using handle_event_adv [OF h assms(2)] assms(2) by (simp add: advances_def st' resume_def note_limit_adv)
qed

lemma on_stop_advances:
  assumes "on_stop opts r pid signal st = Go_on st'" "traced_status opts r = Some (T_Stopped pid signal)"
  shows "advances opts [r] st st'"
proof -
  have "others_ended opts [r] = []" "calls_seen opts [r] = []"
    using assms(2) seen_single [OF assms(2)] by (simp_all add: calls_seen_def)
  then show ?thesis
    using assms
    by (auto simp: on_stop_def advances_def resume_def record_calls_def Let_def split: if_splits result.splits)
qed

lemma on_exit_advances:
  assumes "turn_state (on_exit opts pid status st) = Some st'" "traced_status opts r = Some status" "is_terminal status"
  shows "advances opts [r] st st'"
proof -
  have "calls_seen opts [r] = []" "others_ended opts [r] = []"
    using assms(2,3) seen_single [OF assms(2)] by (cases status; simp add: calls_seen_def)+
  then show ?thesis using assms(1) by (auto simp: on_exit_def advances_def record_calls_def Let_def split: if_splits)
qed

lemma turn_advances:
  assumes "turn_state (collector_turn a opts r st) = Some st'"
  shows "advances opts [r] st st'"
proof (cases "traced_status opts r")
  case None
  then have e: "calls_seen opts [r] = []" by (simp add: calls_seen_def)
  have "plain (cl_capture st') = plain (cl_capture st)"
    "cl_reaped_others st' = cl_reaped_others st @ others_ended opts [r]"
    using assms None
    by (auto simp: collector_turn_def traced_status_def others_ended_def split: result.splits option.splits if_splits)
  with e show ?thesis by (simp add: advances_def record_calls_def)
next
  case (Some status)
  then obtain pid where s: "wr_status r = Ok status" "status_pid status = Some pid" "pid \<notin> set (clo_exclude_pids opts)"
    by (auto simp: traced_status_def split: result.splits option.splits if_splits)
  show ?thesis
  proof (cases status)
    case (T_Exited p c)
    then show ?thesis using assms s Some on_exit_advances [of opts pid status st st' r] by (simp add: collector_turn_def)
  next
    case (T_Signaled p c)
    then show ?thesis using assms s Some on_exit_advances [of opts pid status st st' r] by (simp add: collector_turn_def)
  next
    case (T_Stopped p signal)
    then have "on_stop opts r pid signal st = Go_on st'"
      using assms s by (auto simp: collector_turn_def on_stop_def Let_def split: result.splits if_splits)
    then show ?thesis using on_stop_advances Some s T_Stopped by auto
  next
    case (T_PtraceEvent p event)
    then have "on_event a opts r pid event st = Go_on st'"
      using assms s by (auto simp: collector_turn_def on_event_def split: result.splits)
    then show ?thesis using on_event_advances Some s T_PtraceEvent by auto
  next
    case (T_PtraceSyscall p)
    then have "calls_seen opts [r] = []" "others_ended opts [r] = []" "st' = st"
      using assms s Some seen_single [OF Some] by (simp_all add: calls_seen_def collector_turn_def)
    then show ?thesis by (simp add: advances_def record_calls_def)
  next
    case (T_Continued p)
    then have "calls_seen opts [r] = []" "others_ended opts [r] = []" "st' = st"
      using assms s Some seen_single [OF Some] by (simp_all add: calls_seen_def collector_turn_def)
    then show ?thesis by (simp add: advances_def record_calls_def)
  next
    case T_StillAlive
    then show ?thesis using s by simp
  qed
qed

lemma collect_loop_advances:
  "collect_loop a opts rs st = Some (Ok st', rest) \<Longrightarrow> \<exists>used. rs = used @ rest \<and> advances opts used st st'"
proof (induction rs arbitrary: st)
  case (Cons r rs)
  show ?case
  proof (cases "collector_turn a opts r st")
    case (Go_on st1)
    then obtain used where "rs = used @ rest" "advances opts used st1 st'" using Cons by auto
    moreover have "advances opts [r] st st1" using turn_advances [of a opts r st st1] Go_on by simp
    ultimately show ?thesis by (intro exI [of _ "r # used"]) (simp add: advances_trans)
  next
    case (Finished st1)
    then have "advances opts [r] st st1" using turn_advances [of a opts r st st1] by simp
    then show ?thesis using Finished Cons.prems by (intro exI [of _ "[r]"]) simp
  next
    case (Fails e)
    then show ?thesis using Cons.prems by simp
  qed
qed simp

text \<open>The tracer's bookkeeping agrees with the history.\<close>

lemma root_stopped_snoc:
  "root_stopped opts (rs @ [r]) \<longleftrightarrow> root_stopped opts rs \<or> (\<exists>s. traced_status opts r = Some (T_Stopped (clo_root_pid opts) s))"
  by (auto simp: root_stopped_def)

lemma alive_snoc: "alive opts (rs @ [r]) p \<longleftrightarrow> introduces opts rs r p \<or> alive opts rs p \<and> \<not> ends_process opts r p"
proof
  assume "alive opts (rs @ [r]) p"
  then obtain before x after where x: "rs @ [r] = before @ x # after" "introduces opts before x p"
    "\<forall>r' \<in> set after. \<not> ends_process opts r' p" unfolding alive_def by blast
  show "introduces opts rs r p \<or> alive opts rs p \<and> \<not> ends_process opts r p"
  proof (cases after rule: rev_cases)
    case (snoc ys y)
    with x(1) have "rs = before @ x # ys" "y = r" by simp_all
    with x snoc show ?thesis unfolding alive_def by auto
  qed (use x in simp)
next
  assume "introduces opts rs r p \<or> alive opts rs p \<and> \<not> ends_process opts r p"
  then show "alive opts (rs @ [r]) p"
  proof
    assume "introduces opts rs r p"
    then show ?thesis unfolding alive_def by (intro exI [of _ rs] exI [of _ r] exI [of _ "[]"]) simp
  next
    assume "alive opts rs p \<and> \<not> ends_process opts r p"
    then obtain before x after where "rs = before @ x # after" "introduces opts before x p"
      "\<forall>r' \<in> set (after @ [r]). \<not> ends_process opts r' p" unfolding alive_def by auto
    then show ?thesis unfolding alive_def by (intro exI [of _ before] exI [of _ x] exI [of _ "after @ [r]"]) simp
  qed
qed

lemma calls_demanded_snoc: "calls_demanded opts (rs @ [r]) = calls_demanded opts rs @ demanded opts rs r"
proof -
  have "map (\<lambda>i. demanded opts (take i (rs @ [r])) ((rs @ [r]) ! i)) [0..<length rs] =
      map (\<lambda>i. demanded opts (take i rs) (rs ! i)) [0..<length rs]"
    by (rule map_cong) (simp_all add: nth_append)
  moreover have "[0..<length (rs @ [r])] = [0..<length rs] @ [length rs]" by simp
  ultimately show ?thesis unfolding calls_demanded_def by (simp only: map_append) simp
qed

definition follows :: "collector_options \<Rightarrow> wait_round list \<Rightarrow> collector \<Rightarrow> bool" where
  "follows opts rs st \<longleftrightarrow> cl_calls st = calls_demanded opts rs \<and> cl_options_set st = root_stopped opts rs \<and>
     cl_tracees st = {p. alive opts rs p}"

lemma follows_start: "follows opts [] (collector_start a now)"
  by (simp add: follows_def collector_start_def calls_demanded_def root_stopped_def alive_def)

text \<open>A round leaves what it is not about as it was.\<close>

lemma follows_step:
  assumes "follows opts rs st" "cl_calls st' = cl_calls st @ demanded opts rs r"
    "cl_options_set st' \<longleftrightarrow> cl_options_set st \<or> (\<exists>s. traced_status opts r = Some (T_Stopped (clo_root_pid opts) s))"
    "cl_tracees st' = {p \<in> cl_tracees st. \<not> ends_process opts r p} \<union> {p. introduces opts rs r p}"
  shows "follows opts (rs @ [r]) st'"
  using assms by (auto simp: follows_def calls_demanded_snoc root_stopped_snoc alive_snoc)

lemma follows_event:
  assumes "follows opts rs st" "on_event a opts r pid event st = Go_on st'" "traced_status opts r = Some (T_PtraceEvent pid event)"
  shows "follows opts (rs @ [r]) st'"
proof -
  obtain st1 where h: "handle_event a r event st = Ok st1" and st': "st' = resume pid None (note_limit opts st1)"
    using assms(2) by (auto simp: on_event_def split: result.splits)
  have kept: "cl_calls (note_limit opts st1) = cl_calls st1" "cl_options_set (note_limit opts st1) = cl_options_set st1"
    "cl_tracees (note_limit opts st1) = cl_tracees st1" by (simp_all add: note_limit_def split: option.split)
  have "cl_calls st1 = cl_calls st \<and> cl_options_set st1 = cl_options_set st \<and>
      cl_tracees st1 = cl_tracees st \<union> {p. introduces opts rs r p}"
    using h assms(3)
    by (auto simp: handle_event_def introduces_def Let_def PTRACE_EVENT_SECCOMP_def PTRACE_EVENT_FORK_def
        PTRACE_EVENT_VFORK_def PTRACE_EVENT_CLONE_def split: if_splits result.splits)
  moreover have "\<not> ends_process opts r p" for p using assms(3) by (auto simp: ends_process_def)
  ultimately show ?thesis
    using assms(1,3) by (intro follows_step [of _ _ st]) (auto simp: st' resume_def kept demanded_def)
qed

lemma follows_stop:
  assumes "follows opts rs st" "on_stop opts r pid signal st = Go_on st'" "traced_status opts r = Some (T_Stopped pid signal)"
  shows "follows opts (rs @ [r]) st'"
proof (rule follows_step [OF assms(1)])
  have known: "pid \<in> cl_tracees st \<longleftrightarrow> alive opts rs pid" "cl_options_set st \<longleftrightarrow> root_stopped opts rs"
    using assms(1) by (auto simp: follows_def)
  show "cl_calls st' = cl_calls st @ demanded opts rs r"
    using assms(2,3) known by (auto simp: on_stop_def demanded_def resume_def is_group_stop_def Let_def split: if_splits result.splits)
  show "cl_options_set st' \<longleftrightarrow> cl_options_set st \<or> (\<exists>s. traced_status opts r = Some (T_Stopped (clo_root_pid opts) s))"
    using assms(2,3) by (auto simp: on_stop_def resume_def Let_def split: if_splits result.splits)
  show "cl_tracees st' = {p \<in> cl_tracees st. \<not> ends_process opts r p} \<union> {p. introduces opts rs r p}"
    using assms(2,3) known
    by (auto simp: on_stop_def introduces_def ends_process_def resume_def Let_def split: if_splits result.splits)
qed

lemma follows_exit:
  assumes "follows opts rs st" "turn_state (on_exit opts pid status st) = Some st'"
    and "traced_status opts r = Some status" "is_terminal status" "status_pid status = Some pid"
  shows "follows opts (rs @ [r]) st'"
proof (rule follows_step [OF assms(1)])
  have "cl_calls st' = cl_calls st \<and> cl_options_set st' = cl_options_set st \<and> cl_tracees st' = cl_tracees st - {pid}"
    using assms(2) by (auto simp: on_exit_def Let_def split: if_splits)
  moreover have "ends_process opts r p \<longleftrightarrow> p = pid" for p using assms(3-5) by (auto simp: ends_process_def)
  moreover have "\<not> introduces opts rs r p" "demanded opts rs r = []" "\<not> (\<exists>s. traced_status opts r = Some (T_Stopped (clo_root_pid opts) s))" for p
    using assms(3,4) by (cases status; auto simp: introduces_def demanded_def)+
  ultimately show "cl_calls st' = cl_calls st @ demanded opts rs r"
    "cl_options_set st' \<longleftrightarrow> cl_options_set st \<or> (\<exists>s. traced_status opts r = Some (T_Stopped (clo_root_pid opts) s))"
    "cl_tracees st' = {p \<in> cl_tracees st. \<not> ends_process opts r p} \<union> {p. introduces opts rs r p}"
    by auto
qed

lemma follows_other:
  assumes "follows opts rs st" "cl_calls st' = cl_calls st" "cl_options_set st' = cl_options_set st" "cl_tracees st' = cl_tracees st"
    and "\<nexists>p s. traced_status opts r = Some (T_Stopped p s)" "\<nexists>p e. traced_status opts r = Some (T_PtraceEvent p e)"
      "\<And>s. traced_status opts r = Some s \<Longrightarrow> \<not> is_terminal s"
  shows "follows opts (rs @ [r]) st'"
proof -
  have "demanded opts rs r = []" using assms(5,6) by (auto simp: demanded_def split: option.split trace_status.split)
  moreover have "\<not> introduces opts rs r p" "\<not> ends_process opts r p" for p using assms(5-7) by (auto simp: introduces_def ends_process_def)
  ultimately show ?thesis using assms(1-5) by (intro follows_step [of _ _ st]) auto
qed

lemma turn_follows:
  assumes "follows opts rs st" "turn_state (collector_turn a opts r st) = Some st'"
  shows "follows opts (rs @ [r]) st'"
proof (cases "traced_status opts r")
  case None
  then have "cl_calls st' = cl_calls st" "cl_options_set st' = cl_options_set st" "cl_tracees st' = cl_tracees st"
    using assms(2) by (auto simp: collector_turn_def traced_status_def split: result.splits option.splits if_splits)
  then show ?thesis using None by (intro follows_other [OF assms(1)]) simp_all
next
  case (Some status)
  then obtain pid where s: "wr_status r = Ok status" "status_pid status = Some pid" "pid \<notin> set (clo_exclude_pids opts)"
    by (auto simp: traced_status_def split: result.splits option.splits if_splits)
  consider (exit) "is_terminal status" "turn_state (on_exit opts pid status st) = Some st'"
    | (stop) signal where "status = T_Stopped pid signal" "on_stop opts r pid signal st = Go_on st'"
    | (event) event where "status = T_PtraceEvent pid event" "on_event a opts r pid event st = Go_on st'"
    | (other) "st' = st" "\<not> is_terminal status" "\<nexists>p s. status = T_Stopped p s" "\<nexists>p e. status = T_PtraceEvent p e"
    using assms(2) s
    by (cases status) (auto simp: collector_turn_def on_stop_def on_event_def Let_def split: result.splits if_splits)
  then show ?thesis
  proof cases
    case exit
    then show ?thesis by (intro follows_exit [OF assms(1) exit(2) Some exit(1) s(2)])
  next
    case stop
    then show ?thesis using follows_stop [OF assms(1) stop(2)] Some by simp
  next
    case event
    then show ?thesis using follows_event [OF assms(1) event(2)] Some by simp
  next
    case other
    then show ?thesis using Some by (intro follows_other [OF assms(1)]) auto
  qed
qed

lemma collect_loop_follows:
  "collect_loop a opts rs st = Some (Ok st', rest) \<Longrightarrow> rs = used @ rest \<Longrightarrow> follows opts past st \<Longrightarrow> follows opts (past @ used) st'"
proof (induction rs arbitrary: st used past)
  case (Cons r rs)
  have turn: "turn_state (collector_turn a opts r st) = Some st1 \<Longrightarrow> follows opts (past @ [r]) st1" for st1
    using turn_follows [OF Cons.prems(3)] .
  show ?case
  proof (cases "collector_turn a opts r st")
    case (Go_on st1)
    then have l: "collect_loop a opts rs st1 = Some (Ok st', rest)" using Cons.prems(1) by simp
    then obtain used1 where "rs = used1 @ rest" using collect_loop_advances by blast
    then have u: "used = r # used1" "rs = used1 @ rest" using Cons.prems(2) by simp_all
    then show ?thesis using Cons.IH [OF l u(2), of "past @ [r]"] turn [of st1] Go_on by simp
  next
    case (Finished st1)
    then show ?thesis using turn [of st1] Cons.prems by (cases used) auto
  next
    case (Fails e)
    then show ?thesis using Cons.prems(1) by simp
  qed
qed simp

text \<open>How the loop ends: no child is left to wait for, or the container's process and every process it is known to have started.\<close>

lemma collect_loop_end:
  "collect_loop a opts rs st = Some (Ok st', rest) \<Longrightarrow>
   \<exists>used r. rs = used @ r # rest \<and> (wr_status r = Err Errno_ECHILD \<or> cl_root_exited st' \<and> cl_tracees st' = {})"
proof (induction rs arbitrary: st)
  case (Cons r rs)
  show ?case
  proof (cases "collector_turn a opts r st")
    case (Go_on st1)
    then obtain used r' where "rs = used @ r' # rest" "wr_status r' = Err Errno_ECHILD \<or> cl_root_exited st' \<and> cl_tracees st' = {}"
      using Cons.IH [of st1] Cons.prems by (simp, blast)
    then show ?thesis by (intro exI [of _ "r # used"] exI [of _ r']) simp
  next
    case (Finished st1)
    then have "wr_status r = Err Errno_ECHILD \<or> cl_root_exited st1 \<and> cl_tracees st1 = {}"
      by (auto simp: collector_turn_def on_exit_def on_event_def on_stop_def Let_def
          split: result.splits option.splits if_splits trace_status.splits)
    then show ?thesis using Finished Cons.prems by (intro exI [of _ "[]"] exI [of _ r]) simp
  next
    case (Fails e)
    then show ?thesis using Cons.prems by simp
  qed
qed simp

definition root_ended :: "collector_options \<Rightarrow> wait_round list \<Rightarrow> trace_status \<Rightarrow> bool" where
  "root_ended opts rs status \<longleftrightarrow> is_terminal status \<and> status_pid status = Some (clo_root_pid opts) \<and> Ok status \<in> wr_status ` set rs"

lemma handle_event_root:
  "handle_event a r event st = Ok st1 \<Longrightarrow> cl_root_exited st1 = cl_root_exited st \<and> cl_root_status st1 = cl_root_status st"
  by (auto simp: handle_event_def Let_def split: if_splits result.splits)

lemma note_limit_root:
  "cl_root_exited (note_limit opts st) = cl_root_exited st" "cl_root_status (note_limit opts st) = cl_root_status st"
  by (simp_all add: note_limit_def split: option.split)

lemma on_event_root:
  assumes "turn_state (on_event a opts r pid event st) = Some st1"
  shows "cl_root_exited st1 = cl_root_exited st \<and> cl_root_status st1 = cl_root_status st"
proof -
  obtain st2 where h: "handle_event a r event st = Ok st2" and st1: "st1 = resume pid None (note_limit opts st2)"
    using assms by (cases "handle_event a r event st") (simp_all add: on_event_def)
  show ?thesis using handle_event_root [OF h] by (simp add: st1 resume_def note_limit_root)
qed

lemma on_stop_root:
  "turn_state (on_stop opts r pid signal st) = Some st1 \<Longrightarrow> cl_root_exited st1 = cl_root_exited st \<and> cl_root_status st1 = cl_root_status st"
  by (auto simp: on_stop_def resume_def Let_def split: result.splits if_splits)

lemma on_exit_root:
  "turn_state (on_exit opts pid status st) = Some st1 \<Longrightarrow>
   pid = clo_root_pid opts \<and> cl_root_status st1 = status \<or> cl_root_exited st1 = cl_root_exited st \<and> cl_root_status st1 = cl_root_status st"
  by (auto simp: on_exit_def Let_def split: if_splits)

lemma turn_root:
  assumes "turn_state (collector_turn a opts r st) = Some st1"
  shows "cl_root_exited st1 \<Longrightarrow> root_ended opts [r] (cl_root_status st1) \<or> cl_root_exited st \<and> cl_root_status st1 = cl_root_status st"
proof (cases "wr_status r")
  case (Err e)
  then show "cl_root_exited st1 \<Longrightarrow> ?thesis" using assms by (auto simp: collector_turn_def split: if_splits)
next
  case (Ok status)
  then show "cl_root_exited st1 \<Longrightarrow> ?thesis"
    using assms on_event_root on_stop_root on_exit_root [of opts _ status st st1]
    by (cases status) (auto simp: collector_turn_def root_ended_def split: if_splits)
qed

lemma collect_loop_root:
  "collect_loop a opts rs st = Some (Ok st', rest) \<Longrightarrow> rs = used @ rest \<Longrightarrow> cl_root_exited st' \<Longrightarrow>
   root_ended opts used (cl_root_status st') \<or> cl_root_exited st \<and> cl_root_status st' = cl_root_status st"
proof (induction rs arbitrary: st used)
  case (Cons r rs)
  have turn: "cl_root_exited st1 \<Longrightarrow> root_ended opts [r] (cl_root_status st1) \<or> cl_root_exited st \<and> cl_root_status st1 = cl_root_status st"
    if "turn_state (collector_turn a opts r st) = Some st1" for st1
    using turn_root [OF that] .
  show ?case
  proof (cases "collector_turn a opts r st")
    case (Go_on st1)
    then have l: "collect_loop a opts rs st1 = Some (Ok st', rest)" using Cons.prems(1) by simp
    then obtain used1 where "rs = used1 @ rest" using collect_loop_advances by blast
    then have u: "used = r # used1" "rs = used1 @ rest" using Cons.prems(2) by simp_all
    have "root_ended opts xs s \<Longrightarrow> set xs \<subseteq> set used \<Longrightarrow> root_ended opts used s" for xs s by (auto simp: root_ended_def)
    then show ?thesis using Cons.IH [OF l u(2) Cons.prems(3)] turn [of st1] Go_on u(1) by fastforce
  next
    case (Finished st1)
    then show ?thesis using turn [of st1] Cons.prems by (cases used) (auto simp: root_ended_def)
  next
    case (Fails e)
    then show ?thesis using Cons.prems(1) by simp
  qed
qed simp

subsection \<open>Properties\<close>

text \<open>
  C18: what the tracer records is what it was shown. When it ends, its capture counts exactly the system calls reported for
  processes of the container, each with the time it was first seen, those past the configured limit of events included; the ends of
  the runtime's own helpers are handed back in order and not taken for the container's. The calls it made are exactly those that the stops
  demanded, in order: the trace options once, before the container's process first goes on; one resumption for every stop; no signal
  at traced events, at attach stops of processes not there before and at stops whose signal cannot be read (\<^verbatim>\<open>ESRCH\<close>), and the signal
  itself at every other stop, also at the attach stop of a process whose fork event came first. The exit reported for the container is that of its own process. The tracer ends only when nothing is left to wait for, or
  when the container's process has ended and every process that some round introduced has been reported to have ended since.
\<close>

theorem collector_records_what_it_sees:
  assumes "run_collector a opts now elapsed rounds = Some (Ok out, rest)"
  shows "\<exists>used r. rounds = used @ r # rest \<and>
    plain (cl_capture out) = record_calls (calls_seen opts (used @ [r])) (plain (cl_capture (collector_start a now))) \<and>
    cl_reaped_others out = others_ended opts (used @ [r]) \<and>
    cl_calls out = calls_demanded opts (used @ [r]) \<and>
    (cl_root_exited out \<longrightarrow> root_ended opts (used @ [r]) (cl_root_status out)) \<and>
    (wr_status r = Err Errno_ECHILD \<or> cl_root_exited out \<and> (\<forall>p. \<not> alive opts (used @ [r]) p))"
proof -
  obtain st where l: "collect_loop a opts rounds (collector_start a now) = Some (Ok st, rest)"
    and out: "plain (cl_capture out) = plain (cl_capture st)" "cl_reaped_others out = cl_reaped_others st" "cl_calls out = cl_calls st"
      "cl_root_exited out = cl_root_exited st" "cl_root_status out = cl_root_status st" "cl_tracees out = cl_tracees st"
    using assms by (auto simp: run_collector_def plain_def split: option.splits prod.splits result.splits)
  obtain used r where u: "rounds = used @ r # rest" "wr_status r = Err Errno_ECHILD \<or> cl_root_exited st \<and> cl_tracees st = {}"
    using collect_loop_end [OF l] by blast
  obtain used' where "rounds = used' @ rest" "advances opts used' (collector_start a now) st"
    using collect_loop_advances [OF l] by blast
  then have adv: "advances opts (used @ [r]) (collector_start a now) st" and u': "rounds = (used @ [r]) @ rest"
    using u(1) by (simp_all add: append_eq_append_conv [of used' "used @ [r]" rest rest, simplified] flip: append_assoc)
  have fol: "follows opts (used @ [r]) st"
    using collect_loop_follows [OF l u' follows_start] by simp
  have "cl_root_exited st \<Longrightarrow> root_ended opts (used @ [r]) (cl_root_status st)"
    using collect_loop_root [OF l u'] by (simp add: collector_start_def)
  with u adv fol out show ?thesis
    by (intro exI [of _ used] exI [of _ r]) (auto simp: advances_def follows_def collector_start_def)
qed

definition stop_round :: "trace_status \<Rightarrow> int \<Rightarrow> wait_round" where
  "stop_round status n = \<lparr>wr_status = Ok status, wr_elapsed_ms = 5, wr_number = Ok n, wr_child = Ok 8,
     wr_set_options = Ok (), wr_siginfo = Ok ()\<rparr>"

text \<open>
  The container 7 makes a call, its child 10 is attached before the fork event of child 8 arrives, whose own attach stop comes later; a
  helper 9 ends, the container gets a signal, stops with its group, and all three processes end.
\<close>

definition sample_rounds :: "wait_round list" where
  "sample_rounds = [stop_round (T_Stopped 7 19) 0, stop_round (T_PtraceEvent 7 7) 1, stop_round (T_Stopped 10 19) 0,
     stop_round (T_PtraceEvent 7 1) 0, stop_round (T_Exited 9 0) 0, stop_round (T_Stopped 8 19) 0, stop_round (T_Stopped 7 15) 0,
     (stop_round (T_Stopped 7 20) 0)\<lparr>wr_siginfo := Err Errno_ESRCH\<rparr>,
     stop_round (T_Exited 10 0) 0, stop_round (T_Exited 7 3) 0, stop_round (T_Exited 8 0) 0]"

definition sample_collector :: collector_options where
  "sample_collector = \<lparr>clo_root_pid = 7, clo_exclude_pids = [9], clo_max_events = Some 1\<rparr>"

lemma run_sample: "\<exists>out. run_collector X86_64 sample_collector 100 50 sample_rounds = Some (Ok out, [])"
  by (simp add: run_collector_def sample_collector_def sample_rounds_def stop_round_def collector_turn_def on_stop_def on_event_def on_exit_def
      handle_event_def resume_def note_limit_def collector_start_def is_group_stop_def Let_def SIGSTOP_def PTRACE_EVENT_SECCOMP_def
      PTRACE_EVENT_FORK_def process_creation_syscall_def syscall_name_0_1 insert_Diff_if)

lemma sample_rounds_snoc:
  "sample_rounds = ((((((((((([] @ [stop_round (T_Stopped 7 19) 0]) @ [stop_round (T_PtraceEvent 7 7) 1]) @ [stop_round (T_Stopped 10 19) 0])
     @ [stop_round (T_PtraceEvent 7 1) 0]) @ [stop_round (T_Exited 9 0) 0]) @ [stop_round (T_Stopped 8 19) 0]) @ [stop_round (T_Stopped 7 15) 0])
     @ [(stop_round (T_Stopped 7 20) 0)\<lparr>wr_siginfo := Err Errno_ESRCH\<rparr>]) @ [stop_round (T_Exited 10 0) 0]) @ [stop_round (T_Exited 7 3) 0])
     @ [stop_round (T_Exited 8 0) 0])"
  by (simp add: sample_rounds_def)

lemma history_Nil: "\<not> root_stopped opts []" "\<not> alive opts [] p" "calls_demanded opts [] = []"
  by (simp_all add: root_stopped_def alive_def calls_demanded_def)

lemma sample_history:
  "calls_demanded sample_collector sample_rounds =
     [Set_trace_options 7, Cont 7 None, Cont 7 None, Cont 10 None, Cont 7 None, Cont 8 (Some 19), Cont 7 (Some 15), Cont 7 None]"
  unfolding sample_rounds_snoc
  by (simp add: calls_demanded_snoc alive_snoc root_stopped_snoc history_Nil demanded_def introduces_def ends_process_def
      traced_status_def stop_round_def sample_collector_def SIGSTOP_def PTRACE_EVENT_FORK_def PTRACE_EVENT_VFORK_def PTRACE_EVENT_CLONE_def
      del: append_Nil append_Cons append_assoc append_same_eq)

theorem collector_records_what_it_sees_witness:
  "\<exists>out. run_collector X86_64 sample_collector 100 50 sample_rounds = Some (Ok out, []) \<and>
     cl_reaped_others out = [(9, T_Exited 9 0)] \<and>
     cl_calls out = [Set_trace_options 7, Cont 7 None, Cont 7 None, Cont 10 None, Cont 7 None, Cont 8 (Some 19), Cont 7 (Some 15), Cont 7 None]"
proof -
  obtain out where r: "run_collector X86_64 sample_collector 100 50 sample_rounds = Some (Ok out, [])"
    using run_sample by blast
  have "cl_reaped_others out = others_ended sample_collector sample_rounds" "cl_calls out = calls_demanded sample_collector sample_rounds"
    using collector_records_what_it_sees [OF r] by auto
  moreover have "others_ended sample_collector sample_rounds = [(9, T_Exited 9 0)]"
    by (simp add: others_ended_def sample_rounds_def sample_collector_def stop_round_def)
  ultimately show ?thesis using r sample_history by auto
qed

end
