(* ===== verification/Container_Exec.thy ===== *)
theory Container_Exec
  imports Runtime
begin

text \<open>
  \<^verbatim>\<open>src/container_exec.rs\<close>: running a program in a container. The runtime forks a helper that joins the container's namespaces
  and forks the program; the runtime puts the helper into the container's control group and waits. The
  helper's calls are one action, those of the program's process another (with the calls of \<^verbatim>\<open>Process\<close>). Polling for an exit is a function of what the successive polls
  show. The terminal set-up is left out.
\<close>

subsection \<open>Joining the namespaces\<close>

definition NAMESPACES :: "(string \<times> u32) list" where
  "NAMESPACES = [(''user'', CLONE_NEWUSER), (''mnt'', CLONE_NEWNS), (''uts'', CLONE_NEWUTS), (''ipc'', CLONE_NEWIPC),
     (''net'', CLONE_NEWNET), (''pid'', CLONE_NEWPID)]"

definition namespace_path :: "int \<Rightarrow> string \<Rightarrow> string" where
  "namespace_path pid ns = ''/proc/'' @ int_dec pid @ ''/ns/'' @ ns"

text \<open>\<open>Same_namespace\<close> asks whether the two namespace files are both readable and the same file.\<close>

datatype helper_call =
    Open_target int "u64 option"
  | Same_namespace string int
  | Open_namespace string
  | Set_cloexec string
  | Verify_target
  | Setns string u32
  | Fork_program

type_synonym helper_world = "(helper_call, (errno, nat) result) world"
type_synonym 'a helper_io = "(helper_call, errno, 'a) io"

definition helper_do :: "helper_world \<Rightarrow> helper_call \<Rightarrow> unit helper_io" where
  "helper_do os c = io_bind (io_call os c) (\<lambda>_. io_return ())"

fun open_namespaces :: "helper_world \<Rightarrow> int \<Rightarrow> (string \<times> u32) list \<Rightarrow> (string \<times> u32) list helper_io" where
  "open_namespaces os pid [] = io_return []"
| "open_namespaces os pid ((ns, flag) # rest) =
     io_bind (if ns = ''user'' then io_query os (Same_namespace ns pid) else io_return False) (\<lambda>skip.
     if skip then open_namespaces os pid rest
     else
       let path = namespace_path pid ns in
       io_bind (helper_do os (Open_namespace path)) (\<lambda>_.
       io_bind (helper_do os (Set_cloexec path)) (\<lambda>_.
       io_bind (open_namespaces os pid rest) (\<lambda>fs.
       io_return ((path, flag) # fs)))))"

definition join_namespaces :: "helper_world \<Rightarrow> int \<Rightarrow> unit helper_io" where
  "join_namespaces os pid =
     io_bind (open_namespaces os pid NAMESPACES) (\<lambda>fs.
     io_bind (helper_do os Verify_target) (\<lambda>_.
     io_each (\<lambda>(path, flag). helper_do os (Setns path flag)) fs))"

text \<open>The helper up to the fork of the program's process.\<close>

definition helper_prepare :: "helper_world \<Rightarrow> exec_config \<Rightarrow> unit helper_io" where
  "helper_prepare os c =
     io_bind (helper_do os (Open_target (ec_target_pid c) (ec_target_starttime c))) (\<lambda>_.
     io_bind (join_namespaces os (ec_target_pid c)) (\<lambda>_.
     helper_do os Fork_program))"

subsection \<open>The program's process\<close>

definition exec_plan :: "exec_config \<Rightarrow> seccomp_plan" where
  "exec_plan c = (case ec_seccomp_program c of Some p \<Rightarrow> Plan_Enforce p (ec_seccomp_flags c) | None \<Rightarrow> Plan_None)"

definition exec_command :: "child_world \<Rightarrow> target_arch \<Rightarrow> exec_config \<Rightarrow> unit child_io" where
  "exec_command cw a c =
     io_bind (child_do cw (Child_chdir (unwrap_or (ec_cwd c) ''/''))) (\<lambda>_.
     io_bind (replace_environment cw (ec_env c)) (\<lambda>_.
     io_bind (apply_process_user cw (ec_process_user c) (ec_private_userns c)) (\<lambda>_.
     io_bind (io_lift (if list_all c_string_ok (ec_args c) then Ok () else Err Child_invalid_argument)) (\<lambda>_.
     io_bind (io_map_err Child_apply (io_embed Sec (\<lambda>w s. cw_do cw w (Sec s))
       (\<lambda>os. apply_security_plan os a (ec_security_profile c) (exec_plan c)))) (\<lambda>_.
     child_do cw (Execvp (hd (ec_args c)) (ec_args c)))))))"

subsection \<open>Waiting\<close>

text \<open>
  A poll shows the state of the child, \<open>None\<close> while it is still alive, and whether the deadline has passed; the loop has no
  result when the polls run out. The flag of the result says whether the child was killed.
\<close>

record poll =
  po_status :: "(errno, wait_status option) result"
  po_late :: bool

definition exit_report :: "wait_status \<Rightarrow> exec_report" where
  "exit_report status =
     (case status of
        Exited code \<Rightarrow> \<lparr>er_code = Some code, er_signal = None\<rparr>
      | Signaled s \<Rightarrow> \<lparr>er_code = None, er_signal = Some s\<rparr>
      | Wait_other s \<Rightarrow> \<lparr>er_code = None, er_signal = Some s\<rparr>)"

fun wait_for_exec_child :: "bool \<Rightarrow> poll list \<Rightarrow> ((errno, exec_report) result \<times> bool) option" where
  "wait_for_exec_child timed [] = None"
| "wait_for_exec_child timed (p # ps) =
     (case po_status p of
        Err e \<Rightarrow> Some (Err e, False)
      | Ok (Some status) \<Rightarrow> Some (Ok (exit_report status), False)
      | Ok None \<Rightarrow>
          if timed \<and> po_late p then Some (Ok \<lparr>er_code = None, er_signal = Some ''SIGKILL (timeout)''\<rparr>, True)
          else wait_for_exec_child timed ps)"

text \<open>The status the helper itself exits with once the program has ended.\<close>

definition helper_exit_code :: "exec_report \<Rightarrow> int" where
  "helper_exit_code r =
     (case (er_code r, er_signal r) of
        (Some code, _) \<Rightarrow> code
      | (None, Some _) \<Rightarrow> 128
      | (None, None) \<Rightarrow> 1)"

text \<open>
  The helper's exit as its parent sees it: \<open>prepared\<close> is the outcome of its preparation, \<open>program\<close> what the polls show of
  the program's process. The kernel keeps the low eight bits of an exit status.
\<close>

definition run_namespace_helper :: "(errno, unit) result \<Rightarrow> bool \<Rightarrow> poll list \<Rightarrow> wait_status option" where
  "run_namespace_helper prepared timed program =
     (case prepared of
        Err _ \<Rightarrow> Some (Exited 1)
      | Ok _ \<Rightarrow>
          (case wait_for_exec_child timed program of
             None \<Rightarrow> None
           | Some (Err _, _) \<Rightarrow> Some (Exited 1)
           | Some (Ok r, _) \<Rightarrow> Some (Exited (helper_exit_code r mod 256))))"

subsection \<open>The runtime\<close>

datatype exec_error = Exec_container container_error | Exec_os errno | Exec_cgroup string

datatype exec_parent_call =
    Fork_helper
  | Cgroup_is_dir string
  | Add_helper string
  | Kill_helper
  | Reap_helper
  | Wait_helper

record exec_parent_world =
  ex_fork :: "(errno, unit) result"
  ex_cgroup_dir :: "string \<Rightarrow> bool"
  ex_add :: "string \<Rightarrow> (string, unit) result"
  ex_helper :: "poll list"

definition add_to_cgroup :: "exec_parent_world \<Rightarrow> string \<Rightarrow> (exec_parent_call, string, unit) io" where
  "add_to_cgroup ew path =
     io_bind (io_call (\<lambda>_ _. Ok (ex_cgroup_dir ew path)) (Cgroup_is_dir path)) (\<lambda>dir.
     if \<not> dir then io_lift (Err (''container cgroup path does not exist: '' @ path))
     else io_call (\<lambda>_ _. ex_add ew path) (Add_helper (path_join path ''cgroup.procs'')))"

definition exec_in_container :: "exec_parent_world \<Rightarrow> exec_config \<Rightarrow> (exec_parent_call, exec_error, exec_report option) io" where
  "exec_in_container ew c =
     (if ec_args c = [] then io_lift (Err (Exec_container EmptyExecArgs))
      else
        io_bind (io_map_err Exec_os (io_call (\<lambda>_ _. ex_fork ew) Fork_helper)) (\<lambda>_.
        io_bind (case ec_cgroup_path c of
            None \<Rightarrow> io_return ()
          | Some path \<Rightarrow>
              io_map_err Exec_cgroup (io_on_err (add_to_cgroup ew path)
                (io_bind (io_call (\<lambda>_ _. Ok () :: (string, unit) result) Kill_helper) (\<lambda>_. io_call (\<lambda>_ _. Ok () :: (string, unit) result) Reap_helper)))) (\<lambda>_.
        io_bind (io_map_err Exec_os (io_call (\<lambda>_ _. case wait_for_exec_child False (ex_helper ew) of
            None \<Rightarrow> Ok None | Some (r, _) \<Rightarrow> map_ok Some r) Wait_helper)) (\<lambda>r.
        io_return r))))"

subsection \<open>Properties\<close>

lemma helper_do_Ok [simp]: "helper_do os c w = (w', Ok ()) \<longleftrightarrow> w' = w @ [c] \<and> is_ok (os w c)"
  by (auto simp: helper_do_def is_ok_iff)

definition target_namespace :: "int \<Rightarrow> string \<times> u32 \<Rightarrow> string \<times> u32" where
  "target_namespace pid = (\<lambda>(ns, flag). (namespace_path pid ns, flag))"

definition opening_calls :: "string \<times> u32 \<Rightarrow> helper_call list" where
  "opening_calls = (\<lambda>(path, flag). [Open_namespace path, Set_cloexec path])"

lemma open_namespaces_Ok:
  "\<forall>(ns, flag) \<in> set l. ns \<noteq> ''user'' \<Longrightarrow> open_namespaces os pid l w = (w', Ok fs) \<Longrightarrow>
   fs = map (target_namespace pid) l \<and> w' = w @ concat (map opening_calls fs)"
proof (induction l arbitrary: w fs)
  case (Cons x l)
  obtain ns flag where x: "x = (ns, flag)" by force
  with Cons.prems obtain gs where gs: "open_namespaces os pid l (w @ [Open_namespace (namespace_path pid ns), Set_cloexec (namespace_path pid ns)]) = (w', Ok gs)"
    "fs = (namespace_path pid ns, flag) # gs"
    by (auto simp: Let_def)
  then show ?case using Cons.IH [OF _ gs(1)] Cons.prems(1) by (auto simp: x target_namespace_def opening_calls_def)
qed simp

lemma open_all_Ok:
  assumes "open_namespaces os pid NAMESPACES w = (w', Ok fs)"
  shows "\<exists>same. fs = map (target_namespace pid) (if same then tl NAMESPACES else NAMESPACES) \<and>
    w' = w @ Same_namespace ''user'' pid # concat (map opening_calls fs) \<and>
    (same \<longleftrightarrow> (case os w (Same_namespace ''user'' pid) of Ok n \<Rightarrow> n \<noteq> 0 | Err _ \<Rightarrow> False))"
proof -
  let ?same = "case os w (Same_namespace ''user'' pid) of Ok n \<Rightarrow> n \<noteq> 0 | Err _ \<Rightarrow> False"
  have l: "NAMESPACES = (''user'', CLONE_NEWUSER) # tl NAMESPACES" "\<forall>(ns, flag) \<in> set (tl NAMESPACES). ns \<noteq> ''user''"
    by (simp_all add: NAMESPACES_def)
  let ?w = "w @ [Same_namespace ''user'' pid]" and ?user = "(namespace_path pid ''user'', CLONE_NEWUSER)"
  have o: "open_namespaces os pid ((''user'', CLONE_NEWUSER) # tl NAMESPACES) w = (w', Ok fs)" using assms l(1) by simp
  show ?thesis
  proof (cases ?same)
    case True
    then have "open_namespaces os pid (tl NAMESPACES) ?w = (w', Ok fs)" using o by (simp add: io_bind_probe)
    from open_namespaces_Ok [OF l(2) this] True show ?thesis by (intro exI [of _ True]) simp
  next
    case False
    with o obtain gs where "open_namespaces os pid (tl NAMESPACES) (?w @ opening_calls ?user) = (w', Ok gs)" "fs = ?user # gs"
      by (auto simp: io_bind_probe opening_calls_def Let_def)
    with open_namespaces_Ok [OF l(2) this(1)] False show ?thesis
      by (intro exI [of _ False]) (simp add: l(1) [symmetric] target_namespace_def NAMESPACES_def)
  qed
qed

lemma setns_each:
  "io_each (\<lambda>(path, flag). helper_do os (Setns path flag)) fs w = (w', Ok ()) \<Longrightarrow> w' = w @ map (\<lambda>(path, flag). Setns path flag) fs"
proof (induction fs arbitrary: w)
  case (Cons x fs)
  obtain path flag where x: "x = (path, flag)" by force
  with Cons.prems have "io_each (\<lambda>(path, flag). helper_do os (Setns path flag)) fs (w @ [Setns path flag]) = (w', Ok ())" by auto
  from Cons.IH [OF this] x show ?case by simp
qed simp

lemma exec_user_only: "only not_sec (apply_process_user cw u private)"
  unfolding apply_process_user_def by (auto intro!: io_only split: option.split)

lemma helper_prepare_Ok:
  assumes "helper_prepare os c [] = (h, Ok ())"
  shows "\<exists>same fs. fs = map (target_namespace (ec_target_pid c)) (if same then tl NAMESPACES else NAMESPACES) \<and>
      h = [Open_target (ec_target_pid c) (ec_target_starttime c), Same_namespace ''user'' (ec_target_pid c)] @
        concat (map opening_calls fs) @ [Verify_target] @ map (\<lambda>(path, flag). Setns path flag) fs @ [Fork_program] \<and>
      (same \<longleftrightarrow> (case os [Open_target (ec_target_pid c) (ec_target_starttime c)] (Same_namespace ''user'' (ec_target_pid c)) of
         Ok n \<Rightarrow> n \<noteq> 0 | Err _ \<Rightarrow> False))"
proof -
  let ?open = "Open_target (ec_target_pid c) (ec_target_starttime c)"
  from assms obtain h1 h2 fs where h: "open_namespaces os (ec_target_pid c) NAMESPACES [?open] = (h1, Ok fs)"
      "io_each (\<lambda>(path, flag). helper_do os (Setns path flag)) fs (h1 @ [Verify_target]) = (h2, Ok ())" "h = h2 @ [Fork_program]"
    by (auto simp: helper_prepare_def join_namespaces_def)
  show ?thesis
    using open_all_Ok [OF h(1)] setns_each [OF h(2)] h(3) by auto
qed

lemma exec_command_Ok:
  assumes "exec_command cw a c [] = (w, Ok ())"
  shows "\<exists>user sec. w = Child_chdir (unwrap_or (ec_cwd c) ''/'') # env_calls (ec_env c) @ user @ map Sec sec @ [Execvp (hd (ec_args c)) (ec_args c)] \<and>
      list_all not_sec user \<and> (\<forall>u. ec_process_user c = Some u \<longrightarrow> suffix [Setgid (pu_gid u), Setuid (pu_uid u)] user) \<and>
      map protection (accepted (\<lambda>v s. cw_do cw (Child_chdir (unwrap_or (ec_cwd c) ''/'') # env_calls (ec_env c) @ user @ map Sec v) (Sec s)) sec) =
        protections a (ec_security_profile c) (exec_plan c)"
proof -
  let ?pre = "Child_chdir (unwrap_or (ec_cwd c) ''/'') # env_calls (ec_env c)"
  from assms obtain w1 w2 sec where e: "replace_environment cw (ec_env c) [Child_chdir (unwrap_or (ec_cwd c) ''/'')] = (w1, Ok ())"
      "apply_process_user cw (ec_process_user c) (ec_private_userns c) w1 = (w2, Ok ())"
      "apply_security_plan (\<lambda>v s. cw_do cw (w2 @ map Sec v) (Sec s)) a (ec_security_profile c) (exec_plan c) [] = (sec, Ok ())"
      "w = (w2 @ map Sec sec) @ [Execvp (hd (ec_args c)) (ec_args c)]"
    by (auto simp: exec_command_def)
  have w1: "w1 = ?pre" using replace_environment_Ok [OF e(1)] by simp
  obtain user where user: "w2 = ?pre @ user" "list_all not_sec user" using only_log [OF exec_user_only e(2)] w1 by auto
  have u: "suffix [Setgid (pu_gid u), Setuid (pu_uid u)] user" if "ec_process_user c = Some u" for u
    using e(2) that user(1) w1 by (auto simp: apply_process_user_def suffix_def split: if_splits)
  show ?thesis
    using user u e(4) confinement_complete [OF e(3)] by (intro exI [of _ user] exI [of _ sec]) simp
qed

text \<open>
  A state that records what is launched, as far as a program run in the container later depends on it. The state of a created
  container is one for the options it was created with.
\<close>

definition records_launch :: "container_state \<Rightarrow> string \<Rightarrow> runtime_metadata \<Rightarrow> bool" where
  "records_launch s bundle md \<longleftrightarrow> cs_bundle s = bundle \<and> cs_security_profile s = rm_security_profile md \<and>
     cs_userns_mode s = rm_userns_mode md \<and> cs_seccomp_mode s = rm_seccomp_mode md \<and> cs_seccomp_profile s = rm_seccomp_profile md \<and>
     cs_seccomp_action s = rm_seccomp_action md \<and> cs_seccomp_order s = rm_seccomp_order md \<and> cs_seccomp_log s = rm_seccomp_log md"

lemma created_records_launch: "created now cid bundle md = Ok s \<Longrightarrow> records_launch s bundle md"
  by (auto simp: created_def records_launch_def)

lemma started_records_launch:
  assumes "save_started_state lw ro md existing sp rt = (rt', Ok s)"
    and "existing = None \<or> (\<exists>s0. existing = Some s0 \<and> records_launch s0 (ro_bundle ro) md)"
  shows "records_launch s (ro_bundle ro) md" and "cs_pid s = Some (sp_pid sp)"
    and "cs_process_starttime s = ok_value (process_starttime (lw_env lw) (sp_pid sp))" and "cs_cgroup_path s = sp_cgroup_path sp"
  using assms
  by (auto simp: save_started_state_def running_def mark_running_def records_launch_def started_resources_of_def split: option.splits)

lemma launch_plan_Ok:
  assumes "launch_plan lw is_root ro = Ok (config, md, pc)"
  obtains compiled where "load_bundle_config lw (ro_bundle ro) = Ok config"
    "prepare (lw_arch lw) (lw_load_profile lw) (ro_seccomp ro) = Ok compiled"
    "pc_env pc = pr_env (cfg_process config)" "pc_cwd pc = pr_cwd (cfg_process config)" "pc_process_user pc = pr_user (cfg_process config)"
    "rm_security_profile md = security_as_str (pc_security_profile pc)" "pc_userns_mode pc = ro_userns_mode ro"
    "rm_userns_mode md = userns_as_str (ro_userns_mode ro)" "pc_seccomp_mode pc = so_mode (ro_seccomp ro)"
    "pc_seccomp_program pc = map_option cp_program compiled" "pc_seccomp_flags pc = filter_flags (ro_seccomp ro)"
    "rm_seccomp_mode md = mode_as_str (so_mode (ro_seccomp ro))" "rm_seccomp_profile md = so_profile_path (ro_seccomp ro)"
    "rm_seccomp_action md = Some (action_as_str (so_action (ro_seccomp ro)))" "rm_seccomp_order md = order_as_str (so_order (ro_seccomp ro))"
    "rm_seccomp_log md = so_log (ro_seccomp ro)"
  using assms
  by (auto simp: launch_plan_def Let_def metadata_of_def process_config_of_def build_process_config_def unwrap_or_def
      split: option.splits if_splits)

text \<open>The filter that \<^verbatim>\<open>exec\<close> compiles from the recorded settings is the one the container's process was started with.\<close>

lemma exec_filter_same:
  assumes "records_launch s bundle md" "rm_seccomp_mode md = mode_as_str (so_mode sec)" "rm_seccomp_profile md = so_profile_path sec"
    "rm_seccomp_action md = Some (action_as_str (so_action sec))" "rm_seccomp_order md = order_as_str (so_order sec)"
    and "prepare (lw_arch lw) (lw_load_profile lw) sec = Ok compiled"
  shows "exec_seccomp_program lw s = Ok compiled"
proof (cases "so_mode sec")
  case Enforce
  then show ?thesis
    using assms by (auto simp: prepare_def exec_seccomp_program_def records_launch_def)
qed (use assms in \<open>auto simp: prepare_def exec_seccomp_program_def records_launch_def split: option.split\<close>)

lemma exec_config_of_launched:
  assumes plan: "launch_plan lw is_root ro = Ok (config, md, pc)" and rec: "records_launch s (ro_bundle ro) md"
    and files: "load_bundle_config lw' (ro_bundle ro) = load_bundle_config lw (ro_bundle ro)" "lw_load_profile lw' = lw_load_profile lw"
      "lw_arch lw' = lw_arch lw"
    and c: "exec_config_of lw' cid s args tty = Ok c" and learn: "so_mode (ro_seccomp ro) \<noteq> Learn"
  shows "Some (ec_target_pid c) = cs_pid s \<and> ec_target_starttime c = cs_process_starttime s \<and> ec_cgroup_path c = cs_cgroup_path s \<and>
    ec_args c = args \<and> ec_env c = pc_env pc \<and> ec_cwd c = pc_cwd pc \<and> ec_process_user c = pc_process_user pc \<and>
    ec_private_userns c = userns_is_private (pc_userns_mode pc) \<and> ec_security_profile c = pc_security_profile pc \<and>
    exec_plan c = child_seccomp_plan (child_config_of pc net root)"
proof -
  obtain compiled where p: "load_bundle_config lw (ro_bundle ro) = Ok config"
    "prepare (lw_arch lw) (lw_load_profile lw) (ro_seccomp ro) = Ok compiled"
    "pc_env pc = pr_env (cfg_process config)" "pc_cwd pc = pr_cwd (cfg_process config)" "pc_process_user pc = pr_user (cfg_process config)"
    "rm_security_profile md = security_as_str (pc_security_profile pc)" "pc_userns_mode pc = ro_userns_mode ro"
    "rm_userns_mode md = userns_as_str (ro_userns_mode ro)" "pc_seccomp_mode pc = so_mode (ro_seccomp ro)"
    "pc_seccomp_program pc = map_option cp_program compiled" "pc_seccomp_flags pc = filter_flags (ro_seccomp ro)"
    "rm_seccomp_mode md = mode_as_str (so_mode (ro_seccomp ro))" "rm_seccomp_profile md = so_profile_path (ro_seccomp ro)"
    "rm_seccomp_action md = Some (action_as_str (so_action (ro_seccomp ro)))" "rm_seccomp_order md = order_as_str (so_order (ro_seccomp ro))"
    "rm_seccomp_log md = so_log (ro_seccomp ro)"
    by (rule launch_plan_Ok [OF plan])
  have filter: "exec_seccomp_program lw' s = Ok compiled"
    using exec_filter_same [OF rec p(12-15)] p(2) files(2,3) by simp
  have off: "so_mode (ro_seccomp ro) = Off \<Longrightarrow> compiled = None" using p(2) by (simp add: prepare_def)
  show ?thesis
    using c p filter files(1) rec learn off
    by (cases "so_mode (ro_seccomp ro)"; cases "ro_userns_mode ro")
      (auto simp: exec_config_of_def records_launch_def exec_plan_def child_seccomp_plan_def child_config_of_def filter_flags_def
        split: option.split)
qed

text \<open>
  C5: a program that \<^verbatim>\<open>exec\<close> runs in a container is confined exactly like the container's own process, for a container that was
  started by \<^verbatim>\<open>run\<close>, or by \<^verbatim>\<open>start\<close> from a state that records the options it is started with, is not being learned from, and whose bundle and profile
  files have not changed. Its process is forked only after the helper has joined every
  namespace of the recorded process (its user namespace unless that is the runtime's own), through files opened before it checked that
  the target is still that process; and it executes the program only after the container's environment replaced its own,
  the container's user was taken on and every protection that the container's own process is started with, the security profile and the
  compiled filter included, was accepted by the kernel. (This is about \<^verbatim>\<open>exec\<close>: health checks run through the same helper but are
  given no filter on purpose; and the container's resource limits are not set for either.)
\<close>

theorem exec_process_confined:
  assumes "launch_plan lw is_root ro = Ok (config, md, pc)" "launch lw is_root run ro existing rt = (rt', Ok (args0, s, ended))"
    and "existing = None \<or> (\<exists>s0. existing = Some s0 \<and> records_launch s0 (ro_bundle ro) md)" "so_mode (ro_seccomp ro) \<noteq> Learn"
    and "load_bundle_config lw' (ro_bundle ro) = load_bundle_config lw (ro_bundle ro)" "lw_load_profile lw' = lw_load_profile lw"
      "lw_arch lw' = lw_arch lw"
    and "exec_config_of lw' cid s args tty = Ok c"
    and "helper_prepare os c [] = (h, Ok ())" "exec_command cw (lw_arch lw') c [] = (w, Ok ())"
  shows "\<exists>sp same fs user sec. run pc = Starts sp ended \<and> ec_target_pid c = sp_pid sp \<and> ec_cgroup_path c = sp_cgroup_path sp \<and>
      ec_target_starttime c = ok_value (process_starttime (lw_env lw) (sp_pid sp)) \<and>
      fs = map (target_namespace (sp_pid sp)) (if same then tl NAMESPACES else NAMESPACES) \<and>
      h = [Open_target (sp_pid sp) (ec_target_starttime c), Same_namespace ''user'' (sp_pid sp)] @
        concat (map opening_calls fs) @ [Verify_target] @ map (\<lambda>(path, flag). Setns path flag) fs @ [Fork_program] \<and>
      (same \<longleftrightarrow> (case os [Open_target (sp_pid sp) (ec_target_starttime c)] (Same_namespace ''user'' (sp_pid sp)) of
         Ok n \<Rightarrow> n \<noteq> 0 | Err _ \<Rightarrow> False)) \<and>
      w = Child_chdir (unwrap_or (pc_cwd pc) ''/'') # env_calls (pc_env pc) @ user @ map Sec sec @ [Execvp (hd args) args] \<and>
      list_all not_sec user \<and> (\<forall>u. pc_process_user pc = Some u \<longrightarrow> suffix [Setgid (pu_gid u), Setuid (pu_uid u)] user) \<and>
      map protection (accepted (\<lambda>v s. cw_do cw (Child_chdir (unwrap_or (pc_cwd pc) ''/'') # env_calls (pc_env pc) @ user @ map Sec v) (Sec s)) sec) =
        protections (lw_arch lw) (pc_security_profile pc) (child_seccomp_plan (child_config_of pc net root))"
proof -
  obtain sp rt1 where run: "run pc = Starts sp ended" "save_started_state lw ro md existing sp rt = (rt1, Ok s)"
    using assms(1,2) by (auto simp: launch_def split: run_outcome.splits)
  note rec = started_records_launch [OF run(2) assms(3)]
  note c = exec_config_of_launched [OF assms(1) rec(1) assms(5-8) assms(4), of net root]
  then have pid: "ec_target_pid c = sp_pid sp" using rec(2) by simp
  show ?thesis
    using run(1) rec(3,4) c pid assms(7) helper_prepare_Ok [OF assms(9)] exec_command_Ok [OF assms(10)] by auto
qed

text \<open>A container with the denylist profile and an allow list compiled from \<open>example_profile\<close>, in which a second program is run.\<close>

definition strict_bundle :: oci_config where
  "strict_bundle = sample_bundle\<lparr>cfg_crun := None, cfg_process := (cfg_process sample_bundle)
     \<lparr>pr_env := [''A=1''], pr_user := Some \<lparr>pu_uid = 10, pu_gid = 20, pu_additional_gids = []\<rparr>\<rparr>\<rparr>"

definition strict_lw :: lifecycle_world where
  "strict_lw = sample_lw\<lparr>lw_parse := (\<lambda>_. Some strict_bundle), lw_load_profile := (\<lambda>_. Ok example_profile)\<rparr>"

definition strict_run :: container_run_options where
  "strict_run = \<lparr>ro_id = ''web'', ro_bundle = ''/b'', ro_network_mode = Net_None, ro_security_profile = Denylist, ro_log_mode = Log_Auto,
     ro_userns_mode = Userns_Host, ro_tty = False, ro_capture_logs = False,
     ro_seccomp = \<lparr>so_mode = Enforce, so_profile_path = Some ''/p.json'', so_capture_path = None, so_action = Act_Errno, so_order = ByNumber,
       so_log = False\<rparr>\<rparr>"

definition started_42 :: started_process where
  "started_42 = \<lparr>sp_pid = 42, sp_cgroup_path = Some ''/cg/web'', sp_network_subnet = None, sp_nat_lease = None, sp_overlay_ownership = None\<rparr>"

definition strict_opts :: compile_options where
  "strict_opts = \<lparr>co_default_action = Act_Errno, co_order = ByNumber\<rparr>"

lemma load_strict_bundle: "load_bundle_config strict_lw bundle = Ok strict_bundle"
proof -
  have "validate_config strict_bundle = Ok ()" by code_simp
  then show ?thesis by (simp add: load_bundle_config_def load_config_def strict_lw_def sample_lw_def)
qed

lemma save_started_strict: "save_started_state strict_lw ro md existing sp = save_started_state sample_lw ro md existing sp"
  by (cases existing) (simp_all add: save_started_state_def lc_append_def strict_lw_def)

lemma strict_launch:
  assumes "compile X86_64 example_profile strict_opts = Ok prog"
  obtains md pc rt s where "launch_plan strict_lw True strict_run = Ok (strict_bundle, md, pc)"
    "launch strict_lw True (\<lambda>_. Starts started_42 ended) strict_run None empty_runtime = (rt, Ok ([''/bin/sh''], s, ended))"
    "pc_security_profile pc = Denylist" "child_seccomp_plan (child_config_of pc Net_None True) = Plan_Enforce (cp_program prog) 0"
    "pc_env pc = [''A=1'']" "pc_cwd pc = None" "pc_process_user pc = Some \<lparr>pu_uid = 10, pu_gid = 20, pu_additional_gids = []\<rparr>"
    "pc_userns_mode pc = Userns_Host"
proof -
  obtain pol where pol: "resolve_policy strict_bundle Denylist Log_Auto = Ok pol" "ep_security_profile pol = Denylist"
    by (simp add: resolve_policy_def resolve_effective_policy_def policy_from_config_def strict_bundle_def apply_security_def)
  obtain flags where flags: "effective_namespace_flags [] Net_None Userns_Host = Ok flags"
    by (simp add: effective_namespace_flags_def namespace_flags_def)
  obtain log where log: "log_path ''web'' = Ok log" using sample_id by (simp add: log_path_def)
  have net: "to_effective True Net_None = Net_None" by (simp add: to_effective_def)
  have prep: "prepare X86_64 (\<lambda>_. Ok example_profile) (ro_seccomp strict_run) = Ok (Some prog)"
    using assms by (simp add: prepare_def strict_run_def strict_opts_def)
  obtain md pc where plan: "launch_plan strict_lw True strict_run = Ok (strict_bundle, md, pc)"
    and pc: "pc_security_profile pc = Denylist" "child_seccomp_plan (child_config_of pc Net_None True) = Plan_Enforce (cp_program prog) 0"
      "pc_env pc = [''A=1'']" "pc_cwd pc = None" "pc_process_user pc = Some \<lparr>pu_uid = 10, pu_gid = 20, pu_additional_gids = []\<rparr>"
      "pc_userns_mode pc = Userns_Host"
    using pol flags log net prep
    by (simp add: launch_plan_def Let_def load_strict_bundle process_config_of_def build_process_config_def child_seccomp_plan_def
        child_config_of_def filter_flags_def validate_process_user_def unwrap_or_def)
      (simp add: strict_run_def strict_lw_def strict_bundle_def sample_lw_def sample_bundle_def unwrap_or_def)
  have "store_wf (rt_store empty_runtime)" using empty_runtime_wf by (simp add: runtime_wf_def)
  then obtain rt s where "save_started_state strict_lw strict_run md None started_42 empty_runtime = (rt, Ok s)"
    using save_started_sample [of empty_runtime strict_run started_42 md] unfolding save_started_strict
    by (auto simp: strict_run_def started_42_def)
  then have "launch strict_lw True (\<lambda>_. Starts started_42 ended) strict_run None empty_runtime = (rt, Ok ([''/bin/sh''], s, ended))"
    using plan by (simp add: launch_def strict_bundle_def sample_bundle_def)
  then show ?thesis using that plan pc by blast
qed

lemma strict_helper:
  assumes "ec_target_pid c = 42" shows "snd (helper_prepare (\<lambda>_ _. Ok 0) c []) = Ok ()"
  using assms by (simp add: helper_prepare_def join_namespaces_def NAMESPACES_def io_defs io_query_def io_probe_def helper_do_def Let_def)

lemma program_short: "build_allowlist a allowed action = Ok p \<Longrightarrow> length (insns p) \<le> 65535"
  by (auto simp: build_allowlist_errors Let_def length_allowlist_insns split: option.splits if_splits target_arch.splits)

lemma strict_command:
  assumes "ec_args c = [''/bin/ls'']" "ec_env c = [''A=1'']" "ec_cwd c = None" "ec_private_userns c = False"
    "ec_process_user c = Some \<lparr>pu_uid = 10, pu_gid = 20, pu_additional_gids = []\<rparr>" "ec_security_profile c = Denylist"
    "exec_plan c = Plan_Enforce p 0" "length (insns p) \<le> 65535"
  shows "snd (exec_command sample_child X86_64 c []) = Ok ()"
proof -
  have "length (denylist_insns X86_64) \<le> 65535" by (simp add: denylist_insns_def jeq_pair_def)
  moreover have "cw_do sample_child w call = Ok ()" for w call by (simp add: sample_child_def)
  moreover have "validate_environment [''A=1''] = Ok ()" "list_all c_string_ok [''/bin/ls'']"
    "snd (set_item sample_child ''A=1'' [Child_chdir ''/'', Clearenv]) = Ok ()" by code_simp+
  ultimately show ?thesis
    using assms
    by (auto simp: exec_command_def io_defs io_embed_def apply_process_user_def
        apply_security_plan_def drop_capabilities_def install_seccomp_filter_def
        seccomp_denylist_filter_eq install_def replace_environment_def child_do_def unwrap_or_def
        split: prod.split result.split)
qed

theorem exec_process_confined_witness:
  "\<exists>rt s c prog user sec.
     launch strict_lw True (\<lambda>_. Starts started_42 (Err ''later'')) strict_run None empty_runtime = (rt, Ok ([''/bin/sh''], s, Err ''later'')) \<and>
     exec_config_of strict_lw ''web'' s [''/bin/ls''] False = Ok c \<and> compile X86_64 example_profile strict_opts = Ok prog \<and>
     fst (exec_command sample_child X86_64 c []) =
       [Child_chdir ''/'', Clearenv, Setenv ''A'' ''1''] @ user @ map Sec sec @ [Execvp ''/bin/ls'' [''/bin/ls'']] \<and>
     suffix [Setgid 20, Setuid 10] user \<and>
     map protection (accepted (\<lambda>v s. cw_do sample_child ([Child_chdir ''/'', Clearenv, Setenv ''A'' ''1''] @ user @ map Sec v) (Sec s)) sec) =
       [Set_no_new_privs, Capset empty_capability_data, Filter (Seccomp_set_mode_filter 0 \<lparr>insns = denylist_insns X86_64\<rparr>),
        Filter (Seccomp_set_mode_filter 0 (cp_program prog))]"
proof -
  obtain prog where prog: "compile X86_64 example_profile strict_opts = Ok prog"
      "build_allowlist X86_64 (cp_allowed prog) (co_default_action strict_opts) = Ok (cp_program prog)"
    using compile_Ok [OF example_profile_simps(1)] by blast
  obtain md pc rt s where plan: "launch_plan strict_lw True strict_run = Ok (strict_bundle, md, pc)"
    and l: "launch strict_lw True (\<lambda>_. Starts started_42 (Err ''later'')) strict_run None empty_runtime = (rt, Ok ([''/bin/sh''], s, Err ''later''))"
    and pc: "pc_security_profile pc = Denylist" "child_seccomp_plan (child_config_of pc Net_None True) = Plan_Enforce (cp_program prog) 0"
      "pc_env pc = [''A=1'']" "pc_cwd pc = None" "pc_process_user pc = Some \<lparr>pu_uid = 10, pu_gid = 20, pu_additional_gids = []\<rparr>"
      "pc_userns_mode pc = Userns_Host"
    by (rule strict_launch [OF prog(1)])
  have learn: "so_mode (ro_seccomp strict_run) \<noteq> Learn" and arch: "lw_arch strict_lw = X86_64"
    by (simp_all add: strict_run_def strict_lw_def sample_lw_def)
  obtain sp rt1 where "save_started_state strict_lw strict_run md None sp empty_runtime = (rt1, Ok s)" "sp_pid sp = 42"
    using plan l by (auto simp: launch_def started_42_def)
  note rec = started_records_launch [OF this(1)] and pid = this(2)
  have rl: "records_launch s (ro_bundle strict_run) md" using rec(1) by simp
  obtain compiled where "prepare (lw_arch strict_lw) (lw_load_profile strict_lw) (ro_seccomp strict_run) = Ok compiled"
    "rm_security_profile md = security_as_str (pc_security_profile pc)"
    "rm_seccomp_mode md = mode_as_str (so_mode (ro_seccomp strict_run))" "rm_seccomp_profile md = so_profile_path (ro_seccomp strict_run)"
    "rm_seccomp_action md = Some (action_as_str (so_action (ro_seccomp strict_run)))"
    "rm_seccomp_order md = order_as_str (so_order (ro_seccomp strict_run))"
    by (rule launch_plan_Ok [OF plan])
  then have "exec_seccomp_program strict_lw s = Ok compiled" "cs_security_profile s = security_as_str (pc_security_profile pc)"
    using exec_filter_same [OF rl] rl by (auto simp: records_launch_def)
  then obtain c where c: "exec_config_of strict_lw ''web'' s [''/bin/ls''] False = Ok c"
    using rec(2) pid by (simp add: exec_config_of_def load_strict_bundle)
  note same = exec_config_of_launched [OF plan rl refl refl refl c learn, of Net_None True]
  have h: "helper_prepare (\<lambda>_ _. Ok 0) c [] = (fst (helper_prepare (\<lambda>_ _. Ok 0) c []), Ok ())"
    using strict_helper [of c] same rec(2) pid by (metis option.inject prod.collapse)
  have w: "exec_command sample_child (lw_arch strict_lw) c [] = (fst (exec_command sample_child X86_64 c []), Ok ())"
    using strict_command [of c "cp_program prog"] same pc program_short [OF prog(2)] by (simp add: arch prod_eq_iff)
  have pre: "Child_chdir (unwrap_or None ''/'') # env_calls [''A=1''] @ v = [Child_chdir ''/'', Clearenv, Setenv ''A'' ''1''] @ v" for v
    by (simp add: env_calls_def env_key_def unwrap_or_def)
  have prot: "protections X86_64 Denylist (Plan_Enforce (cp_program prog) 0) =
      [Set_no_new_privs, Capset empty_capability_data, Filter (Seccomp_set_mode_filter 0 \<lparr>insns = denylist_insns X86_64\<rparr>),
       Filter (Seccomp_set_mode_filter 0 (cp_program prog))]" by (simp add: protections_def)
  have user: "(\<forall>u. Some \<lparr>pu_uid = 10, pu_gid = 20, pu_additional_gids = []\<rparr> = Some u \<longrightarrow> suffix [Setgid (pu_gid u), Setuid (pu_uid u)] v) \<longleftrightarrow>
      suffix [Setgid 20, Setuid 10] v" for v by simp
  have args: "hd [''/bin/ls''] = ''/bin/ls''" by simp
  have "None = None \<or> (\<exists>s0. None = Some s0 \<and> records_launch s0 (ro_bundle strict_run) md)" by simp
  from exec_process_confined [OF plan l this learn refl refl refl c h w, of Net_None True, unfolded pc(1-5) arch pre prot user args]
  show ?thesis by (elim exE conjE) (intro exI conjI, rule l, rule c, rule prog(1), assumption+)
qed

text \<open>
  What the runtime is told of a program that was killed: the helper turns a signal into the exit status 128, so the report never
  names a signal.
\<close>

lemma killed_program_exits_128:
  assumes "wait_for_exec_child timed program = Some (Ok r, late)" "er_code r = None" "er_signal r = Some s"
  shows "map_option exit_report (run_namespace_helper (Ok ()) timed program) = Some \<lparr>er_code = Some 128, er_signal = None\<rparr>"
  using assms by (simp add: run_namespace_helper_def helper_exit_code_def exit_report_def)

lemma exec_report_never_signaled:
  "run_namespace_helper prepared timed program = Some status \<Longrightarrow> er_signal (exit_report status) = None"
  by (auto simp: run_namespace_helper_def exit_report_def split: result.splits option.splits prod.splits)

end
