(* ===== verification/Image.thy ===== *)
theory Image
  imports State
begin

text \<open>
  \<^verbatim>\<open>src/image.rs\<close>: importing a root file system archive as an image. The \<^verbatim>\<open>tar\<close> crate is not part of the
  program: an \<open>archive\<close> is what its reader delivers, entry by entry, and unpacking is one call. Reading an archive changes
  nothing and is not logged; the calls that change the image store, or look at it, are.
\<close>

subsection \<open>Names\<close>

definition DEFAULT_IMAGE_ROOT :: string where "DEFAULT_IMAGE_ROOT = ''/var/lib/crun-rs/images''"

text \<open>The bytes of a name are those of a container id.\<close>

definition validate_image_name :: "string \<Rightarrow> (image_error, unit) result" where
  "validate_image_name name =
     (if name = [] then Err EmptyImageName
      else if name \<in> {''.'', ''..''} \<or> \<not> list_all is_id_byte name then Err InvalidImageName
      else Ok ())"

definition image_dir :: "string \<Rightarrow> string \<Rightarrow> string" where
  "image_dir root name = path_join root name"

record image_info =
  ii_name :: string
  ii_path :: string
  ii_rootfs :: string

definition image_info_of :: "string \<Rightarrow> string \<Rightarrow> (image_error, image_info) result" where
  "image_info_of root name =
     and_then (validate_image_name name) (\<lambda>_.
     Ok \<lparr>ii_name = name, ii_path = image_dir root name, ii_rootfs = path_join (image_dir root name) ''rootfs''\<rparr>)"

subsection \<open>Archives\<close>

definition MAX_ARCHIVE_BYTES :: u64 where "MAX_ARCHIVE_BYTES = 4 * 1024 * 1024 * 1024"
definition MAX_ARCHIVE_ENTRIES :: u64 where "MAX_ARCHIVE_ENTRIES = 100000"
definition MAX_ARCHIVE_FILE_BYTES :: u64 where "MAX_ARCHIVE_FILE_BYTES = 512 * 1024 * 1024"
definition MAX_ARCHIVE_UNPACKED_BYTES :: u64 where "MAX_ARCHIVE_UNPACKED_BYTES = 4 * 1024 * 1024 * 1024"

datatype entry_type =
    Regular | Contiguous | Symlink | Hard_link | Directory | Character_device | Block_device | Fifo | Other_entry

record tar_entry =
  te_path :: "(string, string) result"
  te_type :: entry_type
  te_size :: u64
  te_link_name :: "(string, string option) result"

record archive =
  ar_len :: "(string, u64) result"
  ar_entries :: "(string, (string, tar_entry) result list) result"

datatype import_error = Image_error image_error | Image_io string | Image_cleanup import_error string

definition validate_archive_path :: "string \<Rightarrow> (image_error, unit) result" where
  "validate_archive_path path =
     (if is_absolute path \<or> list_ex (\<lambda>c. c = ParentDir) (components path) then Err (ArchivePathEscapesRootfs path) else Ok ())"

definition validate_link_target :: "string \<Rightarrow> string \<Rightarrow> bool \<Rightarrow> (image_error, unit) result" where
  "validate_link_target path target allow_absolute =
     (if \<not> allow_absolute \<and> is_absolute target \<or> list_ex (\<lambda>c. c = ParentDir) (components target)
      then Err (ArchivePathEscapesRootfs (path @ '' -> '' @ target)) else Ok ())"

definition archive_entry_kind :: "entry_type \<Rightarrow> string" where
  "archive_entry_kind t =
     (if t = Character_device then ''character device''
      else if t = Block_device then ''block device''
      else if t = Fifo then ''fifo''
      else ''unsupported'')"

definition saturating_add_u64 :: "u64 \<Rightarrow> u64 \<Rightarrow> u64" where
  "saturating_add_u64 x y = (if unat x + unat y < 2 ^ 64 then x + y else 2 ^ 64 - 1)"

definition check_link :: "tar_entry \<Rightarrow> string \<Rightarrow> bool \<Rightarrow> (import_error, unit) result" where
  "check_link e path allow_absolute =
     and_then (map_err Image_io (te_link_name e)) (\<lambda>link.
     and_then (ok_or link (Image_error (ArchiveLinkTargetMissing path))) (\<lambda>target.
     map_err Image_error (validate_link_target path target allow_absolute)))"

text \<open>One entry: the bytes unpacked so far, with those of this entry.\<close>

definition preflight_entry :: "tar_entry \<Rightarrow> u64 \<Rightarrow> (import_error, u64) result" where
  "preflight_entry e unpacked =
     and_then (map_err Image_io (te_path e)) (\<lambda>path.
     and_then (map_err Image_error (validate_archive_path path)) (\<lambda>_.
     if te_type e = Regular \<or> te_type e = Contiguous then
       if MAX_ARCHIVE_FILE_BYTES < te_size e
       then Err (Image_error (ArchiveFileTooLarge path (unat (te_size e)) (unat MAX_ARCHIVE_FILE_BYTES)))
       else
         let unpacked = saturating_add_u64 unpacked (te_size e) in
         if MAX_ARCHIVE_UNPACKED_BYTES < unpacked then Err (Image_error (ArchiveTooLarge (unat MAX_ARCHIVE_UNPACKED_BYTES)))
         else Ok unpacked
     else if te_type e = Symlink then map_ok (\<lambda>_. unpacked) (check_link e path True)
     else if te_type e = Hard_link then map_ok (\<lambda>_. unpacked) (check_link e path False)
     else if te_type e = Directory then Ok unpacked
     else Err (Image_error (UnsupportedArchiveEntry path (archive_entry_kind (te_type e))))))"

fun preflight_loop :: "(string, tar_entry) result list \<Rightarrow> u64 \<Rightarrow> u64 \<Rightarrow> (import_error, unit) result" where
  "preflight_loop [] entries unpacked = Ok ()"
| "preflight_loop (r # rs) entries unpacked =
     and_then (map_err Image_io r) (\<lambda>e.
     let entries = saturating_add_u64 entries 1 in
     if MAX_ARCHIVE_ENTRIES < entries then Err (Image_error (ArchiveTooManyEntries (unat MAX_ARCHIVE_ENTRIES)))
     else and_then (preflight_entry e unpacked) (\<lambda>unpacked. preflight_loop rs entries unpacked))"

definition preflight_archive :: "archive \<Rightarrow> (import_error, unit) result" where
  "preflight_archive ar =
     and_then (map_err Image_io (ar_len ar)) (\<lambda>len.
     if MAX_ARCHIVE_BYTES < len then Err (Image_error (ArchiveTooLarge (unat MAX_ARCHIVE_BYTES)))
     else and_then (map_err Image_io (ar_entries ar)) (\<lambda>rs. preflight_loop rs 0 0))"

subsection \<open>The configuration of an imported image\<close>

text \<open>The configuration the written \<^verbatim>\<open>config.json\<close> stands for; fields it leaves out have the parser's defaults.\<close>

definition minimal_config :: oci_config where
  "minimal_config =
     \<lparr>cfg_hostname = None,
      cfg_process = \<lparr>pr_args = [''/bin/sh''],
        pr_env = [''PATH=/usr/local/sbin:/usr/local/bin:/usr/sbin:/usr/bin:/sbin:/bin''],
        pr_cwd = Some ''/'', pr_user = None, pr_capabilities = None, pr_rlimits = []\<rparr>,
      cfg_root = \<lparr>root_path = ''rootfs'', root_readonly = False\<rparr>,
      cfg_mounts = [], cfg_healthcheck = None,
      cfg_linux = Some \<lparr>lx_namespaces = map (\<lambda>t. \<lparr>namespace_type = t\<rparr>) [''pid'', ''mount'', ''uts'', ''ipc'', ''network''],
        lx_resources = None, lx_masked_paths = [], lx_readonly_paths = []\<rparr>,
      cfg_crun = None\<rparr>"

subsection \<open>Importing and listing\<close>

datatype image_call =
    Tar_is_file string
  | Image_create_dirs string
  | Image_exists string
  | Unpack string string
  | Write_config string
  | Image_remove_dirs string

type_synonym image_world = "(image_call, (string, nat) result) world"
type_synonym 'a image_io = "(image_call, import_error, 'a) io"

definition image_do :: "image_world \<Rightarrow> image_call \<Rightarrow> unit image_io" where
  "image_do os c = io_map_err Image_io (io_bind (io_call os c) (\<lambda>_. io_return ()))"

definition extract_rootfs :: "image_world \<Rightarrow> archive \<Rightarrow> string \<Rightarrow> string \<Rightarrow> unit image_io" where
  "extract_rootfs os ar tar rootfs = io_bind (io_lift (preflight_archive ar)) (\<lambda>_. image_do os (Unpack tar rootfs))"

definition write_minimal_config :: "image_world \<Rightarrow> string \<Rightarrow> unit image_io" where
  "write_minimal_config os dir = image_do os (Write_config (path_join dir ''config.json''))"

text \<open>
  Removing a directory that is not there counts as done, as \<^verbatim>\<open>NotFound\<close> is let through. \<open>image_do\<close> succeeds on it.
\<close>

definition import_into :: "image_world \<Rightarrow> archive \<Rightarrow> string \<Rightarrow> string \<Rightarrow> string \<Rightarrow> image_info image_io" where
  "import_into os ar root tar name =
     io_bind (io_lift (map_err Image_error (validate_image_name name))) (\<lambda>_.
     io_bind (io_query os (Tar_is_file tar)) (\<lambda>is_file.
     if \<not> is_file then io_lift (Err (Image_error (RootfsTarDoesNotExist tar)))
     else
       io_bind (image_do os (Image_create_dirs root)) (\<lambda>_.
       let dir = image_dir root name; rootfs = path_join dir ''rootfs'' in
       io_bind (io_query os (Image_exists dir)) (\<lambda>there.
       if there then io_lift (Err (Image_error (ImageAlreadyExists name)))
       else
         io_bind (image_do os (Image_create_dirs rootfs)) (\<lambda>_.
         io_bind (io_handle (io_bind (extract_rootfs os ar tar rootfs) (\<lambda>_. write_minimal_config os dir)) (\<lambda>r.
           case r of
             Ok _ \<Rightarrow> io_return ()
           | Err e \<Rightarrow>
               io_handle (io_call os (Image_remove_dirs dir)) (\<lambda>removed.
               io_lift (Err (case removed of Ok _ \<Rightarrow> e | Err e' \<Rightarrow> Image_cleanup e e'))))) (\<lambda>_.
         io_lift (map_err Image_error (image_info_of root name))))))))"

text \<open>What a directory entry of the image root shows; the first failure ends the listing.\<close>

record image_entry =
  ie_name :: string
  ie_is_dir :: "(string, bool) result"
  ie_has_rootfs :: bool
  ie_has_config :: bool

fun list_entries :: "string \<Rightarrow> (string, image_entry) result list \<Rightarrow> (import_error, image_info list) result" where
  "list_entries root [] = Ok []"
| "list_entries root (r # rs) =
     and_then (map_err Image_io r) (\<lambda>e.
     and_then (map_err Image_io (ie_is_dir e)) (\<lambda>is_dir.
     if \<not> is_dir \<or> \<not> ie_has_rootfs e \<or> \<not> ie_has_config e then list_entries root rs
     else
       and_then (map_err Image_error (image_info_of root (ie_name e))) (\<lambda>i.
       map_ok ((#) i) (list_entries root rs))))"

definition list_images ::
    "string \<Rightarrow> bool \<Rightarrow> (string, (string, image_entry) result list) result \<Rightarrow> (import_error, image_info list) result" where
  "list_images root there entries =
     (if \<not> there then Ok []
      else
        and_then (map_err Image_io entries) (\<lambda>rs.
        map_ok (sort_by (\<lambda>x y. cmp (ii_name x) (ii_name y))) (list_entries root rs)))"

definition bundle_path :: "(string \<Rightarrow> bool) \<Rightarrow> (string \<Rightarrow> bool) \<Rightarrow> string \<Rightarrow> (image_error, string) result" where
  "bundle_path is_file is_dir name =
     and_then (validate_image_name name) (\<lambda>_.
     let dir = image_dir DEFAULT_IMAGE_ROOT name in
     if \<not> is_file (path_join dir ''config.json'') then Err (ImageNotFound name)
     else if \<not> is_dir (path_join dir ''rootfs'') then Err (ImageRootfsNotFound (path_join dir ''rootfs''))
     else Ok dir)"

subsection \<open>What an accepted archive is\<close>

text \<open>A path that names something below the directory it is resolved in, if no link is followed.\<close>

definition stays_below :: "string \<Rightarrow> bool" where
  "stays_below p \<longleftrightarrow> \<not> is_absolute p \<and> ParentDir \<notin> set (components p)"

definition has_data :: "tar_entry \<Rightarrow> bool" where
  "has_data e \<longleftrightarrow> te_type e = Regular \<or> te_type e = Contiguous"

definition data_size :: "tar_entry \<Rightarrow> nat" where
  "data_size e = (if has_data e then unat (te_size e) else 0)"

definition entry_ok :: "tar_entry \<Rightarrow> bool" where
  "entry_ok e \<longleftrightarrow>
     (\<exists>path. te_path e = Ok path \<and> stays_below path) \<and>
     (case te_type e of
        Regular \<Rightarrow> unat (te_size e) \<le> 536870912
      | Contiguous \<Rightarrow> unat (te_size e) \<le> 536870912
      | Symlink \<Rightarrow> (\<exists>target. te_link_name e = Ok (Some target) \<and> ParentDir \<notin> set (components target))
      | Hard_link \<Rightarrow> (\<exists>target. te_link_name e = Ok (Some target) \<and> stays_below target)
      | Directory \<Rightarrow> True
      | _ \<Rightarrow> False)"

definition archive_ok :: "archive \<Rightarrow> bool" where
  "archive_ok ar \<longleftrightarrow>
     (\<exists>len es. ar_len ar = Ok len \<and> unat len \<le> 4294967296 \<and> ar_entries ar = Ok (map Ok es) \<and>
        list_all entry_ok es \<and> length es \<le> 100000 \<and> sum_list (map data_size es) \<le> 4294967296)"

lemma saturating_add_u64_small [simp]: "unat x + unat y < 2 ^ 64 \<Longrightarrow> unat (saturating_add_u64 x y) = unat x + unat y"
  by (simp add: saturating_add_u64_def unat_plus_if_size word_size)

lemma limits [simp]:
  "unat MAX_ARCHIVE_BYTES = 4294967296" "unat MAX_ARCHIVE_ENTRIES = 100000" "unat MAX_ARCHIVE_FILE_BYTES = 536870912"
  "unat MAX_ARCHIVE_UNPACKED_BYTES = 4294967296"
  by (simp_all add: MAX_ARCHIVE_BYTES_def MAX_ARCHIVE_ENTRIES_def MAX_ARCHIVE_FILE_BYTES_def MAX_ARCHIVE_UNPACKED_BYTES_def)

lemma validate_archive_path_Ok: "validate_archive_path path = Ok () \<longleftrightarrow> stays_below path"
  by (auto simp: validate_archive_path_def stays_below_def list_ex_iff)

lemma check_link_Ok:
  "check_link e path allow = Ok u \<longleftrightarrow>
     (\<exists>target. te_link_name e = Ok (Some target) \<and> (allow \<or> \<not> is_absolute target) \<and> ParentDir \<notin> set (components target))"
  by (auto simp: check_link_def validate_link_target_def list_ex_iff)

lemma preflight_entry_Ok:
  assumes "unat unpacked \<le> 4294967296"
  shows "preflight_entry e unpacked = Ok unpacked' \<longleftrightarrow>
    entry_ok e \<and> unat unpacked + data_size e \<le> 4294967296 \<and> unat unpacked' = unat unpacked + data_size e"
proof -
  have sum: "unat (te_size e) \<le> 536870912 \<Longrightarrow> unat unpacked + unat (te_size e) = unat (saturating_add_u64 unpacked (te_size e))"
    using assms by simp
  show ?thesis
  proof (cases "has_data e")
    case True
    then have t: "te_type e = Regular \<or> te_type e = Contiguous" by (simp add: has_data_def)
    then have "preflight_entry e unpacked = Ok unpacked' \<longleftrightarrow>
        (\<exists>path. te_path e = Ok path \<and> stays_below path) \<and> unat (te_size e) \<le> 536870912 \<and>
        unat (saturating_add_u64 unpacked (te_size e)) \<le> 4294967296 \<and> unpacked' = saturating_add_u64 unpacked (te_size e)"
      by (auto simp: preflight_entry_def validate_archive_path_Ok Let_def word_less_nat_alt not_less)
    also have "\<dots> \<longleftrightarrow> (\<exists>path. te_path e = Ok path \<and> stays_below path) \<and> unat (te_size e) \<le> 536870912 \<and>
        unat unpacked + unat (te_size e) \<le> 4294967296 \<and> unat unpacked' = unat unpacked + unat (te_size e)"
      using sum by (metis word_unat_eq_iff)
    finally show ?thesis using t by (auto simp: entry_ok_def data_size_def has_data_def)
  next
    case False
    then have "data_size e = 0" by (simp add: data_size_def)
    then show ?thesis
      using False assms
      by (cases "te_type e")
        (auto simp: preflight_entry_def entry_ok_def has_data_def validate_archive_path_Ok check_link_Ok stays_below_def word_unat_eq_iff)
  qed
qed

lemma preflight_loop_Ok:
  assumes "unat entries \<le> 100000" "unat unpacked \<le> 4294967296"
  shows "preflight_loop rs entries unpacked = Ok () \<longleftrightarrow>
    (\<exists>es. rs = map Ok es \<and> list_all entry_ok es \<and> unat entries + length es \<le> 100000 \<and>
       unat unpacked + sum_list (map data_size es) \<le> 4294967296)"
  using assms
proof (induction rs arbitrary: entries unpacked)
  case (Cons r rs)
  show ?case
  proof (cases r)
    case (Ok e)
    have n: "unat (saturating_add_u64 entries 1) = unat entries + 1" using Cons.prems(1) by simp
    have "preflight_loop (r # rs) entries unpacked = Ok () \<longleftrightarrow>
        unat entries + 1 \<le> 100000 \<and> (\<exists>u. preflight_entry e unpacked = Ok u \<and> preflight_loop rs (saturating_add_u64 entries 1) u = Ok ())"
      using n by (auto simp: Ok Let_def word_less_nat_alt not_less)
    also have "\<dots> \<longleftrightarrow> unat entries + 1 \<le> 100000 \<and> (\<exists>u. entry_ok e \<and> unat unpacked + data_size e \<le> 4294967296 \<and>
        unat u = unat unpacked + data_size e \<and> preflight_loop rs (saturating_add_u64 entries 1) u = Ok ())"
      using preflight_entry_Ok [OF Cons.prems(2)] by (auto simp del: preflight_loop.simps)
    also have "\<dots> \<longleftrightarrow> unat entries + 1 \<le> 100000 \<and> entry_ok e \<and> unat unpacked + data_size e \<le> 4294967296 \<and>
        (\<exists>es. rs = map Ok es \<and> list_all entry_ok es \<and> unat entries + 1 + length es \<le> 100000 \<and>
          unat unpacked + data_size e + sum_list (map data_size es) \<le> 4294967296)"
      (is "?l \<longleftrightarrow> ?r")
    proof
      assume ?l
      then show ?r using Cons.IH [of "saturating_add_u64 entries 1"] n by auto
    next
      assume r: ?r
      let ?u = "word_of_nat (unat unpacked + data_size e) :: u64"
      have u: "unat ?u = unat unpacked + data_size e" using r by (intro unat_word_of_nat_below [of _ MAX_ARCHIVE_UNPACKED_BYTES]) auto
      with r n have "preflight_loop rs (saturating_add_u64 entries 1) ?u = Ok ()"
        by (subst Cons.IH) auto
      with r u show ?l by blast
    qed
    also have "\<dots> \<longleftrightarrow> (\<exists>es. r # rs = map Ok es \<and> list_all entry_ok es \<and> unat entries + length es \<le> 100000 \<and>
       unat unpacked + sum_list (map data_size es) \<le> 4294967296)"
      by (auto simp: Ok Cons_eq_map_conv)
    finally show ?thesis .
  qed (auto simp: Cons_eq_map_conv)
qed simp

lemma preflight_archive_Ok: "preflight_archive ar = Ok () \<longleftrightarrow> archive_ok ar"
  by (auto simp: preflight_archive_def archive_ok_def preflight_loop_Ok word_less_nat_alt not_less)

subsection \<open>Properties of an import\<close>

lemma valid_image_name: "validate_image_name name = Ok () \<Longrightarrow> plain_name name"
  by (auto simp: validate_image_name_def plain_name_def list_all_iff is_id_byte_def split: if_splits)

lemma image_do_cases:
  "image_do os c w = (w @ [c], case os w c of Ok _ \<Rightarrow> Ok () | Err e \<Rightarrow> Err (Image_io e))"
  by (simp add: image_do_def io_defs split: result.split)

text \<open>The calls of an import that succeeds, in order.\<close>

definition import_steps :: "string \<Rightarrow> string \<Rightarrow> string \<Rightarrow> image_call list" where
  "import_steps root tar name =
     (let dir = image_dir root name; rootfs = path_join dir ''rootfs'' in
      [Tar_is_file tar, Image_create_dirs root, Image_exists dir, Image_create_dirs rootfs, Unpack tar rootfs,
       Write_config (path_join dir ''config.json'')])"

lemma minimal_config_valid: "validate_config minimal_config = Ok ()"
  by code_simp

lemma ex_steps:
  "(\<exists>n \<le> 3. P n) \<longleftrightarrow> P 0 \<or> P 1 \<or> P 2 \<or> P (3 :: nat)"
  "(\<exists>n. 4 \<le> n \<and> n \<le> 6 \<and> Q n) \<longleftrightarrow> Q 4 \<or> Q 5 \<or> Q (6 :: nat)"
proof -
  have "n \<le> 3 \<longleftrightarrow> n \<in> {0, 1, 2, 3}" "4 \<le> n \<and> n \<le> 6 \<longleftrightarrow> n \<in> {4, 5, 6}" for n :: nat by auto
  then show "(\<exists>n \<le> 3. P n) \<longleftrightarrow> P 0 \<or> P 1 \<or> P 2 \<or> P (3 :: nat)"
    "(\<exists>n. 4 \<le> n \<and> n \<le> 6 \<and> Q n) \<longleftrightarrow> Q 4 \<or> Q 5 \<or> Q (6 :: nat)"
    by (auto simp flip: conj_assoc)
qed

text \<open>
  C11: an import accepts an archive only when all of it is acceptable: at most 100000 entries, only files, directories and links,
  every path and hard link target relative and free of parent steps, no file over 512 MiB and 4 GiB in all (counted without
  wrapping around). It then unpacks into a new directory directly below the image root. A failed import that got as far as creating
  that directory ends with its removal, and nothing is unpacked from an archive that was not accepted.
\<close>

theorem import_all_or_nothing:
  assumes "import_into os ar root tar name [] = (w, r)"
  shows "case r of
      Ok info \<Rightarrow> archive_ok ar \<and> w = import_steps root tar name \<and> \<not> (\<exists>n. os (take 2 w) (w ! 2) = Ok (Suc n)) \<and>
        components (ii_path info) = components root @ [Normal name] \<and>
        components (ii_rootfs info) = components root @ [Normal name, Normal ''rootfs'']
    | Err e \<Rightarrow>
        (\<exists>n \<le> 3. w = take n (import_steps root tar name)) \<or>
        w = take 4 (import_steps root tar name) \<and> \<not> is_ok (os (take 3 w) (w ! 3)) \<or>
        (\<exists>n. 4 \<le> n \<and> n \<le> 6 \<and> (4 < n \<longrightarrow> archive_ok ar) \<and>
           w = take n (import_steps root tar name) @ [Image_remove_dirs (image_dir root name)])"
proof (cases "validate_image_name name")
  case (Err e)
  then show ?thesis using assms by (auto simp: import_into_def io_defs ex_steps)
next
  case valid: (Ok u)
  note plain = valid_image_name [OF valid [simplified]]
  have r: "plain_name ''rootfs''" by (simp add: plain_name_def)
  let ?dir = "image_dir root name" let ?rootfs = "path_join ?dir ''rootfs''"
  have info: "image_info_of root name = Ok \<lparr>ii_name = name, ii_path = ?dir, ii_rootfs = ?rootfs\<rparr>"
    using valid by (simp add: image_info_of_def)
  have comps: "components ?dir = components root @ [Normal name]" "components ?rootfs = components root @ [Normal name, Normal ''rootfs'']"
    using components_below [OF plain] components_below [OF r] by (simp_all add: image_dir_def)
  have pre: "preflight_archive ar = Ok () \<and> archive_ok ar \<or> (\<exists>e. preflight_archive ar = Err e)"
    by (cases "preflight_archive ar") (simp_all add: preflight_archive_Ok [symmetric])
  show ?thesis
    using assms pre
    by (auto simp: import_into_def valid ex_steps extract_rootfs_def write_minimal_config_def info comps import_steps_def Let_def
        io_bind_def io_query_def io_handle_def io_lift_def io_return_def io_call_def image_do_cases
        split: if_splits result.splits)
qed

definition sample_archive :: archive where
  "sample_archive = \<lparr>ar_len = Ok 10240, ar_entries = Ok
     [Ok \<lparr>te_path = Ok ''bin'', te_type = Directory, te_size = 0, te_link_name = Ok None\<rparr>,
      Ok \<lparr>te_path = Ok ''bin/busybox'', te_type = Regular, te_size = 1024, te_link_name = Ok None\<rparr>,
      Ok \<lparr>te_path = Ok ''./bin/sh'', te_type = Symlink, te_size = 0, te_link_name = Ok (Some ''/bin/busybox'')\<rparr>]\<rparr>"

definition sample_image_world :: image_world where
  "sample_image_world = (\<lambda>_ c. case c of Tar_is_file _ \<Rightarrow> Ok 1 | _ \<Rightarrow> Ok 0)"

theorem import_all_or_nothing_witness:
  "\<exists>info. snd (import_into sample_image_world sample_archive ''/img'' ''a.tar'' ''alpine'' []) = Ok info \<and>
     archive_ok sample_archive \<and> components (ii_rootfs info) = [RootDir, Normal ''img'', Normal ''alpine'', Normal ''rootfs'']"
proof -
  let ?i = "import_into sample_image_world sample_archive ''/img'' ''a.tar'' ''alpine'' []"
  have c: "components ''bin'' = [Normal ''bin'']" "components ''bin/busybox'' = [Normal ''bin'', Normal ''busybox'']"
      "components ''./bin/sh'' = [CurDir, Normal ''bin'', Normal ''sh'']" "components ''/bin/busybox'' = [RootDir, Normal ''bin'', Normal ''busybox'']"
      "validate_image_name ''alpine'' = Ok ()"
    by code_simp+
  have "archive_ok sample_archive"
    by (auto simp: archive_ok_def sample_archive_def Cons_eq_map_conv entry_ok_def stays_below_def data_size_def has_data_def c)
  then have "preflight_archive sample_archive = Ok ()" by (simp add: preflight_archive_Ok)
  then have "is_ok (snd ?i)"
    by (simp add: import_into_def c extract_rootfs_def write_minimal_config_def io_defs image_do_cases image_info_of_def
        sample_image_world_def Let_def)
  then obtain info where info: "snd ?i = Ok info" by (auto simp only: is_ok_iff)
  then have i: "?i = (fst ?i, Ok info)" by (simp only: prod_eq_iff fst_conv snd_conv)
  have "components ''/img'' = [RootDir, Normal ''img'']" by code_simp
  with import_all_or_nothing [OF i] info show ?thesis by (simp only: result.case) auto
qed

text \<open>Listing: in order of name; a single directory with a name no import would give makes it fail as a whole.\<close>

lemma list_images_sorted:
  "list_images root there entries = Ok infos \<Longrightarrow> sorted_wrt (\<lambda>x y. ii_name x \<le> ii_name y) infos"
  by (auto simp: list_images_def cmp_simps intro!: sorted_sort_by [where c = "\<lambda>x y. cmp (ii_name x) (ii_name y)", simplified cmp_simps not_less] split: if_splits)

lemma one_odd_name_hides_all_images:
  assumes "Ok e \<in> set rs" "ie_is_dir e = Ok True" "ie_has_rootfs e" "ie_has_config e" "validate_image_name (ie_name e) \<noteq> Ok ()"
  shows "\<not> is_ok (list_images root True (Ok rs))"
proof -
  have "list_entries root rs \<noteq> Ok infos" for infos
    using assms by (induction rs arbitrary: infos) (auto simp: image_info_of_def split: if_splits)
  then show ?thesis by (cases "list_entries root rs") (auto simp: list_images_def)
qed

end
