(* ===== verification/Rootfs_Diff.thy ===== *)
theory Rootfs_Diff
  imports State
begin

text \<open>
  \<^verbatim>\<open>src/rootfs_diff.rs\<close>: what a container changed, read off the upper directory of its overlay. The upper directory is a
  tree in the order its directories list their entries, with the places where listing or examining fails; which paths exist in
  the lower directory is a parameter. File names are taken to be valid UTF-8.
\<close>

datatype rootfs_diff_kind = Diff_Created | Diff_Modified | Diff_Deleted

definition as_label :: "rootfs_diff_kind \<Rightarrow> string" where
  "as_label kind = (case kind of Diff_Created \<Rightarrow> ''created'' | Diff_Modified \<Rightarrow> ''modified'' | Diff_Deleted \<Rightarrow> ''deleted'')"

record rootfs_diff_entry =
  rde_path :: string
  rde_kind :: rootfs_diff_kind

record rootfs_diff_report =
  rdr_id :: string
  rdr_lowerdir :: string
  rdr_upperdir :: string
  rdr_entries :: "rootfs_diff_entry list"

definition diff_kind_rank :: "rootfs_diff_kind \<Rightarrow> u8" where
  "diff_kind_rank kind = (case kind of Diff_Created \<Rightarrow> 0 | Diff_Modified \<Rightarrow> 1 | Diff_Deleted \<Rightarrow> 2)"

subsection \<open>The upper directory\<close>

text \<open>
  A file that is not a directory shows whether it is a character device and its device number; an entry that cannot be examined
  has no metadata. A directory lists its entries one after the other; the listing ends, or fails, at once if the directory cannot be read.
\<close>

datatype upper =
    Up_file bool u64
  | Up_unexamined string
  | Up_dir listing
and listing =
    Listed
  | Broken string
  | Item string upper listing

datatype diff_error = Diff_io string | Diff_not_below string

text \<open>The components of a path that is left when a prefix has been stripped, as a path.\<close>

fun component_str :: "component \<Rightarrow> string" where
  "component_str RootDir = ''/''"
| "component_str CurDir = ''.''"
| "component_str ParentDir = ''..''"
| "component_str (Normal n) = n"

definition strip_prefix_path :: "string \<Rightarrow> string \<Rightarrow> (diff_error, string) result" where
  "strip_prefix_path base path =
     (case strip_components (components base) (components path) of
        None \<Rightarrow> Err (Diff_not_below path)
      | Some cs \<Rightarrow> Ok (join ''/'' (map component_str cs)))"

definition container_path :: "string \<Rightarrow> string \<Rightarrow> (diff_error, string) result" where
  "container_path base path =
     and_then (strip_prefix_path base path) (\<lambda>rel. if rel = [] then Ok ''/'' else Ok (''/'' @ rel))"

definition is_char_whiteout :: "upper \<Rightarrow> bool" where
  "is_char_whiteout node = (case node of Up_file char_device rdev \<Rightarrow> char_device \<and> rdev = 0 | _ \<Rightarrow> False)"

definition is_opaque_marker :: "string \<Rightarrow> bool" where
  "is_opaque_marker name \<longleftrightarrow> name = ''.wh..wh..opq''"

text \<open>The path of an entry is its directory \<open>current\<close> joined with its \<open>name\<close>.\<close>

definition whiteout_deleted_path :: "string \<Rightarrow> string \<Rightarrow> string \<Rightarrow> upper \<Rightarrow> (diff_error, string option) result" where
  "whiteout_deleted_path upperdir current name node =
     (if is_char_whiteout node then map_ok Some (container_path upperdir (path_join current name))
      else
        case strip_prefix ''.wh.'' name of
          None \<Rightarrow> Ok None
        | Some deleted_name \<Rightarrow>
            if deleted_name = [] \<or> deleted_name = ''.wh..opq'' then Ok None
            else map_ok Some (container_path upperdir (path_join current deleted_name)))"

function (sequential) collect_diff_entries ::
    "(string \<Rightarrow> bool) \<Rightarrow> string \<Rightarrow> string \<Rightarrow> string \<Rightarrow> upper \<Rightarrow> (diff_error, rootfs_diff_entry list) result"
  and collect_diff_listing ::
    "(string \<Rightarrow> bool) \<Rightarrow> string \<Rightarrow> string \<Rightarrow> string \<Rightarrow> listing \<Rightarrow> (diff_error, rootfs_diff_entry list) result"
  and collect_diff_item ::
    "(string \<Rightarrow> bool) \<Rightarrow> string \<Rightarrow> string \<Rightarrow> string \<Rightarrow> string \<Rightarrow> upper \<Rightarrow> (diff_error, rootfs_diff_entry list) result" where
  "collect_diff_entries exists_path lowerdir upperdir current (Up_dir l) = collect_diff_listing exists_path lowerdir upperdir current l"
| "collect_diff_entries exists_path lowerdir upperdir current _ = Err (Diff_io current)"
| "collect_diff_listing exists_path lowerdir upperdir current Listed = Ok []"
| "collect_diff_listing exists_path lowerdir upperdir current (Broken e) = Err (Diff_io e)"
| "collect_diff_listing exists_path lowerdir upperdir current (Item name node l) =
     and_then (collect_diff_item exists_path lowerdir upperdir current name node) (\<lambda>es.
     map_ok ((@) es) (collect_diff_listing exists_path lowerdir upperdir current l))"
| "collect_diff_item exists_path lowerdir upperdir current name (Up_unexamined e) = Err (Diff_io e)"
| "collect_diff_item exists_path lowerdir upperdir current name node =
     (if is_opaque_marker name then
        map_ok (\<lambda>p. [\<lparr>rde_path = p, rde_kind = Diff_Modified\<rparr>]) (container_path upperdir current)
      else
        and_then (whiteout_deleted_path upperdir current name node) (\<lambda>deleted.
        case deleted of
          Some p \<Rightarrow> Ok [\<lparr>rde_path = p, rde_kind = Diff_Deleted\<rparr>]
        | None \<Rightarrow>
            let path = path_join current name in
            and_then (strip_prefix_path upperdir path) (\<lambda>rel.
            let lower_path = path_join lowerdir rel in
            case node of
              Up_dir _ \<Rightarrow>
                and_then
                  (if \<not> exists_path lower_path
                   then map_ok (\<lambda>p. [\<lparr>rde_path = p, rde_kind = Diff_Created\<rparr>]) (container_path upperdir path) else Ok []) (\<lambda>here.
                map_ok ((@) here) (collect_diff_entries exists_path lowerdir upperdir path node))
            | _ \<Rightarrow>
                map_ok (\<lambda>p. [\<lparr>rde_path = p, rde_kind = if exists_path lower_path then Diff_Modified else Diff_Created\<rparr>])
                  (container_path upperdir path))))"
  by pat_completeness auto

termination
  by (relation "measure (case_sum (\<lambda>(_, _, _, _, u). 2 * size u)
      (case_sum (\<lambda>(_, _, _, _, l). 2 * size l) (\<lambda>(_, _, _, _, _, u). 2 * size u + 1)))") auto

definition cmp_entry :: "rootfs_diff_entry \<Rightarrow> rootfs_diff_entry \<Rightarrow> ordering" where
  "cmp_entry x y = then_cmp (cmp (rde_path x) (rde_path y)) (cmp (diff_kind_rank (rde_kind x)) (diff_kind_rank (rde_kind y)))"

text \<open>\<^verbatim>\<open>Vec::dedup\<close> removes repeated neighbours.\<close>

definition sort_entries :: "rootfs_diff_entry list \<Rightarrow> rootfs_diff_entry list" where
  "sort_entries entries = remdups_adj (sort_by cmp_entry entries)"

definition diff_overlay_dirs ::
    "(string \<Rightarrow> bool) \<Rightarrow> string \<Rightarrow> string \<Rightarrow> upper \<Rightarrow> (diff_error, rootfs_diff_entry list) result" where
  "diff_overlay_dirs exists_path lowerdir upperdir up =
     map_ok sort_entries (collect_diff_entries exists_path lowerdir upperdir upperdir up)"

datatype diff_container_error =
    Diff_config load_error
  | Diff_no_overlay
  | Diff_filesystem filesystem_error
  | Diff_walk diff_error

text \<open>\<open>load\<close> reads the bundle's configuration; \<open>up\<close> is the upper directory.\<close>

definition diff_container ::
    "(string \<Rightarrow> (load_error, oci_config) result) \<Rightarrow> (string \<Rightarrow> bool) \<Rightarrow> (string \<Rightarrow> upper) \<Rightarrow> container_state \<Rightarrow>
     (diff_container_error, rootfs_diff_report) result" where
  "diff_container load exists_path up s =
     and_then (map_err Diff_config (load (path_join (cs_bundle s) ''config.json''))) (\<lambda>config.
     case Option.bind (cfg_crun config) crun_config.crun_overlay of
       None \<Rightarrow> Err Diff_no_overlay
     | Some overlay \<Rightarrow>
         if \<not> ov_enabled overlay then Err Diff_no_overlay
         else
           let lowerdir = (case ov_lowerdir overlay of
                 Some path \<Rightarrow> resolve_bundle_path (cs_bundle s) path
               | None \<Rightarrow> resolve_bundle_path (cs_bundle s) (root_path (cfg_root config)));
               upperdir = resolve_bundle_path (cs_bundle s) (ov_upperdir overlay) in
           if \<not> exists_path lowerdir then Err (Diff_filesystem (OverlayLowerdirDoesNotExist lowerdir))
           else if \<not> exists_path upperdir then Err (Diff_filesystem (OverlayUpperdirDoesNotExist upperdir))
           else
             map_ok (\<lambda>entries. \<lparr>rdr_id = cs_id s, rdr_lowerdir = lowerdir, rdr_upperdir = upperdir, rdr_entries = entries\<rparr>)
               (map_err Diff_walk (diff_overlay_dirs exists_path lowerdir upperdir (up upperdir))))"

subsection \<open>What the report says\<close>

fun items :: "listing \<Rightarrow> (string \<times> upper) list" where
  "items Listed = []"
| "items (Broken _) = []"
| "items (Item n u l) = (n, u) # items l"

text \<open>An upper directory that can be read and whose names are names.\<close>

fun upper_wf :: "upper \<Rightarrow> bool" and listing_wf :: "listing \<Rightarrow> bool" where
  "upper_wf (Up_file _ _) = True"
| "upper_wf (Up_unexamined _) = False"
| "upper_wf (Up_dir l) = listing_wf l"
| "listing_wf Listed = True"
| "listing_wf (Broken _) = False"
| "listing_wf (Item n u l) = (plain_name n \<and> upper_wf u \<and> listing_wf l)"

text \<open>The name whose deletion an entry records.\<close>

definition deleted_name :: "string \<Rightarrow> upper \<Rightarrow> string option" where
  "deleted_name n u =
     (if is_char_whiteout u then Some n
      else case strip_prefix ''.wh.'' n of None \<Rightarrow> None | Some d \<Rightarrow> if d = [] \<or> d = ''.wh..opq'' then None else Some d)"

text \<open>The nodes of the tree that are files and directories of the container, by the names that lead to them.\<close>

inductive reached :: "upper \<Rightarrow> string list \<Rightarrow> upper \<Rightarrow> bool" where
  here: "reached u [] u"
| below: "(n, v) \<in> set (items l) \<Longrightarrow> \<not> is_opaque_marker n \<Longrightarrow> deleted_name n v = None \<Longrightarrow> reached v q w \<Longrightarrow>
    reached (Up_dir l) (n # q) w"

inductive_cases reached_file: "reached (Up_file b r) q (Up_dir l)"
inductive_simps reached_dir: "reached (Up_dir l) q w"

definition shown :: "string list \<Rightarrow> string" where
  "shown p = ''/'' @ join ''/'' (filter (\<lambda>n. n \<noteq> ''.'') p)"

text \<open>What the entry \<open>n\<close> with node \<open>u\<close> of the directory \<open>p\<close> says by itself.\<close>

definition item_report :: "(string list \<Rightarrow> bool) \<Rightarrow> string list \<Rightarrow> string \<Rightarrow> upper \<Rightarrow> rootfs_diff_entry set" where
  "item_report lower p n u =
     (if is_opaque_marker n then {\<lparr>rde_path = shown p, rde_kind = Diff_Modified\<rparr>}
      else case deleted_name n u of
        Some d \<Rightarrow> {\<lparr>rde_path = shown (p @ [d]), rde_kind = Diff_Deleted\<rparr>}
      | None \<Rightarrow>
          if \<not> lower (p @ [n]) then {\<lparr>rde_path = shown (p @ [n]), rde_kind = Diff_Created\<rparr>}
          else (case u of Up_dir _ \<Rightarrow> {} | _ \<Rightarrow> {\<lparr>rde_path = shown (p @ [n]), rde_kind = Diff_Modified\<rparr>}))"

definition report_below :: "(string list \<Rightarrow> bool) \<Rightarrow> string list \<Rightarrow> upper \<Rightarrow> rootfs_diff_entry set" where
  "report_below lower p u = {e. \<exists>q l n v. reached u q (Up_dir l) \<and> (n, v) \<in> set (items l) \<and> e \<in> item_report lower (p @ q) n v}"

lemma report_below_file [simp]: "report_below lower p (Up_file b r) = {}"
  by (auto simp: report_below_def elim: reached_file)

lemma report_below_dir:
  "report_below lower p (Up_dir l) =
     (\<Union>(n, v) \<in> set (items l). item_report lower p n v \<union>
        (if \<not> is_opaque_marker n \<and> deleted_name n v = None then report_below lower (p @ [n]) v else {}))"
  (is "_ = (\<Union>(n, v) \<in> _. ?all n v)")
proof (intro equalityI subsetI)
  fix e assume "e \<in> report_below lower p (Up_dir l)"
  then obtain q k n v where e: "reached (Up_dir l) q (Up_dir k)" "(n, v) \<in> set (items k)" "e \<in> item_report lower (p @ q) n v"
    by (auto simp: report_below_def)
  from e(1) show "e \<in> (\<Union>(n, v) \<in> set (items l). ?all n v)"
  proof cases
    case here
    then show ?thesis using e by auto
  next
    case (below m u q')
    then have "e \<in> report_below lower (p @ [m]) u" using e by (auto simp: report_below_def)
    with below show ?thesis by (intro UN_I [of "(m, u)"]) simp_all
  qed
next
  fix e assume "e \<in> (\<Union>(n, v) \<in> set (items l). ?all n v)"
  then obtain n v where nv: "(n, v) \<in> set (items l)" "e \<in> ?all n v" by auto
  show "e \<in> report_below lower p (Up_dir l)"
  proof (cases "e \<in> item_report lower p n v")
    case True
    then show ?thesis using nv(1) reached.here by (fastforce simp: report_below_def)
  next
    case False
    with nv obtain q k m u where "\<not> is_opaque_marker n" "deleted_name n v = None" "reached v q (Up_dir k)" "(m, u) \<in> set (items k)"
        "e \<in> item_report lower (p @ n # q) m u"
      by (auto simp: report_below_def split: if_splits)
    with nv(1) show ?thesis unfolding report_below_def by (blast intro: reached.below)
  qed
qed

subsection \<open>The paths of a walk\<close>

text \<open>A directory of the walk: its path has the components of the upper directory and then \<open>p\<close>.\<close>

definition at :: "string \<Rightarrow> string \<Rightarrow> string list \<Rightarrow> bool" where
  "at upperdir current p \<longleftrightarrow> current \<noteq> [] \<and> list_all plain_name p \<and> components current = components upperdir @ map Normal p"

lemma names_of_components: "map component_str (map Normal p) = p"
  by (induction p) simp_all

lemma shown_plain: "list_all plain_name p \<Longrightarrow> shown p = ''/'' @ join ''/'' p"
proof -
  assume "list_all plain_name p"
  then have "filter (\<lambda>n. n \<noteq> ''.'') p = p" by (auto simp: list_all_iff plain_name_def filter_id_conv)
  then show ?thesis by (simp add: shown_def)
qed

lemma strip_at: "at upperdir current p \<Longrightarrow> strip_prefix_path upperdir current = Ok (join ''/'' p)"
  using names_of_components [of p] by (simp add: at_def strip_prefix_path_def del: map_map)

lemma container_path_at: "at upperdir current p \<Longrightarrow> container_path upperdir current = Ok (shown p)"
  by (simp add: container_path_def strip_at) (simp add: at_def shown_plain join_plain_empty)

lemma at_below: "at upperdir current p \<Longrightarrow> plain_name n \<Longrightarrow> at upperdir (path_join current n) (p @ [n])"
  using components_below [of n current] by (auto simp: at_def path_join_def)

lemma container_path_deleted:
  assumes "at upperdir current p" "d \<noteq> []" "CHR ''/'' \<notin> set d"
  shows "container_path upperdir (path_join current d) = Ok (shown (p @ [d]))"
proof (cases "d = ''.'' \<or> d = ''..''")
  case False
  then have "plain_name d" using assms by (auto simp: plain_name_def)
  then show ?thesis using container_path_at [OF at_below [OF assms(1)]] by simp
next
  case True
  have "\<not> is_absolute d" using True by auto
  then have "components (path_join current d) = components upperdir @ map Normal p @ List.map_filter piece [d]"
    using components_path_join [of current d] assms by (simp add: at_def split_char_none)
  moreover have "map component_str (map Normal p @ List.map_filter piece [d]) = filter (\<lambda>n. n \<noteq> ''.'') (p @ [d])"
    using True assms(1) names_of_components [of p] by (auto simp: at_def List.map_filter_def list_all_iff plain_name_def filter_id_conv)
  ultimately have "strip_prefix_path upperdir (path_join current d) = Ok (join ''/'' (filter (\<lambda>n. n \<noteq> ''.'') (p @ [d])))"
    by (simp add: strip_prefix_path_def)
  then show ?thesis by (auto simp: container_path_def shown_def)
qed

lemma whiteout_at:
  assumes "at upperdir current p" "plain_name n"
  shows "whiteout_deleted_path upperdir current n u = Ok (map_option (\<lambda>d. shown (p @ [d])) (deleted_name n u))"
proof -
  have "strip_prefix ''.wh.'' n = Some d \<Longrightarrow> CHR ''/'' \<notin> set d" for d
    using assms(2) by (auto simp: strip_prefix_Some plain_name_def)
  then show ?thesis
    using container_path_deleted [OF assms(1)] container_path_at [OF at_below [OF assms]]
    by (auto simp: whiteout_deleted_path_def deleted_name_def split: option.split)
qed

subsection \<open>Exactness\<close>

lemma collect_exact:
  "upper_wf u \<Longrightarrow> at upperdir current p \<Longrightarrow> u = Up_dir l \<Longrightarrow>
     \<exists>es. collect_diff_entries ex lowerdir upperdir current u = Ok es \<and>
       set es = report_below (\<lambda>p. ex (path_join lowerdir (join ''/'' p))) p u"
  "listing_wf l \<Longrightarrow> at upperdir current p \<Longrightarrow>
     \<exists>es. collect_diff_listing ex lowerdir upperdir current l = Ok es \<and>
       set es = report_below (\<lambda>p. ex (path_join lowerdir (join ''/'' p))) p (Up_dir l)"
  "plain_name n \<Longrightarrow> upper_wf u \<Longrightarrow> at upperdir current p \<Longrightarrow>
     \<exists>es. collect_diff_item ex lowerdir upperdir current n u = Ok es \<and>
       set es = item_report (\<lambda>p. ex (path_join lowerdir (join ''/'' p))) p n u \<union>
         (if \<not> is_opaque_marker n \<and> deleted_name n u = None
          then report_below (\<lambda>p. ex (path_join lowerdir (join ''/'' p))) (p @ [n]) u else {})"
proof (induction ex lowerdir upperdir current u and ex lowerdir upperdir current l and ex lowerdir upperdir current n u
    arbitrary: p l and p and p 
    rule: collect_diff_entries_collect_diff_listing_collect_diff_item.induct
      [case_names Dir File Unexamined Nothing Failing Entry Item_unexamined Item_file Item_dir])
  case (Entry ex lowerdir upperdir current name node l)
  then show ?case by (fastforce simp: report_below_dir)
next
  case (Item_file ex lowerdir upperdir current n b r)
  note at = at_below [OF Item_file.prems(3,1)]
  show ?case
    using whiteout_at [OF Item_file.prems(3,1)] strip_at [OF at] container_path_at [OF at] container_path_at [OF Item_file.prems(3)]
    by (auto simp: item_report_def Let_def split: option.splits)
next
  case (Item_dir ex lowerdir upperdir current n l)
  note at = at_below [OF Item_dir.prems(3,1)]
  show ?case
  proof (cases "is_opaque_marker n \<or> deleted_name n (Up_dir l) \<noteq> None")
    case True
    then show ?thesis
      using whiteout_at [OF Item_dir.prems(3,1)] container_path_at [OF Item_dir.prems(3)]
      by (auto simp: item_report_def split: option.splits)
  next
    case False
    obtain es where "collect_diff_entries ex lowerdir upperdir (path_join current n) (Up_dir l) = Ok es"
        "set es = report_below (\<lambda>p. ex (path_join lowerdir (join ''/'' p))) (p @ [n]) (Up_dir l)"
      using Item_dir.IH [OF _ refl refl refl Item_dir.prems(2) at refl] False by blast
    then show ?thesis
      using False whiteout_at [OF Item_dir.prems(3,1), of "Up_dir l"] strip_at [OF at] container_path_at [OF at]
      by (auto simp: item_report_def Let_def split: option.splits)
  qed
qed (auto simp: report_below_dir)

lemma rank_inject: "diff_kind_rank k = diff_kind_rank k' \<longleftrightarrow> k = k'"
  by (cases k; cases k') (simp_all add: diff_kind_rank_def)

lemma cmp_entry_Greater:
  "cmp_entry x y = Greater \<longleftrightarrow>
     rde_path y < rde_path x \<or> rde_path x = rde_path y \<and> diff_kind_rank (rde_kind y) < diff_kind_rank (rde_kind x)"
  by (simp add: cmp_entry_def then_cmp_Greater)

lemma entry_eq: "x = y \<longleftrightarrow> rde_path x = rde_path y \<and> diff_kind_rank (rde_kind x) = diff_kind_rank (rde_kind y)"
  for x y :: rootfs_diff_entry by (auto simp: rank_inject)

lemma cmp_entry_Less:
  "cmp_entry x y = Less \<longleftrightarrow> cmp_entry x y \<noteq> Greater \<and> x \<noteq> y"
  by (simp add: cmp_entry_def cmp_def entry_eq)

lemma sorted_remdups_adj_strict:
  assumes "\<And>x y. R x y \<Longrightarrow> R y x \<Longrightarrow> x = y"
  shows "sorted_wrt R xs \<Longrightarrow> sorted_wrt (\<lambda>x y. R x y \<and> x \<noteq> y) (remdups_adj xs)"
proof (induction xs rule: remdups_adj.induct)
  case (3 x y xs)
  then show ?case using assms by (cases "x = y") auto
qed simp_all

lemma sort_entries_strict: "sorted_wrt (\<lambda>x y. cmp_entry x y = Less) (sort_entries es)" "set (sort_entries es) = set es"
proof -
  have "sorted_wrt (\<lambda>x y. cmp_entry x y \<noteq> Greater) (sort_by cmp_entry es)"
    by (rule sorted_sort_by) (auto simp: cmp_entry_Greater)
  then have "sorted_wrt (\<lambda>x y. cmp_entry x y \<noteq> Greater \<and> x \<noteq> y) (remdups_adj (sort_by cmp_entry es))"
    by (rule sorted_remdups_adj_strict [rotated]) (auto simp: cmp_entry_Greater entry_eq)
  then show "sorted_wrt (\<lambda>x y. cmp_entry x y = Less) (sort_entries es)"
    by (simp only: sort_entries_def cmp_entry_Less)
  show "set (sort_entries es) = set es" by (simp add: sort_entries_def set_sort_by)
qed

text \<open>
  C27: the difference report of a container whose upper directory can be read is complete and exact: it has, in order of path and
  without repetition, one entry for every directory with an opaque marker (modified), every whiteout (the deletion of the name it
  hides), every file or directory that is not in the lower directory (created), and every file that is (modified), and nothing else;
  what lies under a whiteout is not looked at.
\<close>

theorem diff_reports_exactly:
  assumes "upper_wf (Up_dir l)" "upperdir \<noteq> []"
  shows "\<exists>es. diff_overlay_dirs ex lowerdir upperdir (Up_dir l) = Ok es \<and> sorted_wrt (\<lambda>x y. cmp_entry x y = Less) es \<and>
    set es = {e. \<exists>p k n u. reached (Up_dir l) p (Up_dir k) \<and> (n, u) \<in> set (items k) \<and>
      e \<in> item_report (\<lambda>p. ex (path_join lowerdir (join ''/'' p))) p n u}"
proof -
  have "at upperdir upperdir []" using assms(2) by (simp add: at_def)
  from collect_exact(1) [OF assms(1) this refl, of ex lowerdir]
  show ?thesis by (auto simp: diff_overlay_dirs_def sort_entries_strict report_below_def)
qed

definition sample_upper :: upper where
  "sample_upper = Up_dir (Item ''etc'' (Up_dir (Item ''passwd'' (Up_file False 0) (Item ''.wh.motd'' (Up_file False 0) Listed)))
     (Item ''old'' (Up_file True 0) (Item ''data'' (Up_dir (Item ''.wh..wh..opq'' (Up_file False 0) Listed)) Listed)))"

theorem diff_reports_exactly_witness:
  "\<exists>es. diff_overlay_dirs (\<lambda>p. p = ''/l/etc'' \<or> p = ''/l/etc/passwd'') ''/l'' ''/u'' sample_upper = Ok es \<and>
     \<lparr>rde_path = ''/etc/motd'', rde_kind = Diff_Deleted\<rparr> \<in> set es"
proof -
  have "upper_wf sample_upper" by code_simp
  then obtain es where es: "diff_overlay_dirs (\<lambda>p. p = ''/l/etc'' \<or> p = ''/l/etc/passwd'') ''/l'' ''/u'' sample_upper = Ok es"
    "set es = {e. \<exists>p k n u. reached sample_upper p (Up_dir k) \<and> (n, u) \<in> set (items k) \<and>
      e \<in> item_report (\<lambda>p. (\<lambda>p. p = ''/l/etc'' \<or> p = ''/l/etc/passwd'') (path_join ''/l'' (join ''/'' p))) p n u}"
    using diff_reports_exactly [of _ "''/u''" "\<lambda>p. p = ''/l/etc'' \<or> p = ''/l/etc/passwd''" "''/l''"]
    unfolding sample_upper_def by blast
  let ?etc = "Item ''passwd'' (Up_file False 0) (Item ''.wh.motd'' (Up_file False 0) Listed)"
  have "reached sample_upper [''etc''] (Up_dir ?etc)"
    by (auto simp: sample_upper_def reached_dir is_opaque_marker_def deleted_name_def is_char_whiteout_def intro: reached.here)
  moreover have "item_report lower [''etc''] ''.wh.motd'' (Up_file False 0) = {\<lparr>rde_path = ''/etc/motd'', rde_kind = Diff_Deleted\<rparr>}" for lower
    by (simp add: item_report_def is_opaque_marker_def deleted_name_def is_char_whiteout_def shown_def)
  ultimately have "\<lparr>rde_path = ''/etc/motd'', rde_kind = Diff_Deleted\<rparr> \<in> set es"
    unfolding es(2) by (intro CollectI exI [of _ "[''etc'']"] exI [of _ ?etc] exI [of _ "''.wh.motd''"] exI [of _ "Up_file False 0"]) simp
  with es(1) show ?thesis by blast
qed

end
