(* ===== verification/Events.thy ===== *)
theory Events
  imports Cgroup Audit_Log
begin

text \<open>
  \<^verbatim>\<open>src/events.rs\<close>: the stream of a container's resource events. Each turn of the loop is a \<open>look\<close>: what the store's
  refresh and the statistics of the control group show then. The loop is a function of the list of looks and has no result when
  they run out while the container is still running; the looks it has not used are part of the result. \<open>emit\<close> is the callback; it knows what was emitted before.
\<close>

record event_snapshot =
  es_memory_events :: "(string, u64) btree_map"
  es_pids_events :: "(string, u64) btree_map"
  es_cpu_nr_throttled :: "u64 option"
  es_cpu_throttled_usec :: "u64 option"

definition from_stats :: "cgroup_stats \<Rightarrow> event_snapshot" where
  "from_stats st =
     \<lparr>es_memory_events = ms_events (cgs_memory st), es_pids_events = pst_events (cgs_pids st),
      es_cpu_nr_throttled = cst_nr_throttled (cgs_cpu st), es_cpu_throttled_usec = cst_throttled_usec (cgs_cpu st)\<rparr>"

definition insert_all :: "string \<Rightarrow> (string, u64) btree_map \<Rightarrow> (string, u64) btree_map \<Rightarrow> (string, u64) btree_map" where
  "insert_all kind m fs = fold (\<lambda>(name, v). bt_insert (kind @ name) v) m fs"

definition insert_some :: "string \<Rightarrow> u64 option \<Rightarrow> (string, u64) btree_map \<Rightarrow> (string, u64) btree_map" where
  "insert_some name v fs = (case v of Some v \<Rightarrow> bt_insert name v fs | None \<Rightarrow> fs)"

definition snapshot_fields :: "event_snapshot \<Rightarrow> (string, u64) btree_map" where
  "snapshot_fields s =
     (let fs = insert_all ''memory.'' (es_memory_events s) [];
          fs = insert_all ''pids.'' (es_pids_events s) fs;
          fs = insert_some ''cpu.nr_throttled'' (es_cpu_nr_throttled s) fs
      in insert_some ''cpu.throttled_usec'' (es_cpu_throttled_usec s) fs)"

definition snapshot_event :: "u64 \<Rightarrow> string \<Rightarrow> event_snapshot \<Rightarrow> audit_event" where
  "snapshot_event now cid s = with_fields (snapshot_fields s) (new_event now cid ''cgroup'' ''snapshot'')"

definition counter_event :: "u64 \<Rightarrow> string \<Rightarrow> string \<Rightarrow> string \<Rightarrow> u64 \<Rightarrow> u64 \<Rightarrow> audit_event" where
  "counter_event now cid source name v delta = with_delta delta (with_value v (new_event now cid source name))"

definition append_counter_events ::
    "u64 \<Rightarrow> string \<Rightarrow> string \<Rightarrow> (string, u64) btree_map \<Rightarrow> (string, u64) btree_map \<Rightarrow> audit_event list" where
  "append_counter_events now cid source previous current =
     concat (map (\<lambda>(name, current_value).
       let previous_value = (case map_of previous name of Some v \<Rightarrow> v | None \<Rightarrow> 0) in
       if previous_value < current_value
       then [counter_event now cid source name current_value (current_value - previous_value)] else []) current)"

definition optional_counter_event :: "u64 \<Rightarrow> string \<Rightarrow> string \<Rightarrow> u64 option \<Rightarrow> u64 option \<Rightarrow> audit_event list" where
  "optional_counter_event now cid name previous current =
     (case (previous, current) of
        (Some previous, Some current) \<Rightarrow>
          if previous < current then [counter_event now cid ''cpu'' name current (current - previous)] else []
      | _ \<Rightarrow> [])"

definition collect_counter_events :: "u64 \<Rightarrow> string \<Rightarrow> event_snapshot \<Rightarrow> event_snapshot \<Rightarrow> audit_event list" where
  "collect_counter_events now cid previous current =
     append_counter_events now cid ''memory'' (es_memory_events previous) (es_memory_events current) @
     append_counter_events now cid ''pids'' (es_pids_events previous) (es_pids_events current) @
     optional_counter_event now cid ''nr_throttled'' (es_cpu_nr_throttled previous) (es_cpu_nr_throttled current) @
     optional_counter_event now cid ''throttled_usec'' (es_cpu_throttled_usec previous) (es_cpu_throttled_usec current)"

definition container_status_name :: "container_status \<Rightarrow> string" where
  "container_status_name s = (case s of Created \<Rightarrow> ''created'' | Running \<Rightarrow> ''running'' | Stopped \<Rightarrow> ''stopped'')"

subsection \<open>The stream\<close>

datatype stream_error = Stream_event event_error | Stream_cgroup cg_error | Stream_store store_error | Stream_emit string

record event_look =
  el_cleanup :: cleanup_world
  el_env :: environment
  el_stats :: "(cg_error, cgroup_stats) result"

type_synonym emitter = "(audit_event, (string, unit) result) world"
type_synonym stream_state = "(state_store \<times> cleanup_call list) \<times> audit_event list"

definition emit_each :: "emitter \<Rightarrow> audit_event list \<Rightarrow> (audit_event, string, unit) io" where
  "emit_each emit = io_each (io_call emit)"

fun stream_loop :: "emitter \<Rightarrow> string \<Rightarrow> event_look list \<Rightarrow> event_snapshot \<Rightarrow> stream_state \<Rightarrow> (stream_state \<times> (stream_error, unit) result \<times> event_look list) option" where
  "stream_loop emit cid [] previous (x, w) = None"
| "stream_loop emit cid (look # looks) previous (x, w) =
     (case load_current_from (el_cleanup look) (el_env look) cid x of
        (x, Err e) \<Rightarrow> Some ((x, w), Err (Stream_store e), looks)
      | (x, Ok s) \<Rightarrow>
          if cs_status s \<noteq> Running then
            (case io_call emit (with_status (container_status_name (cs_status s))
                (new_event (env_now (el_env look)) cid ''lifecycle'' ''stopped'')) w of
               (w, r) \<Rightarrow> Some ((x, w), map_err Stream_emit r, looks))
          else
            (case el_stats look of
               Err e \<Rightarrow> Some ((x, w), Err (Stream_cgroup e), looks)
             | Ok stats \<Rightarrow>
                 let current = from_stats stats in
                 (case emit_each emit (collect_counter_events (env_now (el_env look)) cid previous current) w of
                    (w, Err e) \<Rightarrow> Some ((x, w), Err (Stream_emit e), looks)
                  | (w, Ok _) \<Rightarrow> stream_loop emit cid looks current (x, w))))"

text \<open>The first look only reads the statistics; \<open>exists\<close> tells whether the control group's directory is there.\<close>

definition stream_counter_events ::
    "emitter \<Rightarrow> (string \<Rightarrow> bool) \<Rightarrow> string \<Rightarrow> bool \<Rightarrow> bool \<Rightarrow> nat \<Rightarrow> event_look \<Rightarrow> event_look list \<Rightarrow> stream_state \<Rightarrow>
     (stream_state \<times> (stream_error, unit) result \<times> event_look list) option" where
  "stream_counter_events emit exists_dir cid snapshot once interval first_look looks = (\<lambda>(x, w).
     if interval = 0 then Some ((x, w), Err (Stream_event InvalidInterval_Event), looks)
     else
       case running_cgroup_path (el_cleanup first_look) (el_env first_look) exists_dir cid x of
         (x, Err e) \<Rightarrow> Some ((x, w), Err (Stream_cgroup e), looks)
       | (x, Ok path) \<Rightarrow>
           (case el_stats first_look of
              Err e \<Rightarrow> Some ((x, w), Err (Stream_cgroup e), looks)
            | Ok stats \<Rightarrow>
                let previous = from_stats stats in
                (case (if snapshot then io_call emit (snapshot_event (env_now (el_env first_look)) cid previous) else io_return ()) w of
                   (w, Err e) \<Rightarrow> Some ((x, w), Err (Stream_emit e), looks)
                 | (w, Ok _) \<Rightarrow> if once then Some ((x, w), Ok (), looks) else stream_loop emit cid looks previous (x, w))))"

subsection \<open>The events account for the growth of the counters\<close>

text \<open>The counters of a snapshot by source and name; a counter that is missing from a list of counters is zero.\<close>

definition counter_of :: "string \<Rightarrow> string \<Rightarrow> event_snapshot \<Rightarrow> u64 option" where
  "counter_of source name s =
     (if source = ''memory'' then Some (case map_of (es_memory_events s) name of Some v \<Rightarrow> v | None \<Rightarrow> 0)
      else if source = ''pids'' then Some (case map_of (es_pids_events s) name of Some v \<Rightarrow> v | None \<Rightarrow> 0)
      else if source = ''cpu'' \<and> name = ''nr_throttled'' then es_cpu_nr_throttled s
      else if source = ''cpu'' \<and> name = ''throttled_usec'' then es_cpu_throttled_usec s
      else None)"

definition counter_delta :: "string \<Rightarrow> string \<Rightarrow> audit_event \<Rightarrow> nat" where
  "counter_delta source name e =
     (if ae_source e = source \<and> ae_name e = name then (case ae_delta e of Some d \<Rightarrow> unat d | None \<Rightarrow> 0) else 0)"

definition growth :: "string \<Rightarrow> string \<Rightarrow> audit_event list \<Rightarrow> nat" where
  "growth source name es = sum_list (map (counter_delta source name) es)"

lemma growth_simps [simp]:
  "growth source name [] = 0" "growth source name (e # es) = counter_delta source name e + growth source name es"
  "growth source name (es @ fs) = growth source name es + growth source name fs"
  by (simp_all add: growth_def)

definition snapshot_wf :: "event_snapshot \<Rightarrow> bool" where
  "snapshot_wf s \<longleftrightarrow> bt_invar (es_memory_events s) \<and> bt_invar (es_pids_events s)"

lemma counter_delta_event [simp]:
  "counter_delta source name (counter_event now cid s n v d) = (if s = source \<and> n = name then unat d else 0)"
  by (simp add: counter_delta_def counter_event_def with_delta_def with_value_def new_event_def)

lemma unat_growth: "previous < current \<Longrightarrow> unat (current - previous) = unat current - unat previous" for previous current :: u64
  by (simp add: unat_sub order_less_imp_le)

lemma growth_other: "s \<noteq> source \<Longrightarrow> growth source name (append_counter_events now cid s previous current) = 0"
  by (induction current) (auto simp: append_counter_events_def Let_def)

lemma growth_append_counters:
  assumes "distinct (map fst current)"
  shows "growth source name (append_counter_events now cid source previous current) =
    (case map_of current name of
       Some v \<Rightarrow> unat v - unat (case map_of previous name of Some v \<Rightarrow> v | None \<Rightarrow> 0)
     | None \<Rightarrow> 0)"
  using assms
proof (induction current)
  case (Cons x current)
  obtain n v where x: "x = (n, v)" by force
  have rest: "append_counter_events now cid source previous ((n, v) # current) =
      append_counter_events now cid source previous [(n, v)] @ append_counter_events now cid source previous current"
    by (simp add: append_counter_events_def)
  have none: "n = name \<Longrightarrow> map_of current name = None" using Cons.prems by (simp add: x map_of_eq_None_iff)
  have one: "growth source name (append_counter_events now cid source previous [(n, v)]) =
      (if n = name then unat v - unat (case map_of previous name of Some v \<Rightarrow> v | None \<Rightarrow> 0) else 0)"
    using unat_growth by (auto simp: append_counter_events_def Let_def word_less_nat_alt not_less)
  show ?case
    using Cons none unfolding x rest growth_simps one by (auto split: option.splits)
qed (simp add: append_counter_events_def)

lemma growth_optional:
  "growth source name (optional_counter_event now cid n previous current) =
    (if source = ''cpu'' \<and> name = n then (case (previous, current) of (Some p, Some c) \<Rightarrow> unat c - unat p | _ \<Rightarrow> 0) else 0)"
  using unat_growth
  by (auto simp: optional_counter_event_def word_less_nat_alt not_less split: option.split)

lemma growth_collect:
  assumes "snapshot_wf current" "counter_of source name previous = Some p" "counter_of source name current = Some c"
  shows "growth source name (collect_counter_events now cid previous current) = unat c - unat p"
proof -
  have d: "distinct (map fst (es_memory_events current))" "distinct (map fst (es_pids_events current))"
    using assms(1) by (simp_all add: snapshot_wf_def bt_invar_distinct)
  consider "source = ''memory''" | "source = ''pids''" | "source = ''cpu''" "name = ''nr_throttled'' \<or> name = ''throttled_usec''"
    using assms(2) by (auto simp: counter_of_def split: if_splits)
  then show ?thesis
    using assms(2,3) growth_append_counters [OF d(1)] growth_append_counters [OF d(2)]
    by cases (auto simp: collect_counter_events_def growth_other growth_optional counter_of_def split: option.splits)
qed

definition look_snapshots :: "event_look list \<Rightarrow> event_snapshot list" where
  "look_snapshots looks = List.map_filter (\<lambda>look. map_option from_stats (ok_value (el_stats look))) looks"

lemma look_snapshots_Cons:
  "look_snapshots (look # looks) = (case el_stats look of Ok st \<Rightarrow> from_stats st # look_snapshots looks | Err _ \<Rightarrow> look_snapshots looks)"
  by (simp add: look_snapshots_def List.map_filter_simps split: result.split)

text \<open>A counter that every snapshot has and that never goes down.\<close>

definition steady :: "string \<Rightarrow> string \<Rightarrow> event_snapshot list \<Rightarrow> bool" where
  "steady source name snaps \<longleftrightarrow> list_all snapshot_wf snaps \<and> list_all (\<lambda>s. counter_of source name s \<noteq> None) snaps \<and>
     sorted (map (\<lambda>s. unat (the (counter_of source name s))) snaps)"

lemma emit_each_Ok: "emit_each emit es w = (w', Ok ()) \<Longrightarrow> w' = w @ es"
  unfolding emit_each_def
proof (induction es arbitrary: w)
  case (Cons e es)
  then have "io_each (io_call emit) es (w @ [e]) = (w', Ok ())" by auto
  from Cons.IH [OF this] show ?case by simp
qed simp

lemma stream_growth:
  assumes "stream_loop emit cid looks s0 (x, w) = Some ((x', w'), Ok (), rest)"
  shows "\<exists>used look v s. looks = used @ look # rest \<and> length (look_snapshots used) = length used \<and>
    w' = w @ v @ [with_status (container_status_name s) (new_event (env_now (el_env look)) cid ''lifecycle'' ''stopped'')] \<and> s \<noteq> Running \<and>
    (\<forall>source name. steady source name (s0 # look_snapshots used) \<longrightarrow>
      growth source name v = unat (the (counter_of source name (last (s0 # look_snapshots used)))) - unat (the (counter_of source name s0)))"
  using assms
proof (induction looks arbitrary: s0 x w)
  case (Cons look looks)
  obtain x1 r where load: "load_current_from (el_cleanup look) (el_env look) cid x = (x1, r)" by (rule prod.exhaust)
  with Cons.prems obtain s where s: "r = Ok s" by (cases r) simp_all
  show ?case
  proof (cases "cs_status s = Running")
    case False
    then show ?thesis
      using Cons.prems by (intro exI [of _ "[]"] exI [of _ look] exI [of _ "[]"] exI [of _ "cs_status s"])
        (auto simp: load s look_snapshots_def List.map_filter_simps io_defs)
  next
    case True
    from Cons.prems obtain st w1 where st: "el_stats look = Ok st"
        and emit: "emit_each emit (collect_counter_events (env_now (el_env look)) cid s0 (from_stats st)) w = (w1, Ok ())"
        and more: "stream_loop emit cid looks (from_stats st) (x1, w1) = Some ((x', w'), Ok (), rest)"
      by (auto simp: load s True Let_def split: result.splits prod.splits)
    let ?es = "collect_counter_events (env_now (el_env look)) cid s0 (from_stats st)"
    from Cons.IH [OF more] obtain used k v t where IH: "looks = used @ k # rest" "length (look_snapshots used) = length used"
        "w' = w1 @ v @ [with_status (container_status_name t) (new_event (env_now (el_env k)) cid ''lifecycle'' ''stopped'')]" "t \<noteq> Running"
        "\<And>source name. steady source name (from_stats st # look_snapshots used) \<Longrightarrow>
          growth source name v = unat (the (counter_of source name (last (from_stats st # look_snapshots used)))) -
            unat (the (counter_of source name (from_stats st)))"
      by blast
    have snaps: "look_snapshots (look # used) = from_stats st # look_snapshots used"
      by (simp add: look_snapshots_Cons st)
    have "growth source name (?es @ v) = unat (the (counter_of source name (last (s0 # look_snapshots (look # used))))) -
        unat (the (counter_of source name s0))"
      if steady: "steady source name (s0 # look_snapshots (look # used))" for source name
    proof -
      let ?u = "\<lambda>s. unat (the (counter_of source name s))"
      note steady' = steady [unfolded snaps]
      then have "steady source name (from_stats st # look_snapshots used)" by (simp add: steady_def)
      then have "growth source name v = ?u (last (from_stats st # look_snapshots used)) - ?u (from_stats st)" by (rule IH)
      moreover have "growth source name ?es = ?u (from_stats st) - ?u s0"
        using steady' by (auto simp: steady_def intro!: growth_collect)
      moreover have "?u s0 \<le> ?u (from_stats st)" "?u (from_stats st) \<le> ?u (last (from_stats st # look_snapshots used))"
        using steady' by (auto simp: steady_def)
      ultimately show ?thesis unfolding snaps by simp
    qed
    then show ?thesis
      using IH(1-4) emit_each_Ok [OF emit] snaps
      by (intro exI [of _ "look # used"] exI [of _ k] exI [of _ "?es @ v"] exI [of _ t]) simp
  qed
qed simp

text \<open>
  C28: when a stream of events ends, its last event reports that the container is no longer running, and before it the increments
  of every counter that the snapshots show and that never went down add up to exactly its growth from the first snapshot to the
  last one before the end: no growth is lost between two looks and none is reported twice.
\<close>

theorem events_account_for_growth:
  assumes "stream_counter_events emit exists_dir cid False False interval first_look looks (x, []) = Some ((x', w), Ok (), rest)"
  shows "\<exists>used look v s. looks = used @ look # rest \<and>
    w = v @ [with_status (container_status_name s) (new_event (env_now (el_env look)) cid ''lifecycle'' ''stopped'')] \<and> s \<noteq> Running \<and>
    (let snaps = look_snapshots (first_look # used) in length snaps = length used + 1 \<and>
      (\<forall>source name. steady source name snaps \<longrightarrow>
        growth source name v = unat (the (counter_of source name (last snaps))) - unat (the (counter_of source name (hd snaps)))))"
proof -
  from assms obtain st x1 where st: "el_stats first_look = Ok st"
      and loop: "stream_loop emit cid looks (from_stats st) (x1, []) = Some ((x', w), Ok (), rest)"
    by (auto simp: stream_counter_events_def Let_def io_return_def split: if_splits prod.splits result.splits)
  then have "look_snapshots (first_look # used) = from_stats st # look_snapshots used" for used
    by (simp add: look_snapshots_Cons)
  then show ?thesis using stream_growth [OF loop] by (simp only: Let_def list.sel append_Nil length_Cons Suc_eq_plus1 add_right_cancel) blast
qed

definition sample_look :: "environment \<Rightarrow> u64 \<Rightarrow> event_look" where
  "sample_look env oom = \<lparr>el_cleanup = (\<lambda>_ _. Ok ()), el_env = env, el_stats = Ok
     \<lparr>cgs_path = ''/cg/web'', cgs_memory_current = None, cgs_memory_max = None, cgs_cpu_usage_usec = None,
      cgs_cpu_user_usec = None, cgs_cpu_system_usec = None, cgs_pids_current = None, cgs_pids_max = None,
      cgs_memory = \<lparr>ms_current = None, ms_max = None, ms_events = [(''oom'', oom)], ms_pressure = None\<rparr>,
      cgs_cpu = \<lparr>cst_usage_usec = None, cst_user_usec = None, cst_system_usec = None, cst_nr_periods = None,
        cst_nr_throttled = None, cst_throttled_usec = None, cst_pressure = None\<rparr>,
      cgs_pids = \<lparr>pst_current = None, pst_max = None, pst_events = []\<rparr>, cgs_io = []\<rparr>\<rparr>"

definition gone_env :: environment where
  "gone_env = \<lparr>env_proc_exists = (\<lambda>_. False), env_proc_stat = (\<lambda>_. None), env_now = 2000\<rparr>"

lemma sample_loads:
  assumes "st = [(''web'', Some (sample_state 42 (Some 777)))]"
  shows "load_current_from (\<lambda>_ _. Ok ()) sample_env ''web'' (st, w) = ((st, w), Ok (sample_state 42 (Some 777)))"
    "\<exists>x s. load_current_from (\<lambda>_ _. Ok ()) gone_env ''web'' (st, w) = (x, Ok s) \<and> cs_status s = Stopped"
proof -
  have id: "validate_id ''web'' = Ok ()" by (simp add: validate_id_def is_id_byte_def)
  have "pid_is_alive sample_env 42" by code_simp
  then show "load_current_from (\<lambda>_ _. Ok ()) sample_env ''web'' (st, w) = ((st, w), Ok (sample_state 42 (Some 777)))"
    by (simp add: load_current_from_def lock_state_def ensure_dir_def load_from_def id assms sample_state_def refresh_liveness_def sample_starttime)
  show "\<exists>x s. load_current_from (\<lambda>_ _. Ok ()) gone_env ''web'' (st, w) = (x, Ok s) \<and> cs_status s = Stopped"
    by (auto simp: load_current_from_def lock_state_def ensure_dir_def load_from_def id assms sample_state_def refresh_liveness_def
        gone_env_def pid_is_alive_def mark_stopped_def write_state_atomic_def Let_def split: prod.splits)
qed

theorem events_account_for_growth_witness:
  "\<exists>x' v e. stream_counter_events (\<lambda>_ _. Ok ()) (\<lambda>_. True) ''web'' False False 1 (sample_look sample_env 1)
      [sample_look sample_env 3, sample_look gone_env 3] (([(''web'', Some (sample_state 42 (Some 777)))], []), []) =
        Some ((x', v @ [e]), Ok (), []) \<and> growth ''memory'' ''oom'' v = 2"
proof -
  let ?st = "[(''web'', Some (sample_state 42 (Some 777)))]" and ?looks = "[sample_look sample_env 3, sample_look gone_env 3]"
  let ?r = "stream_counter_events (\<lambda>_ _. Ok ()) (\<lambda>_. True) ''web'' False False 1 (sample_look sample_env 1) ?looks ((?st, []), [])"
  obtain x s where gone: "load_current_from (\<lambda>_ _. Ok ()) gone_env ''web'' (?st, []) = (x, Ok s)" "cs_status s = Stopped"
    using sample_loads(2) [OF refl] by blast
  have run: "cs_status (sample_state 42 (Some 777)) = Running" "cs_cgroup_path (sample_state 42 (Some 777)) = Some ''/cg/web''"
    by (simp_all add: sample_state_def)
  have "\<exists>w. ?r = Some ((x, w), Ok (), [])"
    using gone run sample_loads(1) [OF refl]
    by (simp add: stream_counter_events_def running_cgroup_path_def sample_look_def io_defs emit_each_def Let_def
        collect_counter_events_def append_counter_events_def optional_counter_event_def from_stats_def)
  then obtain w where r: "?r = Some ((x, w), Ok (), [])" ..
  have snaps: "steady ''memory'' ''oom'' (look_snapshots [sample_look sample_env 1, sample_look sample_env 3])"
    by (simp add: look_snapshots_Cons look_snapshots_def steady_def snapshot_wf_def from_stats_def counter_of_def sample_look_def bt_invar_def List.map_filter_simps)
  have one: "used = [sample_look sample_env 3]" if "?looks = used @ [look]" for used look
    using that by (cases used rule: rev_cases) auto
  from events_account_for_growth [OF r] obtain v e where "w = v @ [e]" and "growth ''memory'' ''oom'' v = 2"
    using snaps by (auto simp: Let_def dest!: one)
      (simp add: look_snapshots_Cons look_snapshots_def from_stats_def counter_of_def sample_look_def List.map_filter_simps)
  with r show ?thesis by blast
qed

end
