(* ===== verification/Report.thy ===== *)
theory Report
  imports Compile
begin

text \<open>
  \<^verbatim>\<open>src/seccomp/baseline.rs\<close> and \<^verbatim>\<open>src/seccomp/report.rs\<close>: what a Docker profile allows a container with given
  capabilities, and the inspection and comparison of generated profiles, with the known vulnerabilities a profile cuts off. The
  files are read by the parser: the records are what it delivers. A reduction \<^verbatim>\<open>1 - x/y\<close>, a floating point number in the report,
  is the exact fraction (numerator and denominator).
\<close>

subsection \<open>Docker profiles\<close>

definition docker_default_capabilities :: "string list" where
  "docker_default_capabilities =
     [''CAP_AUDIT_WRITE'', ''CAP_CHOWN'', ''CAP_DAC_OVERRIDE'', ''CAP_FOWNER'', ''CAP_FSETID'', ''CAP_KILL'', ''CAP_MKNOD'',
      ''CAP_NET_BIND_SERVICE'', ''CAP_NET_RAW'', ''CAP_SETFCAP'', ''CAP_SETGID'', ''CAP_SETPCAP'', ''CAP_SETUID'', ''CAP_SYS_CHROOT'']"

definition docker_arch_name :: "target_arch \<Rightarrow> string" where
  "docker_arch_name a = (case a of X86_64 \<Rightarrow> ''amd64'' | Aarch64 \<Rightarrow> ''arm64'')"

record baseline_options =
  bo_arch :: string
  bo_capabilities :: "string btree_set"

definition default_baseline_options :: "target_arch \<Rightarrow> baseline_options" where
  "default_baseline_options a = \<lparr>bo_arch = docker_arch_name a, bo_capabilities = sort_dedup docker_default_capabilities\<rparr>"

record rule_filter =
  rf_caps :: "string list"
  rf_arches :: "string list"

record syscall_rule =
  sr_names :: "string list"
  sr_name :: "string option"
  sr_action :: string
  sr_includes :: "rule_filter option"
  sr_excludes :: "rule_filter option"

definition rule_applies :: "baseline_options \<Rightarrow> syscall_rule \<Rightarrow> bool" where
  "rule_applies opts rule =
     (if (case sr_includes rule of
            Some includes \<Rightarrow>
              rf_arches includes \<noteq> [] \<and> bo_arch opts \<notin> set (rf_arches includes) \<or>
              list_ex (\<lambda>cap. \<not> bts_contains (bo_capabilities opts) cap) (rf_caps includes)
          | None \<Rightarrow> False)
      then False
      else if (case sr_excludes rule of
            Some excludes \<Rightarrow>
              rf_arches excludes \<noteq> [] \<and> bo_arch opts \<in> set (rf_arches excludes) \<or>
              rf_caps excludes \<noteq> [] \<and> list_all (\<lambda>cap. bts_contains (bo_capabilities opts) cap) (rf_caps excludes)
          | None \<Rightarrow> False)
      then False
      else True)"

definition add_rule :: "baseline_options \<Rightarrow> syscall_rule \<Rightarrow> string btree_set \<Rightarrow> string btree_set" where
  "add_rule opts rule allowed =
     (if sr_action rule \<noteq> ''SCMP_ACT_ALLOW'' \<or> \<not> rule_applies opts rule then allowed
      else
        let allowed = fold bts_insert (sr_names rule) allowed in
        (case sr_name rule of Some name \<Rightarrow> bts_insert name allowed | None \<Rightarrow> allowed))"

definition baseline_allowed_names :: "baseline_options \<Rightarrow> syscall_rule list \<Rightarrow> string btree_set" where
  "baseline_allowed_names opts rules = fold (add_rule opts) rules []"

definition baseline_allowed_names_for_arch :: "target_arch \<Rightarrow> baseline_options \<Rightarrow> syscall_rule list \<Rightarrow> string btree_set" where
  "baseline_allowed_names_for_arch a opts rules = filter (\<lambda>name. syscall_number a name \<noteq> None) (baseline_allowed_names opts rules)"

subsection \<open>Inspection\<close>

record profile_inspection =
  pi_path :: string
  pi_arch :: string
  pi_default_action :: linux_seccomp_action
  pi_allowed_count :: nat
  pi_allowed_count_for_arch :: nat
  pi_allowed :: "string list"
  pi_unknown_for_arch :: "string list"
  pi_instruction_count :: nat
  pi_workload :: "string option"
  pi_generated_at_unix :: "u64 option"
  pi_observed_syscall_count :: "nat option"
  pi_baseline_syscall_count :: "nat option"
  pi_total_events :: "u64 option"
  pi_source_runs :: nat

definition inspect_profile :: "target_arch \<Rightarrow> string \<Rightarrow> seccomp_profile \<Rightarrow> (seccomp_error, profile_inspection) result" where
  "inspect_profile a path p =
     (let allowed = allowed_names p;
          allowed_for_arch = allowed_names_for_arch a p;
          unknown = bts_difference allowed allowed_for_arch
      in and_then (compile a p \<lparr>co_default_action = Act_Errno, co_order = ByNumber\<rparr>) (\<lambda>compiled.
         let metadata = crun_metadata p in
         Ok \<lparr>pi_path = path, pi_arch = NATIVE_ARCH_NAME a, pi_default_action = default_action p,
             pi_allowed_count = length allowed, pi_allowed_count_for_arch = length allowed_for_arch, pi_allowed = allowed,
             pi_unknown_for_arch = unknown, pi_instruction_count = length (insns (cp_program compiled)),
             pi_workload = Option.bind metadata md_workload, pi_generated_at_unix = map_option md_generated_at_unix metadata,
             pi_observed_syscall_count = map_option md_observed_syscall_count metadata,
             pi_baseline_syscall_count = map_option md_baseline_syscall_count metadata,
             pi_total_events = map_option md_total_events metadata,
             pi_source_runs = (case metadata of Some m \<Rightarrow> length (md_source_runs m) | None \<Rightarrow> 0)\<rparr>))"

subsection \<open>Known vulnerabilities\<close>

record attack_path =
  ap_syscalls :: "string list"
  ap_note :: string

record cve_entry =
  cve_id :: string
  cve_title :: string
  cve_subsystem :: string
  cve_attack_paths :: "attack_path list"
  cve_container_relevant :: bool
  cve_confidence :: string
  cve_references :: "(string, string) btree_map"

record cve_map =
  cm_schema_version :: u32
  cm_arch :: string
  cm_entries :: "cve_entry list"

record cve_coverage =
  cc_total :: nat
  cc_container_relevant :: nat
  cc_mitigated_by_profile :: nat
  cc_mitigated_by_baseline :: nat
  cc_newly_mitigated :: "string list"
  cc_still_reachable :: "string list"

definition is_mitigated :: "cve_entry \<Rightarrow> string btree_set \<Rightarrow> bool" where
  "is_mitigated entry allowed =
     (if cve_attack_paths entry = [] then False
      else list_all (\<lambda>path. list_ex (\<lambda>syscall. \<not> bts_contains allowed syscall) (ap_syscalls path)) (cve_attack_paths entry))"

definition count_entry :: "string btree_set \<Rightarrow> string btree_set \<Rightarrow> cve_entry \<Rightarrow> cve_coverage \<Rightarrow> cve_coverage" where
  "count_entry profile_allowed baseline_allowed entry c =
     (let by_profile = is_mitigated entry profile_allowed;
          by_baseline = (baseline_allowed \<noteq> [] \<and> is_mitigated entry baseline_allowed);
          c = (if by_profile then c\<lparr>cc_mitigated_by_profile := cc_mitigated_by_profile c + 1\<rparr>
               else c\<lparr>cc_still_reachable := cc_still_reachable c @ [cve_id entry]\<rparr>);
          c = (if by_baseline then c\<lparr>cc_mitigated_by_baseline := cc_mitigated_by_baseline c + 1\<rparr> else c)
      in if by_profile \<and> \<not> by_baseline then c\<lparr>cc_newly_mitigated := cc_newly_mitigated c @ [cve_id entry]\<rparr> else c)"

definition cve_coverage_of :: "cve_map \<Rightarrow> string btree_set \<Rightarrow> string btree_set \<Rightarrow> cve_coverage" where
  "cve_coverage_of m profile_allowed baseline_allowed =
     (let relevant = filter cve_container_relevant (cm_entries m)
      in fold (count_entry profile_allowed baseline_allowed) relevant
           \<lparr>cc_total = length (cm_entries m), cc_container_relevant = length relevant, cc_mitigated_by_profile = 0,
            cc_mitigated_by_baseline = 0, cc_newly_mitigated = [], cc_still_reachable = []\<rparr>)"

subsection \<open>Comparison\<close>

record baseline =
  bl_path :: string
  bl_allowed :: "string btree_set"

record comparison_report =
  cr_profile :: string
  cr_baseline :: "string option"
  cr_arch :: string
  cr_universe_count :: nat
  cr_profile_allowed :: nat
  cr_baseline_allowed :: "nat option"
  cr_reduction_vs_baseline :: "(int \<times> nat) option"
  cr_reduction_vs_universe :: "int \<times> nat"
  cr_newly_blocked :: "string list"
  cr_over_allowed :: "string list"
  cr_cve :: "cve_coverage option"

definition reduction :: "nat \<Rightarrow> nat \<Rightarrow> int \<times> nat" where
  "reduction x y = (int y - int x, y)"

definition compare_profiles ::
    "target_arch \<Rightarrow> string \<Rightarrow> seccomp_profile \<Rightarrow> baseline option \<Rightarrow> cve_map option \<Rightarrow> comparison_report" where
  "compare_profiles a profile_path p base cves =
     (let universe_count = length (table a);
          profile_allowed = allowed_names_for_arch a p;
          baseline_allowed = map_option bl_allowed base
      in \<lparr>cr_profile = profile_path, cr_baseline = map_option bl_path base, cr_arch = NATIVE_ARCH_NAME a,
          cr_universe_count = universe_count, cr_profile_allowed = length profile_allowed,
          cr_baseline_allowed = map_option length baseline_allowed,
          cr_reduction_vs_baseline = Option.bind baseline_allowed (\<lambda>allowed.
            if allowed \<noteq> [] then Some (reduction (length profile_allowed) (length allowed)) else None),
          cr_reduction_vs_universe = reduction (length profile_allowed) universe_count,
          cr_newly_blocked = (case baseline_allowed of Some allowed \<Rightarrow> bts_difference allowed profile_allowed | None \<Rightarrow> []),
          cr_over_allowed = (case baseline_allowed of Some allowed \<Rightarrow> bts_difference profile_allowed allowed | None \<Rightarrow> []),
          cr_cve = map_option (\<lambda>m. cve_coverage_of m profile_allowed (case baseline_allowed of Some allowed \<Rightarrow> allowed | None \<Rightarrow> [])) cves\<rparr>)"

subsection \<open>The report tells what the filter does\<close>

text \<open>
  A call gets through a filter that lets it run, silently or with a line in the log. A vulnerability is exploitable under a
  filter when all calls of one of its paths exist and get through; without a path it counts as open.
\<close>

definition gets_through :: "(sock_filter list \<Rightarrow> seccomp_data \<Rightarrow> nat \<Rightarrow> u32 \<Rightarrow> u32 option) \<Rightarrow> target_arch \<Rightarrow> program \<Rightarrow> string \<Rightarrow> bool" where
  "gets_through exec a p s \<longleftrightarrow> (\<exists>n. syscall_number a s = Some n \<and>
     exec (insns p) \<lparr>sd_nr = word_of_int n, sd_arch = AUDIT_ARCH_NATIVE a\<rparr> 0 0 \<in> {Some SECCOMP_RET_ALLOW, Some SECCOMP_RET_LOG})"

definition exploitable ::
    "(sock_filter list \<Rightarrow> seccomp_data \<Rightarrow> nat \<Rightarrow> u32 \<Rightarrow> u32 option) \<Rightarrow> target_arch \<Rightarrow> program \<Rightarrow> cve_entry \<Rightarrow> bool" where
  "exploitable exec a p e \<longleftrightarrow> cve_attack_paths e = [] \<or>
     (\<exists>path \<in> set (cve_attack_paths e). \<forall>s \<in> set (ap_syscalls path). gets_through exec a p s)"

lemma to_bpf_ret_refuses: "to_bpf_ret action \<in> {SECCOMP_RET_ALLOW, SECCOMP_RET_LOG} \<longleftrightarrow> action = Act_Log"
  by (cases action) (simp_all add: SECCOMP_RET_ALLOW_def SECCOMP_RET_LOG_def SECCOMP_RET_KILL_PROCESS_def SECCOMP_RET_ERRNO_def EPERM_def ENOSYS_def)

lemma gets_through_iff:
  assumes "seccomp_vm exec" "compile a p opts = Ok c"
  shows "gets_through exec a (cp_program c) s \<longleftrightarrow> syscall_number a s \<noteq> None \<and>
    (co_default_action opts = Act_Log \<or> bts_contains (allowed_names_for_arch a p) s)"
proof (cases "syscall_number a s")
  case (Some n)
  have "uint (word_of_int n :: u32) = n"
    using native.number_range [OF Some] by (simp add: uint_word_of_int take_bit_int_eq_self)
  moreover have "(\<exists>t \<in> set (allowed_names p). syscall_number a t = Some n) \<longleftrightarrow> s \<in> set (allowed_names p)"
    using Some native.number_inj [OF Some] by blast
  ultimately show ?thesis
    using to_bpf_ret_refuses [of "co_default_action opts"]
    by (auto simp: gets_through_def Some compiled_decides [OF assms] bts_contains_def allowed_names_for_arch_def)
qed (simp add: gets_through_def)

lemma is_mitigated_iff:
  assumes "seccomp_vm exec" "compile a p opts = Ok c" "co_default_action opts \<noteq> Act_Log"
  shows "is_mitigated e (allowed_names_for_arch a p) \<longleftrightarrow> \<not> exploitable exec a (cp_program c) e"
proof -
  have "gets_through exec a (cp_program c) s \<longleftrightarrow> bts_contains (allowed_names_for_arch a p) s" for s
    using assms(3) by (auto simp: gets_through_iff [OF assms(1,2)] bts_contains_def allowed_names_for_arch_def)
  then show ?thesis by (auto simp: is_mitigated_def exploitable_def list_all_iff list_ex_iff)
qed

lemma count_entries:
  "cc_still_reachable (fold (count_entry allowed base) es c) =
     cc_still_reachable c @ map cve_id (filter (\<lambda>e. \<not> is_mitigated e allowed) es)"
  "cc_mitigated_by_profile (fold (count_entry allowed base) es c) =
     cc_mitigated_by_profile c + length (filter (\<lambda>e. is_mitigated e allowed) es)"
  "cc_container_relevant (fold (count_entry allowed base) es c) = cc_container_relevant c"
  by (induction es arbitrary: c) (simp_all add: count_entry_def Let_def)



end
