(* ===== verification/Trace.thy ===== *)
theory Trace
  imports Lifecycle
begin

text \<open>
  \<^verbatim>\<open>src/trace.rs\<close>: what \<^verbatim>\<open>/proc\<close> shows of a running container, with its tree of processes. \<open>proc_files\<close> holds the files of
  \<^verbatim>\<open>/proc\<close> that can be read, by process. Running \<^verbatim>\<open>strace\<close> is a parameter: what its process leaves behind.
\<close>

definition MAX_PROCESS_TREE_DEPTH :: nat where "MAX_PROCESS_TREE_DEPTH = 16"

record proc_files =
  pf_status :: "int \<Rightarrow> string option"
  pf_cmdline :: "int \<Rightarrow> string option"
  pf_comm :: "int \<Rightarrow> string option"
  pf_children :: "int \<Rightarrow> string option"

datatype trace_failure = Trace_error trace_error | Trace_lc lc_error | Trace_io string

datatype process_node = Node (pn_pid: int) (pn_command: string) (pn_children: "process_node list") (pn_truncated: bool)

subsection \<open>Reading \<^verbatim>\<open>/proc\<close>\<close>

definition parse_proc_status :: "string \<Rightarrow> (string, string) btree_map" where
  "parse_proc_status content =
     fold (\<lambda>line status. case split_once (CHR '':'') line of None \<Rightarrow> status | Some (key, v) \<Rightarrow> bt_insert key (trim v) status)
       (lines content) []"

definition read_proc_status :: "proc_files \<Rightarrow> int \<Rightarrow> (trace_failure, (string, string) btree_map) result" where
  "read_proc_status pf pid = map_ok parse_proc_status (ok_or (pf_status pf pid) (Trace_io ''failed to read proc status''))"

definition parse_cmdline :: "string \<Rightarrow> string" where
  "parse_cmdline cmdline = join '' '' (filter (\<lambda>part. part \<noteq> []) (split_char (char_of (0 :: nat)) cmdline))"

definition read_command :: "proc_files \<Rightarrow> int \<Rightarrow> (trace_failure, string) result" where
  "read_command pf pid =
     (let fallback = map_ok trim (ok_or (pf_comm pf pid) (Trace_io ''failed to read process command'')) in
      case pf_cmdline pf pid of
        Some cmdline \<Rightarrow> let command = parse_cmdline cmdline in if command \<noteq> [] then Ok command else fallback
      | None \<Rightarrow> fallback)"

definition read_child_pids :: "proc_files \<Rightarrow> int \<Rightarrow> (trace_failure, int list) result" where
  "read_child_pids pf pid =
     map_ok (\<lambda>content. List.map_filter parse_i32 (split_whitespace content))
       (ok_or (pf_children pf pid) (Trace_io ''failed to read process children''))"

subsection \<open>The tree of processes\<close>

function collect_process_node :: "proc_files \<Rightarrow> int \<Rightarrow> nat \<Rightarrow> int set \<Rightarrow> int set \<times> (trace_failure, process_node) result"
  and collect_children :: "proc_files \<Rightarrow> int list \<Rightarrow> nat \<Rightarrow> int set \<Rightarrow> int set \<times> process_node list" where
  "collect_process_node pf pid depth visited =
     (if pid \<in> visited then
        (visited, Ok (Node pid (case read_command pf pid of Ok command \<Rightarrow> command | Err _ \<Rightarrow> ''<cycle>'') [] False))
      else
        let visited = insert pid visited in
        case (if depth < MAX_PROCESS_TREE_DEPTH then read_child_pids pf pid else Ok []) of
          Err e \<Rightarrow> (visited, Err e)
        | Ok pids \<Rightarrow>
            let (visited, children) =
              (if depth < MAX_PROCESS_TREE_DEPTH then collect_children pf pids (depth + 1) visited else (visited, [])) in
            (visited, map_ok (\<lambda>command. Node pid command children (MAX_PROCESS_TREE_DEPTH \<le> depth)) (read_command pf pid)))"
| "collect_children pf [] depth visited = (visited, [])"
| "collect_children pf (pid # pids) depth visited =
     (case collect_process_node pf pid depth visited of
        (visited, r) \<Rightarrow>
          (case collect_children pf pids depth visited of
             (visited, nodes) \<Rightarrow> (visited, case r of Ok node \<Rightarrow> node # nodes | Err _ \<Rightarrow> nodes)))"
  by pat_completeness auto

termination
  by (relation "measures [case_sum (\<lambda>(_, _, depth, _). 17 - depth) (\<lambda>(_, _, depth, _). 17 - depth),
      case_sum (\<lambda>_. 0) (\<lambda>(_, pids, _). 1 + length pids)]") (auto simp: MAX_PROCESS_TREE_DEPTH_def)

declare collect_process_node.simps [simp del]

definition collect_process_tree :: "proc_files \<Rightarrow> int \<Rightarrow> (trace_failure, process_node) result" where
  "collect_process_tree pf pid = snd (collect_process_node pf pid 0 {})"

subsection \<open>Tracing\<close>

record trace_options =
  to_strace :: bool
  to_strace_duration_ms :: nat

record strace_report =
  st_available :: bool
  st_requested :: bool
  st_duration_ms :: "u64 option"
  st_summary :: "string option"
  st_error :: "string option"

text \<open>What \<^verbatim>\<open>strace\<close> leaves: its exit status as printed when it is not success, and its error output.\<close>

record strace_outcome =
  so_failure :: "string option"
  so_stderr :: string

definition collect_strace ::
    "bool \<Rightarrow> trace_options \<Rightarrow> (string, strace_outcome) result \<Rightarrow> (trace_failure, strace_report) result" where
  "collect_strace available opts outcome =
     (if \<not> to_strace opts then
        Ok \<lparr>st_available = available, st_requested = False, st_duration_ms = None, st_summary = None, st_error = None\<rparr>
      else
        let duration_ms = (if to_strace_duration_ms opts < 2 ^ 64 then word_of_nat (to_strace_duration_ms opts) else - 1) in
        if \<not> available then
          Ok \<lparr>st_available = available, st_requested = True, st_duration_ms = Some duration_ms, st_summary = None,
              st_error = Some ''strace is not installed or not executable''\<rparr>
        else
          and_then (map_err Trace_io outcome) (\<lambda>out.
          let stderr = trim (so_stderr out) in
          Ok \<lparr>st_available = available, st_requested = True, st_duration_ms = Some duration_ms,
              st_summary = (if stderr \<noteq> [] then Some stderr else None),
              st_error = map_option (\<lambda>status. ''strace exited with '' @ status) (so_failure out)\<rparr>))"

record trace_report =
  tr_id :: string
  tr_pid :: int
  tr_runtime_status :: string
  tr_proc_status :: "(string, string) btree_map"
  tr_process_tree :: process_node
  tr_strace :: strace_report
  tr_ebpf_available :: bool

definition trace_container ::
    "lifecycle_world \<Rightarrow> proc_files \<Rightarrow> bool \<Rightarrow> (int \<Rightarrow> (string, strace_outcome) result) \<Rightarrow> string \<Rightarrow> trace_options \<Rightarrow> runtime \<Rightarrow>
     runtime \<times> (trace_failure, trace_report) result" where
  "trace_container lw pf strace_available strace cid opts rt =
     (case lc_load_current lw cid rt of
        (rt, Err e) \<Rightarrow> (rt, Err (Trace_lc e))
      | (rt, Ok s) \<Rightarrow>
          (rt,
           if cs_status s \<noteq> Running then Err (Trace_error (ContainerNotRunning_Trace cid))
           else
             and_then (ok_or (cs_pid s) (Trace_error ContainerHasNoPid_Trace)) (\<lambda>pid.
             and_then (read_proc_status pf pid) (\<lambda>proc_status.
             and_then (collect_process_tree pf pid) (\<lambda>process_tree.
             and_then (collect_strace strace_available opts (strace pid)) (\<lambda>st.
             Ok \<lparr>tr_id = cid, tr_pid = pid, tr_runtime_status = ''running'', tr_proc_status = proc_status,
                 tr_process_tree = process_tree, tr_strace = st, tr_ebpf_available = False\<rparr>))))))"

subsection \<open>The tree is bounded and real\<close>

text \<open>\<open>within k t\<close>: at most \<open>k\<close> generations below the root, and only nodes of the last one are marked as cut off.\<close>

fun within :: "nat \<Rightarrow> process_node \<Rightarrow> bool" where
  "within 0 (Node _ _ children _) \<longleftrightarrow> children = []"
| "within (Suc k) (Node _ _ children truncated) \<longleftrightarrow> \<not> truncated \<and> list_all (within k) children"

text \<open>The processes whose children the tree shows, in order; and that what is shown below a process are children of it.\<close>

fun expanded :: "process_node \<Rightarrow> int list" where
  "expanded (Node pid _ children _) = (if children = [] then [] else pid # concat (map expanded children))"

fun genuine :: "proc_files \<Rightarrow> process_node \<Rightarrow> bool" where
  "genuine pf (Node pid _ children _) \<longleftrightarrow> list_all (genuine pf) children \<and>
     (children \<noteq> [] \<longrightarrow> (\<exists>pids. read_child_pids pf pid = Ok pids \<and> subseq (map pn_pid children) pids))"

definition node_ok :: "proc_files \<Rightarrow> nat \<Rightarrow> int set \<Rightarrow> int set \<Rightarrow> process_node \<Rightarrow> bool" where
  "node_ok pf depth v v' t \<longleftrightarrow> genuine pf t \<and> within (16 - depth) t \<and> distinct (expanded t) \<and> set (expanded t) \<subseteq> v' - v"

definition nodes_ok :: "proc_files \<Rightarrow> nat \<Rightarrow> int set \<Rightarrow> int set \<Rightarrow> process_node list \<Rightarrow> bool" where
  "nodes_ok pf depth v v' ts \<longleftrightarrow> list_all (genuine pf) ts \<and> list_all (within (16 - depth)) ts \<and>
     distinct (concat (map expanded ts)) \<and> set (concat (map expanded ts)) \<subseteq> v' - v"

lemma node_ok_leaf:
  "node_ok pf depth v v' (Node pid command [] truncated) \<longleftrightarrow> depth < 16 \<longrightarrow> \<not> truncated"
  by (cases "16 - depth") (auto simp: node_ok_def)

lemma collect_ok:
  "depth \<le> 16 \<Longrightarrow> collect_process_node pf pid depth v = (v', r) \<Longrightarrow>
     v \<subseteq> v' \<and> (\<forall>t. r = Ok t \<longrightarrow> pn_pid t = pid \<and> node_ok pf depth v v' t)"
  "depth \<le> 16 \<Longrightarrow> collect_children pf pids depth v = (v', ts) \<Longrightarrow>
     v \<subseteq> v' \<and> subseq (map pn_pid ts) pids \<and> nodes_ok pf depth v v' ts"
proof (induction pf pid depth v and pf pids depth v arbitrary: v' r and v' ts
    rule: collect_process_node_collect_children.induct)
  case (1 pf pid depth v)
  show ?case
  proof (cases "pid \<in> v")
    case True
    then show ?thesis using "1.prems" by (auto simp: collect_process_node.simps [of pf pid] node_ok_leaf)
  next
    case False
    show ?thesis
    proof (cases "depth < 16")
      case True
      show ?thesis
      proof (cases "read_child_pids pf pid")
        case (Err e)
        then show ?thesis
          using "1.prems" False True by (auto simp: collect_process_node.simps [of pf pid] MAX_PROCESS_TREE_DEPTH_def)
      next
        case (Ok pids)
        obtain w ts where c: "collect_children pf pids (depth + 1) (insert pid v) = (w, ts)" by (rule prod.exhaust)
        have IH: "insert pid v \<subseteq> w \<and> subseq (map pn_pid ts) pids \<and> nodes_ok pf (depth + 1) (insert pid v) w ts"
          using "1.IH" [OF False refl _ _ _ c] True Ok by (simp add: MAX_PROCESS_TREE_DEPTH_def)
        have r: "v' = w" "r = map_ok (\<lambda>command. Node pid command ts False) (read_command pf pid)"
          using "1.prems" False True Ok c by (auto simp: collect_process_node.simps [of pf pid] MAX_PROCESS_TREE_DEPTH_def Let_def)
        have "16 - depth = Suc (16 - (depth + 1))" using True by simp
        then have "node_ok pf depth v w (Node pid command ts False)" for command
          using IH Ok False by (auto simp: node_ok_def nodes_ok_def)
        then show ?thesis using IH by (auto simp: r)
      qed
    next
      case full: False
      then show ?thesis
        using "1.prems" False by (auto simp: collect_process_node.simps [of pf pid] MAX_PROCESS_TREE_DEPTH_def Let_def node_ok_leaf)
    qed
  qed
next
  case (3 pf pid pids depth v)
  obtain v1 r where node: "collect_process_node pf pid depth v = (v1, r)" by (rule prod.exhaust)
  obtain v2 ns where rest: "collect_children pf pids depth v1 = (v2, ns)" by (rule prod.exhaust)
  note IH1 = "3.IH"(1) [OF "3.prems"(1) node] and IH2 = "3.IH"(2) [OF node [symmetric] "3.prems"(1) rest]
  have "v' = v2" "ts = (case r of Ok n \<Rightarrow> n # ns | Err _ \<Rightarrow> ns)" using "3.prems"(2) node rest by simp_all
  then show ?case using IH1 IH2 by (cases r) (auto simp: nodes_ok_def node_ok_def intro: subseq_order.trans)
qed (auto simp: nodes_ok_def)

text \<open>
  C32: collecting the tree of a container's processes always ends, whatever \<^verbatim>\<open>/proc\<close> shows, even if the processes it lists
  form a cycle: a tree has at most sixteen generations below its root, which is the container's process, and only nodes of the
  last one are marked as cut off; the children of each process are shown at most once; and what is shown below a
  process are some of the children \<^verbatim>\<open>/proc\<close> lists for it, in that order.
\<close>

theorem process_tree_bounded:
  assumes "collect_process_tree pf pid = Ok t"
  shows "pn_pid t = pid \<and> within 16 t \<and> distinct (expanded t) \<and> genuine pf t"
proof -
  obtain v r where c: "collect_process_node pf pid 0 {} = (v, r)" by (rule prod.exhaust)
  then have "r = Ok t" using assms by (simp add: collect_process_tree_def)
  with collect_ok(1) [OF _ c] show ?thesis by (simp add: node_ok_def)
qed

text \<open>Two processes that are listed as each other's child.\<close>

definition cyclic_proc :: proc_files where
  "cyclic_proc = \<lparr>pf_status = (\<lambda>_. None), pf_cmdline = (\<lambda>_. None), pf_comm = (\<lambda>_. Some ''sh''),
     pf_children = (\<lambda>pid. Some (if pid = 1 then ''2 '' else ''1 ''))\<rparr>"

theorem process_tree_bounded_witness:
  "\<exists>t. collect_process_tree cyclic_proc 1 = Ok t \<and> within 16 t \<and> distinct (expanded t)"
proof -
  have "is_ok (collect_process_tree cyclic_proc 1)"
    by (simp add: collect_process_tree_def collect_process_node.simps MAX_PROCESS_TREE_DEPTH_def read_child_pids_def cyclic_proc_def
        read_command_def Let_def split: prod.split result.split)
  then obtain t where "collect_process_tree cyclic_proc 1 = Ok t" by (auto simp: is_ok_iff)
  with process_tree_bounded [OF this] show ?thesis by blast
qed

end
