(* ===== verification/Doctor.thy ===== *)
theory Doctor
  imports Identity Policy
begin

text \<open>
  \<^verbatim>\<open>src/doctor.rs\<close>: finding what crashed containers left behind, and removing it with \<^verbatim>\<open>--fix\<close>. What the doctor looks at is the
  record \<open>doctor_world\<close>: the states it lists first, the processes at the instants at which each check asks for them, the directories under the
  control group root, the table of network allocations, the links \<^verbatim>\<open>ip\<close> prints and the seccomp actions of the kernel. What it changes are logged calls.
  Removing a stale control group waits for it to become empty first; the wait changes nothing and is left out, and
  \<open>Remove_cgroup\<close> is answered with success when the directory is missing.
\<close>

record doctor_issue =
  di_kind :: string
  di_id :: "string option"
  di_path :: "string option"
  di_message :: string
  di_fixed :: bool

type_synonym doctor_report = "doctor_issue list"

definition is_clean :: "doctor_report \<Rightarrow> bool" where
  "is_clean issues \<longleftrightarrow> list_all di_fixed issues"

datatype doctor_call = Clean cleanup_call | Save_state container_state | Remove_dir string

datatype doctor_failure = Doctor_error doctor_error | Doctor_store store_error | Doctor_io string

type_synonym doctor_os = "(doctor_call, (string, unit) result) world"
type_synonym 'a doctor_io = "(doctor_call, doctor_failure, 'a) io"

datatype link_listing = Links_printed string | Links_failed | Links_timed_out string nat | Links_error string

record doctor_world =
  dw_processes :: process_world
  dw_protecting :: nat
  dw_recovering :: nat
  dw_allocating :: nat
  dw_now :: u64
  dw_states :: "(store_error, container_state list) result"
  dw_cgroup_dirs :: "(string, (string, string \<times> bool) result list) result option"
  dw_allocations :: "allocations_file"
  dw_links :: link_listing
  dw_actions :: "string option"

definition CGROUP_ROOT :: string where "CGROUP_ROOT = ''/sys/fs/cgroup/container-runtime''"
definition NETWORK_STATE_ROOT :: string where "NETWORK_STATE_ROOT = ''/run/crun-rs/network''"
definition SECCOMP_ACTIONS_AVAIL :: string where "SECCOMP_ACTIONS_AVAIL = ''/proc/sys/kernel/seccomp/actions_avail''"

subsection \<open>Stale containers\<close>

definition is_stale_process :: "process_world \<Rightarrow> nat \<Rightarrow> container_state \<Rightarrow> bool" where
  "is_stale_process pw t s =
     (case cs_pid s of Some pid \<Rightarrow> \<not> is_ok (open_identity pw t pid (cs_process_starttime s)) | None \<Rightarrow> True)"

definition host_names :: "container_state \<Rightarrow> string list" where
  "host_names s =
     vp_host_name (veth_for_container_id (cs_id s)) #
       (case cs_pid s of Some pid \<Rightarrow> [vp_host_name (veth_for_pid pid)] | None \<Rightarrow> [])"

definition active_veth_names :: "process_world \<Rightarrow> nat \<Rightarrow> container_state list \<Rightarrow> string btree_set" where
  "active_veth_names pw t states =
     sort_dedup (concat (map host_names (filter (\<lambda>s. cs_status s = Running \<and> \<not> is_stale_process pw t s) states)))"

definition doctor_try ::
    "doctor_os \<Rightarrow> (string \<Rightarrow> string) \<Rightarrow> cleanup_call \<Rightarrow> doctor_call list \<times> string list \<Rightarrow> doctor_call list \<times> string list" where
  "doctor_try os wrap c = (\<lambda>(w, errors).
     (w @ [Clean c], case os w (Clean c) of Ok _ \<Rightarrow> errors | Err e \<Rightarrow> errors @ [wrap e]))"

definition doctor_cleanup_stale :: "doctor_os \<Rightarrow> container_state \<Rightarrow> string btree_set \<Rightarrow> (doctor_call, string, unit) io" where
  "doctor_cleanup_stale os s protected_veths = (\<lambda>w.
     let acc = (w, []);
         acc = (case cs_nat_lease s of
             Some lease \<Rightarrow> doctor_try os (\<lambda>e. ''NAT cleanup failed: '' @ e) (Cleanup_nat_rules lease) acc
           | None \<Rightarrow> acc);
         acc = (if cs_network_mode s = ''bridge'' then
             (let acc = fold (\<lambda>name. if bts_contains protected_veths name then id
                        else doctor_try os (\<lambda>e. ''veth '' @ name @ '' cleanup failed: '' @ e) (Cleanup_veth name)) (host_names s) acc
              in doctor_try os (\<lambda>e. ''bridge allocation cleanup failed: '' @ e) (Release_bridge (cs_id s)) acc)
             else acc);
         acc = (case cs_cgroup_path s of
             Some path \<Rightarrow> doctor_try os (\<lambda>e. ''cgroup cleanup failed: '' @ e) (Remove_cgroup path) acc
           | None \<Rightarrow> acc);
         (w, errors) = (case cs_overlay_ownership s of
             Some overlay \<Rightarrow> doctor_try os (\<lambda>e. ''overlay cleanup failed: '' @ e) (Cleanup_overlay overlay) acc
           | None \<Rightarrow> acc)
     in (w, if errors = [] then Ok () else Err (join ''; '' errors)))"

definition mark_stale_state_stopped :: "doctor_os \<Rightarrow> u64 \<Rightarrow> container_state \<Rightarrow> (doctor_call, string, unit) io" where
  "mark_stale_state_stopped os now s = io_call os (Save_state (mark_stopped now None (Some ''STALE'') s))"

definition stale_issue :: "container_state \<Rightarrow> (string, unit) result option \<Rightarrow> doctor_issue" where
  "stale_issue s recovery =
     \<lparr>di_kind = ''stale_state'', di_id = Some (cs_id s), di_path = None,
      di_message = ''state is running but pid '' @ (case cs_pid s of Some pid \<Rightarrow> ''Some('' @ int_dec pid @ '')'' | None \<Rightarrow> ''None'') @
        '' does not match the stored process identity'' @
        (case recovery of Some (Err e) \<Rightarrow> ''; recovery failed: '' @ e | _ \<Rightarrow> []),
      di_fixed = (case recovery of Some (Ok _) \<Rightarrow> True | _ \<Rightarrow> False)\<rparr>"

fun recover_each :: "doctor_os \<Rightarrow> u64 \<Rightarrow> bool \<Rightarrow> string btree_set \<Rightarrow> container_state list \<Rightarrow> doctor_issue list doctor_io" where
  "recover_each os now fix_it protected_veths [] = io_return []"
| "recover_each os now fix_it protected_veths (s # states) =
     io_handle
       (if fix_it then io_bind (doctor_cleanup_stale os s protected_veths) (\<lambda>_. mark_stale_state_stopped os now s) else io_return ()) (\<lambda>r.
     io_bind (recover_each os now fix_it protected_veths states) (\<lambda>issues.
     io_return (stale_issue s (if fix_it then Some r else None) # issues)))"

definition check_stale_running_states :: "doctor_os \<Rightarrow> doctor_world \<Rightarrow> container_state list \<Rightarrow> bool \<Rightarrow> doctor_issue list doctor_io" where
  "check_stale_running_states os dw states fix_it =
     recover_each os (dw_now dw) fix_it (active_veth_names (dw_processes dw) (dw_protecting dw) states)
       (filter (\<lambda>s. cs_status s = Running \<and> is_stale_process (dw_processes dw) (dw_recovering dw) s) states)"

subsection \<open>Orphans\<close>

text \<open>Go through a list, adding up the issues; the first failure ends it.\<close>

fun collect_issues :: "('x \<Rightarrow> doctor_issue list doctor_io) \<Rightarrow> 'x list \<Rightarrow> doctor_issue list doctor_io" where
  "collect_issues f [] = io_return []"
| "collect_issues f (x # xs) = io_bind (f x) (\<lambda>here. io_bind (collect_issues f xs) (\<lambda>rest. io_return (here @ rest)))"

text \<open>Report one finding; with \<open>fix_it\<close>, after trying the call that removes it.\<close>

definition report_orphan :: "doctor_os \<Rightarrow> bool \<Rightarrow> doctor_call \<Rightarrow> (bool \<Rightarrow> doctor_issue) \<Rightarrow> doctor_issue list doctor_io" where
  "report_orphan os fix_it c issue =
     io_bind (if fix_it then io_probe os c else io_return False) (\<lambda>fixed. io_return [issue fixed])"

text \<open>Paths are compared by their components.\<close>

definition check_cgroup_entry :: "doctor_os \<Rightarrow> component list set \<Rightarrow> bool \<Rightarrow> (string, string \<times> bool) result \<Rightarrow> doctor_issue list doctor_io" where
  "check_cgroup_entry os referenced fix_it entry =
     (case entry of
        Err e \<Rightarrow> io_lift (Err (Doctor_io e))
      | Ok (name, is_dir) \<Rightarrow>
          let path = path_join CGROUP_ROOT name in
          if \<not> is_dir \<or> components path \<in> referenced then io_return []
          else report_orphan os fix_it (Remove_dir path) (\<lambda>fixed.
            \<lparr>di_kind = ''orphan_cgroup'', di_id = None, di_path = Some path,
             di_message = ''cgroup is not referenced by any container state'', di_fixed = fixed\<rparr>))"

definition check_orphan_cgroups :: "doctor_os \<Rightarrow> doctor_world \<Rightarrow> container_state list \<Rightarrow> bool \<Rightarrow> doctor_issue list doctor_io" where
  "check_orphan_cgroups os dw states fix_it =
     (case dw_cgroup_dirs dw of
        None \<Rightarrow> io_return []
      | Some (Err e) \<Rightarrow> io_lift (Err (Doctor_io e))
      | Some (Ok entries) \<Rightarrow>
          collect_issues (check_cgroup_entry os (components ` set (List.map_filter cs_cgroup_path states)) fix_it) entries)"

definition active_bridge_ids :: "process_world \<Rightarrow> nat \<Rightarrow> container_state list \<Rightarrow> string list" where
  "active_bridge_ids pw t states =
     map cs_id (filter (\<lambda>s. cs_status s = Running \<and> cs_network_mode s = ''bridge'' \<and> \<not> is_stale_process pw t s) states)"

definition check_allocation :: "doctor_os \<Rightarrow> string list \<Rightarrow> bool \<Rightarrow> string \<Rightarrow> doctor_issue list doctor_io" where
  "check_allocation os active fix_it cid =
     (if cid \<in> set active then io_return []
      else
        io_bind (if fix_it then io_map_err Doctor_io (io_call os (Clean (Release_bridge cid))) else io_return ()) (\<lambda>_.
        io_return
          [\<lparr>di_kind = ''stale_network_allocation'', di_id = Some cid,
            di_path = Some (path_join NETWORK_STATE_ROOT ''allocations.json''),
            di_message = ''bridge allocation is not owned by a running bridge container'', di_fixed = fix_it\<rparr>]))"

text \<open>A table that cannot be read is an error; a release that fails ends the check.\<close>

definition check_stale_network_allocations ::
    "doctor_os \<Rightarrow> doctor_world \<Rightarrow> container_state list \<Rightarrow> bool \<Rightarrow> doctor_issue list doctor_io" where
  "check_stale_network_allocations os dw states fix_it =
     (case dw_allocations dw of
        Absent \<Rightarrow> io_return []
      | Unreadable e \<Rightarrow> io_lift (Err (Doctor_io e))
      | Holds allocs \<Rightarrow>
          collect_issues (check_allocation os (active_bridge_ids (dw_processes dw) (dw_allocating dw) states) fix_it)
            (bt_keys (containers allocs)))"

definition veth_name :: "string \<Rightarrow> string option" where
  "veth_name line =
     (case split_once_str '': '' line of
        None \<Rightarrow> None
      | Some (_, rest) \<Rightarrow>
          (case split_once (CHR '':'') rest of
             None \<Rightarrow> None
           | Some (name, _) \<Rightarrow>
               let name = hd (split_char (CHR ''@'') name) in if starts_with name ''vethh'' then Some name else None))"

definition parse_veth_links :: "string \<Rightarrow> string list" where
  "parse_veth_links ip_output = List.map_filter veth_name (lines ip_output)"

definition expected_veths :: "container_state list \<Rightarrow> string list" where
  "expected_veths states =
     map (\<lambda>pid. ''vethh'' @ int_dec pid) (List.map_filter cs_pid
       (filter (\<lambda>s. cs_status s = Running \<and> cs_network_mode s = ''bridge'') states))"

definition check_orphan_veth_links :: "doctor_os \<Rightarrow> doctor_world \<Rightarrow> container_state list \<Rightarrow> bool \<Rightarrow> doctor_issue list doctor_io" where
  "check_orphan_veth_links os dw states fix_it =
     (case dw_links dw of
        Links_timed_out command ms \<Rightarrow> io_lift (Err (Doctor_error (CommandTimedOut_Doctor command ms)))
      | Links_error e \<Rightarrow> io_lift (Err (Doctor_io e))
      | Links_failed \<Rightarrow> io_return []
      | Links_printed out \<Rightarrow>
          collect_issues (\<lambda>iface.
            if iface \<in> set (expected_veths states) then io_return []
            else report_orphan os fix_it (Clean (Cleanup_veth iface)) (\<lambda>fixed.
              \<lparr>di_kind = ''orphan_veth'', di_id = None, di_path = Some iface,
               di_message = ''host veth is not owned by a running bridge container'', di_fixed = fixed\<rparr>))
            (parse_veth_links out))"

definition check_seccomp_log_action :: "string option \<Rightarrow> doctor_issue list" where
  "check_seccomp_log_action actions =
     (case actions of
        None \<Rightarrow>
          [\<lparr>di_kind = ''seccomp-log-unknown'', di_id = None, di_path = Some SECCOMP_ACTIONS_AVAIL,
            di_message = ''cannot read the available seccomp actions; --seccomp-action log may not work'', di_fixed = False\<rparr>]
      | Some actions \<Rightarrow>
          if ''log'' \<notin> set (split_whitespace actions) then
            [\<lparr>di_kind = ''seccomp-log-unavailable'', di_id = None, di_path = Some SECCOMP_ACTIONS_AVAIL,
              di_message = ''this kernel does not offer SECCOMP_RET_LOG, so --seccomp-action log cannot record denied syscalls'',
              di_fixed = False\<rparr>]
          else [])"

definition run_doctor :: "doctor_os \<Rightarrow> doctor_world \<Rightarrow> bool \<Rightarrow> doctor_report doctor_io" where
  "run_doctor os dw fix_it =
     io_bind (io_lift (map_err Doctor_store (dw_states dw))) (\<lambda>states.
     io_bind (check_stale_running_states os dw states fix_it) (\<lambda>stale.
     io_bind (check_orphan_cgroups os dw states fix_it) (\<lambda>cgroups.
     io_bind (check_stale_network_allocations os dw states fix_it) (\<lambda>allocations.
     io_bind (check_orphan_veth_links os dw states fix_it) (\<lambda>veths.
     io_return (stale @ cgroups @ allocations @ veths @ check_seccomp_log_action (dw_actions dw)))))))"

subsection \<open>What the doctor touches\<close>

lemma only_collect [io_only]: "(\<And>x. x \<in> set xs \<Longrightarrow> only P (f x)) \<Longrightarrow> only P (collect_issues f xs)"
  by (induction xs) (auto intro!: io_only)

lemma only_report [io_only]: "(fix_it \<Longrightarrow> P c) \<Longrightarrow> only P (report_orphan os fix_it c issue)"
  unfolding report_orphan_def by (cases fix_it) (auto intro!: io_only)

text \<open>A call that leaves a container alone.\<close>

fun spares :: "container_state \<Rightarrow> doctor_call \<Rightarrow> bool" where
  "spares s (Save_state s') = (cs_id s' \<noteq> cs_id s)"
| "spares s (Remove_dir path) = (cs_cgroup_path s \<noteq> Some path)"
| "spares s (Clean (Remove_cgroup path)) = (cs_cgroup_path s \<noteq> Some path)"
| "spares s (Clean (Cleanup_nat_rules lease)) = (cs_nat_lease s \<noteq> Some lease)"
| "spares s (Clean (Cleanup_overlay overlay)) = (cs_overlay_ownership s \<noteq> Some overlay)"
| "spares s (Clean (Cleanup_veth name)) = (name \<notin> set (host_names s))"
| "spares s (Clean (Release_bridge cid)) = (cs_network_mode s = ''bridge'' \<longrightarrow> cid \<noteq> cs_id s)"

text \<open>Two containers whose states record different resources.\<close>

definition apart :: "container_state \<Rightarrow> container_state \<Rightarrow> bool" where
  "apart s s' \<longleftrightarrow> cs_id s \<noteq> cs_id s' \<and>
     (\<forall>x. \<not> (cs_cgroup_path s = Some x \<and> cs_cgroup_path s' = Some x)) \<and>
     (\<forall>x. \<not> (cs_nat_lease s = Some x \<and> cs_nat_lease s' = Some x)) \<and>
     (\<forall>x. \<not> (cs_overlay_ownership s = Some x \<and> cs_overlay_ownership s' = Some x))"

text \<open>The calls added to the log so far satisfy \<open>P\<close>.\<close>

definition grown :: "(doctor_call \<Rightarrow> bool) \<Rightarrow> doctor_call list \<Rightarrow> doctor_call list \<times> string list \<Rightarrow> bool" where
  "grown P w acc \<longleftrightarrow> (\<exists>cs. fst acc = w @ cs \<and> list_all P cs)"

lemma grown_try: "grown P w acc \<Longrightarrow> P (Clean c) \<Longrightarrow> grown P w (doctor_try os wrap c acc)"
  by (cases acc) (auto simp: grown_def doctor_try_def)

lemma grown_veths:
  assumes "grown P w acc" "\<And>name. name \<notin> set protected_veths \<Longrightarrow> P (Clean (Cleanup_veth name))"
  shows "grown P w (fold (\<lambda>name. if bts_contains protected_veths name then id else doctor_try os (wrap name) (Cleanup_veth name)) ns acc)"
  using assms(1)
proof (induction ns arbitrary: acc)
  case (Cons n ns)
  then show ?case using grown_try assms(2) by (auto simp: bts_contains_def)
qed simp

lemma cleanup_spares:
  assumes "apart s s'" "set (host_names s) \<subseteq> set protected_veths"
  shows "only (spares s) (doctor_cleanup_stale os s' protected_veths)"
  unfolding only_def
proof
  fix w
  let ?P = "spares s"
  have a: "cs_id s' \<noteq> cs_id s" "cs_cgroup_path s' = Some p \<Longrightarrow> cs_cgroup_path s \<noteq> Some p"
      "cs_nat_lease s' = Some l \<Longrightarrow> cs_nat_lease s \<noteq> Some l" "cs_overlay_ownership s' = Some ov \<Longrightarrow> cs_overlay_ownership s \<noteq> Some ov" for p l ov
    using assms(1) by (auto simp: apart_def)
  define a1 where "a1 = (case cs_nat_lease s' of
      Some lease \<Rightarrow> doctor_try os (\<lambda>e. ''NAT cleanup failed: '' @ e) (Cleanup_nat_rules lease) (w, []) | None \<Rightarrow> (w, []))"
  define a2 where "a2 = (if cs_network_mode s' = ''bridge'' then
      doctor_try os (\<lambda>e. ''bridge allocation cleanup failed: '' @ e) (Release_bridge (cs_id s'))
        (fold (\<lambda>name. if bts_contains protected_veths name then id
               else doctor_try os (\<lambda>e. ''veth '' @ name @ '' cleanup failed: '' @ e) (Cleanup_veth name)) (host_names s') a1) else a1)"
  define a3 where "a3 = (case cs_cgroup_path s' of
      Some path \<Rightarrow> doctor_try os (\<lambda>e. ''cgroup cleanup failed: '' @ e) (Remove_cgroup path) a2 | None \<Rightarrow> a2)"
  define a4 where "a4 = (case cs_overlay_ownership s' of
      Some overlay \<Rightarrow> doctor_try os (\<lambda>e. ''overlay cleanup failed: '' @ e) (Cleanup_overlay overlay) a3 | None \<Rightarrow> a3)"
  have "grown ?P w (w, [])" by (simp add: grown_def)
  then have "grown ?P w a1" using a(3) by (auto simp: a1_def intro!: grown_try split: option.split)
  then have "grown ?P w a2" using a(1) assms(2) by (auto simp: a2_def intro!: grown_try grown_veths)
  then have "grown ?P w a3" using a(2) by (auto simp: a3_def intro!: grown_try split: option.split)
  then have "grown ?P w a4" using a(4) by (auto simp: a4_def intro!: grown_try split: option.split)
  moreover have "fst (doctor_cleanup_stale os s' protected_veths w) = fst a4"
    unfolding doctor_cleanup_stale_def a4_def a3_def a2_def a1_def Let_def by (simp only: split_beta fst_conv)
  ultimately show "\<exists>cs. fst (doctor_cleanup_stale os s' protected_veths w) = w @ cs \<and> list_all ?P cs" by (simp add: grown_def)
qed

lemma only_recover [io_only]:
  assumes "\<And>s'. s' \<in> set states \<Longrightarrow> fix_it \<Longrightarrow> only P (doctor_cleanup_stale os s' protected_veths)"
    and "\<And>s'. s' \<in> set states \<Longrightarrow> fix_it \<Longrightarrow> P (Save_state (mark_stopped now None (Some ''STALE'') s'))"
  shows "only P (recover_each os now fix_it protected_veths states)"
  using assms by (induction states) (auto simp: mark_stale_state_stopped_def intro!: io_only)

definition live_at :: "doctor_world \<Rightarrow> container_state \<Rightarrow> bool" where
  "live_at dw s \<longleftrightarrow> cs_status s = Running \<and>
     (\<forall>t \<in> {dw_protecting dw, dw_recovering dw, dw_allocating dw}. \<not> is_stale_process (dw_processes dw) t s)"

lemma host_names_protected:
  "s \<in> set states \<Longrightarrow> live_at dw s \<Longrightarrow> set (host_names s) \<subseteq> set (active_veth_names (dw_processes dw) (dw_protecting dw) states)"
  by (auto simp: active_veth_names_def live_at_def set_sort_dedup)

lemma checks_spare:
  assumes s: "s \<in> set states" "live_at dw s" "\<And>s'. s' \<in> set states \<Longrightarrow> s' \<noteq> s \<Longrightarrow> apart s s'"
  shows "only (spares s) (check_stale_running_states os dw states fix_it)"
    "only (spares s) (check_orphan_cgroups os dw states fix_it)"
    "only (spares s) (check_stale_network_allocations os dw states fix_it)"
proof -
  have stale: "apart s s'" if "s' \<in> set states" "is_stale_process (dw_processes dw) (dw_recovering dw) s'" for s'
    using s(2) that by (intro s(3)) (auto simp: live_at_def)
  show "only (spares s) (check_stale_running_states os dw states fix_it)"
    unfolding check_stale_running_states_def
  proof (rule only_recover)
    fix s' assume "s' \<in> set (filter (\<lambda>s. cs_status s = Running \<and> is_stale_process (dw_processes dw) (dw_recovering dw) s) states)"
    then have a: "apart s s'" using stale by simp
    show "only (spares s) (doctor_cleanup_stale os s' (active_veth_names (dw_processes dw) (dw_protecting dw) states))"
      by (rule cleanup_spares [OF a host_names_protected [OF s(1,2)]])
    show "spares s (Save_state (mark_stopped (dw_now dw) None (Some ''STALE'') s'))"
      using a by (auto simp: apart_def mark_stopped_def)
  qed
  have "p \<in> set (List.map_filter cs_cgroup_path states)" if "cs_cgroup_path s = Some p" for p
    using s(1) that by (auto simp: set_map_filter_iff)
  then show "only (spares s) (check_orphan_cgroups os dw states fix_it)"
    by (auto simp: check_orphan_cgroups_def check_cgroup_entry_def Let_def intro!: io_only split: option.split result.split)
  have "cs_network_mode s = ''bridge'' \<Longrightarrow> cs_id s \<in> set (active_bridge_ids (dw_processes dw) (dw_allocating dw) states)"
    using s(1,2) by (auto simp: active_bridge_ids_def live_at_def)
  then show "only (spares s) (check_stale_network_allocations os dw states fix_it)"
    by (auto simp: check_stale_network_allocations_def check_allocation_def intro!: io_only split: allocations_file.split)
qed

lemma veth_check_only:
  "only (\<lambda>c. \<exists>name. c = Clean (Cleanup_veth name) \<and> name \<notin> set (expected_veths states)) (check_orphan_veth_links os dw states fix_it)"
  by (auto simp: check_orphan_veth_links_def intro!: io_only split: link_listing.split)

lemma run_doctor_log:
  assumes "dw_states dw = Ok states" "only P (check_stale_running_states os dw states fix_it)"
    "only P (check_orphan_cgroups os dw states fix_it)" "only P (check_stale_network_allocations os dw states fix_it)"
    "only Q (check_orphan_veth_links os dw states fix_it)" "run_doctor os dw fix_it [] = (w, r)"
  shows "\<exists>w1 w2. w = w1 @ w2 \<and> list_all P w1 \<and> list_all Q w2"
proof -
  let ?early = "io_bind (check_stale_running_states os dw states fix_it) (\<lambda>x.
     io_bind (check_orphan_cgroups os dw states fix_it) (\<lambda>y.
     io_bind (check_stale_network_allocations os dw states fix_it) (\<lambda>z. io_return (x, y, z))))"
  have run: "run_doctor os dw fix_it = io_bind ?early (\<lambda>(x, y, z). io_bind (check_orphan_veth_links os dw states fix_it) (\<lambda>v.
      io_return (x @ y @ z @ v @ check_seccomp_log_action (dw_actions dw))))"
    by (simp add: run_doctor_def assms(1)) (auto simp: io_bind_def io_return_def fun_eq_iff split: prod.split result.split)
  have early: "only P ?early" using assms(2-4) by (intro io_only)
  obtain w1 x where e: "?early [] = (w1, x)" by (rule prod.exhaust)
  have w1: "list_all P w1" using only_log [OF early e] by auto
  show ?thesis
  proof (cases x)
    case (Err e)
    then show ?thesis using assms(6) w1 e by (intro exI [of _ w1] exI [of _ "[]"]) (simp add: run io_bind_def)
  next
    case (Ok xyz)
    have "only Q (case xyz of (x, y, z) \<Rightarrow> io_bind (check_orphan_veth_links os dw states fix_it) (\<lambda>v.
        io_return (x @ y @ z @ v @ check_seccomp_log_action (dw_actions dw))))"
      using assms(5) by (cases xyz) (auto intro!: io_only)
    moreover have "(case xyz of (x, y, z) \<Rightarrow> io_bind (check_orphan_veth_links os dw states fix_it) (\<lambda>v.
        io_return (x @ y @ z @ v @ check_seccomp_log_action (dw_actions dw)))) w1 = (w, r)"
      using assms(6) unfolding run io_bind_def [of ?early] e Ok by simp
    ultimately show ?thesis using only_log w1 by blast
  qed
qed

text \<open>Without \<^verbatim>\<open>--fix\<close> no check makes a call.\<close>

lemma checks_only_look:
  assumes "\<not> fix_it"
  shows "only (\<lambda>_. False) (check_stale_running_states os dw states fix_it)"
    "only (\<lambda>_. False) (check_orphan_cgroups os dw states fix_it)"
    "only (\<lambda>_. False) (check_stale_network_allocations os dw states fix_it)"
    "only (\<lambda>_. False) (check_orphan_veth_links os dw states fix_it)"
  using assms by (auto simp: check_stale_running_states_def check_orphan_cgroups_def check_cgroup_entry_def Let_def
      check_stale_network_allocations_def check_allocation_def check_orphan_veth_links_def
      intro!: io_only split: option.split result.split allocations_file.split link_listing.split)


text \<open>The links the last check deletes: all that are not named after the pid of a running container.\<close>

lemma collect_issues_calls:
  assumes "collect_issues f xs w = (w', Ok is)" "x \<in> set xs" "\<And>w w' i. f x w = (w', Ok i) \<Longrightarrow> c \<in> set w'"
    and "\<And>x w w' r. f x w = (w', r) \<Longrightarrow> set w \<subseteq> set w'"
  shows "c \<in> set w'"
  using assms(1,2)
proof (induction xs arbitrary: w "is")
  case (Cons y ys)
  then obtain w1 h rest where h: "f y w = (w1, Ok h)" "collect_issues f ys w1 = (w', Ok rest)" by auto
  have "set u \<subseteq> set u'" if "collect_issues f zs u = (u', Ok r)" for zs u u' r
    using that by (induction zs arbitrary: u r) (auto dest!: assms(4))
  then have "set w1 \<subseteq> set w'" using h(2) by blast
  then show ?case using Cons.IH [OF h(2)] Cons.prems(2) h(1) assms(3) by (cases "x = y") auto
qed simp

lemma doctor_deletes_live_link:
  assumes "run_doctor os dw True [] = (w, Ok issues)" "dw_states dw = Ok states" "dw_links dw = Links_printed out"
    and "name \<in> set (parse_veth_links out)" "name \<notin> set (expected_veths states)"
  shows "Clean (Cleanup_veth name) \<in> set w"
proof -
  from assms(1,2) obtain w1 v where "check_orphan_veth_links os dw states True w1 = (w, Ok v)" by (auto simp: run_doctor_def)
  then show ?thesis
    unfolding check_orphan_veth_links_def assms(3) link_listing.case
    by (rule collect_issues_calls [OF _ assms(4)])
      (use assms(5) in \<open>auto simp: report_orphan_def io_defs split: if_splits\<close>)
qed

definition live_web :: container_state where
  "live_web = sample_state 42 (Some 777)
     \<lparr>cs_network_mode := ''bridge'', cs_cgroup_path := Some ''/sys/fs/cgroup/container-runtime/web''\<rparr>"

definition sample_doctor :: doctor_world where
  "sample_doctor =
     \<lparr>dw_processes = sample_pw, dw_protecting = 0, dw_recovering = 3, dw_allocating = 6, dw_now = 100,
      dw_states = Ok [live_web, sample_state 43 (Some 5)\<lparr>cs_id := ''db'', cs_cgroup_path := None\<rparr>],
      dw_cgroup_dirs = Some (Ok [Ok (''web'', True), Ok (''old'', True)]), dw_allocations = Holds \<lparr>containers = [(''web'', 20)]\<rparr>,
      dw_links = Links_printed ''7: vethh0fd9bc91@if6: <UP>'', dw_actions = Some ''kill_process log''\<rparr>"

lemma live_web: "live_at sample_doctor live_web"
proof -
  have "is_ok (open_identity sample_pw t 42 (Some 777))" for t
    using sample_starttime by (simp add: open_identity_def verify_identity_def sample_pw_def Let_def)
  then show ?thesis
    by (simp add: live_at_def sample_doctor_def live_web_def sample_state_def is_stale_process_def)
qed


lemma web_link: "vp_host_name (veth_for_container_id ''web'') = ''vethh0fd9bc91''"
proof -
  have token: "fold fnv_step ''web'' 2166136261 = 0x0fd9bc91" by (simp add: fnv_step_def)
  have "hex_digits (Suc (Suc (Suc (Suc (Suc (Suc (Suc (Suc 0)))))))) 0x0fd9bc91 = ''0fd9bc91''"
    by (simp add: digit_def char_of_def bit_iff_odd)
  moreover have "(8 :: nat) = Suc (Suc (Suc (Suc (Suc (Suc (Suc (Suc 0)))))))" by simp
  ultimately have "hex_digits 8 0x0fd9bc91 = ''0fd9bc91''" by argo
  with token show ?thesis by (simp add: veth_for_container_id_def stable_veth_token_def Let_def)
qed

lemma doctor_deletes_live_link_example:
  assumes "run_doctor os sample_doctor True [] = (w, Ok issues)"
  shows "live_at sample_doctor live_web \<and> Clean (Cleanup_veth (vp_host_name (veth_for_container_id (cs_id live_web)))) \<in> set w"
proof -
  have "''vethh0fd9bc91'' \<in> set (parse_veth_links ''7: vethh0fd9bc91@if6: <UP>'')" by code_simp
  moreover have "''vethh0fd9bc91'' \<notin> set (expected_veths [live_web, sample_state 43 (Some 5)\<lparr>cs_id := ''db'', cs_cgroup_path := None\<rparr>])"
    by code_simp
  moreover have "cs_id live_web = ''web''" by (simp add: live_web_def sample_state_def)
  ultimately show ?thesis
    using doctor_deletes_live_link [OF assms] live_web by (simp add: web_link sample_doctor_def)
qed

end
