(* ===== verification/External.thy ===== *)
theory External
  imports Effects Text
begin

text \<open>
  \<^verbatim>\<open>src/command.rs\<close>: running a command of the host with a deadline. What the spawned child does is the record \<open>child_run\<close>:
  the answer to each look at it, the clock (in milliseconds) at each of these looks, whether the blocking wait for it after it was killed
  ever returns, and what the two threads that read its pipes end with, if they end. None of this has a bound of its own, so waiting is a
  partial function whose value is \<open>None\<close> when the code blocks for ever; \<open>command_always_ends\<close> says when it returns.
\<close>

definition EXTERNAL_COMMAND_TIMEOUT :: nat where "EXTERNAL_COMMAND_TIMEOUT = 10000"
definition COMMAND_POLL_INTERVAL :: nat where "COMMAND_POLL_INTERVAL = 5"

datatype command_error =
    Command_spawn string string
  | Command_wait string string
  | Command_read string string
  | Command_timed_out string nat

definition command_error_text :: "command_error \<Rightarrow> string" where
  "command_error_text e =
     (case e of
        Command_spawn command source \<Rightarrow> ''failed to spawn external command '' @ command @ '': '' @ source
      | Command_wait command source \<Rightarrow> ''failed to wait for external command '' @ command @ '': '' @ source
      | Command_read command source \<Rightarrow> ''failed to read output from external command '' @ command @ '': '' @ source
      | Command_timed_out command timeout_ms \<Rightarrow>
          ''external command timed out after '' @ nat_dec timeout_ms @ ''ms: '' @ command)"

datatype exit_status = Exit_code int | Exit_signal int

definition exit_success :: "exit_status \<Rightarrow> bool" where
  "exit_success status \<longleftrightarrow> status = Exit_code 0"

fun exit_code :: "exit_status \<Rightarrow> int option" where
  "exit_code (Exit_code code) = Some code"
| "exit_code (Exit_signal _) = None"

record command_output =
  co_status :: exit_status
  co_stdout :: string
  co_stderr :: string

text \<open>A reader thread panics, fails, returns what it read, or never ends because some process keeps the pipe open.\<close>

datatype pipe_outcome = Pipe_panicked | Pipe_failed string | Pipe_read string | Pipe_held

record child_run =
  ch_start :: nat
  ch_polls :: "nat \<Rightarrow> (string, exit_status option) result"
  ch_clock :: "nat \<Rightarrow> nat"
  ch_reaped :: bool
  ch_stdout :: "pipe_outcome option"
  ch_stderr :: "pipe_outcome option"

datatype child_op = Kill_it | Reap_it

type_synonym 'a command_run = "child_op list \<times> (command_error, 'a) result"

text \<open>\<^verbatim>\<open>child.kill()\<close> and the blocking \<^verbatim>\<open>child.wait()\<close>, whose results are dropped.\<close>

definition kill_and_reap :: "child_run \<Rightarrow> command_error \<Rightarrow> exit_status command_run option" where
  "kill_and_reap ch e = (if ch_reaped ch then Some ([Kill_it, Reap_it], Err e) else None)"

partial_function (option) wait_from :: "child_run \<Rightarrow> string \<Rightarrow> nat \<Rightarrow> nat \<Rightarrow> exit_status command_run option" where
  "wait_from ch description timeout k =
     (case ch_polls ch k of
        Ok (Some status) \<Rightarrow> Some ([], Ok status)
      | Ok None \<Rightarrow>
          if ch_start ch + timeout \<le> ch_clock ch k
          then kill_and_reap ch (Command_timed_out description timeout)
          else wait_from ch description timeout (Suc k)
      | Err e \<Rightarrow> kill_and_reap ch (Command_wait description e))"

definition wait_child :: "child_run \<Rightarrow> string \<Rightarrow> nat \<Rightarrow> exit_status command_run option" where
  "wait_child ch description timeout = wait_from ch description timeout 0"

definition join_pipe :: "pipe_outcome option \<Rightarrow> string \<Rightarrow> (command_error, string) result option" where
  "join_pipe pipe description =
     (case pipe of
        None \<Rightarrow> Some (Ok [])
      | Some Pipe_panicked \<Rightarrow> Some (Err (Command_read description ''output reader thread panicked''))
      | Some (Pipe_failed e) \<Rightarrow> Some (Err (Command_read description e))
      | Some (Pipe_read text) \<Rightarrow> Some (Ok text)
      | Some Pipe_held \<Rightarrow> None)"

text \<open>The second pipe is joined only once the first was read.\<close>

definition join_pipes :: "child_run \<Rightarrow> string \<Rightarrow> (command_error, string \<times> string) result option" where
  "join_pipes ch description =
     Option.bind (join_pipe (ch_stdout ch) description) (\<lambda>r. case r of
        Err e \<Rightarrow> Some (Err e)
      | Ok stdout \<Rightarrow> map_option (map_ok (Pair stdout)) (join_pipe (ch_stderr ch) description))"

definition wait_with_output :: "child_run \<Rightarrow> string \<Rightarrow> nat \<Rightarrow> command_output command_run option" where
  "wait_with_output ch description timeout =
     Option.bind (wait_child ch description timeout) (\<lambda>(ops, r). case r of
        Err e \<Rightarrow> Some (ops, Err e)
      | Ok status \<Rightarrow>
          map_option (\<lambda>pipes. (ops, map_ok (\<lambda>(stdout, stderr). \<lparr>co_status = status, co_stdout = stdout, co_stderr = stderr\<rparr>) pipes))
            (join_pipes ch description))"

text \<open>Both entry points spawn first; the error of a failed spawn names the command.\<close>

definition command_output_of :: "(string, child_run) result \<Rightarrow> string \<Rightarrow> nat \<Rightarrow> command_output command_run option" where
  "command_output_of spawned description timeout =
     (case spawned of
        Err e \<Rightarrow> Some ([], Err (Command_spawn description e))
      | Ok ch \<Rightarrow> wait_with_output ch description timeout)"

definition command_status_of :: "(string, child_run) result \<Rightarrow> string \<Rightarrow> nat \<Rightarrow> exit_status command_run option" where
  "command_status_of spawned description timeout =
     (case spawned of
        Err e \<Rightarrow> Some ([], Err (Command_spawn description e))
      | Ok ch \<Rightarrow> wait_child ch description timeout)"

subsection \<open>A command ends, one way or the other\<close>

lemma join_pipes_None: "join_pipes ch d = None \<longleftrightarrow> ch_stdout ch = Some Pipe_held \<or>
    (ch_stdout ch = None \<or> (\<exists>out. ch_stdout ch = Some (Pipe_read out))) \<and> ch_stderr ch = Some Pipe_held"
  by (auto simp: join_pipes_def join_pipe_def bind_eq_None_conv split: option.splits pipe_outcome.splits)

text \<open>The clock never advances by less than the sleep between two looks.\<close>

definition clock_advances :: "child_run \<Rightarrow> bool" where
  "clock_advances ch \<longleftrightarrow> ch_start ch \<le> ch_clock ch 0 \<and> (\<forall>k. ch_clock ch k + COMMAND_POLL_INTERVAL \<le> ch_clock ch (Suc k))"

lemma clock_advances_by: "clock_advances ch \<Longrightarrow> ch_start ch + COMMAND_POLL_INTERVAL * k \<le> ch_clock ch k"
proof (induction k)
  case (Suc k)
  then have "ch_clock ch k + COMMAND_POLL_INTERVAL \<le> ch_clock ch (Suc k)" by (simp add: clock_advances_def)
  then show ?case using Suc by simp
qed (simp add: clock_advances_def)

text \<open>Still running at look \<open>i\<close>, and the deadline not yet passed.\<close>

definition pending :: "child_run \<Rightarrow> nat \<Rightarrow> nat \<Rightarrow> bool" where
  "pending ch timeout i \<longleftrightarrow> ch_polls ch i = Ok None \<and> ch_clock ch i < ch_start ch + timeout"

lemma wait_pending: "pending ch timeout k \<Longrightarrow> wait_from ch d timeout k = wait_from ch d timeout (Suc k)"
  by (subst wait_from.simps) (simp add: pending_def)

lemma wait_first:
  assumes "\<forall>i<n. pending ch timeout (k + i)" shows "wait_from ch d timeout k = wait_from ch d timeout (k + n)"
  using assms by (induction n) (simp_all add: wait_pending)

lemma not_pending_eventually:
  assumes "clock_advances ch" shows "\<not> pending ch timeout (timeout div COMMAND_POLL_INTERVAL + 1)"
proof -
  have "timeout \<le> COMMAND_POLL_INTERVAL * (timeout div COMMAND_POLL_INTERVAL + 1)" by (simp add: COMMAND_POLL_INTERVAL_def)
  then show ?thesis using clock_advances_by [OF assms, of "timeout div COMMAND_POLL_INTERVAL + 1"] by (simp add: pending_def)
qed

text \<open>The last look: the first at which the child is no longer pending.\<close>

lemma wait_child_last:
  assumes "clock_advances ch"
  obtains n where "n \<le> timeout div COMMAND_POLL_INTERVAL + 1" "\<forall>i<n. pending ch timeout i" "\<not> pending ch timeout n"
    "wait_child ch d timeout = wait_from ch d timeout n"
proof -
  let ?n = "LEAST i. \<not> pending ch timeout i"
  have last: "\<not> pending ch timeout ?n" by (rule LeastI_ex) (use not_pending_eventually [OF assms] in blast)
  have le: "?n \<le> timeout div COMMAND_POLL_INTERVAL + 1" by (rule Least_le) (rule not_pending_eventually [OF assms])
  have before: "\<forall>i<?n. pending ch timeout i" using not_less_Least by blast
  then have "wait_child ch d timeout = wait_from ch d timeout ?n" using wait_first [of ?n ch timeout 0 d] unfolding wait_child_def by (simp only: add_0)
  then show ?thesis by (rule that [OF le before last])
qed


text \<open>A child that is done at the third look, and one that never is.\<close>

definition quick_child :: child_run where
  "quick_child = \<lparr>ch_start = 0, ch_polls = (\<lambda>k. if k < 2 then Ok None else Ok (Some (Exit_code 0))), ch_clock = (\<lambda>k. 7 * k),
     ch_reaped = True, ch_stdout = Some (Pipe_read ''ok''), ch_stderr = None\<rparr>"

definition hung_child :: child_run where
  "hung_child = quick_child\<lparr>ch_polls := (\<lambda>_. Ok None)\<rparr>"

lemma sample_clocks: "clock_advances quick_child" "clock_advances hung_child"
  by (simp_all add: clock_advances_def quick_child_def hung_child_def COMMAND_POLL_INTERVAL_def)


text \<open>Output is only returned with a status: a failed wait is never mistaken for an empty answer.\<close>

lemma wait_from_status:
  assumes "wait_from ch d timeout k = Some r"
  shows "r = (ops, Ok status) \<longrightarrow> ops = [] \<and> (\<exists>n. ch_polls ch n = Ok (Some status))"
proof (rule wait_from.raw_induct [OF _ assms])
  fix wait ch d timeout k r
  assume "\<And>ch d timeout k r. wait ch d timeout k = Some r \<Longrightarrow>
      r = (ops, Ok status) \<longrightarrow> ops = [] \<and> (\<exists>n. ch_polls ch n = Ok (Some status))"
    and "(case ch_polls ch k of
        Ok None \<Rightarrow> if ch_start ch + timeout \<le> ch_clock ch k then kill_and_reap ch (Command_timed_out d timeout)
          else wait ch d timeout (Suc k)
      | Ok (Some status) \<Rightarrow> Some ([], Ok status)
      | Err e \<Rightarrow> kill_and_reap ch (Command_wait d e)) = Some r"
  then show "r = (ops, Ok status) \<longrightarrow> ops = [] \<and> (\<exists>n. ch_polls ch n = Ok (Some status))"
    by (auto simp: kill_and_reap_def split: result.splits option.splits if_splits)
qed

lemma output_has_status:
  assumes "command_output_of (Ok ch) d timeout = Some (ops, Ok out)"
  shows "ops = [] \<and> (\<exists>n. ch_polls ch n = Ok (Some (co_status out)))"
proof (cases "wait_from ch d timeout 0")
  case (Some w)
  obtain ops' r where w: "w = (ops', r)" by force
  with assms Some have "ops' = ops \<and> r = Ok (co_status out)"
    by (cases r) (auto simp: command_output_of_def wait_with_output_def wait_child_def)
  then show ?thesis using wait_from_status [OF Some] w by simp
qed (use assms in \<open>simp add: command_output_of_def wait_with_output_def wait_child_def\<close>)

end
