(* ===== verification/Links.thy ===== *)
theory Links
  imports External Network
begin

text \<open>
  The links of \<^verbatim>\<open>src/network/mod.rs\<close>: how the parent and the child of a bridged container set up the two ends of the
  veth pair with \<^verbatim>\<open>ip\<close>, and how a link of the host is removed. The programs themselves are the argument \<open>os\<close>, which answers each
  command line with the result of \<^verbatim>\<open>src/command.rs\<close>.
\<close>

definition CONTAINER_IFACE :: string where "CONTAINER_IFACE = ''eth0''"

datatype link_error = Link_network network_error | Link_command command_error

type_synonym net_command = "string \<times> string list"
type_synonym net_os = "(net_command, (command_error, exit_status) result) world"
type_synonym 'a net_io = "(net_command, link_error, 'a) io"

definition net_command_error :: "string \<Rightarrow> string list \<Rightarrow> command_error \<Rightarrow> link_error" where
  "net_command_error program args e =
     (case e of
        Command_timed_out _ timeout_ms \<Rightarrow> Link_network (CommandTimedOut_Network program (join '' '' args) timeout_ms)
      | _ \<Rightarrow> Link_command e)"

definition run_network_command :: "net_os \<Rightarrow> string \<Rightarrow> string list \<Rightarrow> unit net_io" where
  "run_network_command os program args =
     io_bind (io_map_err (net_command_error program args) (io_call os (program, args))) (\<lambda>status.
     if \<not> exit_success status then io_lift (Err (Link_network (CommandFailed program (join '' '' args))))
     else io_return ())"

definition run_ip :: "net_os \<Rightarrow> string list \<Rightarrow> unit net_io" where
  "run_ip os args = run_network_command os ''ip'' args"

definition setup_loopback :: "net_os \<Rightarrow> unit net_io" where
  "setup_loopback os = run_ip os [''link'', ''set'', ''lo'', ''up'']"

definition setup_veth_parent :: "net_os \<Rightarrow> int \<Rightarrow> bridge_network \<Rightarrow> unit net_io" where
  "setup_veth_parent os child_pid network =
     (let host = vp_host_name (bn_veth network); peer = vp_peer_name (bn_veth network) in
      io_bind (run_ip os [''link'', ''add'', host, ''type'', ''veth'', ''peer'', ''name'', peer]) (\<lambda>_.
      io_bind (run_ip os [''link'', ''set'', peer, ''netns'', int_dec child_pid]) (\<lambda>_.
      io_bind (run_ip os [''addr'', ''add'', bn_host_cidr network, ''dev'', host]) (\<lambda>_.
      run_ip os [''link'', ''set'', host, ''up'']))))"

definition setup_veth_child :: "net_os \<Rightarrow> bridge_network \<Rightarrow> unit net_io" where
  "setup_veth_child os network =
     io_bind (run_ip os [''link'', ''set'', vp_peer_name (bn_veth network), ''name'', CONTAINER_IFACE]) (\<lambda>_.
     io_bind (run_ip os [''addr'', ''add'', bn_container_cidr network, ''dev'', CONTAINER_IFACE]) (\<lambda>_.
     io_bind (run_ip os [''link'', ''set'', CONTAINER_IFACE, ''up'']) (\<lambda>_.
     run_ip os [''route'', ''add'', ''default'', ''via'', bn_gateway network])))"

definition link_exists :: "net_os \<Rightarrow> string \<Rightarrow> bool net_io" where
  "link_exists os name =
     (let args = [''-o'', ''link'', ''show'', name] in
      io_bind (io_map_err (net_command_error ''ip'' args) (io_call os (''ip'', args))) (\<lambda>status.
      if exit_success status then io_return True
      else if exit_code status = Some 1 then io_return False
      else io_lift (Err (Link_network (CommandFailed ''ip'' (join '' '' args))))))"

definition cleanup_veth_host :: "net_os \<Rightarrow> string \<Rightarrow> unit net_io" where
  "cleanup_veth_host os host_name =
     io_bind (link_exists os host_name) (\<lambda>there.
     if \<not> there then io_return () else run_ip os [''link'', ''delete'', host_name])"

subsection \<open>What the commands do\<close>

definition succeeded :: "net_os \<Rightarrow> net_command list \<Rightarrow> net_command \<Rightarrow> bool" where
  "succeeded os w c \<longleftrightarrow> os w c = Ok (Exit_code 0)"

lemma run_ip_Ok [simp]: "run_ip os args w = (w', Ok u) \<longleftrightarrow> w' = w @ [(''ip'', args)] \<and> succeeded os w (''ip'', args)"
  by (auto simp: run_ip_def run_network_command_def succeeded_def exit_success_def split: if_splits)

lemma run_ip_calls: "fst (run_ip os args w) = w @ [(''ip'', args)]"
  by (auto simp: run_ip_def run_network_command_def io_defs split: prod.split result.split)

text \<open>
  The two ends fit together: when both set-ups succeed the parent has put into the child's network namespace exactly the peer
  that the child renames to its interface, and the addresses of the two ends and the child's default route lie in the same subnet.
\<close>

lemma veth_ends_fit:
  assumes "setup_veth_parent os pid (for_octet veth octet) [] = (wp, Ok ())"
    and "setup_veth_child os' (for_octet veth octet) [] = (wc, Ok ())"
  shows "\<exists>net. net = ''10.88.'' @ nat_dec (unat octet) \<and>
    (''ip'', [''link'', ''set'', vp_peer_name veth, ''netns'', int_dec pid]) \<in> set wp \<and>
    (''ip'', [''addr'', ''add'', net @ ''.1/24'', ''dev'', vp_host_name veth]) \<in> set wp \<and>
    hd wc = (''ip'', [''link'', ''set'', vp_peer_name veth, ''name'', CONTAINER_IFACE]) \<and>
    (''ip'', [''addr'', ''add'', net @ ''.2/24'', ''dev'', CONTAINER_IFACE]) \<in> set wc \<and>
    (''ip'', [''route'', ''add'', ''default'', ''via'', net @ ''.1'']) \<in> set wc"
  using assms by (auto simp: setup_veth_parent_def setup_veth_child_def for_octet_def Let_def)

text \<open>
  Removing a link looks first. It succeeds only when the look found no such link, or the removal succeeded, and it removes
  nothing but the link it was asked to.
\<close>

lemma cleanup_veth_host_Ok:
  assumes "cleanup_veth_host os name w = (w', Ok ())"
  shows "\<exists>look. look = (''ip'', [''-o'', ''link'', ''show'', name]) \<and>
    (os w look = Ok (Exit_code 1) \<and> w' = w @ [look] \<or>
     succeeded os w look \<and> w' = w @ [look, (''ip'', [''link'', ''delete'', name])] \<and>
       succeeded os (w @ [look]) (''ip'', [''link'', ''delete'', name]))"
proof -
  have "exit_code status = Some 1 \<longleftrightarrow> status = Exit_code 1" for status by (cases status) auto
  then show ?thesis
    using assms by (auto simp: cleanup_veth_host_def link_exists_def Let_def succeeded_def exit_success_def split: if_splits)
qed

lemma cleanup_veth_host_only:
  "only (\<lambda>c. c = (''ip'', [''-o'', ''link'', ''show'', name]) \<or> c = (''ip'', [''link'', ''delete'', name])) (cleanup_veth_host os name)"
  unfolding only_def
proof
  fix w
  show "\<exists>cs. fst (cleanup_veth_host os name w) = w @ cs \<and>
    list_all (\<lambda>c. c = (''ip'', [''-o'', ''link'', ''show'', name]) \<or> c = (''ip'', [''link'', ''delete'', name])) cs"
    by (auto simp: cleanup_veth_host_def link_exists_def Let_def io_defs run_ip_calls split: result.split prod.split)
qed

end
