(* ===== verification/Checkpoint.thy ===== *)
theory Checkpoint
  imports External Lifecycle
begin

text \<open>
  \<^verbatim>\<open>src/checkpoint.rs\<close>: dumping a container with \<^verbatim>\<open>criu\<close> and restoring it. \<open>criu\<close> and the file system are the record
  \<open>criu_world\<close>; the commands run and directories made or removed are logged.
\<close>

definition EXPERIMENTAL_NOTE :: string where
  "EXPERIMENTAL_NOTE = ''experimental CRIU research mode; restored processes are not reattached to runtime state''"

record criu_status =
  cr_available :: bool
  cr_version :: "string option"
  cr_error :: "string option"

record checkpoint_report =
  cp_id :: string
  cp_pid :: int
  cp_images_dir :: string
  cp_criu :: criu_status
  cp_experimental :: string
  cp_command :: "string list"

record restore_report =
  rr_id :: string
  rr_images_dir :: string
  rr_criu :: criu_status
  rr_experimental :: string
  rr_command :: "string list"

datatype criu_call = Create_dir_all string | Remove_dir_all string | Run_criu "string list"

text \<open>
  \<open>kw_version\<close> is what \<^verbatim>\<open>criu --version\<close> ends with, \<open>kw_show_status\<close> how an exit status is printed, \<open>kw_criu\<close> and \<open>kw_dirs\<close> answer the
  commands and the calls on directories.
\<close>

record criu_world =
  kw_version :: "(command_error, command_output) result"
  kw_show_status :: "exit_status \<Rightarrow> string"
  kw_exists :: "string \<Rightarrow> bool"
  kw_is_dir :: "string \<Rightarrow> bool"
  kw_criu :: "criu_call list \<Rightarrow> string list \<Rightarrow> (command_error, command_output) result"
  kw_dirs :: "(criu_call, (string, unit) result) world"

datatype criu_failure =
    Criu_error checkpoint_error
  | Criu_command command_error
  | Criu_lc lc_error
  | Criu_state state_error
  | Criu_io string

type_synonym 'a criu_io = "(criu_call, criu_failure, 'a) io"

definition detect_criu :: "criu_world \<Rightarrow> criu_status" where
  "detect_criu kw =
     (case kw_version kw of
        Ok out \<Rightarrow>
          if exit_success (co_status out) then
            let version = trim (co_stdout out) in
            \<lparr>cr_available = True, cr_version = (if version \<noteq> [] then Some version else None), cr_error = None\<rparr>
          else
            let error = trim (co_stderr out) in
            \<lparr>cr_available = False, cr_version = None,
             cr_error = Some (if error = [] then ''criu --version exited with '' @ kw_show_status kw (co_status out) else error)\<rparr>
      | Err e \<Rightarrow> \<lparr>cr_available = False, cr_version = None, cr_error = Some (command_error_text e)\<rparr>)"

definition ensure_criu_available :: "criu_status \<Rightarrow> (checkpoint_error, unit) result" where
  "ensure_criu_available status =
     (if cr_available status then Ok ()
      else Err (CriuNotAvailable (case cr_error status of Some e \<Rightarrow> e | None \<Rightarrow> ''unknown error'')))"

definition run_criu :: "criu_world \<Rightarrow> string list \<Rightarrow> unit criu_io" where
  "run_criu kw command =
     (if command = [] then io_lift (Err (Criu_error EmptyCriuCommand))
      else
        io_bind
          (io_map_err (\<lambda>e. case e of
               Command_timed_out _ timeout_ms \<Rightarrow> Criu_error (CriuCommandTimedOut (join '' '' command) timeout_ms)
             | _ \<Rightarrow> Criu_command e)
            (\<lambda>w. (w @ [Run_criu command], kw_criu kw w command))) (\<lambda>out.
        if \<not> exit_success (co_status out)
        then io_lift (Err (Criu_error (CriuCommandFailed (join '' '' command) (trim (co_stderr out)))))
        else io_return ()))"

definition checkpoint_command :: "int \<Rightarrow> string \<Rightarrow> string list" where
  "checkpoint_command pid images_dir =
     [''criu'', ''dump'', ''-t'', int_dec pid, ''-D'', images_dir, ''--shell-job'', ''--tcp-established'', ''--file-locks'',
      ''--manage-cgroups=ignore'', ''--skip-mnt'', ''/sys'', ''--skip-mnt'', ''./sys'', ''--leave-running'']"

definition restore_command :: "string \<Rightarrow> string option \<Rightarrow> string list" where
  "restore_command images_dir rootfs =
     [''criu'', ''restore'', ''-D'', images_dir, ''--shell-job'', ''--tcp-established'', ''--file-locks'',
      ''--manage-cgroups=ignore'', ''--mntns-compat-mode'', ''--skip-mnt'', ''/sys'', ''--skip-mnt'', ''./sys'', ''-d''] @
     (case rootfs of Some dir \<Rightarrow> [''--root'', dir] | None \<Rightarrow> [])"

definition restore_rootfs :: "lifecycle_world \<Rightarrow> container_state \<Rightarrow> (lc_error, string) result" where
  "restore_rootfs lw s =
     and_then (load_bundle_config lw (cs_bundle s)) (\<lambda>config.
     Ok (if is_absolute (root_path (cfg_root config)) then root_path (cfg_root config)
         else path_join (cs_bundle s) (root_path (cfg_root config))))"

definition default_checkpoint_dir :: "string \<Rightarrow> string" where
  "default_checkpoint_dir cid = path_join (path_join DEFAULT_STATE_ROOT cid) ''checkpoint''"

definition validate_checkpoint_id :: "string \<Rightarrow> (criu_failure, unit) result" where
  "validate_checkpoint_id cid = map_err Criu_state (validate_id cid)"

definition reject_running_state :: "string \<Rightarrow> container_status \<Rightarrow> (checkpoint_error, unit) result" where
  "reject_running_state cid status = (if status = Running then Err (StateConflict cid) else Ok ())"

text \<open>Loading the current state works on the store; everything after it is an action of its own.\<close>

definition dump_container :: "criu_world \<Rightarrow> string \<Rightarrow> string option \<Rightarrow> container_state \<Rightarrow> checkpoint_report criu_io" where
  "dump_container kw cid images s =
     io_bind (io_lift (map_err Criu_error (reject_running_state cid (cs_status s)))) (\<lambda>_.
     if cs_status s \<noteq> Running then io_lift (Err (Criu_error (ContainerNotRunning_Checkpoint cid)))
     else
       io_bind (io_lift (ok_or (cs_pid s) (Criu_error ContainerHasNoPid_Checkpoint))) (\<lambda>pid.
       let criu = detect_criu kw in
       io_bind (io_lift (map_err Criu_error (ensure_criu_available criu))) (\<lambda>_.
       let images_dir = (case images of Some dir \<Rightarrow> dir | None \<Rightarrow> default_checkpoint_dir cid) in
       if kw_exists kw images_dir then io_lift (Err (Criu_error (ImageDirectoryAlreadyExists images_dir)))
       else
         io_bind (io_map_err Criu_io (io_call (kw_dirs kw) (Create_dir_all images_dir))) (\<lambda>_.
         let command = checkpoint_command pid images_dir in
         io_bind (io_on_err (run_criu kw command) (io_call (kw_dirs kw) (Remove_dir_all images_dir))) (\<lambda>_.
         io_return \<lparr>cp_id = cid, cp_pid = pid, cp_images_dir = images_dir, cp_criu = criu, cp_experimental = EXPERIMENTAL_NOTE,
           cp_command = command\<rparr>)))))"

definition checkpoint ::
    "lifecycle_world \<Rightarrow> criu_world \<Rightarrow> string \<Rightarrow> string option \<Rightarrow> runtime \<Rightarrow>
     runtime \<times> criu_call list \<times> (criu_failure, checkpoint_report) result" where
  "checkpoint lw kw cid images rt =
     (case lc_load_current lw cid rt of
        (rt, Err e) \<Rightarrow> (rt, [], Err (Criu_lc e))
      | (rt, Ok s) \<Rightarrow> (rt, dump_container kw cid images s []))"

definition restore_container :: "lifecycle_world \<Rightarrow> criu_world \<Rightarrow> string \<Rightarrow> string option \<Rightarrow> container_state option \<Rightarrow> restore_report criu_io" where
  "restore_container lw kw cid images state =
     io_bind (io_lift (case state of
         Some s \<Rightarrow> map_err Criu_error (reject_running_state cid (cs_status s))
       | None \<Rightarrow> Ok ())) (\<lambda>_.
     let criu = detect_criu kw in
     io_bind (io_lift (map_err Criu_error (ensure_criu_available criu))) (\<lambda>_.
     let images_dir = (case images of Some dir \<Rightarrow> dir | None \<Rightarrow> default_checkpoint_dir cid) in
     if \<not> kw_is_dir kw images_dir then io_lift (Err (Criu_error (ImageDirectoryDoesNotExist images_dir)))
     else
       let rootfs = Option.bind state (\<lambda>s. case restore_rootfs lw s of Ok dir \<Rightarrow> Some dir | Err _ \<Rightarrow> None);
           command = restore_command images_dir rootfs in
       io_bind (run_criu kw command) (\<lambda>_.
       io_return \<lparr>rr_id = cid, rr_images_dir = images_dir, rr_criu = criu, rr_experimental = EXPERIMENTAL_NOTE, rr_command = command\<rparr>)))"

definition restore ::
    "lifecycle_world \<Rightarrow> criu_world \<Rightarrow> string \<Rightarrow> string option \<Rightarrow> runtime \<Rightarrow>
     runtime \<times> criu_call list \<times> (criu_failure, restore_report) result" where
  "restore lw kw cid images rt =
     (case validate_checkpoint_id cid of
        Err e \<Rightarrow> (rt, [], Err e)
      | Ok _ \<Rightarrow>
          (case lc_load_current lw cid rt of
             (rt, r) \<Rightarrow> (rt, restore_container lw kw cid images (case r of Ok s \<Rightarrow> Some s | Err _ \<Rightarrow> None) [])))"

subsection \<open>No checkpoint succeeds; a restore is guarded\<close>

text \<open>
  C40: no checkpoint ever succeeds. A container that cannot be loaded is an error, a running one is refused because it is running, any
  other because it is not; no directory is made and \<^verbatim>\<open>criu\<close> is never run. Only loading the state, which may find the
  container dead, changes anything.
\<close>

theorem checkpoint_never_succeeds:
  "checkpoint lw kw cid images rt =
     (fst (lc_load_current lw cid rt), [],
      case snd (lc_load_current lw cid rt) of
        Err e \<Rightarrow> Err (Criu_lc e)
      | Ok s \<Rightarrow> Err (Criu_error (if cs_status s = Running then StateConflict cid else ContainerNotRunning_Checkpoint cid)))"
  by (auto simp: checkpoint_def dump_container_def reject_running_state_def io_defs split: prod.split result.split)

text \<open>
  A restore that makes any call runs exactly one command, on a directory that exists, for a container that is not running; the root
  file system passed on is the one of the container's bundle.
\<close>

lemma run_criu_calls: "fst (run_criu kw (restore_command dir rootfs) w) = w @ [Run_criu (restore_command dir rootfs)]"
  by (auto simp: run_criu_def restore_command_def io_defs split: prod.split result.split)

lemma run_criu_then: "fst (io_bind (run_criu kw (restore_command dir rootfs)) (\<lambda>_. io_return x) w) = w @ [Run_criu (restore_command dir rootfs)]"
proof -
  obtain w' r where "run_criu kw (restore_command dir rootfs) w = (w', r)" by (rule prod.exhaust)
  with run_criu_calls [of kw dir rootfs w] show ?thesis by (auto simp: io_bind_def io_return_def split: result.split)
qed

lemma restore_guarded:
  assumes "fst (restore_container lw kw cid images state []) \<noteq> []"
  shows "\<exists>dir rootfs. fst (restore_container lw kw cid images state []) = [Run_criu (restore_command dir rootfs)] \<and>
    dir = (case images of Some d \<Rightarrow> d | None \<Rightarrow> default_checkpoint_dir cid) \<and> kw_is_dir kw dir \<and> cr_available (detect_criu kw) \<and>
    (\<forall>s. state = Some s \<longrightarrow> cs_status s \<noteq> Running) \<and>
    (\<forall>root. rootfs = Some root \<longrightarrow> (\<exists>s. state = Some s \<and> restore_rootfs lw s = Ok root))"
proof -
  let ?dir = "case images of Some d \<Rightarrow> d | None \<Rightarrow> default_checkpoint_dir cid"
  let ?rootfs = "Option.bind state (\<lambda>s. case restore_rootfs lw s of Ok dir \<Rightarrow> Some dir | Err _ \<Rightarrow> None)"
  have quiet: "fst (io_lift r w) = w" "io_lift r w = (w, r)" for r :: "(criu_failure, 'b) result" and w
    by (simp_all add: io_lift_def)
  have "(\<forall>s. state = Some s \<longrightarrow> cs_status s \<noteq> Running) \<and> cr_available (detect_criu kw) \<and> kw_is_dir kw ?dir"
    using assms by (auto simp: restore_container_def reject_running_state_def ensure_criu_available_def Let_def io_bind_def quiet
        split: if_splits option.splits)
  moreover from this have "fst (restore_container lw kw cid images state []) = [Run_criu (restore_command ?dir ?rootfs)]"
    by (auto simp: restore_container_def reject_running_state_def ensure_criu_available_def Let_def run_criu_then
        split: option.split)
  moreover have "\<exists>s. state = Some s \<and> restore_rootfs lw s = Ok root" if "?rootfs = Some root" for root
    using that by (auto split: Option.bind_splits result.splits)
  ultimately show ?thesis by blast
qed

lemma restore_success_runs_criu:
  assumes "restore lw kw cid images rt = (rt', calls, Ok report)"
  shows "\<exists>out. kw_criu kw [] (rr_command report) = Ok out \<and> exit_success (co_status out) \<and> calls = [Run_criu (rr_command report)]"
  using assms
  by (auto simp: restore_def restore_container_def run_criu_def Let_def split: prod.splits result.splits if_splits)

end
