(* ===== verification/Inspect.thy ===== *)
theory Inspect
  imports Lifecycle
begin

text \<open>
  \<^verbatim>\<open>src/inspect_security.rs\<close>: what the kernel and the recorded state say about how a running container is confined, and
  the warnings drawn from it. \<open>inspect_world\<close> holds what is read: the process status in \<^verbatim>\<open>/proc\<close> and the control group.
\<close>

record seccomp_inspection =
  si_mode :: "u64 option"
  si_filters :: "u64 option"
  si_enabled :: bool
  si_runtime_mode :: string
  si_profile_path :: "string option"
  si_action :: "string option"
  si_allowed_syscalls :: "nat option"

record capability_inspection =
  ci_inheritable :: "string option"
  ci_permitted :: "string option"
  ci_effective :: "string option"
  ci_effective_zero :: "bool option"

record resource_inspection =
  ri_memory_limit :: "string option"
  ri_pids_limit :: "string option"
  ri_cpu_quota :: "int option"
  ri_cpu_period :: "nat option"

record security_inspection =
  sin_id :: string
  sin_pid :: int
  sin_security_profile :: string
  sin_userns_mode :: string
  sin_rootfs_mode :: string
  sin_readonly_rootfs :: bool
  sin_mount_count :: nat
  sin_no_new_privs :: "bool option"
  sin_seccomp :: seccomp_inspection
  sin_capabilities :: capability_inspection
  sin_resources :: resource_inspection
  sin_warnings :: "string list"

record proc_security_status =
  ps_no_new_privs :: "bool option"
  ps_seccomp_mode :: "u64 option"
  ps_seccomp_filters :: "u64 option"
  ps_cap_inheritable :: "string option"
  ps_cap_permitted :: "string option"
  ps_cap_effective :: "string option"

record inspect_world =
  iw_status :: "int \<Rightarrow> string option"
  iw_cgroup_exists :: "string \<Rightarrow> bool"
  iw_cgroup :: cg_world

datatype inspect_failure =
    Inspect_error inspect_security_error
  | Inspect_lc lc_error
  | Inspect_proc string
  | Inspect_cgroup cg_error

subsection \<open>Reading\<close>

definition security_field :: "string \<Rightarrow> (string, string) btree_map \<Rightarrow> (string, string) btree_map" where
  "security_field line status =
     (case split_once (CHR '':'') line of None \<Rightarrow> status | Some (key, v) \<Rightarrow> bt_insert (trim key) (trim v) status)"

definition parse_proc_security_status :: "string \<Rightarrow> proc_security_status" where
  "parse_proc_security_status content =
     (let status = fold security_field (lines content) []; number = (\<lambda>key. Option.bind (map_of status key) parse_u64) in
      \<lparr>ps_no_new_privs = map_option (\<lambda>v. v \<noteq> 0) (number ''NoNewPrivs''), ps_seccomp_mode = number ''Seccomp'',
       ps_seccomp_filters = number ''Seccomp_filters'', ps_cap_inheritable = map_of status ''CapInh'',
       ps_cap_permitted = map_of status ''CapPrm'', ps_cap_effective = map_of status ''CapEff''\<rparr>)"

definition read_proc_security_status :: "inspect_world \<Rightarrow> int \<Rightarrow> (inspect_failure, proc_security_status) result" where
  "read_proc_security_status iw pid =
     map_ok parse_proc_security_status
       (ok_or (iw_status iw pid) (Inspect_proc (path_join (path_join ''/proc'' (int_dec pid)) ''status'')))"

text \<open>\<^verbatim>\<open>u128::from_str_radix\<close> with radix 16.\<close>

definition hex_value :: "char \<Rightarrow> nat option" where
  "hex_value c =
     (let n = of_char c :: nat in
      if 48 \<le> n \<and> n \<le> 57 then Some (n - 48)
      else if 97 \<le> n \<and> n \<le> 102 then Some (n - 87)
      else if 65 \<le> n \<and> n \<le> 70 then Some (n - 55) else None)"

fun hex_number :: "nat \<Rightarrow> string \<Rightarrow> nat option" where
  "hex_number v [] = Some v"
| "hex_number v (c # cs) = (case hex_value c of None \<Rightarrow> None | Some d \<Rightarrow> hex_number (16 * v + d) cs)"

definition parse_hex_u128 :: "string \<Rightarrow> nat option" where
  "parse_hex_u128 s =
     (let t = (case s of c # r \<Rightarrow> if c = CHR ''+'' then r else s | [] \<Rightarrow> []) in
      if t = [] then None
      else Option.bind (hex_number 0 t) (\<lambda>v. if v < 2 ^ 128 then Some v else None))"

definition hex_capability_is_zero :: "string \<Rightarrow> bool option" where
  "hex_capability_is_zero v = map_option (\<lambda>n. n = 0) (parse_hex_u128 v)"

definition inspect_resources :: "inspect_world \<Rightarrow> oci_config \<Rightarrow> string option \<Rightarrow> (inspect_failure, resource_inspection) result" where
  "inspect_resources iw config cgroup_path =
     (let configured = Option.bind (cfg_linux config) lx_resources;
          memory_limit = map_option int_dec (Option.bind (Option.bind configured res_memory) mem_limit);
          pids = map_option int_dec (Option.bind (Option.bind configured res_pids) pids_limit);
          cpu = Option.bind configured res_cpu;
          report = (\<lambda>mem pids. \<lparr>ri_memory_limit = mem, ri_pids_limit = pids,
            ri_cpu_quota = Option.bind cpu cpu_quota, ri_cpu_period = Option.bind cpu cpu_period\<rparr>)
      in case cgroup_path of
           None \<Rightarrow> Ok (report memory_limit pids)
         | Some path \<Rightarrow>
             if \<not> iw_cgroup_exists iw path then Ok (report memory_limit pids)
             else
               and_then (map_err Inspect_cgroup (snd (read_stats (iw_cgroup iw) path []))) (\<lambda>stats.
               Ok (report
                 (case memory_limit of None \<Rightarrow> ms_max (cgs_memory stats) | Some m \<Rightarrow> Some m)
                 (case pids of None \<Rightarrow> pst_max (cgs_pids stats) | Some p \<Rightarrow> Some p))))"

subsection \<open>Warnings\<close>

definition is_unlimited :: "string \<Rightarrow> bool" where
  "is_unlimited v \<longleftrightarrow> v = ''max'' \<or> v = ''-1'' \<or> v = ''0''"

definition no_limit :: "string option \<Rightarrow> bool" where
  "no_limit limit = (case limit of None \<Rightarrow> True | Some v \<Rightarrow> is_unlimited v)"

definition warn_if :: "bool \<Rightarrow> string \<Rightarrow> string list" where
  "warn_if b message = (if b then [message] else [])"

definition security_warnings :: "security_inspection \<Rightarrow> string list" where
  "security_warnings sin =
     warn_if (sin_security_profile sin = ''unconfined'') ''security profile is unconfined'' @
     warn_if (sin_userns_mode sin = ''host'') ''user namespace is host; container root maps to host root when run as root'' @
     warn_if (sin_no_new_privs sin \<noteq> Some True) ''no_new_privs is not enabled'' @
     warn_if (\<not> si_enabled (sin_seccomp sin)) ''seccomp is disabled'' @
     warn_if (si_runtime_mode (sin_seccomp sin) = ''learn'')
       ''seccomp is in learn mode: every syscall traps to the tracer and nothing is denied'' @
     warn_if (si_action (sin_seccomp sin) = Some ''log'')
       ''seccomp action is log: denied syscalls are recorded but still allowed'' @
     warn_if (ci_effective_zero (sin_capabilities sin) = Some False) ''effective capabilities are not fully dropped'' @
     warn_if (\<not> sin_readonly_rootfs sin) ''root filesystem is writable'' @
     warn_if (no_limit (ri_memory_limit (sin_resources sin))) ''memory limit is not configured'' @
     warn_if (no_limit (ri_pids_limit (sin_resources sin))) ''pids limit is not configured'' @
     warn_if (ri_cpu_quota (sin_resources sin) = None) ''cpu quota is not configured''"

definition inspection_of ::
    "lifecycle_world \<Rightarrow> container_state \<Rightarrow> int \<Rightarrow> oci_config \<Rightarrow> proc_security_status \<Rightarrow> resource_inspection \<Rightarrow> security_inspection" where
  "inspection_of lw s pid config status resources =
     \<lparr>sin_id = cs_id s, sin_pid = pid, sin_security_profile = cs_security_profile s, sin_userns_mode = cs_userns_mode s,
      sin_rootfs_mode = cs_rootfs_mode s, sin_readonly_rootfs = root_readonly (cfg_root config),
      sin_mount_count = length (cfg_mounts config), sin_no_new_privs = ps_no_new_privs status,
      sin_seccomp =
        \<lparr>si_mode = ps_seccomp_mode status, si_filters = ps_seccomp_filters status,
         si_enabled = (case ps_seccomp_mode status of None \<Rightarrow> False | Some mode \<Rightarrow> mode \<noteq> 0),
         si_runtime_mode = cs_seccomp_mode s, si_profile_path = cs_seccomp_profile s, si_action = cs_seccomp_action s,
         si_allowed_syscalls = Option.bind (cs_seccomp_profile s) (\<lambda>path.
           case lw_load_profile lw path of
             Ok p \<Rightarrow> Some (length (allowed_names_for_arch (lw_arch lw) p))
           | Err _ \<Rightarrow> None)\<rparr>,
      sin_capabilities =
        \<lparr>ci_inheritable = ps_cap_inheritable status, ci_permitted = ps_cap_permitted status, ci_effective = ps_cap_effective status,
         ci_effective_zero = Option.bind (ps_cap_effective status) hex_capability_is_zero\<rparr>,
      sin_resources = resources, sin_warnings = []\<rparr>"

definition inspect :: "lifecycle_world \<Rightarrow> inspect_world \<Rightarrow> string \<Rightarrow> runtime \<Rightarrow> runtime \<times> (inspect_failure, security_inspection) result" where
  "inspect lw iw cid rt =
     (case lc_load_current lw cid rt of
        (rt, Err e) \<Rightarrow> (rt, Err (Inspect_lc e))
      | (rt, Ok s) \<Rightarrow>
          (rt,
           if cs_status s \<noteq> Running then Err (Inspect_error (ContainerNotRunning_InspectSecurity cid))
           else
             and_then (ok_or (cs_pid s) (Inspect_error (ContainerHasNoPid_InspectSecurity cid))) (\<lambda>pid.
             and_then (map_err Inspect_lc (load_bundle_config lw (cs_bundle s))) (\<lambda>config.
             and_then (read_proc_security_status iw pid) (\<lambda>status.
             and_then (inspect_resources iw config (cs_cgroup_path s)) (\<lambda>resources.
             let inspection = inspection_of lw s pid config status resources in
             Ok (inspection\<lparr>sin_warnings := security_warnings inspection\<rparr>)))))))"

subsection \<open>What silence means\<close>

lemma warn_if_empty [simp]: "warn_if b m = [] \<longleftrightarrow> \<not> b" by (simp add: warn_if_def)

text \<open>
  An inspection without a warning means: the kernel reports no_new_privs and a seccomp filter for the very process that is recorded, the
  runtime enforces, the capabilities are gone or could not be read, the root is read-only, and every limit is set.
\<close>

lemma silent_inspection_means:
  assumes "inspect lw iw cid rt = (rt', Ok sin)" "sin_warnings sin = []"
  shows "\<exists>content status. iw_status iw (sin_pid sin) = Some content \<and> status = parse_proc_security_status content \<and>
    ps_no_new_privs status = Some True \<and> (\<exists>mode. ps_seccomp_mode status = Some mode \<and> mode \<noteq> 0) \<and>
    (\<forall>v n. ps_cap_effective status = Some v \<longrightarrow> parse_hex_u128 v = Some n \<longrightarrow> n = 0) \<and>
    sin_security_profile sin \<noteq> ''unconfined'' \<and> sin_userns_mode sin \<noteq> ''host'' \<and>
    si_runtime_mode (sin_seccomp sin) \<noteq> ''learn'' \<and> si_action (sin_seccomp sin) \<noteq> Some ''log'' \<and> sin_readonly_rootfs sin \<and>
    \<not> no_limit (ri_memory_limit (sin_resources sin)) \<and> \<not> no_limit (ri_pids_limit (sin_resources sin)) \<and>
    ri_cpu_quota (sin_resources sin) \<noteq> None"
proof -
  from assms(1) obtain s pid config content resources where
    r: "iw_status iw pid = Some content"
    and sin: "sin = inspection_of lw s pid config (parse_proc_security_status content) resources
      \<lparr>sin_warnings := security_warnings (inspection_of lw s pid config (parse_proc_security_status content) resources)\<rparr>"
    by (auto simp: inspect_def read_proc_security_status_def Let_def split: prod.splits result.splits if_splits)
  let ?insp = "inspection_of lw s pid config (parse_proc_security_status content) resources"
  have pid: "sin_pid sin = pid" unfolding sin by (simp add: inspection_of_def)
  from assms(2) have "security_warnings ?insp = []" unfolding sin by simp
  then have quiet: "sin_security_profile ?insp \<noteq> ''unconfined''" "sin_userns_mode ?insp \<noteq> ''host''" "sin_no_new_privs ?insp = Some True"
      "si_enabled (sin_seccomp ?insp)" "si_runtime_mode (sin_seccomp ?insp) \<noteq> ''learn''" "si_action (sin_seccomp ?insp) \<noteq> Some ''log''"
      "ci_effective_zero (sin_capabilities ?insp) \<noteq> Some False" "sin_readonly_rootfs ?insp"
      "\<not> no_limit (ri_memory_limit (sin_resources ?insp))" "\<not> no_limit (ri_pids_limit (sin_resources ?insp))"
      "ri_cpu_quota (sin_resources ?insp) \<noteq> None"
    by (simp_all add: security_warnings_def)
  have same: "sin_security_profile sin = sin_security_profile ?insp" "sin_userns_mode sin = sin_userns_mode ?insp"
      "sin_seccomp sin = sin_seccomp ?insp" "sin_readonly_rootfs sin = sin_readonly_rootfs ?insp" "sin_resources sin = sin_resources ?insp"
    unfolding sin by simp_all
  have "\<exists>mode. ps_seccomp_mode (parse_proc_security_status content) = Some mode \<and> mode \<noteq> 0"
    using quiet(4) by (auto simp: inspection_of_def split: option.splits)
  moreover have "n = 0" if "ps_cap_effective (parse_proc_security_status content) = Some v" "parse_hex_u128 v = Some n" for v n
    using quiet(7) that by (auto simp: inspection_of_def hex_capability_is_zero_def)
  moreover have "ps_no_new_privs (parse_proc_security_status content) = Some True" using quiet(3) by (simp add: inspection_of_def)
  ultimately show ?thesis using r pid quiet same by auto
qed

end
