(* ===== verification/Pipes.thy ===== *)
theory Pipes
  imports Errors Text Effects
begin

text \<open>
  The pipes between the parent and the child of \<^verbatim>\<open>src/container/process.rs\<close>: writing a whole message with writes that may be short,
  reading until the other end is closed, and the two hand-shakes around the user namespace. \<open>writes\<close> answers the \<open>i\<close>-th
  write of the given bytes with how many were taken; reads are the list of what each read returned, an empty one being the end. Bytes are
  characters, and \<open>utf8\<close> says which byte sequences are text.
\<close>

datatype fd_error = Fd_os errno | Fd_container container_error | Fd_not_text

type_synonym fd_writes = "nat \<Rightarrow> string \<Rightarrow> (errno, nat) result"

function write_all :: "fd_writes \<Rightarrow> nat \<Rightarrow> string \<Rightarrow> string \<times> (fd_error, unit) result" where
  "write_all writes i bytes =
     (if bytes = [] then ([], Ok ())
      else case writes i bytes of
        Err e \<Rightarrow> ([], Err (Fd_os e))
      | Ok taken \<Rightarrow>
          if taken = 0 then ([], Err (Fd_container WriteZeroBytes))
          else (case write_all writes (Suc i) (drop taken bytes) of (sent, r) \<Rightarrow> (take taken bytes @ sent, r)))"
  by pat_completeness auto
termination by (relation "measure (\<lambda>(_, _, bytes). length bytes)") auto

declare write_all.simps [simp del]

text \<open>\<open>None\<close>: the reads so far do not end, and the reader still waits.\<close>

fun read_loop :: "(errno, string) result list \<Rightarrow> string \<Rightarrow> (fd_error, string) result option" where
  "read_loop [] bytes = None"
| "read_loop (Err e # reads) bytes = Some (Err (Fd_os e))"
| "read_loop (Ok chunk # reads) bytes = (if chunk = [] then Some (Ok bytes) else read_loop reads (bytes @ chunk))"

definition read_fd_to_string :: "(string \<Rightarrow> bool) \<Rightarrow> (errno, string) result list \<Rightarrow> (fd_error, string) result option" where
  "read_fd_to_string utf8 reads =
     map_option (\<lambda>r. and_then r (\<lambda>bytes. if utf8 bytes then Ok bytes else Err Fd_not_text)) (read_loop reads [])"

definition read_parent_signal :: "(string \<Rightarrow> bool) \<Rightarrow> (errno, string) result list \<Rightarrow> (fd_error, string) result option" where
  "read_parent_signal utf8 reads = read_fd_to_string utf8 reads"

definition write_child_error :: "fd_writes \<Rightarrow> string \<Rightarrow> string \<times> (fd_error, unit) result" where
  "write_child_error writes message = write_all writes 0 message"

definition read_child_error :: "(string \<Rightarrow> bool) \<Rightarrow> (errno, string) result list \<Rightarrow> (fd_error, string option) result option" where
  "read_child_error utf8 reads =
     map_option (\<lambda>r. and_then r (\<lambda>message. let message = trim message in Ok (if message = [] then None else Some message)))
       (read_fd_to_string utf8 reads)"

definition notify_userns_ready :: "fd_writes \<Rightarrow> string \<times> (fd_error, unit) result" where
  "notify_userns_ready writes = write_all writes 0 ''1''"

text \<open>One read of at most one byte.\<close>

definition wait_for_userns_ready :: "(errno, string) result \<Rightarrow> (fd_error, unit) result" where
  "wait_for_userns_ready r =
     and_then (map_err Fd_os r) (\<lambda>buf. if buf = [] then Err (Fd_container ChildExitedBeforeUsernsReady) else Ok ())"

definition wait_for_userns_mapped :: "(errno, string) result \<Rightarrow> (fd_error, unit) result" where
  "wait_for_userns_mapped r =
     and_then (map_err Fd_os r) (\<lambda>buf. if buf = [] then Err (Fd_container ParentExitedBeforeUsernsMapped) else Ok ())"

subsection \<open>Messages arrive whole\<close>

text \<open>What \<^verbatim>\<open>write(2)\<close> promises: it never takes more bytes than it was given.\<close>

definition honest_writes :: "fd_writes \<Rightarrow> bool" where
  "honest_writes writes \<longleftrightarrow> (\<forall>i bytes taken. writes i bytes = Ok taken \<longrightarrow> taken \<le> length bytes)"

text \<open>
  However the writes are cut short, a message is written whole or an error is returned after a proper prefix of it; and the writer
  always returns.
\<close>

lemma write_all_whole:
  assumes "honest_writes writes" "write_all writes i bytes = (sent, r)"
  shows "\<exists>rest. bytes = sent @ rest \<and> (r = Ok () \<longleftrightarrow> rest = [])"
  using assms(2)
proof (induction writes i bytes arbitrary: sent r rule: write_all.induct)
  case (1 writes i bytes)
  show ?case
  proof (cases "bytes = [] \<or> (\<forall>taken. writes i bytes = Ok taken \<longrightarrow> taken = 0)")
    case True
    with "1.prems" show ?thesis by (subst (asm) write_all.simps) (auto split: if_splits result.splits)
  next
    case False
    then obtain taken where c: "bytes \<noteq> []" "writes i bytes = Ok taken" "taken \<noteq> 0" by blast
    obtain sent' r' where w: "write_all writes (Suc i) (drop taken bytes) = (sent', r')" by (rule prod.exhaust)
    with "1.prems" c have "sent = take taken bytes @ sent'" "r = r'" by (subst (asm) write_all.simps, simp)+
    with "1.IH" [OF c(1,2,3) w] show ?thesis by (metis append.assoc append_take_drop_id)
  qed
qed

lemma read_loop_chunks:
  assumes "[] \<notin> set chunks" shows "read_loop (map Ok chunks @ Ok [] # reads) bytes = Some (Ok (bytes @ concat chunks))"
  using assms by (induction chunks arbitrary: bytes) auto

text \<open>
  A message passes through a pipe unchanged, however the kernel cuts it up: when the writer succeeds and closes its end, the reader
  gets exactly the message, whatever the sizes of the pieces it reads.
\<close>

lemma pipe_delivers:
  assumes "honest_writes writes" "write_all writes 0 message = (sent, Ok ())" "utf8 message"
    and "concat chunks = sent" "[] \<notin> set chunks"
  shows "read_fd_to_string utf8 (map Ok chunks @ [Ok []]) = Some (Ok message)"
proof -
  have "sent = message" using write_all_whole [OF assms(1,2)] by auto
  then show ?thesis using assms(3-5) read_loop_chunks [OF assms(5), of "[]" "[]"] by (simp add: read_fd_to_string_def)
qed

text \<open>
  An error of the child reaches the parent, except that one of blanks only is taken for success; and a child that
  writes nothing, because it has replaced itself by the command, is reported as having no error.
\<close>

lemma child_error_reported:
  assumes "honest_writes writes" "write_child_error writes message = (sent, Ok ())" "utf8 message"
    and "concat chunks = sent" "[] \<notin> set chunks"
  shows "read_child_error utf8 (map Ok chunks @ [Ok []]) = Some (Ok (if trim message = [] then None else Some (trim message)))"
  using pipe_delivers [of writes message sent utf8 chunks] assms by (simp add: read_child_error_def write_child_error_def)

lemma no_child_error: "utf8 [] \<Longrightarrow> trim [] = [] \<Longrightarrow> read_child_error utf8 [Ok []] = Some (Ok None)"
  by (simp add: read_child_error_def read_fd_to_string_def)

text \<open>A hand-shake tells a byte from a closed pipe: the child that goes away before it is ready is an error, not a go-ahead.\<close>

lemma handshake:
  assumes "honest_writes writes" "notify_userns_ready writes = (sent, Ok ())"
  shows "wait_for_userns_ready (Ok sent) = Ok () \<and> wait_for_userns_ready (Ok []) = Err (Fd_container ChildExitedBeforeUsernsReady)"
  using write_all_whole [OF assms(1) assms(2) [unfolded notify_userns_ready_def]] by (auto simp: wait_for_userns_ready_def)

end
