(* ===== verification/Cli.thy ===== *)
theory Cli
  imports Commands Image Report
begin

text \<open>
  The remaining commands of \<^verbatim>\<open>src/main.rs\<close> and \<^verbatim>\<open>src/cli_runtime.rs\<close> that decide something themselves: running an image, generating, inspecting and
  compiling profiles, and following a log. Files are the record \<open>cli_files\<close>; what is written is returned. Printing is modelled where it is
  the result of the command; the JSON variants print the same report.
\<close>

record cli_files =
  cf_load_capture :: "string \<Rightarrow> (string, capture_file) result"
  cf_load_profile :: "string \<Rightarrow> (string, seccomp_profile) result"
  cf_save_profile :: "string \<Rightarrow> seccomp_profile \<Rightarrow> (string, unit) result"

datatype cli_failure = Cli_file string | Cli_state state_error | Cli_seccomp seccomp_error

subsection \<open>Running an image\<close>

definition userns_mode_from_cli ::
    "u32 \<Rightarrow> u32 \<Rightarrow> (string \<Rightarrow> string option) \<Rightarrow> bool \<Rightarrow> (lc_error, user_namespace_mode) result" where
  "userns_mode_from_cli uid gid env private =
     (if private then map_ok Userns_Private (invoking_user_map uid gid env) else Ok Userns_Host)"

record run_image_options =
  rio_name :: string
  rio_id :: string
  rio_network_mode :: network_mode
  rio_security_profile :: security_profile
  rio_log_mode :: log_mode
  rio_userns_mode :: user_namespace_mode
  rio_tty :: bool
  rio_seccomp :: seccomp_options

datatype run_image_failure = Run_image_error image_error | Run_image_lc lc_error

definition run_image ::
    "(string \<Rightarrow> bool) \<Rightarrow> (string \<Rightarrow> bool) \<Rightarrow> lifecycle_world \<Rightarrow> lifecycle_world \<Rightarrow> invocation \<Rightarrow> run_image_options \<Rightarrow> runtime \<Rightarrow>
     runtime \<times> (run_image_failure, int) result" where
  "run_image is_file is_dir lw lw' iv opts rt =
     (case bundle_path is_file is_dir (rio_name opts) of
        Err e \<Rightarrow> (rt, Err (Run_image_error e))
      | Ok bundle \<Rightarrow>
          (case run_container lw lw' iv
             \<lparr>rn_id = rio_id opts, rn_bundle = bundle, rn_network_mode = rio_network_mode opts,
              rn_security_profile = rio_security_profile opts, rn_log_mode = rio_log_mode opts,
              rn_userns_mode = rio_userns_mode opts, rn_tty = rio_tty opts, rn_seccomp = rio_seccomp opts\<rparr> rt of
             (rt, r) \<Rightarrow> (rt, map_err Run_image_lc r)))"

subsection \<open>Profiles\<close>

record seccomp_generate_request =
  sg_capture_paths :: "string list"
  sg_container_ids :: "string list"
  sg_output :: string
  sg_workload :: "string option"
  sg_action :: seccomp_action
  sg_include_compat :: bool
  sg_merge_into :: "string option"

fun load_captures :: "('x \<Rightarrow> (cli_failure, capture_file) result) \<Rightarrow> 'x list \<Rightarrow> (cli_failure, capture_file list) result" where
  "load_captures load [] = Ok []"
| "load_captures load (x # xs) = and_then (load x) (\<lambda>c. and_then (load_captures load xs) (\<lambda>cs. Ok (c # cs)))"

definition load_capture_of :: "cli_files \<Rightarrow> string \<Rightarrow> (cli_failure, capture_file) result" where
  "load_capture_of cf cid = and_then (map_err Cli_state (capture_path cid)) (\<lambda>path. map_err Cli_file (cf_load_capture cf path))"

text \<open>The first component is the profile that was written, with its path.\<close>

definition seccomp_generate ::
    "target_arch \<Rightarrow> u64 \<Rightarrow> cli_files \<Rightarrow> seccomp_generate_request \<Rightarrow>
     (string \<times> seccomp_profile) option \<times> (cli_failure, profile_inspection) result" where
  "seccomp_generate a now cf req =
     (case
        and_then (load_captures (load_capture_of cf) (sg_container_ids req)) (\<lambda>by_id.
        and_then (load_captures (\<lambda>path. map_err Cli_file (cf_load_capture cf path)) (sg_capture_paths req)) (\<lambda>by_path.
        if by_id @ by_path = [] then Err (Cli_seccomp NoCaptures)
        else
          and_then (case sg_merge_into req of
              None \<Rightarrow> Ok None
            | Some path \<Rightarrow> map_ok Some (map_err Cli_file (cf_load_profile cf path))) (\<lambda>merge_into.
          map_err Cli_seccomp (generate a now (by_id @ by_path)
            \<lparr>go_workload = sg_workload req, go_action = sg_action req, go_include_compat = sg_include_compat req,
             go_merge_into = merge_into\<rparr>))))
      of
        Err e \<Rightarrow> (None, Err e)
      | Ok profile \<Rightarrow>
          (case cf_save_profile cf (sg_output req) profile of
             Err e \<Rightarrow> (None, Err (Cli_file e))
           | Ok _ \<Rightarrow> (Some (sg_output req, profile), map_err Cli_seccomp (inspect_profile a (sg_output req) profile))))"

definition seccomp_inspect :: "target_arch \<Rightarrow> cli_files \<Rightarrow> string \<Rightarrow> (cli_failure, profile_inspection) result" where
  "seccomp_inspect a cf path =
     and_then (map_err Cli_file (cf_load_profile cf path)) (\<lambda>profile. map_err Cli_seccomp (inspect_profile a path profile))"

text \<open>The lines printed.\<close>

definition seccomp_compile :: "target_arch \<Rightarrow> cli_files \<Rightarrow> string \<Rightarrow> seccomp_action \<Rightarrow> syscall_order \<Rightarrow> (cli_failure, string list) result" where
  "seccomp_compile a cf path action order =
     and_then (map_err Cli_file (cf_load_profile cf path)) (\<lambda>profile.
     and_then (map_err Cli_seccomp (compile a profile \<lparr>co_default_action = action, co_order = order\<rparr>)) (\<lambda>compiled.
     Ok ([''profile: '' @ path, ''default_action: '' @ action_as_str action, ''order: '' @ order_as_str order,
          ''allowed_count: '' @ nat_dec (length (cp_allowed compiled)),
          ''instruction_count: '' @ nat_dec (length (insns (cp_program compiled)))] @
         map (\<lambda>name. ''warning: unknown syscall for this architecture: '' @ name) (cp_unresolved compiled))))"

subsection \<open>Following a log\<close>

text \<open>One round with what the file holds, \<open>None\<close> when it cannot be read: the new position and what is printed.\<close>

definition follow_round :: "nat \<Rightarrow> string option \<Rightarrow> nat \<times> string" where
  "follow_round position content =
     (case content of
        None \<Rightarrow> (position, [])
      | Some text \<Rightarrow> if position < length text then (length text, drop position text) else (position, []))"

fun follow_logs :: "nat \<Rightarrow> string option list \<Rightarrow> string" where
  "follow_logs position [] = []"
| "follow_logs position (content # contents) =
     (case follow_round position content of (position, printed) \<Rightarrow> printed @ follow_logs position contents)"

subsection \<open>Correctness\<close>

text \<open>Running an image is running its bundle: nothing happens unless the name is valid and the image complete.\<close>

lemma run_image_runs_bundle:
  assumes "run_image is_file is_dir lw lw' iv opts rt = (rt', r)" "\<not> (\<exists>e. r = Err (Run_image_error e))"
  shows "validate_image_name (rio_name opts) = Ok () \<and>
    (let dir = image_dir DEFAULT_IMAGE_ROOT (rio_name opts) in is_file (path_join dir ''config.json'') \<and> is_dir (path_join dir ''rootfs'') \<and>
     (\<exists>ro q. rn_bundle ro = dir \<and> rn_id ro = rio_id opts \<and> run_container lw lw' iv ro rt = (rt', q) \<and> r = map_err Run_image_lc q))"
proof -
  obtain dir where d: "bundle_path is_file is_dir (rio_name opts) = Ok dir"
    using assms by (cases "bundle_path is_file is_dir (rio_name opts)") (auto simp: run_image_def)
  then have "validate_image_name (rio_name opts) = Ok ()" "dir = image_dir DEFAULT_IMAGE_ROOT (rio_name opts)"
      "is_file (path_join dir ''config.json'')" "is_dir (path_join dir ''rootfs'')"
    by (auto simp: bundle_path_def Let_def split: if_splits)
  moreover have "\<exists>ro q. rn_bundle ro = dir \<and> rn_id ro = rio_id opts \<and> run_container lw lw' iv ro rt = (rt', q) \<and> r = map_err Run_image_lc q"
    using assms(1) d by (force simp: run_image_def split: prod.splits)
  ultimately show ?thesis by (simp add: Let_def)
qed

lemma load_captures_Ok: "load_captures load xs = Ok cs \<longleftrightarrow> map load xs = map Ok cs"
  by (induction xs arbitrary: cs) (auto simp: Cons_eq_map_conv)

text \<open>
  A profile is written at most once, to the path asked for, and only when every capture was read and the generator accepted
  them; without any capture nothing is written.
\<close>

lemma seccomp_generate_writes:
  assumes "seccomp_generate a now cf req = (Some (path, profile), r)"
  shows "path = sg_output req \<and> (\<exists>captures opts. captures \<noteq> [] \<and>
    map Ok captures = map (load_capture_of cf) (sg_container_ids req) @ map (\<lambda>p. map_err Cli_file (cf_load_capture cf p)) (sg_capture_paths req) \<and>
    go_action opts = sg_action req \<and> generate a now captures opts = Ok profile)"
proof -
  from assms obtain by_id by_path merge_into where
    "load_captures (load_capture_of cf) (sg_container_ids req) = Ok by_id"
    "load_captures (\<lambda>p. map_err Cli_file (cf_load_capture cf p)) (sg_capture_paths req) = Ok by_path"
    "by_id @ by_path \<noteq> []" "path = sg_output req"
    "generate a now (by_id @ by_path) \<lparr>go_workload = sg_workload req, go_action = sg_action req,
       go_include_compat = sg_include_compat req, go_merge_into = merge_into\<rparr> = Ok profile"
    by (auto simp: seccomp_generate_def split: result.splits if_splits)
  then show ?thesis
    unfolding load_captures_Ok
    by (intro conjI exI [of _ "by_id @ by_path"] exI [of _ "\<lparr>go_workload = sg_workload req, go_action = sg_action req,
       go_include_compat = sg_include_compat req, go_merge_into = merge_into\<rparr>"]) simp_all
qed

text \<open>Following a log that only grows prints it exactly once, from the start.\<close>

lemma follow_logs_growing:
  assumes "sorted_wrt prefix (shown # List.map_filter (\<lambda>c. c) contents)"
  shows "shown @ follow_logs (length shown) contents = last (shown # List.map_filter (\<lambda>c. c) contents)"
  using assms
proof (induction contents arbitrary: shown)
  case (Cons content contents)
  show ?case
  proof (cases content)
    case None
    with Cons show ?thesis by (simp add: follow_round_def map_filter_simps)
  next
    case (Some held)
    with Cons.prems have grown: "prefix shown held" "sorted_wrt prefix (held # List.map_filter (\<lambda>c. c) contents)"
      by (simp_all add: map_filter_simps)
    then obtain more where more: "held = shown @ more" by (auto elim: prefixE)
    have "held @ follow_logs (length held) contents = last (held # List.map_filter (\<lambda>c. c) contents)" by (rule Cons.IH [OF grown(2)])
    then show ?thesis by (cases "more = []") (auto simp: Some more follow_round_def map_filter_simps)
  qed
qed (simp add: map_filter_simps)

text \<open>A log that was cut back, as after a rotation, is not printed again until it has grown past the old position.\<close>

lemma follow_logs_after_rotation:
  assumes "\<forall>content \<in> set contents. \<forall>held. content = Some held \<longrightarrow> length held \<le> position"
  shows "follow_logs position contents = []"
  using assms by (induction contents) (auto simp: follow_round_def split: option.split)

end
