(* ===== verification/Spec2Isabelle.thy ===== *)
theory Spec2Isabelle
  imports Alloc_Lock Runtime Collector Container_Exec Image Rootfs_Diff Events Report Trace Doctor Links Checkpoint Inspect Pipes Cli
begin

text \<open>
  A verification of \<^verbatim>\<open>minicrun\<close>, a container runtime in Rust (\<^verbatim>\<open>src/src\<close> below; file names are relative to it).

  \<^bold>\<open>The program.\<close> A command of \<^verbatim>\<open>main.rs\<close> loads the bundle's configuration (\<^verbatim>\<open>spec/config.rs\<close>), resolves a policy (\<^verbatim>\<open>policy.rs\<close>),
  and creates, runs, starts, signals, stops or deletes a container (\<^verbatim>\<open>lifecycle.rs\<close>); the state of every container is a file in a store
  (\<^verbatim>\<open>state/mod.rs\<close>) and every event is appended to its log (\<^verbatim>\<open>audit_log.rs\<close>). To run one, the parent (\<^verbatim>\<open>container/process.rs\<close>) forks a
  child, gives it a control group, a subnet, a link and address translation (\<^verbatim>\<open>cgroup\<close>, \<^verbatim>\<open>network\<close>), and waits; the child switches its root
  file system (\<^verbatim>\<open>filesystem\<close>), confines itself (\<^verbatim>\<open>security\<close>, \<^verbatim>\<open>seccomp\<close>) and executes the command. In learn mode the parent
  traces the child (\<^verbatim>\<open>seccomp/collector.rs\<close>), and the captures become a profile and then a BPF filter. Other commands look at or
  repair what is there.

  \<^bold>\<open>How it is modelled.\<close> Structures are records, enumerations datatypes, machine integers words where they can wrap, maps and sets of
  the Rust library sorted association lists (theory \<open>BTree\<close>, where they implement the locale \<open>ordered_map\<close>), failures values of
  \<open>('e, 'a) result\<close>. Code that talks to the system extends a log of calls; the system is an argument that answers each call and may depend on
  all earlier ones (theory \<open>Effects\<close>), so that theorems hold for every behaviour of it. The commands on the store transform the record
  \<open>runtime\<close>. What is not in the repository (the kernel, \<^verbatim>\<open>ip\<close>, \<^verbatim>\<open>iptables\<close>, \<^verbatim>\<open>criu\<close>, JSON and tar decoding) is an argument.

  \<^item> \<open>Prelude\<close>, \<open>BTree\<close>, \<open>Text\<close>, \<open>Paths\<close>, \<open>Effects\<close>, \<open>Errors\<close>: results, ordered maps, the string and path functions of the Rust
    library, logged calls, and the error types of \<^verbatim>\<open>error.rs\<close>.
  \<^item> \<open>Syscall_Entry\<close>, \<open>Syscalls_X86_64\<close>, \<open>Syscalls_Aarch64\<close>, \<open>Syscalls\<close>: \<^verbatim>\<open>seccomp/arch.rs\<close> and \<^verbatim>\<open>seccomp/syscalls*.rs\<close>. The tables are sorted, and
    lookups by name and number are inverse.
  \<^item> \<open>Bpf\<close>, \<open>Profile\<close>, \<open>Compile\<close>, \<open>Security\<close>: \<^verbatim>\<open>seccomp/bpf.rs\<close>, \<^verbatim>\<open>profile.rs\<close>, \<^verbatim>\<open>compile.rs\<close>, \<^verbatim>\<open>mod.rs\<close> and \<^verbatim>\<open>security/mod.rs\<close>. The programs the
    builder makes decide every call as intended on any machine with the BPF semantics; what the denylist misses is shown too.
  \<^item> \<open>Capture\<close>, \<open>Generate\<close>, \<open>Collector\<close>, \<open>Report\<close>: \<^verbatim>\<open>seccomp/capture.rs\<close>, \<^verbatim>\<open>generate.rs\<close>, \<^verbatim>\<open>collector.rs\<close>, \<^verbatim>\<open>baseline.rs\<close>, \<^verbatim>\<open>report.rs\<close>. The tracer records
    all it sees and resumes every process; reports agree with the filter. This theory joins the chain from observed calls to
    the enforced filter.
  \<^item> \<open>Network\<close>, \<open>Masquerade\<close>, \<open>Alloc_Lock\<close>, \<open>Links\<close>, \<open>External\<close>: \<^verbatim>\<open>network/mod.rs\<close> and \<^verbatim>\<open>command.rs\<close>. Subnets are never shared and given back, NAT is undone exactly, a
    command of the host always ends; the lock on the table is a step relation with a clock, and two processes can hold it.
  \<^item> \<open>Config\<close>, \<open>Policy\<close>, \<open>Cgroup\<close>, \<open>Filesystem\<close>: \<^verbatim>\<open>spec/config.rs\<close>, \<^verbatim>\<open>policy.rs\<close>, \<^verbatim>\<open>modes.rs\<close>, \<^verbatim>\<open>namespace\<close>, \<^verbatim>\<open>userns\<close>, \<^verbatim>\<open>cgroup\<close>, \<^verbatim>\<open>filesystem\<close>. Validation
    equals a declarative specification, limits are in force before a process joins, mounts stay inside the root, overlays
    are set up entirely or not at all.
  \<^item> \<open>State\<close>, \<open>Audit_Log\<close>, \<open>Identity\<close>: \<^verbatim>\<open>state/mod.rs\<close>, \<^verbatim>\<open>audit_log.rs\<close>, \<^verbatim>\<open>signal.rs\<close>, \<^verbatim>\<open>process_identity.rs\<close>. Dead containers are recovered and only their
    resources given back; signals reach only the recorded process, whatever pids are reused and when.
  \<^item> \<open>Process\<close>, \<open>Pipes\<close>, \<open>Container_Exec\<close>: \<^verbatim>\<open>container/\<close> and \<^verbatim>\<open>container_exec.rs\<close>. The command starts confined, the parent gives everything
    back however the run ends, and messages between the two arrive whole.
  \<^item> \<open>Lifecycle\<close>, \<open>Health\<close>, \<open>Commands\<close>, \<open>Cli\<close>, \<open>Runtime\<close>: \<^verbatim>\<open>lifecycle.rs\<close>, \<^verbatim>\<open>health.rs\<close>, \<^verbatim>\<open>main.rs\<close>, \<^verbatim>\<open>cli_runtime.rs\<close>. \<open>Runtime\<close> has the transition system of all commands,
    in which runs and health checks begin and end at different steps, its invariant, and the refinement of the abstract life cycle.
  \<^item> \<open>Events\<close>, \<open>Image\<close>, \<open>Rootfs_Diff\<close>, \<open>Trace\<close>, \<open>Doctor\<close>, \<open>Checkpoint\<close>, \<open>Inspect\<close>: \<^verbatim>\<open>events.rs\<close>, \<^verbatim>\<open>image.rs\<close>, \<^verbatim>\<open>rootfs_diff.rs\<close>, \<^verbatim>\<open>trace.rs\<close>, \<^verbatim>\<open>doctor.rs\<close>, \<^verbatim>\<open>checkpoint.rs\<close>,
    \<^verbatim>\<open>inspect_security.rs\<close>, each a function of what is read, with the calls that change something logged.

  \<^bold>\<open>Bounds.\<close> No operation of the model has fuel. Loops over data are structural; the retry loop of a health check and the process
  tree end by a measure; loops that wait for the system take the list of looks they get, or are partial
  functions that are shown to return (\<open>External\<close>). The subnet table has the 200 entries of the source.

  \<^bold>\<open>Atomicity.\<close> In \<open>Runtime\<close> one step is a command between two points at which the source waits for a process; the state file lock and
  the atomic rename of \<^verbatim>\<open>state/mod.rs\<close> make single reads and writes of a state atomic, but a command that reads and later writes is
  not atomic in the source. Within a step other commands are not interleaved, which the theorems do not speak about; the
  lock of the subnet table is the exception, modelled step by step in \<open>Alloc_Lock\<close>.

  \<^bold>\<open>Not modelled.\<close> Copying of bytes by the terminal proxy (\<^verbatim>\<open>container/pty.rs\<close>) and the log helper (\<^verbatim>\<open>container/log_helper.rs\<close>), and the copy of the
  binary into memory (\<^verbatim>\<open>selfexec.rs\<close>), are input and output without decisions of their own; the wiring of pipes and forks in \<^verbatim>\<open>container/process.rs\<close>
  appears only as the messages that pass. The argument parser and the printing of reports (\<^verbatim>\<open>main.rs\<close>, \<^verbatim>\<open>cli_runtime.rs\<close>) are presentation. The
  texts of error messages, log lines of \<^verbatim>\<open>tracing\<close>, and the JSON formats, with the defaults of missing fields, belong to the serialiser.
\<close>

section \<open>From observed calls to an enforced filter\<close>

text \<open>The numbers recorded in any of the traced runs (container id, command, trace).\<close>

definition observed_numbers :: "(string \<times> string list \<times> (int \<times> u64) list) list \<Rightarrow> int set" where
  "observed_numbers runs = (\<Union>(cid, command, trace) \<in> set runs. fst ` set trace)"

definition capture_run :: "target_arch \<Rightarrow> string \<times> string list \<times> (int \<times> u64) list \<Rightarrow> capture_file" where
  "capture_run a = (\<lambda>(cid, command, trace).
     from_capture a cid command (fold (\<lambda>(n, ms) c. record_syscall c n ms) trace default_capture))"

lemma capture_run_wf:
  "capture_file_wf (capture_run a r) \<and> cf_audit_arch (capture_run a r) = AUDIT_ARCH_NATIVE a"
  using capture_wf_record_all [OF capture_wf_default]
  by (cases r) (simp add: capture_run_def from_capture_wf, simp add: from_capture_def default_capture_def)

lemma capture_run_names:
  "(\<Union>c\<in>set (map (capture_run a) runs). dom (map_of (cf_syscalls c))) = capture_name a ` observed_numbers runs"
proof -
  have "dom (map_of (cf_syscalls (capture_run a r))) = capture_name a ` fst ` set (snd (snd r))" for r
    by (cases r) (simp only: capture_run_def prod.case dom_cf_syscalls_trace snd_conv)
  then show ?thesis
    by (simp only: observed_numbers_def case_prod_beta image_UN set_map UN_simps image_image)
qed

lemma allowed_numbers:
  "(\<exists>s. s \<in> capture_name a ` ns \<union> fixed \<and> syscall_number a s = Some n) \<longleftrightarrow>
   (\<exists>s. syscall_name a n = Some s \<and> (n \<in> ns \<or> s \<in> fixed))"
proof -
  have "syscall_name a n = Some s \<Longrightarrow> capture_name a n = s" for s
    by (simp add: capture_name_def)
  moreover have "syscall_number a (capture_name a k) = Some n \<Longrightarrow> k = n \<and> syscall_name a n \<noteq> None" for k
    by (auto simp: number_capture_name split: if_splits)
  ultimately show ?thesis
    using native.inverse [of a] by blast
qed

text \<open>
  C3: tracing some runs, generating a profile from their captures and compiling it always
  succeeds, and the filter then allows exactly the native calls the architecture names and that
  were observed in some run or are among the fixed names; a container confined by its own profile
  can repeat everything it was seen to do, and nothing else beyond the fixed names.
\<close>

theorem learned_profile_is_enforced:
  assumes "seccomp_vm exec" and "runs \<noteq> []" and "go_merge_into opts = None"
  shows "\<exists>p c. generate a now (map (capture_run a) runs) opts = Ok p \<and> compile a p copts = Ok c \<and>
    (\<forall>d. exec (insns (cp_program c)) d 0 0 =
      Some (if sd_arch d = AUDIT_ARCH_NATIVE a \<and>
               (\<exists>s. syscall_name a (uint (sd_nr d)) = Some s \<and>
                  (uint (sd_nr d) \<in> observed_numbers runs \<or> s \<in> fixed_names opts))
            then SECCOMP_RET_ALLOW else to_bpf_ret (co_default_action copts)))"
proof -
  let ?files = "map (capture_run a) runs"
  have files: "?files \<noteq> []" "\<forall>c \<in> set ?files. capture_file_wf c \<and> cf_audit_arch c = AUDIT_ARCH_NATIVE a"
    using assms(2) by (auto simp: capture_run_wf)
  have wf: "\<forall>c \<in> set ?files. capture_file_wf c" using files(2) by blast
  obtain m where m: "merge ?files = Ok m" "mc_audit_arch m = AUDIT_ARCH_NATIVE a" "bt_invar (mc_syscalls m)"
    using generate_native [OF files] by blast
  have "options_wf opts" "existing_names opts = {}"
    by (simp_all add: options_wf_def existing_names_def assms(3))
  then obtain p where p: "generate a now ?files opts = Ok p" "validate_supported p = Ok ()"
    and names: "set (allowed_names p) =
      {s \<in> capture_name a ` observed_numbers runs \<union> fixed_names opts. syscall_number a s \<noteq> None}"
    using generate_Ok [OF m _ refl, of opts now] unfolding merge_wf(2) [OF wf m(1)] capture_run_names
    by auto
  obtain c where c: "compile a p copts = Ok c"
    and prog: "build_allowlist a (cp_allowed c) (co_default_action copts) = Ok (cp_program c)"
    using compile_Ok [OF p(2)] by blast
  have mem: "n \<in> set (cp_allowed c) \<longleftrightarrow>
      (\<exists>s. syscall_name a n = Some s \<and> (n \<in> observed_numbers runs \<or> s \<in> fixed_names opts))" for n
    unfolding set_cp_allowed [OF c] names allowed_numbers [symmetric] by auto
  have "uint k \<in> set (cp_allowed c) \<Longrightarrow> k < X32_SYSCALL_BIT" for k :: u32
    using native.number_range low_number_not_x32 native.inverse unfolding mem by blast
  then have "exec (insns (cp_program c)) d 0 0 =
      Some (if sd_arch d = AUDIT_ARCH_NATIVE a \<and> uint (sd_nr d) \<in> set (cp_allowed c)
            then SECCOMP_RET_ALLOW else to_bpf_ret (co_default_action copts))" for d
    using seccomp_vm.run_build_allowlist [OF assms(1) prog, of d 0] by auto
  then show ?thesis
    using p(1) c by (intro exI [of _ p] exI [of _ c]) (simp add: mem)
qed

theorem learned_profile_is_enforced_witness:
  "\<exists>p c. generate X86_64 0 (map (capture_run X86_64) [(''web'', [''nginx''], [(0, 5), (1, 6), (0, 7)])])
       default_generate_options = Ok p \<and> compile X86_64 p default_compile_options = Ok c \<and>
     bpf_exec (insns (cp_program c)) \<lparr>sd_nr = 1, sd_arch = 0xC000003E\<rparr> 0 0 = Some SECCOMP_RET_ALLOW"
proof -
  let ?runs = "[(''web'', [''nginx''], [(0, 5), (1, 6), (0, 7)])] :: (string \<times> string list \<times> (int \<times> u64) list) list"
  let ?call = "\<lparr>sd_nr = 1, sd_arch = 0xC000003E\<rparr> :: seccomp_data"
  have "?runs \<noteq> []" "go_merge_into default_generate_options = None"
    by (simp_all add: default_generate_options_def)
  note learned_profile_is_enforced [OF kernel.seccomp_vm_axioms this, where a = X86_64 and now = 0
      and copts = default_compile_options]
  then obtain p c where pc: "generate X86_64 0 (map (capture_run X86_64) ?runs) default_generate_options = Ok p"
      "compile X86_64 p default_compile_options = Ok c"
    and run: "bpf_exec (insns (cp_program c)) ?call 0 0 =
      Some (if sd_arch ?call = AUDIT_ARCH_NATIVE X86_64 \<and>
               (\<exists>s. syscall_name X86_64 (uint (sd_nr ?call)) = Some s \<and>
                  (uint (sd_nr ?call) \<in> observed_numbers ?runs \<or> s \<in> fixed_names default_generate_options))
            then SECCOMP_RET_ALLOW else to_bpf_ret (co_default_action default_compile_options))"
    by blast
  have "(1 :: int) \<in> observed_numbers ?runs" by (simp add: observed_numbers_def)
  with run have "bpf_exec (insns (cp_program c)) ?call 0 0 = Some SECCOMP_RET_ALLOW"
    by (simp add: syscall_name_0_1)
  with pc show ?thesis by blast
qed

end
